(* ===== verification/Prelude.thy ===== *)
theory Prelude imports Complex_Main "HOL-Library.Sublist" begin

text \<open>
  Shared vocabulary of the development: the JavaScript string and number-text operations that the
  web client uses (\<open>trim\<close>, \<open>split\<close>, \<open>join\<close>, \<open>toLowerCase\<close>, \<open>js_includes\<close>, \<open>parseInt\<close>,
  \<open>String(n)\<close>), the comma-separated tag fields that many forms parse, the log of effects a handler
  leaves behind, and the collections of facts that component proofs are run with.

  A string is a list of 8-bit characters. Text outside ASCII occurs only in fixed interface
  messages, where it is written in its UTF-8 bytes; white space and letter case are the ASCII ones.
\<close>

named_theorems js_simps \<open>rewriting rules of the JavaScript operations\<close>
named_theorems step_simps \<open>one-step equations of the state machines\<close>

subsection \<open>Characters and trimming\<close>

definition is_ws :: "char \<Rightarrow> bool" where
  "is_ws c \<longleftrightarrow> c \<in> {CHR 0x09, CHR 0x0A, CHR 0x0B, CHR 0x0C, CHR 0x0D, CHR '' ''}"

definition trim_start :: "string \<Rightarrow> string" where
  "trim_start s = dropWhile is_ws s"

definition js_trim :: "string \<Rightarrow> string" where
  "js_trim s = rev (trim_start (rev (trim_start s)))"

definition lower_char :: "char \<Rightarrow> char" where
  "lower_char c = (if 65 \<le> (of_char c :: nat) \<and> (of_char c :: nat) \<le> 90
                   then char_of ((of_char c :: nat) + 32) else c)"

text \<open>Lower-casing a literal, by the bits of its code.\<close>

lemma of_char_bits: "(of_char (Char b0 b1 b2 b3 b4 b5 b6 b7) :: nat) =
   of_bool b0 + 2 * of_bool b1 + 4 * of_bool b2 + 8 * of_bool b3 + 16 * of_bool b4 + 32 * of_bool b5 + 64 * of_bool b6 + 128 * of_bool b7"
  by (simp add: of_char_def)

lemma low_bits: "(of_bool b0 + 2 * of_bool b1 + 4 * of_bool b2 + 8 * of_bool b3 + 16 * of_bool b4 :: nat) \<le> 31"
  by (auto simp: of_bool_def)

lemma lower_char_keeps [simp]:
  "lower_char (Char b0 b1 b2 b3 b4 True b6 b7) = Char b0 b1 b2 b3 b4 True b6 b7"
  "lower_char (Char b0 b1 b2 b3 b4 False False b7) = Char b0 b1 b2 b3 b4 False False b7"
  "lower_char (Char b0 b1 b2 b3 b4 b5 b6 True) = Char b0 b1 b2 b3 b4 b5 b6 True"
  using low_bits[of b0 b1 b2 b3 b4]
  by (cases b6; cases b7; simp add: lower_char_def of_char_bits, linarith?)+

lemma lower_char_upper [simp]:
  "lower_char (Char b0 b1 b2 b3 b4 False True False) =
     (if (b0 \<or> b1 \<or> b2 \<or> b3 \<or> b4) \<and> \<not> (b4 \<and> b3 \<and> (b2 \<or> (b1 \<and> b0)))
      then Char b0 b1 b2 b3 b4 True True False else Char b0 b1 b2 b3 b4 False True False)"
proof -
  have "(of_char (Char b0 b1 b2 b3 b4 False True False) :: nat) + 32
      = of_char (Char b0 b1 b2 b3 b4 True True False)" by simp
  then have e: "lower_char (Char b0 b1 b2 b3 b4 False True False) =
      (if 65 \<le> (of_char (Char b0 b1 b2 b3 b4 False True False) :: nat)
          \<and> (of_char (Char b0 b1 b2 b3 b4 False True False) :: nat) \<le> 90
       then Char b0 b1 b2 b3 b4 True True False else Char b0 b1 b2 b3 b4 False True False)"
    by (simp only: lower_char_def char_of_char)
  show ?thesis unfolding e by (cases b0; cases b1; cases b2; cases b3; cases b4; simp)
qed

definition upper_char :: "char \<Rightarrow> char" where
  "upper_char c = (if 97 \<le> (of_char c :: nat) \<and> (of_char c :: nat) \<le> 122
                   then char_of ((of_char c :: nat) - 32) else c)"

definition js_lower :: "string \<Rightarrow> string" where
  "js_lower s = map lower_char s"

lemma js_trim_Nil [simp]: "js_trim [] = []"
  by (simp add: js_trim_def trim_start_def)

lemma dropWhile_eq_self: "(xs = [] \<or> \<not> P (hd xs)) \<Longrightarrow> dropWhile P xs = xs"
  by (cases xs) auto

lemma js_trim_ends:
  "js_trim s = [] \<or> (\<not> is_ws (hd (js_trim s)) \<and> \<not> is_ws (last (js_trim s)))"
proof (cases "js_trim s = []")
  case False
  let ?u = "trim_start s"
  let ?t = "dropWhile is_ws (rev ?u)"
  have t: "js_trim s = rev ?t" by (simp add: js_trim_def trim_start_def)
  with False have ne: "?t \<noteq> []" by simp
  have l: "\<not> is_ws (hd ?t)" using ne by (rule hd_dropWhile)
  have u: "?u \<noteq> []" using ne by auto
  then have h: "\<not> is_ws (hd ?u)" by (simp add: trim_start_def hd_dropWhile)
  obtain p where "rev ?u = p @ ?t" by (metis takeWhile_dropWhile_id)
  then have "rev (rev ?u) = rev (p @ ?t)" by (rule arg_cong)
  then have "?u = rev ?t @ rev p" by simp
  then have "hd ?u = hd (rev ?t)" using ne by (metis hd_append2 rev_is_Nil_conv)
  with h have "\<not> is_ws (hd (rev ?t))" by simp
  moreover have "last (rev ?t) = hd ?t" using ne by (simp add: last_rev)
  ultimately show ?thesis using l t by simp
qed simp

lemma js_trim_id:
  assumes "s = [] \<or> (\<not> is_ws (hd s) \<and> \<not> is_ws (last s))"
  shows "js_trim s = s"
proof (cases "s = []")
  case False
  with assms have h: "\<not> is_ws (hd s)" and l: "\<not> is_ws (last s)" by auto
  from h have "trim_start s = s" by (simp add: trim_start_def dropWhile_eq_self)
  moreover have "\<not> is_ws (hd (rev s))" using l False by (simp add: hd_rev)
  ultimately show ?thesis by (simp add: js_trim_def trim_start_def dropWhile_eq_self)
qed simp

lemma js_trim_idem [simp, js_simps]: "js_trim (js_trim s) = js_trim s"
  by (rule js_trim_id) (rule js_trim_ends)

lemma js_trim_iff: "js_trim s = s \<longleftrightarrow> s = [] \<or> (\<not> is_ws (hd s) \<and> \<not> is_ws (last s))"
  by (metis js_trim_ends js_trim_id)

lemma js_trim_Cons_ws [simp]: "is_ws c \<Longrightarrow> js_trim (c # s) = js_trim s"
  by (simp add: js_trim_def trim_start_def)

lemma set_dropWhile_sub: "set (dropWhile P xs) \<subseteq> set xs"
  by (rule set_mono_suffix[OF suffix_dropWhile])

lemma set_js_trim: "set (js_trim s) \<subseteq> set s"
  unfolding js_trim_def trim_start_def
  using set_dropWhile_sub[of is_ws s] set_dropWhile_sub[of is_ws "rev (dropWhile is_ws s)"] by auto

lemma trim_length: "length (js_trim s) \<le> length s"
  using length_dropWhile_le[of is_ws s] length_dropWhile_le[of is_ws "rev (dropWhile is_ws s)"]
  unfolding js_trim_def trim_start_def by simp

lemma js_lower_Nil [simp]: "js_lower [] = []"
  by (simp add: js_lower_def)

lemma js_lower_eq_Nil [simp]: "js_lower s = [] \<longleftrightarrow> s = []"
  by (simp add: js_lower_def)

lemma lower_char_idem [simp]: "lower_char (lower_char c) = lower_char c"
proof (cases "65 \<le> (of_char c :: nat) \<and> (of_char c :: nat) \<le> 90")
  case True
  then have "(of_char (char_of ((of_char c :: nat) + 32) :: char) :: nat) = of_char c + 32"
    by (simp add: take_bit_eq_mod)
  with True show ?thesis by (simp add: lower_char_def)
next
  case False
  then have "lower_char c = c" by (auto simp: lower_char_def)
  then show ?thesis by simp
qed

lemma js_lower_idem [simp, js_simps]: "js_lower (js_lower s) = js_lower s"
  by (simp add: js_lower_def comp_def)

subsection \<open>Splitting, joining and searching\<close>

text \<open>\<open>js_split c s\<close> is \<open>s.split(c)\<close> for a one-character separator; it never returns the empty list.\<close>

fun js_split :: "char \<Rightarrow> string \<Rightarrow> string list" where
  "js_split c [] = [[]]"
| "js_split c (x # xs) =
     (if x = c then [] # js_split c xs
      else (case js_split c xs of [] \<Rightarrow> [[x]] | w # ws \<Rightarrow> (x # w) # ws))"

fun js_join :: "string \<Rightarrow> string list \<Rightarrow> string" where
  "js_join sep [] = []"
| "js_join sep [w] = w"
| "js_join sep (w # v # ws) = w @ sep @ js_join sep (v # ws)"

definition starts_with :: "string \<Rightarrow> string \<Rightarrow> bool" where
  "starts_with s p \<longleftrightarrow> prefix p s"

definition ends_with :: "string \<Rightarrow> string \<Rightarrow> bool" where
  "ends_with s p \<longleftrightarrow> suffix p s"

fun js_includes :: "string \<Rightarrow> string \<Rightarrow> bool" where
  "js_includes [] p \<longleftrightarrow> p = []"
| "js_includes (x # xs) p \<longleftrightarrow> prefix p (x # xs) \<or> js_includes xs p"

lemma js_split_not_Nil [simp]: "js_split c s \<noteq> []"
  by (induction s) (auto split: list.splits)

lemma js_split_no_sep: "c \<notin> set s \<Longrightarrow> js_split c s = [s]"
  by (induction s) auto

lemma js_split_append_sep:
  "c \<notin> set w \<Longrightarrow> js_split c (w @ c # s) = w # js_split c s"
  by (induction w) auto

lemma js_split_join:
  "ws \<noteq> [] \<Longrightarrow> \<forall>w\<in>set ws. c \<notin> set w \<Longrightarrow> js_split c (js_join [c] ws) = ws"
  by (induction ws rule: induct_list012) (auto simp: js_split_no_sep js_split_append_sep)

lemma includes_iff_sublist: "js_includes s p \<longleftrightarrow> sublist p s"
  by (induction s) (auto simp: sublist_Cons_right)

subsection \<open>Comma-separated tag fields\<close>

text \<open>
  Every form with a tag field reads it as
  \<open>tags.split(',').map(t => t.trim()).filter(Boolean)\<close> and shows a stored list by joining it.
\<close>

definition parse_tags :: "string \<Rightarrow> string list" where
  "parse_tags s = filter (\<lambda>t. t \<noteq> []) (map js_trim (js_split (CHR '','') s))"

definition clean_tag :: "string \<Rightarrow> bool" where
  "clean_tag t \<longleftrightarrow> t \<noteq> [] \<and> js_trim t = t \<and> CHR '','' \<notin> set t"

lemma parse_tags_Nil [simp]: "parse_tags [] = []"
  by (simp add: parse_tags_def)

lemma js_split_sep_free: "w \<in> set (js_split c s) \<Longrightarrow> c \<notin> set w"
  by (induction s arbitrary: w) (auto split: list.splits if_splits)

lemma parse_tags_clean: "t \<in> set (parse_tags s) \<Longrightarrow> clean_tag t"
  using set_js_trim js_split_sep_free
  by (fastforce simp: parse_tags_def clean_tag_def)

lemma js_split_join_space:
  "ws \<noteq> [] \<Longrightarrow> \<forall>w\<in>set ws. c \<notin> set w \<Longrightarrow> c \<noteq> CHR '' '' \<Longrightarrow>
   js_split c (js_join [c, CHR '' ''] ws) = hd ws # map (\<lambda>w. CHR '' '' # w) (tl ws)"
proof (induction ws rule: induct_list012)
  case (3 x y zs)
  then have "js_split c (js_join [c, CHR '' ''] (y # zs)) = y # map (\<lambda>w. CHR '' '' # w) zs"
    by simp
  then have "js_split c (CHR '' '' # js_join [c, CHR '' ''] (y # zs))
             = (CHR '' '' # y) # map (\<lambda>w. CHR '' '' # w) zs"
    using "3.prems"(3) by simp
  then show ?case using "3.prems" by (simp add: js_split_append_sep)
qed (auto simp: js_split_no_sep)

lemma js_trim_space [simp]: "js_trim (CHR '' '' # s) = js_trim s"
  by (rule js_trim_Cons_ws) (simp add: is_ws_def)

lemma map_trim_clean: "\<forall>t\<in>set ts. clean_tag t \<Longrightarrow> map js_trim ts = ts"
  by (induction ts) (auto simp: clean_tag_def)

lemma filter_clean: "\<forall>t\<in>set ts. clean_tag t \<Longrightarrow> filter (\<lambda>t. t \<noteq> []) ts = ts"
  by (induction ts) (auto simp: clean_tag_def)

lemma parse_tags_join_comma:
  assumes "\<forall>t\<in>set ts. clean_tag t"
  shows "parse_tags (js_join '','' ts) = ts"
proof (cases "ts = []")
  case False
  with assms have "js_split (CHR '','') (js_join '','' ts) = ts"
    by (simp add: js_split_join clean_tag_def)
  with assms show ?thesis by (simp add: parse_tags_def map_trim_clean filter_clean)
qed simp

lemma parse_tags_join_comma_space:
  assumes "\<forall>t\<in>set ts. clean_tag t"
  shows "parse_tags (js_join '', '' ts) = ts"
proof (cases ts)
  case (Cons t us)
  with assms have "js_split (CHR '','') (js_join '', '' ts) = t # map (\<lambda>w. CHR '' '' # w) us"
    by (subst js_split_join_space) (auto simp: clean_tag_def)
  with assms Cons show ?thesis
    by (simp add: parse_tags_def comp_def map_trim_clean filter_clean clean_tag_def)
qed simp

subsection \<open>Numbers as text\<close>

definition digit_char :: "nat \<Rightarrow> char" where
  "digit_char d = ''0123456789'' ! d"

definition digit_of :: "char \<Rightarrow> nat option" where
  "digit_of c = (if 48 \<le> (of_char c :: nat) \<and> (of_char c :: nat) \<le> 57
                 then Some ((of_char c :: nat) - 48) else None)"

fun nat_str :: "nat \<Rightarrow> string" where
  "nat_str n = (if n < 10 then [digit_char n] else nat_str (n div 10) @ [digit_char (n mod 10)])"

declare nat_str.simps [simp del]

definition int_str :: "int \<Rightarrow> string" where
  "int_str i = (if i < 0 then CHR ''-'' # nat_str (nat (- i)) else nat_str (nat i))"

text \<open>\<open>digits_value\<close> reads the longest run of decimal digits; \<open>None\<close> when there is none.\<close>

fun digits_value :: "nat option \<Rightarrow> string \<Rightarrow> nat option" where
  "digits_value acc [] = acc"
| "digits_value acc (c # cs) =
     (case digit_of c of None \<Rightarrow> acc
      | Some d \<Rightarrow> digits_value (Some (10 * (case acc of None \<Rightarrow> 0 | Some a \<Rightarrow> a) + d)) cs)"

text \<open>\<open>parseInt(s, 10)\<close>: leading white space, a sign, the longest digit prefix; \<open>None\<close> is \<open>NaN\<close>.\<close>

definition parse_int :: "string \<Rightarrow> int option" where
  "parse_int s =
     (case trim_start s of
        [] \<Rightarrow> None
      | c # cs \<Rightarrow>
          if c = CHR ''-'' then map_option (\<lambda>n. - int n) (digits_value None cs)
          else if c = CHR ''+'' then map_option int (digits_value None cs)
          else map_option int (digits_value None (c # cs)))"

lemma less_10_cases: "(d::nat) < 10 \<Longrightarrow> d \<in> {0,1,2,3,4,5,6,7,8,9}"
  by auto

lemma digit_of_digit_char [simp]: "d < 10 \<Longrightarrow> digit_of (digit_char d) = Some d"
  by (drule less_10_cases) (auto simp: digit_of_def digit_char_def)

lemma digit_char_facts:
  "d < 10 \<Longrightarrow> \<not> is_ws (digit_char d) \<and> digit_char d \<noteq> CHR ''-'' \<and> digit_char d \<noteq> CHR ''+''"
  by (drule less_10_cases) (auto simp: digit_char_def is_ws_def)

lemma nat_str_not_Nil [simp]: "nat_str n \<noteq> []"
  by (subst nat_str.simps) simp

lemma nat_str_hd: "\<exists>d<10. hd (nat_str n) = digit_char d"
proof (induction n rule: nat_str.induct)
  case (1 n)
  show ?case
  proof (cases "n < 10")
    case True
    then show ?thesis by (auto simp: nat_str.simps[of n])
  next
    case False
    with 1 show ?thesis by (simp add: nat_str.simps[of n])
  qed
qed

lemma nat_str_set: "c \<in> set (nat_str n) \<Longrightarrow> \<exists>d<10. c = digit_char d"
proof (induction n rule: nat_str.induct)
  case (1 n)
  show ?case
  proof (cases "n < 10")
    case True
    with 1 show ?thesis by (auto simp: nat_str.simps[of n])
  next
    case False
    have "\<exists>d<10. digit_char (n mod 10) = digit_char d"
      by (rule exI[of _ "n mod 10"]) simp
    with False 1 show ?thesis by (auto simp: nat_str.simps[of n])
  qed
qed

lemma digits_value_append_digits:
  "\<forall>c\<in>set ds. digit_of c \<noteq> None \<Longrightarrow>
   digits_value acc (ds @ cs) = digits_value (digits_value acc ds) cs"
  by (induction ds arbitrary: acc) auto

lemma nat_str_digits: "\<forall>c\<in>set (nat_str n). digit_of c \<noteq> None"
  using nat_str_set by fastforce

lemma digits_value_nat_str: "digits_value None (nat_str n) = Some n"
proof (induction n rule: nat_str.induct)
  case (1 n)
  show ?case
  proof (cases "n < 10")
    case True
    then show ?thesis by (simp add: nat_str.simps[of n])
  next
    case False
    with 1 have "digits_value None (nat_str (n div 10)) = Some (n div 10)" by simp
    with False show ?thesis
      by (simp add: nat_str.simps[of n] digits_value_append_digits nat_str_digits)
  qed
qed

lemma parse_int_nat_str [simp, js_simps]: "parse_int (nat_str n) = Some (int n)"
proof -
  obtain d where d: "d < 10" "hd (nat_str n) = digit_char d" using nat_str_hd by blast
  obtain c cs where c: "nat_str n = c # cs" by (cases "nat_str n") auto
  with d have "c = digit_char d" by simp
  with d(1) have f: "\<not> is_ws c" "c \<noteq> CHR ''-''" "c \<noteq> CHR ''+''"
    using digit_char_facts by auto
  with c have "trim_start (nat_str n) = c # cs" by (simp add: trim_start_def)
  with f c digits_value_nat_str[of n] show ?thesis by (simp add: parse_int_def)
qed

lemma parse_int_Nil [simp]: "parse_int [] = None"
  by (simp add: parse_int_def trim_start_def)

lemma parse_int_int_str [simp, js_simps]: "parse_int (int_str i) = Some i"
proof (cases "i < 0")
  case True
  then have "trim_start (int_str i) = CHR ''-'' # nat_str (nat (- i))"
    by (simp add: int_str_def trim_start_def is_ws_def)
  with True show ?thesis by (simp add: parse_int_def digits_value_nat_str)
qed (simp add: int_str_def)

subsection \<open>Effects\<close>

text \<open>
  What a handler does outside its own state, in order: calls of the REST client (with the value
  each is given), callbacks and other calls into the page or the browser, and confirmations
  asked of the operator.
\<close>

datatype 'v effect =
    Api string "'v list"
  | Callback string "'v list"
  | Confirm string

lemma filter_unique:
  assumes "distinct xs" and "x \<in> set xs" and "\<And>y. y \<in> set xs \<Longrightarrow> P y \<longleftrightarrow> y = x"
  shows "filter P xs = [x]"
proof -
  have "filter P xs = filter (\<lambda>y. y = x) xs" using assms(3) by (intro filter_cong) auto
  also have "\<dots> = [x]" using assms(1,2) by (induction xs) (auto simp: filter_empty_conv)
  finally show ?thesis .
qed

lemma filter_eq_self: "(\<And>x. x \<in> set xs \<Longrightarrow> P x) \<Longrightarrow> filter P xs = xs"
  by (induction xs) auto

end
