(* ===== verification/JsValue.thy ===== *)
theory JsValue imports Prelude begin

text \<open>
  JavaScript values as the client meets them in REST payloads: numbers, strings, arrays and plain
  objects, with truthiness, the \<open>||\<close> and \<open>??\<close> operators, property access, spread-and-override,
  deletion, and the number formatting that the pages use.

  A number is a rational or one of the three special doubles; the rounding of double arithmetic is
  not modelled. An object is an association list in insertion order with distinct keys; writing
  an existing key keeps its place. Reading a property of anything but an object, an array or a
  string yields \<open>undefined\<close> here: the code reads properties of \<open>null\<close> only through \<open>?.\<close>
  or after a guard, and where a missing guard matters the model says so.
\<close>

datatype num = NaN | PInf | NInf | Fin rat

datatype js =
    Undef
  | Null
  | Bool bool
  | Num num
  | Str string
  | Arr "js list"
  | Obj "(string \<times> js) list"

abbreviation JInt :: "int \<Rightarrow> js" where
  "JInt i \<equiv> Num (Fin (rat_of_int i))"

abbreviation JNat :: "nat \<Rightarrow> js" where
  "JNat n \<equiv> Num (Fin (of_nat n))"

subsection \<open>Truthiness and defaulting\<close>

fun truthy :: "js \<Rightarrow> bool" where
  "truthy Undef = False"
| "truthy Null = False"
| "truthy (Bool b) = b"
| "truthy (Num NaN) = False"
| "truthy (Num (Fin r)) = (r \<noteq> 0)"
| "truthy (Num _) = True"
| "truthy (Str s) = (s \<noteq> [])"
| "truthy (Arr _) = True"
| "truthy (Obj _) = True"

definition nullish :: "js \<Rightarrow> bool" where
  "nullish v \<longleftrightarrow> v = Undef \<or> v = Null"

definition js_or :: "js \<Rightarrow> js \<Rightarrow> js" where
  "js_or a b = (if truthy a then a else b)"

definition js_coalesce :: "js \<Rightarrow> js \<Rightarrow> js" where
  "js_coalesce a b = (if nullish a then b else a)"

fun is_number :: "js \<Rightarrow> bool" where
  "is_number (Num _) = True"
| "is_number _ = False"

fun is_finite :: "js \<Rightarrow> bool" where
  "is_finite (Num (Fin _)) = True"
| "is_finite _ = False"

fun is_array :: "js \<Rightarrow> bool" where
  "is_array (Arr _) = True"
| "is_array _ = False"

fun is_string :: "js \<Rightarrow> bool" where
  "is_string (Str _) = True"
| "is_string _ = False"

fun is_object :: "js \<Rightarrow> bool" where
  "is_object (Arr _) = True"
| "is_object (Obj _) = True"
| "is_object Null = True"
| "is_object _ = False"

text \<open>The elements of an array, the text of a string and the finite value of a number.\<close>

fun elems :: "js \<Rightarrow> js list" where
  "elems (Arr xs) = xs"
| "elems _ = []"

fun the_str :: "js \<Rightarrow> string" where
  "the_str (Str s) = s"
| "the_str _ = []"

fun the_num :: "js \<Rightarrow> rat" where
  "the_num (Num (Fin r)) = r"
| "the_num _ = 0"

subsection \<open>Objects\<close>

fun assoc_get :: "string \<Rightarrow> (string \<times> js) list \<Rightarrow> js" where
  "assoc_get k [] = Undef"
| "assoc_get k ((k', v) # ps) = (if k = k' then v else assoc_get k ps)"

fun assoc_set :: "string \<Rightarrow> js \<Rightarrow> (string \<times> js) list \<Rightarrow> (string \<times> js) list" where
  "assoc_set k v [] = [(k, v)]"
| "assoc_set k v ((k', w) # ps) = (if k = k' then (k, v) # ps else (k', w) # assoc_set k v ps)"

definition assoc_del :: "string \<Rightarrow> (string \<times> js) list \<Rightarrow> (string \<times> js) list" where
  "assoc_del k ps = filter (\<lambda>p. fst p \<noteq> k) ps"

fun jget :: "js \<Rightarrow> string \<Rightarrow> js" where
  "jget (Obj ps) k = assoc_get k ps"
| "jget (Arr xs) k = (if k = ''length'' then JNat (length xs) else Undef)"
| "jget (Str s) k = (if k = ''length'' then JNat (length s) else Undef)"
| "jget _ k = Undef"

text \<open>
  \<open>props v\<close> are the own entries that \<open>{...v}\<close> copies; \<open>jset\<close> and \<open>jdel\<close> are
  \<open>{...v, k: x}\<close> (or \<open>v.k = x\<close>) and \<open>delete v.k\<close> on an object.
\<close>

fun props :: "js \<Rightarrow> (string \<times> js) list" where
  "props (Obj ps) = ps"
| "props (Arr xs) = zip (map nat_str [0..<length xs]) xs"
| "props _ = []"

definition jset :: "string \<Rightarrow> js \<Rightarrow> js \<Rightarrow> js" where
  "jset k x v = Obj (assoc_set k x (props v))"

definition jdel :: "string \<Rightarrow> js \<Rightarrow> js" where
  "jdel k v = Obj (assoc_del k (props v))"

definition jkeys :: "js \<Rightarrow> string list" where
  "jkeys v = map fst (props v)"

definition jhas :: "js \<Rightarrow> string \<Rightarrow> bool" where
  "jhas v k \<longleftrightarrow> k \<in> set (jkeys v)"

definition wf_obj :: "js \<Rightarrow> bool" where
  "wf_obj v \<longleftrightarrow> (\<exists>ps. v = Obj ps) \<and> distinct (jkeys v)"

lemma assoc_get_set [simp]:
  "assoc_get k (assoc_set k' x ps) = (if k = k' then x else assoc_get k ps)"
  by (induction ps) auto

lemma assoc_get_del [simp]:
  "assoc_get k (assoc_del k' ps) = (if k = k' then Undef else assoc_get k ps)"
  by (induction ps) (auto simp: assoc_del_def)

lemma map_fst_assoc_set:
  "map fst (assoc_set k x ps) = (if k \<in> set (map fst ps) then map fst ps else map fst ps @ [k])"
proof (induction ps)
  case (Cons p ps)
  then show ?case by (cases p; cases "k \<in> set (map fst ps)") simp_all
qed simp

lemma keys_assoc_set: "set (map fst (assoc_set k x ps)) = insert k (set (map fst ps))"
  unfolding map_fst_assoc_set by auto

lemma keys_assoc_del: "set (map fst (assoc_del k ps)) = set (map fst ps) - {k}"
  by (auto simp: assoc_del_def)

lemma distinct_assoc_set: "distinct (map fst ps) \<Longrightarrow> distinct (map fst (assoc_set k x ps))"
  unfolding map_fst_assoc_set by auto

lemma distinct_assoc_del: "distinct (map fst ps) \<Longrightarrow> distinct (map fst (assoc_del k ps))"
  by (simp add: assoc_del_def distinct_map_filter)

lemma jget_jset [simp, js_simps]: "jget (jset k x v) k' = (if k' = k then x else assoc_get k' (props v))"
  by (simp add: jset_def)

lemma jget_jdel [simp, js_simps]: "jget (jdel k v) k' = (if k' = k then Undef else assoc_get k' (props v))"
  by (simp add: jdel_def)

lemma props_jset [simp, js_simps]: "props (jset k x v) = assoc_set k x (props v)"
  by (simp add: jset_def)

lemma props_jdel [simp, js_simps]: "props (jdel k v) = assoc_del k (props v)"
  by (simp add: jdel_def)

lemma jkeys_jset [simp, js_simps]: "set (jkeys (jset k x v)) = insert k (set (jkeys v))"
  unfolding jkeys_def props_jset by (rule keys_assoc_set)

lemma jkeys_jdel [simp, js_simps]: "set (jkeys (jdel k v)) = set (jkeys v) - {k}"
  unfolding jkeys_def props_jdel by (rule keys_assoc_del)

lemma jhas_jset [simp, js_simps]: "jhas (jset k x v) k' \<longleftrightarrow> k' = k \<or> jhas v k'"
  unfolding jhas_def by simp

lemma jhas_jdel [simp, js_simps]: "jhas (jdel k v) k' \<longleftrightarrow> k' \<noteq> k \<and> jhas v k'"
  unfolding jhas_def by auto

lemma wf_obj_Obj [simp]: "wf_obj (Obj ps) \<longleftrightarrow> distinct (map fst ps)"
  by (simp add: wf_obj_def jkeys_def)

lemma wf_obj_jset [simp]: "wf_obj v \<Longrightarrow> wf_obj (jset k x v)"
  by (auto simp: wf_obj_def jkeys_def jset_def distinct_assoc_set)

lemma wf_obj_jdel [simp]: "wf_obj v \<Longrightarrow> wf_obj (jdel k v)"
  by (auto simp: wf_obj_def jkeys_def jdel_def distinct_assoc_del)

lemma assoc_set_same:
  "k \<in> set (map fst ps) \<Longrightarrow> assoc_get k ps = x \<Longrightarrow> assoc_set k x ps = ps"
proof (induction ps)
  case (Cons p ps)
  then show ?case by (cases p; cases "k = fst p") simp_all
qed simp

lemma jset_same: "jhas (Obj ps) k \<Longrightarrow> jget (Obj ps) k = x \<Longrightarrow> jset k x (Obj ps) = Obj ps"
  by (simp add: jhas_def jkeys_def jset_def assoc_set_same)

lemma jset_truthy [simp, js_simps]: "truthy (jset k x v)" "is_object (jset k x v)" "\<not> nullish (jset k x v)"
  by (simp_all add: jset_def nullish_def)

lemma jset_Obj: "\<exists>ps. jset k x v = Obj ps"
  by (simp add: jset_def)

lemma assoc_get_notin: "k \<notin> set (map fst ps) \<Longrightarrow> assoc_get k ps = Undef"
  by (induction ps) auto

lemma jget_not_has: "\<not> jhas (Obj ps) k \<Longrightarrow> jget (Obj ps) k = Undef"
  by (simp add: jhas_def jkeys_def assoc_get_notin)

subsection \<open>Numbers as text\<close>

definition math_round :: "rat \<Rightarrow> int" where
  "math_round r = \<lfloor>r + 1 / 2\<rfloor>"

fun pad_digits :: "nat \<Rightarrow> nat \<Rightarrow> string" where
  "pad_digits 0 n = []"
| "pad_digits (Suc k) n = pad_digits k (n div 10) @ [digit_char (n mod 10)]"

text \<open>\<open>r.toFixed(k)\<close>: the integer nearest to \<open>r * 10^k\<close>, the larger of two, written with k decimals.\<close>

definition to_fixed_pos :: "nat \<Rightarrow> rat \<Rightarrow> string" where
  "to_fixed_pos k r =
     (let n = nat \<lfloor>r * 10 ^ k + 1 / 2\<rfloor>
      in nat_str (n div 10 ^ k) @ (if k = 0 then [] else CHR ''.'' # pad_digits k (n mod 10 ^ k)))"

definition to_fixed :: "nat \<Rightarrow> rat \<Rightarrow> string" where
  "to_fixed k r = (if r < 0 then CHR ''-'' # to_fixed_pos k (- r) else to_fixed_pos k r)"

text \<open>
  \<open>String(n)\<close>: exact on integers; a fraction is written with at most 17 decimals, which is
  how a decimal literal of a payload prints.
\<close>

fun frac_digits :: "nat \<Rightarrow> rat \<Rightarrow> string" where
  "frac_digits 0 r = []"
| "frac_digits (Suc k) r =
     (if r = 0 then [] else digit_char (nat \<lfloor>r * 10\<rfloor>) # frac_digits k (frac (r * 10)))"

fun num_str :: "num \<Rightarrow> string" where
  "num_str NaN = ''NaN''"
| "num_str PInf = ''Infinity''"
| "num_str NInf = ''-Infinity''"
| "num_str (Fin r) =
     (if r = rat_of_int \<lfloor>r\<rfloor> then int_str \<lfloor>r\<rfloor>
      else (if r < 0 then ''-'' else []) @ int_str \<lfloor>\<bar>r\<bar>\<rfloor> @ ''.'' @ frac_digits 17 (frac \<bar>r\<bar>))"

fun to_str :: "js \<Rightarrow> string" where
  "to_str Undef = ''undefined''"
| "to_str Null = ''null''"
| "to_str (Bool b) = (if b then ''true'' else ''false'')"
| "to_str (Num n) = num_str n"
| "to_str (Str s) = s"
| "to_str (Arr xs) = js_join '','' (map (\<lambda>x. if x = Undef \<or> x = Null then [] else to_str x) xs)"
| "to_str (Obj _) = ''[object Object]''"

lemma num_str_of_int [simp]: "num_str (Fin (rat_of_int i)) = int_str i"
  by simp

lemma num_str_of_nat [simp]: "num_str (Fin (rat_of_nat n)) = nat_str n"
  using num_str_of_int[of "int n"] by (simp add: int_str_def del: num_str.simps)

lemma js_or_Str: "js_or (Str s) (Str d) = Str (if s = [] then d else s)"
  by (simp add: js_or_def)

lemma js_or_Undef [simp, js_simps]: "js_or Undef b = b"
  by (simp add: js_or_def)

lemma js_or_Null [simp, js_simps]: "js_or Null b = b"
  by (simp add: js_or_def)

lemma js_coalesce_Undef [simp, js_simps]: "js_coalesce Undef b = b"
  by (simp add: js_coalesce_def nullish_def)

lemma js_coalesce_Null [simp, js_simps]: "js_coalesce Null b = b"
  by (simp add: js_coalesce_def nullish_def)

end
