(* ===== verification/Normalize.thy ===== *)
theory Normalize imports JsValue begin

text \<open>
  \<open>web/src/utils/normalize.js\<close> (what a list response is reduced to before a page renders it)
  and \<open>web/src/navigation.js\<close> (the table of sections and the title of the section that owns a path).
\<close>

subsection \<open>normalize.js\<close>

definition safe_array :: "js \<Rightarrow> js list" where
  "safe_array v = (if is_array v then elems v else [])"

definition list_data :: "js \<Rightarrow> js list" where
  "list_data response = (if is_array response then elems response
                         else safe_array (jget response ''data''))"

definition normalize_spec :: "js \<Rightarrow> js" where
  "normalize_spec spec = (if truthy spec \<and> is_object spec then spec else Obj [])"

definition normalize_vm :: "js \<Rightarrow> nat \<Rightarrow> js" where
  "normalize_vm vm i =
     (if \<not> truthy vm \<or> \<not> is_object vm then Null
      else jset ''spec'' (normalize_spec (jget vm ''spec''))
          (jset ''tags'' (Arr (safe_array (jget vm ''tags'')))
          (jset ''state'' (js_or (jget vm ''state'') (Str ''unknown''))
          (jset ''name'' (js_or (jget vm ''name'') (Str ''unnamed-vm''))
          (jset ''id'' (js_or (jget vm ''id'') (Str (''invalid-vm-'' @ nat_str i)))
          (Obj (props vm)))))))"

definition normalize_vm_list :: "js \<Rightarrow> js list" where
  "normalize_vm_list response =
     filter truthy (map (\<lambda>(i, vm). normalize_vm vm i) (enumerate 0 (list_data response)))"

text \<open>What a page may rely on for each machine of a normalised list.\<close>

definition vm_ok :: "js \<Rightarrow> bool" where
  "vm_ok vm \<longleftrightarrow> (\<exists>ps. vm = Obj ps) \<and> truthy (jget vm ''id'') \<and> truthy (jget vm ''name'')
     \<and> truthy (jget vm ''state'') \<and> is_array (jget vm ''tags'')
     \<and> truthy (jget vm ''spec'') \<and> is_object (jget vm ''spec'')
     \<and> (\<forall>k\<in>{''id'', ''name'', ''state'', ''tags'', ''spec''}. jhas vm k)"

lemma truthy_js_or [simp]: "truthy (js_or a b) \<longleftrightarrow> truthy a \<or> truthy b"
  by (simp add: js_or_def)

lemma normalize_spec_ok: "truthy (normalize_spec s) \<and> is_object (normalize_spec s)"
  by (simp add: normalize_spec_def)

lemma normalize_vm_cases: "normalize_vm vm i = Null \<or> vm_ok (normalize_vm vm i)"
  using normalize_spec_ok by (auto simp: normalize_vm_def vm_ok_def jset_Obj)

lemma normalize_vm_ok_id:
  assumes "vm_ok vm" shows "normalize_vm vm i = vm"
proof -
  obtain ps where ps: "vm = Obj ps" using assms by (auto simp: vm_ok_def)
  have s: "jset k x vm = vm" if "jhas vm k" "jget vm k = x" for k x
    using that by (simp add: ps jset_same)
  have "normalize_spec (jget vm ''spec'') = jget vm ''spec''"
    and "js_or (jget vm ''id'') d = jget vm ''id''"
    and "js_or (jget vm ''name'') d = jget vm ''name''"
    and "js_or (jget vm ''state'') d = jget vm ''state''"
    and "Arr (safe_array (jget vm ''tags'')) = jget vm ''tags''" for d
    using assms by (auto simp: vm_ok_def normalize_spec_def js_or_def safe_array_def elim: is_array.elims)
  then show ?thesis using assms s by (simp add: normalize_vm_def vm_ok_def ps)
qed

lemma normalize_vm_list_id:
  assumes "\<forall>v\<in>set vs. vm_ok v"
  shows "filter truthy (map (\<lambda>(i, vm). normalize_vm vm i) (enumerate n vs)) = vs"
  using assms by (induction vs arbitrary: n) (auto simp: normalize_vm_ok_id vm_ok_def)

subsection \<open>navigation.js\<close>

record nav_item =
  nav_to :: string
  nav_icon :: string
  nav_label :: string
  nav_test_id :: string

definition nav :: "string \<Rightarrow> string \<Rightarrow> string \<Rightarrow> string \<Rightarrow> nav_item" where
  "nav t i l d = \<lparr>nav_to = t, nav_icon = i, nav_label = l, nav_test_id = d\<rparr>"

definition nav_items :: "nav_item list" where
  "nav_items =
    [nav ''/'' ''LayoutDashboard'' ''Dashboard'' ''nav-dashboard'',
     nav ''/vms'' ''Server'' ''Machines'' ''nav-vms'',
     nav ''/images'' ''HardDrive'' ''Images'' ''nav-images'',
     nav ''/templates'' ''Layers'' ''Templates'' ''nav-templates'',
     nav ''/schedules'' ''Clock'' ''Schedules'' ''nav-schedules'',
     nav ''/activity'' ''Activity'' ''Activity'' ''nav-activity'',
     nav ''/logs'' ''ScrollText'' ''Logs'' ''nav-logs'',
     nav ''/settings'' ''Settings'' ''Settings'' ''nav-settings'']"

definition section_matches :: "string \<Rightarrow> nav_item list" where
  "section_matches pathname =
     sort_key (\<lambda>item. - int (length (nav_to item)))
       (filter (\<lambda>item. nav_to item \<noteq> ''/'' \<and>
                  (pathname = nav_to item \<or> starts_with pathname (nav_to item @ ''/''))) nav_items)"

definition section_title :: "string \<Rightarrow> string" where
  "section_title pathname =
     nav_label (case section_matches pathname of m # _ \<Rightarrow> m | [] \<Rightarrow> hd nav_items)"

lemma nav_items_distinct: "distinct nav_items"
  by (simp add: nav_items_def nav_def)

lemma nav_routes_incomparable:
  "\<forall>i\<in>set nav_items. \<forall>j\<in>set nav_items. nav_to i \<noteq> ''/'' \<and> nav_to j \<noteq> ''/'' \<and>
     prefix (nav_to i @ ''/'') (nav_to j @ ''/'') \<longrightarrow> i = j"
  by (simp add: nav_items_def nav_def)

lemma section_match_unique:
  assumes "i \<in> set nav_items" "j \<in> set nav_items" "nav_to i \<noteq> ''/''" "nav_to j \<noteq> ''/''"
    and p: "p = nav_to i \<or> p = nav_to i @ ''/'' @ rest"
    and m: "p = nav_to j \<or> prefix (nav_to j @ ''/'') p"
  shows "j = i"
proof -
  have pre: "prefix (t @ ''/'') (p @ ''/'')" if "p = t \<or> prefix (t @ ''/'') p" for t
    using that by (auto intro: prefix_prefix)
  from p have "p = nav_to i \<or> prefix (nav_to i @ ''/'') p" by auto
  then have "prefix (nav_to i @ ''/'') (p @ ''/'')" "prefix (nav_to j @ ''/'') (p @ ''/'')"
    using m pre by blast+
  then have "prefix (nav_to i @ ''/'') (nav_to j @ ''/'') \<or> prefix (nav_to j @ ''/'') (nav_to i @ ''/'')"
    by (rule prefix_same_cases) 
  then show ?thesis using assms nav_routes_incomparable by metis
qed

text \<open>The fields of a normalised machine: those it fills in, and every other as it came.\<close>

definition keeps_machine :: "nat \<times> js \<Rightarrow> js \<Rightarrow> bool" where
  "keeps_machine e m \<longleftrightarrow> (case e of (i, v) \<Rightarrow>
     jget m ''id'' = (if truthy (jget v ''id'') then jget v ''id'' else Str (''invalid-vm-'' @ nat_str i))
     \<and> jget m ''name'' = (if truthy (jget v ''name'') then jget v ''name'' else Str ''unnamed-vm'')
     \<and> jget m ''state'' = (if truthy (jget v ''state'') then jget v ''state'' else Str ''unknown'')
     \<and> jget m ''tags'' = (if is_array (jget v ''tags'') then jget v ''tags'' else Arr [])
     \<and> jget m ''spec'' = (if truthy (jget v ''spec'') \<and> is_object (jget v ''spec'') then jget v ''spec'' else Obj [])
     \<and> (\<forall>ps k. v = Obj ps \<and> k \<notin> {''id'', ''name'', ''state'', ''tags'', ''spec''} \<longrightarrow> jget m k = jget v k))"

lemma normalize_vm_keeps:
  assumes "truthy v" "is_object v"
  shows "truthy (normalize_vm v i)" "keeps_machine (i, v) (normalize_vm v i)"
  using assms by (auto simp: normalize_vm_def keeps_machine_def js_or_def normalize_spec_def safe_array_def
      elim!: is_array.elims split: if_splits)

lemma normalize_keeps_all:
  "list_all2 keeps_machine (filter (\<lambda>(i, v). truthy v \<and> is_object v) (enumerate n vs))
     (filter truthy (map (\<lambda>(i, v). normalize_vm v i) (enumerate n vs)))"
proof (induction vs arbitrary: n)
  case (Cons v vs)
  show ?case
  proof (cases "truthy v \<and> is_object v")
    case True
    then show ?thesis using Cons normalize_vm_keeps[of v n] by simp
  next
    case False
    then have "normalize_vm v n = Null" by (auto simp: normalize_vm_def)
    then show ?thesis using False Cons by auto
  qed
qed simp

text \<open>
  C25 A list response of any shape (an array, a \<open>{data, meta}\<close> envelope, null, junk entries)
  normalises to machines a page can render without further checks: one for each object of the answer and
  none else, in the order of the answer, with every property it came with except that a blank id, name or
  state is replaced by its stand-in, tags that are no array by none and a spec that is no object by an
  empty one; so that every entry has a non-empty id, name and state, an array of tags and an object spec.
  Normalising the result again changes nothing.
\<close>

theorem normalize_vm_list_total:
  "list_all2 keeps_machine
     (filter (\<lambda>(i, v). truthy v \<and> is_object v)
       (enumerate 0 (case r of Arr vs \<Rightarrow> vs | _ \<Rightarrow> (case jget r ''data'' of Arr vs \<Rightarrow> vs | _ \<Rightarrow> []))))
     (normalize_vm_list r)
   \<and> (\<forall>v\<in>set (normalize_vm_list r). vm_ok v)
   \<and> normalize_vm_list (Arr (normalize_vm_list r)) = normalize_vm_list r"
proof -
  have d: "list_data r = (case r of Arr vs \<Rightarrow> vs | _ \<Rightarrow> (case jget r ''data'' of Arr vs \<Rightarrow> vs | _ \<Rightarrow> []))"
    by (cases r; cases "jget r ''data''") (simp_all add: list_data_def safe_array_def)
  have ok: "\<forall>v\<in>set (normalize_vm_list r). vm_ok v"
    using normalize_vm_cases by (auto simp: normalize_vm_list_def)
      (metis truthy.simps(2))
  moreover have "normalize_vm_list (Arr (normalize_vm_list r)) = normalize_vm_list r"
    using normalize_vm_list_id[OF ok, of 0] by (simp add: normalize_vm_list_def list_data_def)
  ultimately show ?thesis using normalize_keeps_all[of 0 "list_data r"] by (simp add: normalize_vm_list_def flip: d)
qed

definition sample_response :: js where
  "sample_response =
     Obj [(''data'', Arr [Obj [(''id'', Str ''vm-1''), (''tags'', Null)], Null, Str ''junk'', Obj []])]"

theorem normalize_vm_list_total_witness:
  "vm_ok (normalize_vm_list sample_response ! 1)
   \<and> length (normalize_vm_list sample_response) = 2
   \<and> map (\<lambda>v. jget v ''id'') (normalize_vm_list sample_response) = [Str ''vm-1'', Str ''invalid-vm-3'']"
proof -
  have "length (normalize_vm_list sample_response) = 2
   \<and> map (\<lambda>v. jget v ''id'') (normalize_vm_list sample_response) = [Str ''vm-1'', Str ''invalid-vm-3'']"
    by (simp add: sample_response_def normalize_vm_list_def list_data_def safe_array_def
        normalize_vm_def js_or_def nat_str.simps digit_char_def)
  then show ?thesis using normalize_vm_list_total[of sample_response] nth_mem by fastforce
qed

text \<open>
  The title of the mobile top bar names the section that owns the path: a path that is, or
  lies below, the route of a section other than the dashboard gets that section's label, whatever
  follows.
\<close>

theorem section_title_owner:
  assumes "item \<in> set nav_items" and "nav_to item \<noteq> ''/''"
  shows "section_title (nav_to item) = nav_label item
         \<and> section_title (nav_to item @ ''/'' @ rest) = nav_label item"
proof -
  have "section_matches p = [item]" if "p = nav_to item \<or> p = nav_to item @ ''/'' @ rest" for p
    unfolding section_matches_def using assms that section_match_unique
    by (subst filter_unique[where x = item]) (auto simp: nav_items_distinct starts_with_def)
  then show ?thesis by (simp add: section_title_def)
qed

theorem section_title_owner_witness:
  "nav_label (nav_items ! 1) = ''Machines''
   \<and> section_title (''/vms'' @ ''/'' @ ''vm-7/console'') = ''Machines''"
proof -
  have m: "nav_items ! 1 \<in> set nav_items" by (simp add: nav_items_def)
  have t: "nav_to (nav_items ! 1) = ''/vms''" "nav_label (nav_items ! 1) = ''Machines''"
    by (simp_all add: nav_items_def nav_def)
  then show ?thesis using section_title_owner[OF m, of "''vm-7/console''"] by simp
qed

end
