(* ===== verification/SearchParams.thy ===== *)
theory SearchParams imports Prelude begin

text \<open>
  \<open>URLSearchParams\<close>, the query-string store in which every page keeps its filters and from
  which the hooks build their stream addresses: an ordered list of pairs with \<open>get\<close>, \<open>set\<close>,
  \<open>delete\<close>, its \<open>application/x-www-form-urlencoded\<close> text and the parser of that text.
  The laws proved here (reading after writing, and the text read back as the store it was written
  from) are what the filter pages and the hooks rest on.
\<close>

type_synonym params = "(string \<times> string) list"

definition usp_get :: "string \<Rightarrow> params \<Rightarrow> string option" where
  "usp_get k ps = map_of ps k"

definition usp_delete :: "string \<Rightarrow> params \<Rightarrow> params" where
  "usp_delete k ps = filter (\<lambda>p. fst p \<noteq> k) ps"

fun usp_set :: "string \<Rightarrow> string \<Rightarrow> params \<Rightarrow> params" where
  "usp_set k v [] = [(k, v)]"
| "usp_set k v ((k', w) # ps) =
     (if k' = k then (k, v) # usp_delete k ps else (k', w) # usp_set k v ps)"

text \<open>\<open>searchParams.get(k) || d\<close>\<close>

definition usp_get_or :: "string \<Rightarrow> string \<Rightarrow> params \<Rightarrow> string" where
  "usp_get_or d k ps = (case usp_get k ps of Some v \<Rightarrow> if v = [] then d else v | None \<Rightarrow> d)"

lemma usp_get_delete [simp]: "usp_get k (usp_delete k' ps) = (if k = k' then None else usp_get k ps)"
  by (induction ps) (auto simp: usp_get_def usp_delete_def)

lemma usp_get_set [simp]: "usp_get k (usp_set k' v ps) = (if k = k' then Some v else usp_get k ps)"
proof (induction ps)
  case (Cons p ps)
  show ?case
  proof (cases "fst p = k'")
    case True
    then show ?thesis using usp_get_delete[of k k' ps] by (cases p) (auto simp: usp_get_def)
  next
    case False
    with Cons show ?thesis by (cases p) (auto simp: usp_get_def)
  qed
qed (simp add: usp_get_def)

declare usp_set.simps [simp del]

subsection \<open>The query string\<close>

definition hex_digit :: "nat \<Rightarrow> char" where
  "hex_digit d = ''0123456789ABCDEF'' ! d"

definition hex_val :: "char \<Rightarrow> nat option" where
  "hex_val c =
     (let n = (of_char c :: nat) in
      if 48 \<le> n \<and> n \<le> 57 then Some (n - 48)
      else if 65 \<le> n \<and> n \<le> 70 then Some (n - 55)
      else if 97 \<le> n \<and> n \<le> 102 then Some (n - 87) else None)"

definition form_safe :: "char \<Rightarrow> bool" where
  "form_safe c =
     (let n = (of_char c :: nat) in
      48 \<le> n \<and> n \<le> 57 \<or> 65 \<le> n \<and> n \<le> 90 \<or> 97 \<le> n \<and> n \<le> 122 \<or> n \<in> {42, 45, 46, 95})"

definition encode_char :: "char \<Rightarrow> string" where
  "encode_char c =
     (if form_safe c then [c] else if c = CHR '' '' then ''+''
      else [CHR ''%'', hex_digit ((of_char c :: nat) div 16), hex_digit ((of_char c :: nat) mod 16)])"

definition form_encode :: "string \<Rightarrow> string" where
  "form_encode s = concat (map encode_char s)"

fun form_decode :: "string \<Rightarrow> string" where
  "form_decode [] = []"
| "form_decode (c # cs) =
     (if c = CHR ''+'' then CHR '' '' # form_decode cs
      else if c = CHR ''%'' then
        (case cs of
           a # b # rest \<Rightarrow>
             (case (hex_val a, hex_val b) of
                (Some x, Some y) \<Rightarrow> char_of (16 * x + y) # form_decode rest
              | _ \<Rightarrow> c # form_decode cs)
         | _ \<Rightarrow> c # form_decode cs)
      else c # form_decode cs)"

definition usp_to_string :: "params \<Rightarrow> string" where
  "usp_to_string ps = js_join ''&'' (map (\<lambda>(k, v). form_encode k @ ''='' @ form_encode v) ps)"

definition parse_pair :: "string \<Rightarrow> string \<times> string" where
  "parse_pair s =
     (form_decode (takeWhile (\<lambda>c. c \<noteq> CHR ''='') s),
      form_decode (tl (dropWhile (\<lambda>c. c \<noteq> CHR ''='') s)))"

definition usp_parse :: "string \<Rightarrow> params" where
  "usp_parse q = map parse_pair (filter (\<lambda>s. s \<noteq> []) (js_split (CHR ''&'') q))"

text \<open>\<open>new URLSearchParams(location.search)\<close> drops one leading question mark.\<close>

definition usp_of_search :: "string \<Rightarrow> params" where
  "usp_of_search s = usp_parse (if s \<noteq> [] \<and> hd s = CHR ''?'' then tl s else s)"

text \<open>\<open>qs ? `?${qs}` : ''\<close>\<close>

definition with_query :: "params \<Rightarrow> string" where
  "with_query ps = (let qs = usp_to_string ps in if qs \<noteq> [] then CHR ''?'' # qs else [])"

lemma less_16_cases: "(d::nat) < 16 \<Longrightarrow> d \<in> {0,1,2,3,4,5,6,7,8,9,10,11,12,13,14,15}"
  unfolding insert_iff empty_iff by presburger

lemma hex_val_hex_digit [simp]: "d < 16 \<Longrightarrow> hex_val (hex_digit d) = Some d"
  by (drule less_16_cases) (auto simp: hex_digit_def hex_val_def)

lemma hex_digit_plain: "d < 16 \<Longrightarrow> hex_digit d \<notin> {CHR ''&'', CHR ''='', CHR ''+'', CHR ''%''}"
  by (drule less_16_cases) (auto simp: hex_digit_def)

lemma form_safe_plain: "form_safe c \<Longrightarrow> c \<notin> {CHR ''&'', CHR ''='', CHR ''+'', CHR ''%''}"
  by (auto simp: form_safe_def)

lemma of_char_lt: "(of_char c :: nat) < 256"
  by (rule nat_of_char_less_256)

lemma form_decode_encode_char: "form_decode (encode_char c @ s) = c # form_decode s"
proof -
  have "(of_char c :: nat) div 16 < 16" using of_char_lt[of c] by linarith
  moreover have "char_of (16 * ((of_char c :: nat) div 16) + (of_char c :: nat) mod 16) = c"
    by (simp only: mult_div_mod_eq) simp
  ultimately show ?thesis
    using form_safe_plain[of c] by (auto simp: encode_char_def)
qed

lemma form_decode_encode [simp]: "form_decode (form_encode s) = s"
  by (induction s) (simp_all add: form_encode_def form_decode_encode_char)

lemma encode_char_plain: "x \<in> set (encode_char c) \<Longrightarrow> x \<noteq> CHR ''&'' \<and> x \<noteq> CHR ''=''"
proof -
  have "(of_char c :: nat) div 16 < 16" using of_char_lt[of c] by linarith
  then show "x \<in> set (encode_char c) \<Longrightarrow> x \<noteq> CHR ''&'' \<and> x \<noteq> CHR ''=''"
    using form_safe_plain[of c] hex_digit_plain[of "of_char c div 16"]
      hex_digit_plain[of "of_char c mod 16"]
    by (auto simp: encode_char_def split: if_splits)
qed

lemma form_encode_plain: "x \<in> set (form_encode s) \<Longrightarrow> x \<noteq> CHR ''&'' \<and> x \<noteq> CHR ''=''"
  using encode_char_plain by (fastforce simp: form_encode_def)

lemma parse_pair_encode: "parse_pair (form_encode k @ ''='' @ form_encode v) = (k, v)"
proof -
  have "\<forall>x\<in>set (form_encode k). x \<noteq> CHR ''=''" using form_encode_plain by blast
  then show ?thesis
    by (simp add: parse_pair_def takeWhile_append2 dropWhile_append2)
qed

lemma usp_parse_to_string: "usp_parse (usp_to_string ps) = ps"
proof (cases "ps = []")
  case False
  let ?f = "\<lambda>(k, v). form_encode k @ ''='' @ form_encode v"
  have "js_split (CHR ''&'') (js_join ''&'' (map ?f ps)) = map ?f ps"
    using False form_encode_plain by (intro js_split_join) fastforce+
  moreover have "filter (\<lambda>s. s \<noteq> []) (map ?f ps) = map ?f ps"
    by (rule filter_eq_self) auto
  moreover have "map parse_pair (map ?f ps) = ps"
    by (rule map_idI[where f = "parse_pair \<circ> ?f", unfolded map_map[symmetric]])
      (auto simp: parse_pair_encode simp del: append_Cons append.simps)
  ultimately show ?thesis by (simp only: usp_parse_def usp_to_string_def)
qed (simp add: usp_parse_def usp_to_string_def)

end
