(* ===== verification/EventStream.thy ===== *)
theory EventStream imports JsValue SearchParams begin

text \<open>
  \<open>web/src/hooks/useEventStream.js\<close>: the live event stream of the daemon, with automatic
  reconnection and the short-poll fallback. The hook's refs and state cells are the fields of
  \<open>stream\<close>; every callback the browser may run (stream callbacks, timers, a finished poll, the
  effect and its cleanup) is one function on that state, and \<open>stream_step\<close> says which may run when.
  What the browser owns is part of the state as well: the \<open>EventSource\<close> objects it still has open
  and the polls in flight.
\<close>

subsection \<open>State\<close>

datatype es_status = Connecting | Live | Reconnecting | Fallback | Shutdown | Closed

definition fallback_after_failures :: nat where "fallback_after_failures = 3"
definition reconnect_base_ms :: nat where "reconnect_base_ms = 1000"
definition reconnect_max_ms :: nat where "reconnect_max_ms = 30000"
definition fallback_window_ms :: nat where "fallback_window_ms = 30000"
definition fallback_poll_interval_ms :: nat where "fallback_poll_interval_ms = 10000"

lemmas es_constants = fallback_after_failures_def reconnect_base_ms_def reconnect_max_ms_def
  fallback_window_ms_def fallback_poll_interval_ms_def

record stream =
  st_status :: es_status
  st_last_event_id :: "string option"
  st_last_event :: "js option"
  st_last_id :: "string option"
  st_failures :: nat
  st_closed :: bool
  st_shutdown :: bool
  st_source :: "nat option"
  st_open :: "nat list"
  st_next :: nat
  st_reconnect :: "nat option"
  st_interval :: "nat option"
  st_exit :: "nat option"
  st_polls :: "string option list"
  st_delivered :: "js list"

text \<open>The environment: whether the browser has \<open>EventSource\<close>, and whether its constructor throws.\<close>

record es_env =
  env_has_es :: bool
  env_ctor_ok :: bool

definition stream_init :: stream where
  "stream_init =
     \<lparr>st_status = Closed, st_last_event_id = None, st_last_event = None, st_last_id = None,
      st_failures = 0, st_closed = False, st_shutdown = False, st_source = None, st_open = [],
      st_next = 0, st_reconnect = None, st_interval = None, st_exit = None, st_polls = [],
      st_delivered = []\<rparr>"

subsection \<open>Addresses and requests\<close>

definition stream_fields :: "string list" where
  "stream_fields = [''vm_id'', ''type'', ''type_prefix'', ''source'', ''severity'', ''actor'',
                    ''resource_id'', ''search'']"

definition add_filter_field :: "js \<Rightarrow> string \<Rightarrow> params \<Rightarrow> params" where
  "add_filter_field flt k ps =
     (let v = jget flt k in if \<not> nullish v \<and> v \<noteq> Str [] then usp_set k (to_str v) ps else ps)"

definition stream_params :: "string \<Rightarrow> string \<Rightarrow> js \<Rightarrow> params" where
  "stream_params since api_key flt =
     (let p0 = [];
          p1 = (if since \<noteq> [] then usp_set ''since'' since p0 else p0);
          p2 = (if api_key \<noteq> [] then usp_set ''api_key'' api_key p1 else p1)
      in if truthy flt then fold (add_filter_field flt) stream_fields p2 else p2)"

definition build_stream_url :: "string \<Rightarrow> string \<Rightarrow> js \<Rightarrow> string" where
  "build_stream_url since api_key flt =
     ''/api/v1/events/stream'' @ with_query (stream_params since api_key flt)"

text \<open>The address \<open>connect\<close> opens: the cursor of the last event seen, the key, the filter.\<close>

definition connect_url :: "string \<Rightarrow> js \<Rightarrow> stream \<Rightarrow> string" where
  "connect_url token flt s =
     build_stream_url (case st_last_id s of None \<Rightarrow> [] | Some c \<Rightarrow> c) token flt"

definition poll_params :: "string option \<Rightarrow> params" where
  "poll_params after =
     usp_set ''per_page'' ''50''
       (case after of
          None \<Rightarrow> []
        | Some a \<Rightarrow> if a = [] then []
                    else usp_set ''until'' (case parse_int a of None \<Rightarrow> ''NaN''
                                                           | Some n \<Rightarrow> int_str (n + 1)) [])"

subsection \<open>The callbacks\<close>

definition clear_reconnect_timer :: "stream \<Rightarrow> stream" where
  "clear_reconnect_timer s = s\<lparr>st_reconnect := None\<rparr>"

definition clear_fallback_timers :: "stream \<Rightarrow> stream" where
  "clear_fallback_timers s = s\<lparr>st_interval := None, st_exit := None\<rparr>"

definition set_status :: "es_status \<Rightarrow> stream \<Rightarrow> stream" where
  "set_status x s = s\<lparr>st_status := x\<rparr>"

definition dispatch_event :: "js \<Rightarrow> stream \<Rightarrow> stream" where
  "dispatch_event evt s =
     (if \<not> truthy evt then s
      else (let s1 = (if \<not> nullish (jget evt ''id'')
                      then s\<lparr>st_last_id := Some (to_str (jget evt ''id'')),
                             st_last_event_id := Some (to_str (jget evt ''id''))\<rparr> else s)
            in s1\<lparr>st_last_event := Some evt, st_delivered := st_delivered s1 @ [evt]\<rparr>))"

definition close_source :: "nat \<Rightarrow> stream \<Rightarrow> stream" where
  "close_source i s = s\<lparr>st_open := removeAll i (st_open s)\<rparr>"

definition open_source :: "stream \<Rightarrow> stream" where
  "open_source s = s\<lparr>st_source := Some (st_next s), st_open := st_next s # st_open s,
                    st_next := Suc (st_next s)\<rparr>"

definition connect :: "es_env \<Rightarrow> stream \<Rightarrow> stream" where
  "connect env s =
     (if st_closed s then s
      else if \<not> env_has_es env then s
      else (let s1 = set_status (if st_failures s = 0 then Connecting else Reconnecting)
                       (clear_fallback_timers (clear_reconnect_timer s))
            in if env_ctor_ok env then open_source s1 else s1))"

definition on_open :: "stream \<Rightarrow> stream" where
  "on_open s = set_status Live (s\<lparr>st_failures := 0\<rparr>)"

text \<open>
  A frame carries the parsed payload (\<open>None\<close> when it is empty or no JSON) and the browser's
  \<open>lastEventId\<close>.
\<close>

definition on_message :: "js option \<Rightarrow> string \<Rightarrow> stream \<Rightarrow> stream" where
  "on_message parsed msg_id s =
     (case parsed of
        None \<Rightarrow> s
      | Some evt \<Rightarrow>
          dispatch_event evt (if msg_id \<noteq> [] then s\<lparr>st_last_id := Some msg_id\<rparr> else s))"

definition default_shutdown :: js where
  "default_shutdown = Obj [(''type'', Str ''shutdown''), (''message'', Str ''Server shutting down'')]"

definition on_shutdown :: "nat \<Rightarrow> js option \<Rightarrow> stream \<Rightarrow> stream" where
  "on_shutdown i parsed s =
     (let evt = (case parsed of None \<Rightarrow> default_shutdown | Some e \<Rightarrow> e);
          s1 = s\<lparr>st_shutdown := True, st_failures := 0\<rparr>;
          s2 = set_status Shutdown (clear_fallback_timers (clear_reconnect_timer s1));
          s3 = dispatch_event evt s2
      in (close_source i s3)\<lparr>st_source := None\<rparr>)"

definition reconnect_delay :: "nat \<Rightarrow> nat" where
  "reconnect_delay attempt = min reconnect_max_ms (reconnect_base_ms * 2 ^ (attempt - 1))"

definition poll_start :: "stream \<Rightarrow> stream" where
  "poll_start s = (if st_closed s then s else s\<lparr>st_polls := st_polls s @ [st_last_id s]\<rparr>)"

definition on_error :: "nat \<Rightarrow> stream \<Rightarrow> stream" where
  "on_error i s =
     (let s1 = (close_source i s)\<lparr>st_source := None\<rparr>
      in if st_shutdown s1 \<or> st_closed s1 then s1
         else (let s2 = s1\<lparr>st_failures := Suc (st_failures s1)\<rparr>
               in if fallback_after_failures \<le> st_failures s2
                  then (let s3 = set_status Fallback (clear_fallback_timers (clear_reconnect_timer s2));
                            s4 = poll_start s3
                        in s4\<lparr>st_interval := Some fallback_poll_interval_ms,
                              st_exit := Some fallback_window_ms\<rparr>)
                  else (set_status Reconnecting (clear_reconnect_timer s2))
                         \<lparr>st_reconnect := Some (reconnect_delay (st_failures s2))\<rparr>))"

subsection \<open>The fallback poll\<close>

definition event_seq :: "js \<Rightarrow> int option" where
  "event_seq evt = parse_int (to_str (js_coalesce (jget evt ''id'') (Str ''0'')))"

definition poll_cursor :: "string option \<Rightarrow> int option" where
  "poll_cursor after = parse_int (case after of None \<Rightarrow> ''0'' | Some a \<Rightarrow> a)"

definition poll_takes :: "string option \<Rightarrow> js \<Rightarrow> bool" where
  "poll_takes after evt \<longleftrightarrow>
     (case (event_seq evt, poll_cursor after) of
        (Some q, Some c) \<Rightarrow> c < q
      | _ \<Rightarrow> False)"

fun dispatch_new :: "string option \<Rightarrow> js list \<Rightarrow> stream \<Rightarrow> stream" where
  "dispatch_new after [] s = s"
| "dispatch_new after (e # es) s =
     dispatch_new after es (if poll_takes after e then dispatch_event e s else s)"

text \<open>
  The answer to the poll that was started with cursor \<open>after\<close>: \<open>None\<close> when the request failed, was
  refused or is no array. The loop walks the page from its last entry to its first.
\<close>

definition poll_done :: "string option \<Rightarrow> js list option \<Rightarrow> stream \<Rightarrow> stream" where
  "poll_done after answer s =
     (let s1 = s\<lparr>st_polls := remove1 after (st_polls s)\<rparr>
      in case answer of None \<Rightarrow> s1 | Some events \<Rightarrow> dispatch_new after (rev events) s1)"

definition on_exit_timer :: "es_env \<Rightarrow> stream \<Rightarrow> stream" where
  "on_exit_timer env s =
     (if st_closed s then s
      else connect env ((clear_fallback_timers s)\<lparr>st_failures := 0\<rparr>))"

definition on_reconnect_timer :: "es_env \<Rightarrow> stream \<Rightarrow> stream" where
  "on_reconnect_timer env s = connect env (s\<lparr>st_reconnect := None\<rparr>)"

subsection \<open>The effect and its cleanup\<close>

definition effect_enabled :: "es_env \<Rightarrow> stream \<Rightarrow> stream" where
  "effect_enabled env s =
     (let s1 = s\<lparr>st_closed := False, st_shutdown := False, st_failures := 0\<rparr>
      in if \<not> env_has_es env
         then (poll_start (set_status Fallback s1))\<lparr>st_interval := Some fallback_poll_interval_ms\<rparr>
         else connect env s1)"

definition effect_disabled :: "stream \<Rightarrow> stream" where
  "effect_disabled s =
     set_status Closed (clear_fallback_timers (clear_reconnect_timer (s\<lparr>st_closed := True\<rparr>)))"

definition cleanup :: "stream \<Rightarrow> stream" where
  "cleanup s =
     (let s1 = s\<lparr>st_closed := True\<rparr>;
          s2 = (case st_source s1 of None \<Rightarrow> s1 | Some i \<Rightarrow> (close_source i s1)\<lparr>st_source := None\<rparr>)
      in set_status Closed (clear_fallback_timers (clear_reconnect_timer s2)))"

subsection \<open>Runs\<close>

text \<open>
  A run of the hook: the flag says whether the enabled effect is mounted. The browser delivers
  callbacks only of streams it still has open and of timers that are armed; a poll may finish at
  any time after it was started, also after the effect was cleaned up.
\<close>

inductive stream_step :: "es_env \<Rightarrow> bool \<times> stream \<Rightarrow> bool \<times> stream \<Rightarrow> bool" for env where
  step_mount: "stream_step env (False, s) (True, effect_enabled env s)"
| step_disable: "stream_step env (False, s) (False, effect_disabled s)"
| step_cleanup: "stream_step env (True, s) (False, cleanup s)"
| step_opened: "i \<in> set (st_open s) \<Longrightarrow> stream_step env (r, s) (r, on_open s)"
| step_message: "i \<in> set (st_open s) \<Longrightarrow> stream_step env (r, s) (r, on_message parsed mid s)"
| step_shutdown: "i \<in> set (st_open s) \<Longrightarrow> stream_step env (r, s) (r, on_shutdown i parsed s)"
| step_error: "i \<in> set (st_open s) \<Longrightarrow> stream_step env (r, s) (r, on_error i s)"
| step_reconnect: "st_reconnect s = Some d \<Longrightarrow> stream_step env (r, s) (r, on_reconnect_timer env s)"
| step_exit: "st_exit s = Some d \<Longrightarrow> stream_step env (r, s) (r, on_exit_timer env s)"
| step_tick: "st_interval s = Some d \<Longrightarrow> stream_step env (r, s) (r, poll_start s)"
| step_polled: "after \<in> set (st_polls s) \<Longrightarrow> stream_step env (r, s) (r, poll_done after answer s)"

inductive stream_reach :: "es_env \<Rightarrow> bool \<times> stream \<Rightarrow> bool" for env where
  reach_init: "stream_reach env (False, stream_init)"
| reach_step: "stream_reach env c \<Longrightarrow> stream_step env c c' \<Longrightarrow> stream_reach env c'"

inductive_cases stream_stepE [elim!]: "stream_step env (r, s) c'"

definition quiet :: "stream \<Rightarrow> bool" where
  "quiet s \<longleftrightarrow> st_source s = None \<and> st_open s = [] \<and> st_reconnect s = None \<and> st_interval s = None
     \<and> st_exit s = None"

text \<open>The control part of the state: everything but the events, the cursor and the polls.\<close>

definition same_control :: "stream \<Rightarrow> stream \<Rightarrow> bool" where
  "same_control s t \<longleftrightarrow> st_status t = st_status s \<and> st_failures t = st_failures s
     \<and> st_closed t = st_closed s \<and> st_shutdown t = st_shutdown s \<and> st_source t = st_source s
     \<and> st_open t = st_open s \<and> st_reconnect t = st_reconnect s \<and> st_interval t = st_interval s
     \<and> st_exit t = st_exit s"

definition stream_inv :: "es_env \<Rightarrow> bool \<times> stream \<Rightarrow> bool" where
  "stream_inv env c \<longleftrightarrow> (case c of (r, s) \<Rightarrow>
     st_open s = (case st_source s of None \<Rightarrow> [] | Some i \<Rightarrow> [i])
     \<and> (st_source s \<noteq> None \<longrightarrow> st_reconnect s = None \<and> st_interval s = None \<and> st_exit s = None)
     \<and> (st_reconnect s \<noteq> None \<longrightarrow> st_interval s = None \<and> st_exit s = None
          \<and> st_status s = Reconnecting \<and> st_reconnect s \<in> {Some 1000, Some 2000}
          \<and> st_failures s < fallback_after_failures)
     \<and> (st_failures s \<le> fallback_after_failures)
     \<and> (st_failures s = fallback_after_failures \<longrightarrow> st_source s = None)
     \<and> (\<not> r \<longrightarrow> quiet s \<and> st_status s = Closed)
     \<and> (r \<longrightarrow> \<not> st_closed s)
     \<and> (r \<and> st_shutdown s \<longrightarrow> quiet s \<and> st_status s = Shutdown)
     \<and> (st_interval s \<noteq> None \<longrightarrow> st_status s = Fallback)
     \<and> (st_status s = Live \<longrightarrow> st_source s \<noteq> None)
     \<and> (r \<and> \<not> st_shutdown s \<and> env_has_es env \<and> env_ctor_ok env \<longrightarrow>
          st_source s \<noteq> None \<or> st_reconnect s \<noteq> None \<or> (st_interval s \<noteq> None \<and> st_exit s \<noteq> None))
     \<and> (r \<and> \<not> env_has_es env \<longrightarrow> st_interval s \<noteq> None \<and> st_exit s = None \<and> st_source s = None))"

lemmas stream_ops = connect_def on_open_def on_shutdown_def on_error_def poll_start_def
  on_exit_timer_def on_reconnect_timer_def effect_enabled_def effect_disabled_def cleanup_def
  open_source_def close_source_def set_status_def clear_reconnect_timer_def
  clear_fallback_timers_def Let_def

lemma dispatch_control: "same_control s (dispatch_event e s)"
  by (simp add: same_control_def dispatch_event_def)

lemma same_control_refl: "same_control s s"
  by (simp add: same_control_def)

lemma same_control_trans: "same_control s t \<Longrightarrow> same_control t u \<Longrightarrow> same_control s u"
  by (simp add: same_control_def)

lemma dispatch_new_control: "same_control s (dispatch_new after es s)"
  by (induction es arbitrary: s)
    (auto intro: same_control_refl same_control_trans dispatch_control)

lemma poll_done_control: "same_control s (poll_done after answer s)"
proof -
  have "same_control s (s\<lparr>st_polls := p\<rparr>)" for p by (simp add: same_control_def)
  then show ?thesis
    by (auto simp: poll_done_def Let_def split: option.splits
        intro: same_control_trans dispatch_new_control)
qed

lemma poll_start_control: "same_control s (poll_start s)"
  by (simp add: same_control_def poll_start_def)

lemma on_message_control: "same_control s (on_message parsed mid s)"
proof -
  have "same_control s (s\<lparr>st_last_id := p\<rparr>)" for p by (simp add: same_control_def)
  then show ?thesis
    by (auto simp: on_message_def split: option.splits
        intro: same_control_trans same_control_refl dispatch_control)
qed

lemma inv_same_control:
  assumes inv: "stream_inv env (r, s)" and c: "same_control s t"
  shows "stream_inv env (r, t)"
proof -
  have "st_status t = st_status s" "st_failures t = st_failures s" "st_closed t = st_closed s"
    "st_shutdown t = st_shutdown s" "st_source t = st_source s" "st_open t = st_open s"
    "st_reconnect t = st_reconnect s" "st_interval t = st_interval s" "st_exit t = st_exit s"
    using c by (simp_all add: same_control_def)
  note eqs = this
  show ?thesis using inv unfolding stream_inv_def quiet_def eqs prod.case .
qed

lemma dispatch_event_fields [simp]:
  "st_source (dispatch_event e s) = st_source s" "st_open (dispatch_event e s) = st_open s"
  "st_reconnect (dispatch_event e s) = st_reconnect s" "st_exit (dispatch_event e s) = st_exit s"
  "st_interval (dispatch_event e s) = st_interval s" "st_status (dispatch_event e s) = st_status s"
  "st_failures (dispatch_event e s) = st_failures s" "st_closed (dispatch_event e s) = st_closed s"
  "st_shutdown (dispatch_event e s) = st_shutdown s" "st_polls (dispatch_event e s) = st_polls s"
  by (simp_all add: dispatch_event_def)

lemma connect_eq:
  "\<not> st_closed s \<Longrightarrow> env_has_es env \<Longrightarrow> env_ctor_ok env \<Longrightarrow>
   connect env s = s\<lparr>st_status := (if st_failures s = 0 then Connecting else Reconnecting),
     st_source := Some (st_next s), st_open := st_next s # st_open s, st_next := Suc (st_next s),
     st_reconnect := None, st_interval := None, st_exit := None\<rparr>"
  by (cases s) (simp add: connect_def open_source_def set_status_def clear_reconnect_timer_def
      clear_fallback_timers_def Let_def)

lemma connect_ctor_fails:
  "\<not> st_closed s \<Longrightarrow> env_has_es env \<Longrightarrow> \<not> env_ctor_ok env \<Longrightarrow>
   connect env s = s\<lparr>st_status := (if st_failures s = 0 then Connecting else Reconnecting),
     st_reconnect := None, st_interval := None, st_exit := None\<rparr>"
  by (cases s) (simp add: connect_def open_source_def set_status_def clear_reconnect_timer_def
      clear_fallback_timers_def Let_def)

lemma connect_idle: "st_closed s \<or> \<not> env_has_es env \<Longrightarrow> connect env s = s"
  by (auto simp: connect_def)

lemma on_error_retry:
  "\<not> st_closed s \<Longrightarrow> \<not> st_shutdown s \<Longrightarrow> st_failures s < 2 \<Longrightarrow>
   on_error i s = s\<lparr>st_status := Reconnecting, st_failures := Suc (st_failures s), st_source := None,
     st_open := removeAll i (st_open s),
     st_reconnect := Some (reconnect_delay (Suc (st_failures s)))\<rparr>"
  by (cases s) (simp add: on_error_def close_source_def set_status_def clear_reconnect_timer_def
      Let_def es_constants)

lemma on_error_fallback:
  "\<not> st_closed s \<Longrightarrow> \<not> st_shutdown s \<Longrightarrow> 2 \<le> st_failures s \<Longrightarrow>
   on_error i s = s\<lparr>st_status := Fallback, st_failures := Suc (st_failures s), st_source := None,
     st_open := removeAll i (st_open s), st_reconnect := None,
     st_interval := Some fallback_poll_interval_ms, st_exit := Some fallback_window_ms,
     st_polls := st_polls s @ [st_last_id s]\<rparr>"
  by (cases s) (simp add: on_error_def poll_start_def close_source_def set_status_def
      clear_reconnect_timer_def clear_fallback_timers_def Let_def fallback_after_failures_def)

lemma on_error_ended:
  "st_closed s \<or> st_shutdown s \<Longrightarrow>
   on_error i s = s\<lparr>st_source := None, st_open := removeAll i (st_open s)\<rparr>"
  by (cases s) (auto simp add: on_error_def close_source_def Let_def)

lemma effect_enabled_eq:
  "effect_enabled env s =
     (if env_has_es env then connect env (s\<lparr>st_closed := False, st_shutdown := False, st_failures := 0\<rparr>)
      else s\<lparr>st_closed := False, st_shutdown := False, st_failures := 0, st_status := Fallback,
             st_polls := st_polls s @ [st_last_id s], st_interval := Some fallback_poll_interval_ms\<rparr>)"
  by (cases s) (simp add: effect_enabled_def poll_start_def set_status_def Let_def)

lemma stream_invD:
  assumes "stream_inv env (r, s)"
  shows inv_open: "st_open s = (case st_source s of None \<Rightarrow> [] | Some i \<Rightarrow> [i])"
    and inv_source: "st_source s \<noteq> None \<longrightarrow> st_reconnect s = None \<and> st_interval s = None \<and> st_exit s = None"
    and inv_backoff: "st_reconnect s \<noteq> None \<longrightarrow> st_interval s = None \<and> st_exit s = None
          \<and> st_status s = Reconnecting \<and> st_reconnect s \<in> {Some 1000, Some 2000}
          \<and> st_failures s < fallback_after_failures"
    and inv_failures: "st_failures s \<le> fallback_after_failures"
    and inv_limit: "st_failures s = fallback_after_failures \<longrightarrow> st_source s = None"
    and inv_stopped: "\<not> r \<longrightarrow> quiet s \<and> st_status s = Closed"
    and inv_running: "r \<longrightarrow> \<not> st_closed s"
    and inv_ended: "r \<and> st_shutdown s \<longrightarrow> quiet s \<and> st_status s = Shutdown"
    and inv_polling: "st_interval s \<noteq> None \<longrightarrow> st_status s = Fallback"
    and inv_live: "st_status s = Live \<longrightarrow> st_source s \<noteq> None"
    and inv_progress: "r \<and> \<not> st_shutdown s \<and> env_has_es env \<and> env_ctor_ok env \<longrightarrow>
          st_source s \<noteq> None \<or> st_reconnect s \<noteq> None \<or> (st_interval s \<noteq> None \<and> st_exit s \<noteq> None)"
    and inv_poll_only: "r \<and> \<not> env_has_es env \<longrightarrow>
          st_interval s \<noteq> None \<and> st_exit s = None \<and> st_source s = None"
  using assms unfolding stream_inv_def prod.case by - (elim conjE, assumption)+

lemma inv_mount: "stream_inv env (False, s) \<Longrightarrow> stream_inv env (True, effect_enabled env s)"
  by (cases "env_has_es env"; cases "env_ctor_ok env")
    (simp_all add: effect_enabled_eq connect_eq connect_ctor_fails stream_inv_def quiet_def
      es_constants)

lemma inv_disable: "stream_inv env (False, s) \<Longrightarrow> stream_inv env (False, effect_disabled s)"
  by (auto simp: stream_inv_def stream_ops quiet_def es_constants)

lemma inv_cleanup: "stream_inv env (True, s) \<Longrightarrow> stream_inv env (False, cleanup s)"
  by (cases "st_source s") (simp_all add: stream_inv_def stream_ops quiet_def es_constants)

lemma inv_opened:
  "stream_inv env (r, s) \<Longrightarrow> i \<in> set (st_open s) \<Longrightarrow> stream_inv env (r, on_open s)"
  by (cases "st_source s"; cases r)
    (simp_all add: stream_inv_def stream_ops quiet_def es_constants)

lemma inv_shutdown:
  "stream_inv env (r, s) \<Longrightarrow> i \<in> set (st_open s) \<Longrightarrow> stream_inv env (r, on_shutdown i parsed s)"
  by (cases "st_source s"; cases r; cases "env_has_es env")
    (simp_all add: stream_inv_def stream_ops quiet_def es_constants)

lemma backoff_range: "n < 2 \<Longrightarrow> reconnect_delay (Suc n) \<in> {1000, 2000}"
  by (cases n) (auto simp: reconnect_delay_def es_constants)

lemma inv_error:
  assumes inv: "stream_inv env (r, s)" and i: "i \<in> set (st_open s)"
  shows "stream_inv env (r, on_error i s)"
proof -
  have o: "st_open s = [i]" "st_source s = Some i" using i inv_open[OF inv]
    by (auto split: option.splits)
  then have q: "\<not> quiet s" by (simp add: quiet_def)
  then have r: "r" using inv_stopped[OF inv] by blast
  then have r: "r" "\<not> st_closed s" "\<not> st_shutdown s"
    using q inv_running[OF inv] inv_ended[OF inv] by blast+
  have "st_failures s < 3" using inv_failures[OF inv] inv_limit[OF inv] o
    by (simp add: fallback_after_failures_def)
  then consider "st_failures s < 2" | "st_failures s = 2" by linarith
  then show ?thesis
  proof cases
    case 1
    then show ?thesis using inv r o backoff_range[OF 1]
      by (simp add: on_error_retry stream_inv_def quiet_def fallback_after_failures_def)
  next
    case 2
    then show ?thesis using inv r o
      by (simp add: on_error_fallback stream_inv_def quiet_def fallback_after_failures_def)
  qed
qed

lemma inv_connect:
  assumes "\<not> st_closed s" "\<not> st_shutdown s" "env_has_es env" "st_source s = None" "st_open s = []"
    "st_failures s < fallback_after_failures"
  shows "stream_inv env (True, connect env s)"
  using assms
  by (cases "env_ctor_ok env"; cases "st_failures s = 0")
    (simp_all add: connect_eq connect_ctor_fails stream_inv_def quiet_def)

lemma inv_timer:
  assumes "stream_inv env (r, s)" and "st_reconnect s \<noteq> None \<or> st_exit s \<noteq> None"
  shows "r" "\<not> st_closed s" "\<not> st_shutdown s" "st_source s = None" "st_open s = []"
    "env_has_es env"
proof -
  note inv = assms(1)
  have q: "\<not> quiet s" using assms(2) by (auto simp: quiet_def)
  then show r: "r" using inv_stopped[OF inv] by blast
  then show "\<not> st_closed s" using inv_running[OF inv] by blast
  show "\<not> st_shutdown s" using inv_ended[OF inv] r q by blast
  show src: "st_source s = None" using inv_source[OF inv] assms(2) by auto
  then show "st_open s = []" using inv_open[OF inv] by simp
  show "env_has_es env"
    using inv_poll_only[OF inv] inv_backoff[OF inv] r assms(2) by (cases "env_has_es env") auto
qed

lemma inv_reconnect:
  assumes inv: "stream_inv env (r, s)" and d: "st_reconnect s = Some d"
  shows "stream_inv env (r, on_reconnect_timer env s)"
proof -
  have "st_reconnect s \<noteq> None \<or> st_exit s \<noteq> None" using d by simp
  note t = inv_timer[OF inv this]
  have "st_failures s < fallback_after_failures" using assms by (simp add: stream_inv_def)
  with t show ?thesis by (simp add: on_reconnect_timer_def inv_connect)
qed

lemma inv_exit:
  assumes inv: "stream_inv env (r, s)" and d: "st_exit s = Some d"
  shows "stream_inv env (r, on_exit_timer env s)"
proof -
  have "st_reconnect s \<noteq> None \<or> st_exit s \<noteq> None" using d by simp
  note t = inv_timer[OF inv this]
  then show ?thesis
    by (simp add: on_exit_timer_def inv_connect clear_fallback_timers_def fallback_after_failures_def)
qed

lemma inv_step: "stream_step env c c' \<Longrightarrow> stream_inv env c \<Longrightarrow> stream_inv env c'"
  by (induction rule: stream_step.induct)
    (blast intro: inv_mount inv_disable inv_cleanup inv_opened inv_shutdown inv_error inv_reconnect
      inv_exit inv_same_control on_message_control poll_start_control poll_done_control)+

lemma inv_init: "stream_inv env (False, stream_init)"
  by (simp add: stream_inv_def stream_init_def quiet_def es_constants)

lemma stream_reach_inv: "stream_reach env c \<Longrightarrow> stream_inv env c"
  by (induction rule: stream_reach.induct) (use inv_init inv_step in \<open>blast\<close>)+

subsection \<open>What the hook promises\<close>

text \<open>
  C1 In every reachable state the hook holds at most one open event stream, it is the one its ref
  names, and it excludes the other ways to get events: while a stream is open no timer runs, while
  a reconnect is scheduled no fallback timer runs. Back-off delays are one or two seconds, never
  the 30 second cap; once the effect is cleaned up or disabled, and once the daemon announced its
  shutdown, no stream and no timer is left.
\<close>

theorem stream_exclusive:
  assumes "stream_reach env (r, s)"
  shows "st_open s = (case st_source s of None \<Rightarrow> [] | Some i \<Rightarrow> [i])
    \<and> (st_open s \<noteq> [] \<longrightarrow> st_reconnect s = None \<and> st_interval s = None \<and> st_exit s = None)
    \<and> (st_reconnect s \<noteq> None \<longrightarrow> st_interval s = None \<and> st_exit s = None
         \<and> st_reconnect s \<in> {Some 1000, Some 2000})
    \<and> (\<not> r \<or> st_shutdown s \<longrightarrow> quiet s)"
proof -
  note inv = stream_reach_inv[OF assms]
  have "st_open s \<noteq> [] \<longrightarrow> st_source s \<noteq> None" using inv_open[OF inv] by (cases "st_source s") auto
  then show ?thesis
    using inv_open[OF inv] inv_source[OF inv] inv_backoff[OF inv] inv_stopped[OF inv] inv_ended[OF inv]
    by blast
qed

definition browser_ok :: es_env where
  "browser_ok = \<lparr>env_has_es = True, env_ctor_ok = True\<rparr>"

definition mounted :: stream where
  "mounted = effect_enabled browser_ok stream_init"

lemma mounted_eq:
  "mounted = \<lparr>st_status = Connecting, st_last_event_id = None, st_last_event = None, st_last_id = None,
      st_failures = 0, st_closed = False, st_shutdown = False, st_source = Some 0, st_open = [0],
      st_next = 1, st_reconnect = None, st_interval = None, st_exit = None, st_polls = [],
      st_delivered = []\<rparr>"
  by (simp add: mounted_def effect_enabled_eq connect_eq browser_ok_def stream_init_def)

lemma reach_mounted: "stream_reach browser_ok (True, mounted)"
  unfolding mounted_def by (rule reach_step[OF reach_init step_mount])

lemma reach_first_error: "stream_reach browser_ok (True, on_error 0 mounted)"
  by (rule reach_step[OF reach_mounted step_error]) (simp add: mounted_eq)

theorem stream_exclusive_witness:
  "st_reconnect (on_error 0 mounted) = Some 1000
   \<and> st_open (on_error 0 mounted) = []
   \<and> st_exit (on_error 0 mounted) = None"
proof -
  have r: "st_reconnect (on_error 0 mounted) = Some 1000"
    "st_open (on_error 0 mounted) = []"
    by (simp_all add: mounted_eq on_error_retry reconnect_delay_def es_constants)
  then show ?thesis using stream_exclusive[OF reach_first_error] by simp
qed

text \<open>
  C2 The hook never gets stuck: in a browser that can open event streams, while the effect is
  mounted and the daemon has not announced a shutdown, every reachable state has an open stream,
  or an armed reconnect, or runs the fallback polls with the timer that leaves them.
\<close>

theorem stream_never_stuck:
  assumes "stream_reach env (True, s)" "env_has_es env" "env_ctor_ok env" "\<not> st_shutdown s"
  shows "(\<exists>i. st_source s = Some i \<and> st_open s = [i])
    \<or> (\<exists>d. st_reconnect s = Some d \<and> st_open (on_reconnect_timer env s) \<noteq> [])
    \<or> (\<exists>d e. st_interval s = Some d \<and> st_exit s = Some e \<and> st_open (on_exit_timer env s) \<noteq> [])"
proof -
  note inv = stream_reach_inv[OF assms(1)]
  have c: "\<not> st_closed s" using inv_running[OF inv] by simp
  consider i where "st_source s = Some i" | "st_reconnect s \<noteq> None"
    | "st_interval s \<noteq> None" "st_exit s \<noteq> None"
    using inv_progress[OF inv] assms by blast
  then show ?thesis
  proof cases
    case (1 i)
    then show ?thesis using inv_open[OF inv] by simp
  next
    case 2
    have "st_open (on_reconnect_timer env s) \<noteq> []"
      using c assms by (simp add: on_reconnect_timer_def connect_eq)
    with 2 show ?thesis by blast
  next
    case 3
    have "st_open (on_exit_timer env s) \<noteq> []"
      using c assms by (simp add: on_exit_timer_def connect_eq clear_fallback_timers_def)
    with 3 show ?thesis by blast
  qed
qed

theorem stream_never_stuck_witness:
  "(let s = on_error 0 mounted
    in st_source s = None \<and> (\<exists>d. st_reconnect s = Some d \<and> st_open (on_reconnect_timer browser_ok s) \<noteq> []))"
proof -
  let ?s = "on_error 0 mounted"
  have f: "st_source ?s = None" "st_exit ?s = None" "\<not> st_shutdown ?s"
    by (simp_all add: mounted_eq on_error_retry reconnect_delay_def es_constants)
  have e: "env_has_es browser_ok" "env_ctor_ok browser_ok" by (simp_all add: browser_ok_def)
  show ?thesis using stream_never_stuck[OF reach_first_error e f(3)] f by (simp add: Let_def)
qed

text \<open>
  The back-off schedule. A live stream that breaks is reopened after one second and, when that
  attempt fails, after two; the third failure in a row starts the fallback: one poll at once, one
  every ten seconds, for thirty seconds, after which the stream is tried again with a fresh count.
  A stream that opens resets the count.
\<close>

theorem stream_backoff:
  assumes "env_has_es env" "env_ctor_ok env" "\<not> st_closed s" "\<not> st_shutdown s" "st_failures s = 0"
    and "st_open s = [i]" "st_interval s = None" "st_exit s = None"
  defines "s1 \<equiv> on_error i s"
  defines "s2 \<equiv> on_reconnect_timer env s1"
  defines "s3 \<equiv> on_error (st_next s) s2"
  defines "s4 \<equiv> on_reconnect_timer env s3"
  defines "s5 \<equiv> on_error (Suc (st_next s)) s4"
  defines "s6 \<equiv> on_exit_timer env s5"
  shows "st_reconnect s1 = Some 1000 \<and> st_status s1 = Reconnecting \<and> st_open s1 = []
    \<and> st_open s2 = [st_next s] \<and> st_status s2 = Reconnecting
    \<and> st_reconnect s3 = Some 2000 \<and> st_open s3 = []
    \<and> st_open s4 = [Suc (st_next s)]
    \<and> st_open s5 = [] \<and> st_status s5 = Fallback \<and> st_reconnect s5 = None
    \<and> st_interval s5 = Some 10000 \<and> st_exit s5 = Some 30000 \<and> st_polls s5 = st_polls s @ [st_last_id s]
    \<and> st_open s6 = [Suc (Suc (st_next s))] \<and> st_failures s6 = 0 \<and> st_status s6 = Connecting
    \<and> st_failures (on_open s4) = 0 \<and> st_status (on_open s4) = Live"
proof -
  note a = assms(1-8)
  have s1: "s1 = s\<lparr>st_status := Reconnecting, st_failures := 1, st_source := None, st_open := [],
      st_reconnect := Some 1000\<rparr>"
    using a unfolding s1_def by (simp add: on_error_retry reconnect_delay_def es_constants)
  have s2: "s2 = s\<lparr>st_status := Reconnecting, st_failures := 1, st_source := Some (st_next s),
      st_open := [st_next s], st_next := Suc (st_next s), st_reconnect := None\<rparr>"
    using a unfolding s2_def s1 by (cases s) (simp add: on_reconnect_timer_def connect_eq)
  have s3: "s3 = s\<lparr>st_status := Reconnecting, st_failures := 2, st_source := None,
      st_open := [], st_next := Suc (st_next s), st_reconnect := Some 2000\<rparr>"
    using a unfolding s3_def s2
    by (cases s) (simp add: on_error_retry reconnect_delay_def es_constants)
  have s4: "s4 = s\<lparr>st_status := Reconnecting, st_failures := 2, st_source := Some (Suc (st_next s)),
      st_open := [Suc (st_next s)], st_next := Suc (Suc (st_next s)), st_reconnect := None\<rparr>"
    using a unfolding s4_def s3 by (cases s) (simp add: on_reconnect_timer_def connect_eq)
  have s5: "s5 = s\<lparr>st_status := Fallback, st_failures := 3, st_source := None,
      st_open := [], st_next := Suc (Suc (st_next s)), st_reconnect := None,
      st_interval := Some 10000, st_exit := Some 30000, st_polls := st_polls s @ [st_last_id s]\<rparr>"
    using a unfolding s5_def s4 by (cases s) (simp add: on_error_fallback es_constants)
  have s6: "st_open s6 = [Suc (Suc (st_next s))] \<and> st_failures s6 = 0 \<and> st_status s6 = Connecting"
    using a unfolding s6_def s5 by (simp add: on_exit_timer_def connect_eq clear_fallback_timers_def)
  show ?thesis using s6 by (simp add: s1 s2 s3 s4 s5 on_open_def set_status_def)
qed

theorem stream_backoff_witness:
  "(let s = on_open mounted;
        s1 = on_error 0 s; s2 = on_reconnect_timer browser_ok s1; s3 = on_error 1 s2
    in st_reconnect s1 = Some 1000 \<and> st_reconnect s3 = Some 2000)"
  using stream_backoff[of browser_ok "on_open mounted" 0]
  by (simp add: mounted_eq on_open_def set_status_def browser_ok_def stream_init_def Let_def)

text \<open>
  C21 A shutdown announced by the daemon is final: as long as the effect stays mounted, nothing
  that can still happen reopens the stream, arms a timer or changes the status, and the only thing
  that can still deliver an event is a poll that was in flight.
\<close>

theorem shutdown_final:
  assumes "stream_reach env (True, s)" "st_shutdown s" "stream_step env (True, s) (True, s')"
  shows "quiet s' \<and> st_shutdown s' \<and> st_status s' = Shutdown
    \<and> (st_polls s = [] \<longrightarrow> s' = s)"
proof -
  note inv = stream_reach_inv[OF assms(1)]
  have q: "quiet s" "st_status s = Shutdown" using inv_ended[OF inv] assms(2) by auto
  from assms(3) q obtain after answer where s': "after \<in> set (st_polls s)" "s' = poll_done after answer s"
    by (auto simp: quiet_def)
  then have "same_control s s'" using poll_done_control by blast
  then show ?thesis using q s' assms(2) by (auto simp: same_control_def quiet_def)
qed

definition polled_then_shutdown :: stream where
  "polled_then_shutdown =
     on_shutdown 3 None (on_exit_timer browser_ok (on_error 2 (on_reconnect_timer browser_ok
       (on_error 1 (on_reconnect_timer browser_ok (on_error 0 mounted))))))"

lemma polled_then_shutdown_reach: "stream_reach browser_ok (True, polled_then_shutdown)"
proof -
  note simps = mounted_eq on_error_retry on_error_fallback on_reconnect_timer_def
    on_exit_timer_def clear_fallback_timers_def connect_eq browser_ok_def stream_init_def
    reconnect_delay_def es_constants
  show ?thesis unfolding polled_then_shutdown_def
    apply (rule reach_step[OF _ step_shutdown])
     apply (rule reach_step[OF _ step_exit])
      apply (rule reach_step[OF _ step_error])
       apply (rule reach_step[OF _ step_reconnect])
        apply (rule reach_step[OF _ step_error])
         apply (rule reach_step[OF _ step_reconnect])
          apply (rule reach_first_error)
         apply (simp_all add: simps)
    done
qed

theorem shutdown_final_witness:
  "st_polls polled_then_shutdown = [None] \<and> quiet (poll_done None (Some [default_shutdown]) polled_then_shutdown)"
proof -
  have p: "st_polls polled_then_shutdown = [None]" "st_shutdown polled_then_shutdown"
    by (simp_all add: polled_then_shutdown_def mounted_eq on_error_retry on_error_fallback
        on_reconnect_timer_def on_exit_timer_def clear_fallback_timers_def connect_eq browser_ok_def
        stream_init_def reconnect_delay_def es_constants on_shutdown_def close_source_def set_status_def
        clear_reconnect_timer_def Let_def)
  have "stream_step browser_ok (True, polled_then_shutdown)
          (True, poll_done None (Some [default_shutdown]) polled_then_shutdown)"
    by (rule step_polled) (simp add: p)
  from shutdown_final[OF polled_then_shutdown_reach p(2) this] p show ?thesis by blast
qed

subsection \<open>Cursor, addresses and the fallback poll\<close>

lemma usp_get_add_field:
  "usp_get k (add_filter_field flt f ps) =
     (if k = f \<and> \<not> nullish (jget flt f) \<and> jget flt f \<noteq> Str [] then Some (to_str (jget flt f))
      else usp_get k ps)"
  by (simp add: add_filter_field_def Let_def)

lemma usp_get_fold_fields:
  "usp_get k (fold (add_filter_field flt) fs ps) =
     (if k \<in> set fs \<and> \<not> nullish (jget flt k) \<and> jget flt k \<noteq> Str []
      then Some (to_str (jget flt k)) else usp_get k ps)"
  by (induction fs arbitrary: ps) (auto simp: usp_get_add_field)

text \<open>The query part of an address the hook opens.\<close>

definition url_query :: "string \<Rightarrow> params" where
  "url_query url = usp_of_search (dropWhile (\<lambda>c. c \<noteq> CHR ''?'') url)"

lemma url_query_with_query:
  "\<forall>c\<in>set path. c \<noteq> CHR ''?'' \<Longrightarrow> url_query (path @ with_query ps) = ps"
proof -
  assume p: "\<forall>c\<in>set path. c \<noteq> CHR ''?''"
  show ?thesis
  proof (cases "usp_to_string ps = []")
    case True
    then have "ps = []" using usp_parse_to_string[of ps] by (simp add: usp_parse_def)
    moreover have "dropWhile (\<lambda>c. c \<noteq> CHR ''?'') path = []" using p by (induction path) auto
    ultimately show ?thesis by (simp del: dropWhile_eq_Nil_conv add: url_query_def with_query_def
          usp_to_string_def usp_of_search_def usp_parse_def)
  next
    case False
    have "dropWhile (\<lambda>c. c \<noteq> CHR ''?'') (path @ CHR ''?'' # qs) = CHR ''?'' # qs" for qs
      using p by (induction path) auto
    with False show ?thesis
      by (simp add: url_query_def with_query_def usp_of_search_def usp_parse_to_string Let_def)
  qed
qed

lemma stream_url_query: "url_query (build_stream_url since api_key flt) = stream_params since api_key flt"
  unfolding build_stream_url_def by (rule url_query_with_query) simp

lemma usp_get_Nil [simp]: "usp_get k [] = None"
  by (simp add: usp_get_def)

lemma stream_params_get:
  "usp_get ''since'' (stream_params since key flt) = (if since = [] then None else Some since)"
  "usp_get ''api_key'' (stream_params since key flt) = (if key = [] then None else Some key)"
  "k \<in> set stream_fields \<Longrightarrow> usp_get k (stream_params since key flt) =
     (if truthy flt \<and> \<not> nullish (jget flt k) \<and> jget flt k \<noteq> Str []
      then Some (to_str (jget flt k)) else None)"
proof -
  have n: "''since'' \<notin> set stream_fields" "''api_key'' \<notin> set stream_fields"
    by (simp_all add: stream_fields_def)
  then show "usp_get ''since'' (stream_params since key flt) = (if since = [] then None else Some since)"
    "usp_get ''api_key'' (stream_params since key flt) = (if key = [] then None else Some key)"
    by (simp_all add: stream_params_def usp_get_fold_fields Let_def)
  assume k: "k \<in> set stream_fields"
  then have "k \<noteq> ''since''" "k \<noteq> ''api_key''" using n by blast+
  with k show "usp_get k (stream_params since key flt) =
     (if truthy flt \<and> \<not> nullish (jget flt k) \<and> jget flt k \<noteq> Str []
      then Some (to_str (jget flt k)) else None)"
    by (simp add: stream_params_def usp_get_fold_fields Let_def)
qed

text \<open>
  Resuming: when a frame with an event id has been delivered, the address of the next
  connection, read back as a query string, asks the daemon for what follows that id, with the
  operator's key and every filter field that is set; and a field that is not set is not sent.
\<close>

theorem stream_resumes:
  assumes "truthy evt" "\<not> nullish (jget evt ''id'')" "to_str (jget evt ''id'') \<noteq> []"
    and "\<not> st_closed s" "env_has_es env" "env_ctor_ok env"
    and q_def: "q = url_query (connect_url token flt (on_error i (on_message (Some evt) mid s)))"
  shows "usp_get ''since'' q = Some (to_str (jget evt ''id''))
    \<and> usp_get ''api_key'' q = (if token = [] then None else Some token)
    \<and> (\<forall>k\<in>set stream_fields. usp_get k q =
         (if truthy flt \<and> \<not> nullish (jget flt k) \<and> jget flt k \<noteq> Str []
          then Some (to_str (jget flt k)) else None))"
proof -
  let ?m = "on_message (Some evt) mid s"
  have "st_last_id ?m = Some (to_str (jget evt ''id''))"
    using assms(1,2) by (simp add: on_message_def dispatch_event_def Let_def)
  then have "st_last_id (on_error i ?m) = Some (to_str (jget evt ''id''))"
    by (simp add: on_error_def stream_ops)
  then have q: "q = stream_params (to_str (jget evt ''id'')) token flt"
    by (simp add: q_def connect_url_def stream_url_query)
  show ?thesis unfolding q using assms(3) by (simp add: stream_params_get)
qed

theorem stream_resumes_witness:
  "usp_get ''since'' (url_query (connect_url ''k&=1'' (Obj [(''vm_id'', Str ''vm-1'')])
      (on_error 0 (on_message (Some (Obj [(''id'', Str ''42'')])) [] mounted)))) = Some ''42''
   \<and> usp_get ''vm_id'' (url_query (connect_url ''k&=1'' (Obj [(''vm_id'', Str ''vm-1'')])
      (on_error 0 (on_message (Some (Obj [(''id'', Str ''42'')])) [] mounted)))) = Some ''vm-1''"
  using stream_resumes[of "Obj [(''id'', Str ''42'')]" mounted browser_ok _ "''k&=1''"
      "Obj [(''vm_id'', Str ''vm-1'')]" 0 "[]"]
  by (simp add: mounted_eq browser_ok_def nullish_def stream_fields_def)

lemma dispatch_new_eq:
  assumes "\<forall>e. poll_takes after e \<longrightarrow> truthy e"
  shows "st_delivered (dispatch_new after es s) = st_delivered s @ filter (poll_takes after) es"
  using assms by (induction es arbitrary: s) (auto simp: dispatch_event_def Let_def)

lemma parse_int_zero: "parse_int ''0'' = Some 0"
  using parse_int_nat_str[of 0] by (simp add: nat_str.simps digit_char_def)

text \<open>What is no object, or has no id, counts as event 0.\<close>

lemma falsy_seq: "\<not> truthy e \<Longrightarrow> event_seq e = Some 0"
  by (cases e) (auto simp: event_seq_def js_coalesce_def nullish_def parse_int_zero split: if_splits)

text \<open>
  C22 A fallback page delivers what is new. The answer to a poll that was started with a cursor (the id
  of the last event seen, 0 before the first) delivers exactly the entries of the page whose id is above
  that cursor, oldest first (the daemon lists the newest first), so that no event seen before is
  delivered again; and nothing else of the hook's control state changes.
\<close>

theorem poll_delivers_newer:
  assumes "case after of None \<Rightarrow> c = 0 | Some a \<Rightarrow> parse_int a = Some c" "0 \<le> c"
  shows "st_delivered (poll_done after (Some page) s) =
      st_delivered s @ filter (\<lambda>e. \<exists>q. event_seq e = Some q \<and> c < q) (rev page)
    \<and> same_control s (poll_done after (Some page) s)"
proof -
  have "poll_cursor after = Some c"
    using assms(1) by (simp add: poll_cursor_def parse_int_zero split: option.splits)
  then have "poll_takes after = (\<lambda>e. \<exists>q. event_seq e = Some q \<and> c < q)"
    by (rule_tac ext) (auto simp: poll_takes_def split: option.splits)
  moreover have "truthy e" if "\<exists>q. event_seq e = Some q \<and> c < q" for e
    using that falsy_seq[of e] assms(2) by (cases "truthy e") auto
  ultimately have "st_delivered (poll_done after (Some page) s)
      = st_delivered s @ filter (\<lambda>e. \<exists>q. event_seq e = Some q \<and> c < q) (rev page)"
    using dispatch_new_eq[of after] by (simp add: poll_done_def)
  then show ?thesis using poll_done_control by simp
qed

definition ev :: "string \<Rightarrow> js" where
  "ev i = Obj [(''id'', Str i)]"

theorem poll_delivers_newer_witness:
  "length (st_delivered (poll_done None (Some [ev ''8'', ev ''7'']) mounted)) = 2
   \<and> st_delivered (poll_done (Some ''7'') (Some [ev ''8'', ev ''7'']) mounted) = [ev ''8'']"
proof -
  have e: "event_seq (ev ''8'') = Some 8" "event_seq (ev ''7'') = Some 7"
    by (simp_all add: event_seq_def ev_def js_coalesce_def nullish_def parse_int_def trim_start_def
        is_ws_def digit_of_def)
  have p: "parse_int ''7'' = Some 7" by (simp add: parse_int_def trim_start_def is_ws_def digit_of_def)
  show ?thesis using e p
      poll_delivers_newer[where after = None and c = 0 and page = "[ev ''8'', ev ''7'']" and s = mounted]
      poll_delivers_newer[where after = "Some ''7''" and c = 7 and page = "[ev ''8'', ev ''7'']" and s = mounted]
    by (simp add: mounted_eq)
qed

text \<open>
  Once an event has been seen, the fallback poll makes no progress. The poll sends the cursor
  plus one as \<open>until\<close>; the daemon's \<open>until\<close> is an exclusive upper bound on ids
  (\<open>internal/api/handlers_events.go\<close>), and the loop keeps only ids above the cursor: no answer the
  daemon can give delivers anything.
\<close>

theorem fallback_poll_stalls:
  assumes "after = Some a" "parse_int a = Some c"
    and daemon: "\<forall>e\<in>set page. \<forall>u n. usp_get ''until'' (poll_params after) = Some u \<and> parse_int u = Some n
                   \<longrightarrow> (\<forall>q. event_seq e = Some q \<longrightarrow> q < n)"
  shows "st_delivered (poll_done after (Some page) s) = st_delivered s
    \<and> st_last_id (poll_done after (Some page) s) = st_last_id s"
proof -
  have a: "a \<noteq> []" using assms(2) by auto
  have "usp_get ''until'' (poll_params after) = Some (int_str (c + 1))"
    using assms(1,2) a by (simp add: poll_params_def)
  then have no: "\<forall>e\<in>set (rev page). \<not> poll_takes after e"
    using daemon assms(1,2) by (fastforce simp: poll_takes_def poll_cursor_def split: option.splits)
  have "dispatch_new after es t = t" if "\<forall>e\<in>set es. \<not> poll_takes after e" for es t
    using that by (induction es) auto
  with no show ?thesis by (simp add: poll_done_def)
qed

theorem fallback_poll_stalls_witness:
  "usp_get ''until'' (poll_params (Some ''42'')) = Some ''43''
   \<and> st_delivered (poll_done (Some ''42'') (Some [ev ''42'', ev ''41'']) mounted) = []"
proof -
  have p: "parse_int ''42'' = Some 42" "parse_int ''43'' = Some 43"
    "event_seq (ev ''42'') = Some 42" "event_seq (ev ''41'') = Some 41"
    by (simp_all add: event_seq_def ev_def js_coalesce_def nullish_def parse_int_def trim_start_def
        is_ws_def digit_of_def)
  have u: "usp_get ''until'' (poll_params (Some ''42'')) = Some ''43''"
    using p by (simp add: poll_params_def int_str_def nat_str.simps digit_char_def)
  show ?thesis
    using fallback_poll_stalls[of "Some ''42''" "''42''" 42 "[ev ''42'', ev ''41'']" mounted] p u
    by (simp add: mounted_eq)
qed

end
