(* ===== verification/Auth.thy ===== *)
theory Auth imports JsValue begin

text \<open>
  \<open>web/src/auth.js\<close> (the module-level credential: the key kept in \<open>localStorage\<close>, whether the
  operator must sign in, the message shown, and the listeners that are told about every change) and
  the form of \<open>web/src/components/AuthGate.jsx\<close> that asks for a key.
\<close>

subsection \<open>auth.js\<close>

record auth =
  au_token :: string
  au_required :: bool
  au_error :: string
  au_storage :: "string option"
  au_listeners :: "nat list"
  au_notified :: "(nat \<times> string \<times> bool) list"

text \<open>
  \<open>au_notified\<close> is the log of listener calls: each listener with the token and the flag it sees
  through \<open>getAuthState\<close>. \<open>has_window\<close> is \<open>typeof window !== 'undefined'\<close>.
\<close>

definition auth_init :: "string option \<Rightarrow> auth" where
  "auth_init stored =
     \<lparr>au_token = (case stored of None \<Rightarrow> [] | Some t \<Rightarrow> t), au_required = False, au_error = [],
      au_storage = stored, au_listeners = [], au_notified = []\<rparr>"

definition emit :: "auth \<Rightarrow> auth" where
  "emit a = a\<lparr>au_notified := au_notified a @ map (\<lambda>l. (l, au_token a, au_required a)) (au_listeners a)\<rparr>"

definition subscribe_auth :: "nat \<Rightarrow> auth \<Rightarrow> auth" where
  "subscribe_auth l a =
     a\<lparr>au_listeners := (if l \<in> set (au_listeners a) then au_listeners a else au_listeners a @ [l])\<rparr>"

definition unsubscribe_auth :: "nat \<Rightarrow> auth \<Rightarrow> auth" where
  "unsubscribe_auth l a = a\<lparr>au_listeners := removeAll l (au_listeners a)\<rparr>"

definition set_auth_token :: "string \<Rightarrow> auth \<Rightarrow> auth" where
  "set_auth_token token a =
     (let trimmed = js_trim token;
          a1 = a\<lparr>au_token := trimmed, au_required := False, au_error := []\<rparr>
      in emit (a1\<lparr>au_storage := (if trimmed \<noteq> [] then Some trimmed else None)\<rparr>))"

definition clear_auth_token :: "auth \<Rightarrow> auth" where
  "clear_auth_token a = emit (a\<lparr>au_token := [], au_required := True, au_storage := None\<rparr>)"

definition require_auth :: "string \<Rightarrow> auth \<Rightarrow> auth" where
  "require_auth message a = emit (a\<lparr>au_required := True, au_error := message\<rparr>)"

definition clear_auth_requirement :: "auth \<Rightarrow> auth" where
  "clear_auth_requirement a = emit (a\<lparr>au_required := False, au_error := []\<rparr>)"

text \<open>
  The stored key and the key in memory agree, and the stored key is trimmed and not empty: what
  every operation keeps, so that a reload signs in with the same key.
\<close>

definition auth_ok :: "auth \<Rightarrow> bool" where
  "auth_ok a \<longleftrightarrow> au_storage a = (if au_token a = [] then None else Some (au_token a))
     \<and> js_trim (au_token a) = au_token a \<and> distinct (au_listeners a)"

lemma emit_simps [simp]:
  "au_token (emit a) = au_token a" "au_required (emit a) = au_required a"
  "au_error (emit a) = au_error a" "au_storage (emit a) = au_storage a"
  "au_listeners (emit a) = au_listeners a"
  by (simp_all add: emit_def)

lemma auth_ok_ops:
  assumes "auth_ok a"
  shows "auth_ok (set_auth_token t a)" "auth_ok (clear_auth_token a)" "auth_ok (require_auth m a)"
    "auth_ok (clear_auth_requirement a)" "auth_ok (subscribe_auth l a)" "auth_ok (unsubscribe_auth l a)"
  using assms by (simp_all add: auth_ok_def set_auth_token_def clear_auth_token_def require_auth_def
      clear_auth_requirement_def subscribe_auth_def unsubscribe_auth_def Let_def distinct_removeAll)

subsection \<open>AuthGate.jsx\<close>

record gate =
  gt_draft :: string
  gt_submitting :: bool
  gt_error :: string

definition gate_message :: "auth \<Rightarrow> gate \<Rightarrow> string" where
  "gate_message a g =
     (if au_error a \<noteq> [] then au_error a else if gt_error g \<noteq> [] then gt_error g
      else ''Enter an API key to access the VM Smith dashboard.'')"

text \<open>The effect on \<open>authState.token\<close>: when the key changes, the draft follows it.\<close>

definition gate_follow :: "auth \<Rightarrow> auth \<Rightarrow> gate \<Rightarrow> gate" where
  "gate_follow old new g = (if au_token new \<noteq> au_token old then g\<lparr>gt_draft := au_token new\<rparr> else g)"

text \<open>
  Submitting the form up to its request: \<open>False\<close> when nothing is sent. The request itself and what
  it does to the credential is \<open>vms.list()\<close> of the API client (\<open>sign_in_answer\<close> in \<open>ApiClient\<close>);
  \<open>submit_done\<close> is what follows it, with \<open>None\<close> for success and the error's message otherwise.
\<close>

definition submit_start :: "auth \<times> gate \<Rightarrow> bool \<times> auth \<times> gate" where
  "submit_start w = (case w of (a, g) \<Rightarrow>
     (let token = js_trim (gt_draft g) in
      if token = [] then (False, a, g\<lparr>gt_error := ''API key is required''\<rparr>)
      else (let a1 = set_auth_token token a
            in (True, a1, gate_follow a a1 (g\<lparr>gt_submitting := True, gt_error := []\<rparr>)))))"

definition submit_done :: "string option \<Rightarrow> auth \<times> gate \<Rightarrow> auth \<times> gate" where
  "submit_done failure w = (case w of (a, g) \<Rightarrow>
     (case failure of
        None \<Rightarrow> (clear_auth_requirement a, g\<lparr>gt_submitting := False\<rparr>)
      | Some m \<Rightarrow> (a, g\<lparr>gt_error := (if m \<noteq> [] then m else ''Authentication failed''),
                        gt_submitting := False\<rparr>)))"

end
