(* ===== verification/ApiClient.thy ===== *)
theory ApiClient imports Auth begin

text \<open>
  \<open>web/src/api/client.ts\<close>: what the client makes of an answer (\<open>unwrap\<close>, the upload's handlers)
  and which request each operation sends. The HTTP library \<open>openapi-fetch\<close> is not part of the
  repository: a request is what the client hands to it (method, path template, path parameters,
  query object, body), an answer is what it hands back (data, error, status, total header).
\<close>

subsection \<open>Answers\<close>

record response =
  rs_data :: js
  rs_error :: js
  rs_status :: nat
  rs_total :: "string option"

definition get_error_message :: "js \<Rightarrow> string \<Rightarrow> string" where
  "get_error_message err fallback =
     (if truthy err \<and> is_object err then
        (if is_string (jget err ''message'') \<and> the_str (jget err ''message'') \<noteq> []
         then the_str (jget err ''message'')
         else if is_string (jget err ''error'') \<and> the_str (jget err ''error'') \<noteq> []
         then the_str (jget err ''error'')
         else fallback)
      else fallback)"

text \<open>A refused request: the stored key is dropped and the sign-in form is asked for.\<close>

definition refuse :: "js \<Rightarrow> auth \<Rightarrow> string \<times> auth" where
  "refuse err a =
     (let token = au_token a;
          message = get_error_message err (if token \<noteq> [] then ''Invalid API key'' else ''API key required'');
          a1 = (if token \<noteq> [] then clear_auth_token a else a)
      in (message, require_auth message a1))"

definition request_failed :: "nat \<Rightarrow> string" where
  "request_failed status = ''Request failed: '' @ nat_str status"

definition total_count :: "string option \<Rightarrow> int" where
  "total_count h = (case parse_int (case h of None \<Rightarrow> [] | Some t \<Rightarrow> t) of None \<Rightarrow> 0 | Some n \<Rightarrow> n)"

definition unwrap :: "bool \<Rightarrow> response \<Rightarrow> auth \<Rightarrow> (string + js) \<times> auth" where
  "unwrap with_meta r a =
     (if rs_status r = 401 then (let (m, a') = refuse (rs_error r) a in (Inl m, a'))
      else if truthy (rs_error r) then
        (Inl (get_error_message (rs_error r) (request_failed (rs_status r))), a)
      else if with_meta then
        (Inr (Obj [(''data'', rs_data r),
                   (''meta'', Obj [(''totalCount'', JInt (total_count (rs_total r)))])]), a)
      else (Inr (js_coalesce (rs_data r) Null), a))"

text \<open>\<open>json\<close> is \<open>JSON.parse\<close>, \<open>None\<close> when it throws.\<close>

definition parse_json_safe :: "(string \<Rightarrow> js option) \<Rightarrow> string \<Rightarrow> js" where
  "parse_json_safe json text =
     (if text = [] then Null else (case json text of None \<Rightarrow> Null | Some v \<Rightarrow> v))"

subsection \<open>The upload\<close>

definition upload_form :: "string \<Rightarrow> js \<Rightarrow> (string \<times> string) list" where
  "upload_form name opts =
     [(''file'', ''<file>'')]
     @ (if name \<noteq> [] then [(''name'', name)] else [])
     @ (if truthy (jget opts ''description'') then [(''description'', to_str (jget opts ''description''))] else [])
     @ (if truthy (jget opts ''tags'') \<and> elems (jget opts ''tags'') \<noteq> []
        then [(''tags'', to_str (jget opts ''tags''))] else [])"

text \<open>\<open>Math.min(100, Math.round((loaded / total) * 100))\<close>; \<open>None\<close> is \<open>NaN\<close>.\<close>

definition upload_percent :: "nat \<Rightarrow> nat \<Rightarrow> int option" where
  "upload_percent loaded all_bytes =
     (if all_bytes = 0 then (if loaded = 0 then None else Some 100)
      else Some (min 100 (math_round (of_nat loaded / of_nat all_bytes * 100))))"

text \<open>\<open>xhr.onload\<close>; \<open>token\<close> is the key that was in force when the upload started.\<close>

definition upload_loaded :: "(string \<Rightarrow> js option) \<Rightarrow> string \<Rightarrow> nat \<Rightarrow> string \<Rightarrow> auth \<Rightarrow> (string + js) \<times> auth" where
  "upload_loaded json token status text a =
     (let data = parse_json_safe json text in
      if status = 401 then
        (let message = get_error_message data (if token \<noteq> [] then ''Invalid API key'' else ''API key required'');
             a1 = (if token \<noteq> [] then clear_auth_token a else a)
         in (Inl message, require_auth message a1))
      else if status < 200 \<or> 300 \<le> status
      then (Inl (get_error_message data (request_failed status)), a)
      else (Inr data, a))"

subsection \<open>Requests\<close>

record request =
  rq_method :: string
  rq_path :: string
  rq_params :: "(string \<times> string) list"
  rq_query :: js
  rq_body :: js

definition req :: "string \<Rightarrow> string \<Rightarrow> (string \<times> string) list \<Rightarrow> js \<Rightarrow> js \<Rightarrow> request" where
  "req m p ps q b = \<lparr>rq_method = m, rq_path = p, rq_params = ps, rq_query = q, rq_body = b\<rparr>"

text \<open>
  One line of a \<open>list\<close> operation: the query parameter, the argument it is taken from, the
  argument's default, and whether \<open>|| undefined\<close> drops it when it is empty.
\<close>

type_synonym query_table = "(string \<times> string \<times> js \<times> bool) list"

definition query_value :: "js \<Rightarrow> string \<Rightarrow> js \<Rightarrow> bool \<Rightarrow> js" where
  "query_value args arg d drops =
     (let v = (if jget args arg = Undef then d else jget args arg)
      in if drops then js_or v Undef else v)"

definition build_query :: "query_table \<Rightarrow> js \<Rightarrow> js" where
  "build_query t args = Obj (map (\<lambda>(q, arg, d, drops). (q, query_value args arg d drops)) t)"

abbreviation opt :: "string \<Rightarrow> string \<Rightarrow> string \<times> string \<times> js \<times> bool" where
  "opt q arg \<equiv> (q, arg, Str [], True)"

abbreviation plain :: "string \<Rightarrow> string \<Rightarrow> string \<times> string \<times> js \<times> bool" where
  "plain q arg \<equiv> (q, arg, Undef, False)"

definition vms_table :: query_table where
  "vms_table =
    [(''tag'', ''tag'', Str [], False), (''status'', ''status'', Str [], False),
     opt ''search'' ''search'', opt ''image'' ''image'', opt ''default_user'' ''defaultUser'',
     opt ''os_type'' ''osType'', opt ''os_variant'' ''osVariant'', opt ''firmware'' ''firmware'',
     opt ''disk_bus'' ''diskBus'', opt ''nic_model'' ''nicModel'', opt ''machine'' ''machine'',
     opt ''clock_offset'' ''clockOffset'', opt ''gpu'' ''gpu'', opt ''network'' ''network'',
     opt ''prefix'' ''prefix'', opt ''nat_static_ip'' ''natStaticIp'', opt ''nat_gateway'' ''natGateway'',
     opt ''ip'' ''ip'', opt ''auto_start'' ''autoStart'', opt ''locked'' ''locked'',
     opt ''since'' ''since'', opt ''until'' ''until'', opt ''min_cpus'' ''minCpus'',
     opt ''max_cpus'' ''maxCpus'', opt ''min_ram_mb'' ''minRamMb'', opt ''max_ram_mb'' ''maxRamMb'',
     opt ''min_disk_gb'' ''minDiskGb'', opt ''max_disk_gb'' ''maxDiskGb'',
     opt ''sort'' ''sort'', opt ''order'' ''order'', plain ''page'' ''page'', plain ''per_page'' ''perPage'']"

definition images_table :: query_table where
  "images_table =
    [plain ''page'' ''page'', plain ''per_page'' ''perPage'', opt ''tag'' ''tag'',
     opt ''source_vm'' ''sourceVM'', opt ''search'' ''search'', opt ''prefix'' ''prefix'',
     opt ''since'' ''since'', opt ''until'' ''until'', opt ''min_size'' ''minSize'',
     opt ''max_size'' ''maxSize'', plain ''sort'' ''sort'', plain ''order'' ''order'']"

definition templates_table :: query_table where
  "templates_table =
    [plain ''page'' ''page'', plain ''per_page'' ''perPage'', plain ''tag'' ''tag'',
     plain ''search'' ''search'', plain ''image'' ''image'',
     (''default_user'', ''defaultUser'', Undef, True), (''os_type'', ''osType'', Undef, True),
     (''os_variant'', ''osVariant'', Undef, True), (''network'', ''network'', Undef, True),
     (''prefix'', ''prefix'', Undef, True), (''since'', ''since'', Undef, True),
     (''until'', ''until'', Undef, True), (''min_cpus'', ''minCpus'', Undef, True),
     (''max_cpus'', ''maxCpus'', Undef, True), (''min_ram_mb'', ''minRamMb'', Undef, True),
     (''max_ram_mb'', ''maxRamMb'', Undef, True), (''min_disk_gb'', ''minDiskGb'', Undef, True),
     (''max_disk_gb'', ''maxDiskGb'', Undef, True), plain ''sort'' ''sort'', plain ''order'' ''order'']"

definition logs_table :: query_table where
  "logs_table =
    [(''level'', ''level'', Str ''debug'', False), plain ''page'' ''page'',
     plain ''per_page'' ''perPage'', plain ''limit'' ''limit'', opt ''since'' ''since'',
     opt ''until'' ''until'', (''source'', ''source'', Str [], False), opt ''vm_id'' ''vmId'',
     (''search'', ''search'', Str [], False), opt ''sort'' ''sort'', opt ''order'' ''order'']"

definition webhooks_table :: query_table where
  "webhooks_table =
    [opt ''search'' ''search'', opt ''tag'' ''tag'', opt ''event_type'' ''eventType'',
     opt ''delivery_status'' ''deliveryStatus'', opt ''active'' ''active'',
     opt ''url_prefix'' ''urlPrefix'', opt ''since'' ''since'', opt ''until'' ''until'',
     opt ''last_delivery_since'' ''lastDeliverySince'', opt ''last_delivery_until'' ''lastDeliveryUntil'',
     opt ''sort'' ''sort'', opt ''order'' ''order'', plain ''page'' ''page'', plain ''per_page'' ''perPage'']"

definition schedules_table :: query_table where
  "schedules_table =
    [opt ''vm_id'' ''vmId'', opt ''tag_selector'' ''tagSelector'', opt ''action'' ''action'',
     opt ''catch_up_policy'' ''catchUpPolicy'', opt ''timezone'' ''timezone'',
     opt ''enabled'' ''enabled'', opt ''search'' ''search'', opt ''since'' ''since'',
     opt ''until'' ''until'', opt ''next_fire_since'' ''nextFireSince'',
     opt ''next_fire_until'' ''nextFireUntil'', opt ''last_fired_since'' ''lastFiredSince'',
     opt ''last_fired_until'' ''lastFiredUntil'', opt ''prefix'' ''prefix'', opt ''sort'' ''sort'',
     opt ''order'' ''order'', plain ''page'' ''page'', plain ''per_page'' ''perPage'']"

definition events_table :: query_table where
  "events_table =
    [(''vm_id'', ''vmId'', Str [], False), (''type'', ''type'', Str [], False),
     opt ''source'' ''source'', opt ''severity'' ''severity'', opt ''min_severity'' ''minSeverity'',
     opt ''actor'' ''actor'', opt ''resource_id'' ''resourceId'', opt ''type_prefix'' ''typePrefix'',
     opt ''search'' ''search'', (''since'', ''since'', Str [], False),
     (''until'', ''until'', Str [], False), opt ''sort'' ''sort'', opt ''order'' ''order'',
     plain ''page'' ''page'', plain ''per_page'' ''perPage'']"

text \<open>\<open>min_duration_ms\<close> and \<open>max_duration_ms\<close> are dropped when null or undefined only.\<close>

definition runs_query :: "js \<Rightarrow> js" where
  "runs_query args =
     (let pre = [opt ''status'' ''status'', opt ''skip_reason'' ''skipReason'', opt ''vm_id'' ''vmId'',
                 opt ''since'' ''since'', opt ''until'' ''until'', opt ''finished_since'' ''finishedSince'',
                 opt ''finished_until'' ''finishedUntil''];
          post = [opt ''search'' ''search'', opt ''sort'' ''sort'', opt ''order'' ''order'',
                  plain ''page'' ''page'', plain ''per_page'' ''perPage''];
          dur = (\<lambda>k. if nullish (jget args k) then Undef else jget args k)
      in Obj (props (build_query pre args)
              @ [(''min_duration_ms'', dur ''minDurationMs''), (''max_duration_ms'', dur ''maxDurationMs'')]
              @ props (build_query post args)))"

text \<open>\<open>if (opts.x) query.y = opts.x\<close> and the optional members of the request bodies.\<close>

definition put_truthy :: "js \<Rightarrow> string \<times> string \<Rightarrow> js \<Rightarrow> js" where
  "put_truthy opts f b = (case f of (q, arg) \<Rightarrow>
     if truthy (jget opts arg) then jset q (jget opts arg) b else b)"

definition ports_query :: "js \<Rightarrow> js" where
  "ports_query opts =
     fold (put_truthy opts)
       [(''sort'', ''sort''), (''order'', ''order''), (''search'', ''search''), (''tag'', ''tag''),
        (''protocol'', ''protocol''), (''min_host_port'', ''minHostPort''),
        (''max_host_port'', ''maxHostPort''), (''min_guest_port'', ''minGuestPort''),
        (''max_guest_port'', ''maxGuestPort''), (''guest_ip'', ''guestIp''), (''page'', ''page''),
        (''per_page'', ''perPage'')] (Obj [])"

definition put_tags :: "js \<Rightarrow> js \<Rightarrow> js" where
  "put_tags tags b = (if truthy tags \<and> elems tags \<noteq> [] then jset ''tags'' tags b else b)"

definition snapshot_body :: "string \<Rightarrow> js \<Rightarrow> js \<Rightarrow> js" where
  "snapshot_body name description tags =
     put_tags tags (if truthy description then jset ''description'' description (Obj [(''name'', Str name)])
                    else Obj [(''name'', Str name)])"

definition port_body :: "js \<Rightarrow> js \<Rightarrow> js \<Rightarrow> js \<Rightarrow> js \<Rightarrow> js" where
  "port_body host_port guest_port protocol description tags =
     (let b = Obj [(''host_port'', host_port), (''guest_port'', guest_port),
                   (''protocol'', if protocol = Undef then Str ''tcp'' else protocol)]
      in put_tags tags (if truthy description then jset ''description'' description b else b))"

definition ports_bulk_body :: "js \<Rightarrow> js" where
  "ports_bulk_body args =
     (let b = (if truthy (jget args ''ids'') \<and> elems (jget args ''ids'') \<noteq> []
               then jset ''ids'' (jget args ''ids'') (Obj []) else Obj [])
      in if truthy (jget args ''protocol'') then jset ''protocol'' (jget args ''protocol'') b else b)"

text \<open>The operations of the client, by resource, and the request each sends.\<close>

datatype vm_op =
    VmList js | VmGet string | VmCreate js | VmUpdate string js | VmClone string string
  | VmMoveDisk string string | VmStart string | VmStop string | VmForceStop string
  | VmRestart string | VmReboot string | VmSuspend string | VmResume string
  | VmTicket string string | VmDelete string | VmStats string js | VmTop js

definition vm_action :: "string \<Rightarrow> string \<Rightarrow> request" where
  "vm_action verb i = req ''POST'' (''/vms/{vmID}/'' @ verb) [(''vmID'', i)] Undef Undef"

fun vm_request :: "vm_op \<Rightarrow> request" where
  "vm_request (VmList args) = req ''GET'' ''/vms'' [] (build_query vms_table args) Undef"
| "vm_request (VmGet i) = req ''GET'' ''/vms/{vmID}'' [(''vmID'', i)] Undef Undef"
| "vm_request (VmCreate spec) = req ''POST'' ''/vms'' [] Undef spec"
| "vm_request (VmUpdate i patch) = req ''PATCH'' ''/vms/{vmID}'' [(''vmID'', i)] Undef patch"
| "vm_request (VmClone i name) =
     req ''POST'' ''/vms/{vmID}/clone'' [(''vmID'', i)] Undef (Obj [(''name'', Str name)])"
| "vm_request (VmMoveDisk i location) =
     req ''POST'' ''/vms/{vmID}/disk/move'' [(''vmID'', i)] Undef (Obj [(''location'', Str location)])"
| "vm_request (VmStart i) = vm_action ''start'' i"
| "vm_request (VmStop i) = vm_action ''stop'' i"
| "vm_request (VmForceStop i) = vm_action ''force-stop'' i"
| "vm_request (VmRestart i) = vm_action ''restart'' i"
| "vm_request (VmReboot i) = vm_action ''reboot'' i"
| "vm_request (VmSuspend i) = vm_action ''suspend'' i"
| "vm_request (VmResume i) = vm_action ''resume'' i"
| "vm_request (VmTicket i intent) =
     req ''POST'' ''/vms/{vmID}/console/ticket'' [(''vmID'', i)]
       (if intent \<noteq> [] then Obj [(''intent'', Str intent)] else Undef) Undef"
| "vm_request (VmDelete i) = req ''DELETE'' ''/vms/{vmID}'' [(''vmID'', i)] Undef Undef"
| "vm_request (VmStats i args) =
     req ''GET'' ''/vms/{vmID}/stats'' [(''vmID'', i)]
       (build_query [opt ''since'' ''since'', opt ''fields'' ''fields''] args) Undef"
| "vm_request (VmTop args) =
     req ''GET'' ''/vms/stats/top'' []
       (build_query [(''metric'', ''metric'', Str ''cpu'', False), (''limit'', ''limit'', JNat 5, False),
                     (''state'', ''state'', Str ''running'', False)] args) Undef"

datatype snapshot_op =
    SnapList string js | SnapCreate string string js js | SnapRestore string string
  | SnapUpdate string string js | SnapDelete string string | SnapBulkDelete string js

definition snap_path :: "string \<Rightarrow> string \<Rightarrow> (string \<times> string) list" where
  "snap_path vm name = [(''vmID'', vm), (''snapName'', name)]"

fun snapshot_request :: "snapshot_op \<Rightarrow> request" where
  "snapshot_request (SnapList vm opts) =
     req ''GET'' ''/vms/{vmID}/snapshots'' [(''vmID'', vm)]
       (build_query [plain ''sort'' ''sort'', plain ''order'' ''order'',
          (''search'', ''search'', Undef, True), (''tag'', ''tag'', Undef, True),
          (''prefix'', ''prefix'', Undef, True), (''since'', ''since'', Undef, True),
          (''until'', ''until'', Undef, True)] opts) Undef"
| "snapshot_request (SnapCreate vm name description tags) =
     req ''POST'' ''/vms/{vmID}/snapshots'' [(''vmID'', vm)] Undef (snapshot_body name description tags)"
| "snapshot_request (SnapRestore vm name) =
     req ''POST'' ''/vms/{vmID}/snapshots/{snapName}/restore'' (snap_path vm name) Undef Undef"
| "snapshot_request (SnapUpdate vm name body) =
     req ''PATCH'' ''/vms/{vmID}/snapshots/{snapName}'' (snap_path vm name) Undef body"
| "snapshot_request (SnapDelete vm name) =
     req ''DELETE'' ''/vms/{vmID}/snapshots/{snapName}'' (snap_path vm name) Undef Undef"
| "snapshot_request (SnapBulkDelete vm body) =
     req ''POST'' ''/vms/{vmID}/snapshots/bulk_delete'' [(''vmID'', vm)] Undef body"

datatype image_op =
    ImageList js | ImageCreate string string js | ImageUpdate string js | ImageDelete string
  | ImageBulkDelete js

fun image_request :: "image_op \<Rightarrow> request" where
  "image_request (ImageList args) = req ''GET'' ''/images'' [] (build_query images_table args) Undef"
| "image_request (ImageCreate vm name opts) =
     req ''POST'' ''/images'' [] Undef
       (Obj [(''vm_id'', Str vm), (''name'', Str name), (''description'', jget opts ''description''),
             (''tags'', jget opts ''tags'')])"
| "image_request (ImageUpdate i patch) =
     req ''PATCH'' ''/images/{imageID}'' [(''imageID'', i)] Undef patch"
| "image_request (ImageDelete i) = req ''DELETE'' ''/images/{imageID}'' [(''imageID'', i)] Undef Undef"
| "image_request (ImageBulkDelete body) = req ''POST'' ''/images/bulk_delete'' [] Undef body"

definition image_download_url :: "string \<Rightarrow> string" where
  "image_download_url i = ''/api/v1/images/'' @ i @ ''/download''"

datatype port_op =
    PortList string js | PortAdd string js js js js js | PortRemove string string
  | PortUpdate string string js | PortBulkDelete string js

fun port_request :: "port_op \<Rightarrow> request" where
  "port_request (PortList vm opts) =
     req ''GET'' ''/vms/{vmID}/ports'' [(''vmID'', vm)] (ports_query opts) Undef"
| "port_request (PortAdd vm hp gp proto description tags) =
     req ''POST'' ''/vms/{vmID}/ports'' [(''vmID'', vm)] Undef (port_body hp gp proto description tags)"
| "port_request (PortRemove vm p) =
     req ''DELETE'' ''/vms/{vmID}/ports/{portID}'' [(''vmID'', vm), (''portID'', p)] Undef Undef"
| "port_request (PortUpdate vm p patch) =
     req ''PATCH'' ''/vms/{vmID}/ports/{portID}'' [(''vmID'', vm), (''portID'', p)] Undef patch"
| "port_request (PortBulkDelete vm args) =
     req ''POST'' ''/vms/{vmID}/ports/bulk_delete'' [(''vmID'', vm)] Undef (ports_bulk_body args)"

datatype template_op =
    TemplateList js | TemplateCreate js | TemplateUpdate string js | TemplateDelete string
  | TemplateBulkDelete js

fun template_request :: "template_op \<Rightarrow> request" where
  "template_request (TemplateList args) =
     req ''GET'' ''/templates'' [] (build_query templates_table args) Undef"
| "template_request (TemplateCreate spec) = req ''POST'' ''/templates'' [] Undef spec"
| "template_request (TemplateUpdate i patch) =
     req ''PATCH'' ''/templates/{templateID}'' [(''templateID'', i)] Undef patch"
| "template_request (TemplateDelete i) =
     req ''DELETE'' ''/templates/{templateID}'' [(''templateID'', i)] Undef Undef"
| "template_request (TemplateBulkDelete body) = req ''POST'' ''/templates/bulk_delete'' [] Undef body"

datatype read_op =
    HostInterfaces | HostGpus | HostStats | HostStorageLocations | HostList | QuotasUsage
  | LogList js | EventList js

fun read_request :: "read_op \<Rightarrow> request" where
  "read_request HostInterfaces = req ''GET'' ''/host/interfaces'' [] Undef Undef"
| "read_request HostGpus = req ''GET'' ''/host/gpus'' [] Undef Undef"
| "read_request HostStats = req ''GET'' ''/host/stats'' [] Undef Undef"
| "read_request HostStorageLocations = req ''GET'' ''/host/storage-locations'' [] Undef Undef"
| "read_request HostList = req ''GET'' ''/hosts'' [] Undef Undef"
| "read_request QuotasUsage = req ''GET'' ''/quotas/usage'' [] Undef Undef"
| "read_request (LogList args) = req ''GET'' ''/logs'' [] (build_query logs_table args) Undef"
| "read_request (EventList args) = req ''GET'' ''/events'' [] (build_query events_table args) Undef"

datatype webhook_op =
    WebhookList js | WebhookCreate js | WebhookUpdate string js | WebhookDelete string
  | WebhookBulkDelete js | WebhookTest string

fun webhook_request :: "webhook_op \<Rightarrow> request" where
  "webhook_request (WebhookList args) =
     req ''GET'' ''/webhooks'' [] (build_query webhooks_table args) Undef"
| "webhook_request (WebhookCreate spec) = req ''POST'' ''/webhooks'' [] Undef spec"
| "webhook_request (WebhookUpdate i spec) =
     req ''PATCH'' ''/webhooks/{webhookID}'' [(''webhookID'', i)] Undef spec"
| "webhook_request (WebhookDelete i) =
     req ''DELETE'' ''/webhooks/{webhookID}'' [(''webhookID'', i)] Undef Undef"
| "webhook_request (WebhookBulkDelete body) = req ''POST'' ''/webhooks/bulk_delete'' [] Undef body"
| "webhook_request (WebhookTest i) =
     req ''POST'' ''/webhooks/{webhookID}/test'' [(''webhookID'', i)] Undef Undef"

datatype schedule_op =
    ScheduleList js | ScheduleGet string | ScheduleCreate js | ScheduleUpdate string js
  | ScheduleDelete string | ScheduleRuns string js | ScheduleRunNow string

fun schedule_request :: "schedule_op \<Rightarrow> request" where
  "schedule_request (ScheduleList args) =
     req ''GET'' ''/schedules'' [] (build_query schedules_table args) Undef"
| "schedule_request (ScheduleGet i) =
     req ''GET'' ''/schedules/{scheduleID}'' [(''scheduleID'', i)] Undef Undef"
| "schedule_request (ScheduleCreate spec) = req ''POST'' ''/schedules'' [] Undef spec"
| "schedule_request (ScheduleUpdate i patch) =
     req ''PATCH'' ''/schedules/{scheduleID}'' [(''scheduleID'', i)] Undef patch"
| "schedule_request (ScheduleDelete i) =
     req ''DELETE'' ''/schedules/{scheduleID}'' [(''scheduleID'', i)] Undef Undef"
| "schedule_request (ScheduleRuns i args) =
     req ''GET'' ''/schedules/{scheduleID}/runs'' [(''scheduleID'', i)] (runs_query args) Undef"
| "schedule_request (ScheduleRunNow i) =
     req ''POST'' ''/schedules/{scheduleID}/run-now'' [(''scheduleID'', i)] Undef Undef"

text \<open>The operations whose answer comes back with its total count.\<close>

definition vm_with_meta :: "vm_op \<Rightarrow> bool" where
  "vm_with_meta op \<longleftrightarrow> (case op of VmList _ \<Rightarrow> True | _ \<Rightarrow> False)"

definition vm_call :: "vm_op \<Rightarrow> (request \<Rightarrow> response) \<Rightarrow> auth \<Rightarrow> (string + js) \<times> auth" where
  "vm_call op server a = unwrap (vm_with_meta op) (server (vm_request op)) a"

text \<open>\<open>onRequest\<close>: the authorization header of a request.\<close>

definition auth_header :: "auth \<Rightarrow> (string \<times> string) list" where
  "auth_header a = (if au_token a \<noteq> [] then [(''Authorization'', ''Bearer '' @ au_token a)] else [])"

text \<open>
  The rest of signing in: the answer to \<open>vms.list()\<close> (the message of the failure when there was no
  answer at all), what the client makes of it, the gate's effect on the key, and the end of the submit.
\<close>

definition sign_in_answer :: "string + response \<Rightarrow> auth \<times> gate \<Rightarrow> auth \<times> gate" where
  "sign_in_answer answer w = (case w of (a, g) \<Rightarrow>
     (case answer of
        Inl m \<Rightarrow> submit_done (Some m) (a, g)
      | Inr r \<Rightarrow> (case unwrap True r a of (outcome, a1) \<Rightarrow>
          submit_done (case outcome of Inl m \<Rightarrow> Some m | Inr d \<Rightarrow> None) (a1, gate_follow a a1 g))))"

subsection \<open>Facts\<close>

lemma auth_ok_refuse: "auth_ok a \<Longrightarrow> auth_ok (snd (refuse e a))"
  by (simp add: refuse_def Let_def auth_ok_ops)

lemma auth_ok_unwrap: "auth_ok a \<Longrightarrow> auth_ok (snd (unwrap b r a))"
  using auth_ok_refuse[of a "rs_error r"] by (cases "refuse (rs_error r) a") (simp add: unwrap_def)

lemma get_query [simp]:
  "map_of t q = Some (arg, d, drops) \<Longrightarrow> jget (build_query t args) q = query_value args arg d drops"
  unfolding build_query_def by (induction t) (auto split: if_splits)

text \<open>
  C24 An answer is never mistaken for another kind. A 401 always ends in the sign-in form with the
  stored key dropped, whatever the body; any other answer leaves the credential alone, and is an
  error exactly when it carries an error body, with the server's own message when it has one.
\<close>

theorem unwrap_outcomes:
  "(rs_status r = 401 \<longrightarrow>
      (\<exists>m. fst (unwrap b r a) = Inl m \<and> au_error (snd (unwrap b r a)) = m)
      \<and> au_required (snd (unwrap b r a))
      \<and> (au_token a \<noteq> [] \<longrightarrow> au_token (snd (unwrap b r a)) = [] \<and> au_storage (snd (unwrap b r a)) = None))
   \<and> (rs_status r \<noteq> 401 \<longrightarrow> snd (unwrap b r a) = a \<and> isl (fst (unwrap b r a)) = truthy (rs_error r))
   \<and> (auth_ok a \<longrightarrow> auth_ok (snd (unwrap b r a)))"
  using auth_ok_unwrap[of a b r]
  by (simp add: unwrap_def refuse_def Let_def clear_auth_token_def require_auth_def)

definition expired :: response where
  "expired = \<lparr>rs_data = Undef, rs_error = Obj [(''message'', Str ''key revoked'')], rs_status = 401,
              rs_total = None\<rparr>"

theorem unwrap_outcomes_witness:
  "au_token (snd (unwrap True expired (auth_init (Some ''k'')))) = []
   \<and> fst (unwrap True expired (auth_init (Some ''k''))) = Inl ''key revoked''
   \<and> auth_ok (snd (unwrap True expired (auth_init (Some ''k''))))"
proof -
  have ok: "auth_ok (auth_init (Some ''k''))"
    by (simp add: auth_ok_def auth_init_def js_trim_iff is_ws_def)
  have m: "fst (unwrap True expired (auth_init (Some ''k''))) = Inl ''key revoked''"
    by (simp add: unwrap_def refuse_def expired_def get_error_message_def auth_init_def Let_def)
  show ?thesis using unwrap_outcomes[of expired True "auth_init (Some ''k'')"] ok m
    by (simp add: expired_def auth_init_def)
qed

lemma error_message_some: "f \<noteq> [] \<Longrightarrow> get_error_message e f \<noteq> []"
  by (simp add: get_error_message_def)

text \<open>
  C23 Signing in. Whatever the operator pasted, the form sends a request only for a key that is not
  blank, and that key, trimmed, is then the stored one. A blank key is refused with its reason and
  nothing else happens. If the check succeeds, the gate is open with that key and a reload of the page
  starts with it. If the server refuses the key (401), it is dropped here and in the storage, the gate
  asks again with an empty field and shows the server's reason, or that the key is invalid when it gave
  none. If the check fails otherwise (an error of the server, or no answer), the key stays and the form
  holds that reason; but the gate, which was opened when the key was stored, stays open.
\<close>

theorem sign_in:
  assumes "submit_start (a, g) = (sent, a1, g1)" "sign_in_answer answer (a1, g1) = (a2, g2)"
    and key_def: "key = js_trim (gt_draft g)"
  shows "(sent \<longleftrightarrow> key \<noteq> [])
    \<and> (\<not> sent \<longrightarrow> a1 = a \<and> g1 = g\<lparr>gt_error := ''API key is required''\<rparr>)
    \<and> (sent \<longrightarrow> au_token a1 = key \<and> au_storage a1 = Some key \<and> gt_submitting g1 \<and> gt_error g1 = []
         \<and> \<not> gt_submitting g2)
    \<and> (\<forall>r. sent \<and> answer = Inr r \<and> rs_status r \<noteq> 401 \<and> \<not> truthy (rs_error r) \<longrightarrow>
         \<not> au_required a2 \<and> au_error a2 = [] \<and> au_token a2 = key
         \<and> au_token (auth_init (au_storage a2)) = key \<and> gt_error g2 = [])
    \<and> (\<forall>r. sent \<and> answer = Inr r \<and> rs_status r = 401 \<longrightarrow>
         au_required a2 \<and> au_token a2 = [] \<and> au_storage a2 = None \<and> gt_draft g2 = []
         \<and> gate_message a2 g2 = get_error_message (rs_error r) ''Invalid API key'')
    \<and> (\<forall>r. sent \<and> answer = Inr r \<and> rs_status r \<noteq> 401 \<and> truthy (rs_error r) \<longrightarrow>
         a2 = a1 \<and> \<not> au_required a2 \<and> gt_error g2 = get_error_message (rs_error r) (request_failed (rs_status r)))
    \<and> (\<forall>m. sent \<and> answer = Inl m \<longrightarrow>
         a2 = a1 \<and> \<not> au_required a2 \<and> gt_error g2 = (if m = [] then ''Authentication failed'' else m))"
proof (cases "key = []")
  case True
  then show ?thesis using assms(1) by (auto simp: submit_start_def key_def Let_def)
next
  case False
  have trim: "js_trim (js_trim (gt_draft g)) = js_trim (gt_draft g)" by simp
  have s: "sent" "a1 = set_auth_token key a" "g1 = gate_follow a a1 (g\<lparr>gt_submitting := True, gt_error := []\<rparr>)"
    using assms(1) False by (auto simp: submit_start_def key_def Let_def)
  have a1: "au_token a1 = key" "au_storage a1 = Some key" "\<not> au_required a1" "au_error a1 = []"
    using False trim by (simp_all add: s(2) set_auth_token_def key_def Let_def)
  have g1: "gt_submitting g1" "gt_error g1 = []" by (simp_all add: s(3) gate_follow_def)
  have rf: "request_failed n \<noteq> []" for n by (simp add: request_failed_def)
  show ?thesis
  proof (cases answer)
    case (Inl m)
    then show ?thesis using assms(2) a1 g1 s(1) False
      by (auto simp: sign_in_answer_def submit_done_def)
  next
    case (Inr r)
    note m = error_message_some[OF rf, of "rs_error r"] error_message_some[of "''Invalid API key''" "rs_error r"]
    consider "rs_status r = 401" | "rs_status r \<noteq> 401" "truthy (rs_error r)" | "rs_status r \<noteq> 401" "\<not> truthy (rs_error r)"
      by blast
    then show ?thesis
    proof cases
      case 1
      then have "a2 = require_auth (get_error_message (rs_error r) ''Invalid API key'') (clear_auth_token a1)"
        "g2 = g1\<lparr>gt_draft := [], gt_error := get_error_message (rs_error r) ''Invalid API key'', gt_submitting := False\<rparr>"
        using assms(2) a1 False m
        by (auto simp: Inr sign_in_answer_def submit_done_def unwrap_def refuse_def clear_auth_token_def require_auth_def
            gate_follow_def Let_def)
      then show ?thesis using 1 m s(1) False a1 g1
        by (simp add: Inr clear_auth_token_def require_auth_def gate_message_def)
    next
      case 2
      then have "a2 = a1"
        "g2 = g1\<lparr>gt_error := get_error_message (rs_error r) (request_failed (rs_status r)), gt_submitting := False\<rparr>"
        using assms(2) m by (auto simp: Inr sign_in_answer_def submit_done_def unwrap_def gate_follow_def)
      then show ?thesis using 2 s(1) False a1 g1 by (simp add: Inr)
    next
      case 3
      then have "a2 = clear_auth_requirement a1" "g2 = g1\<lparr>gt_submitting := False\<rparr>"
        using assms(2) by (auto simp: Inr sign_in_answer_def submit_done_def unwrap_def gate_follow_def)
      then show ?thesis using 3 s(1) False a1 g1 by (simp add: Inr clear_auth_requirement_def auth_init_def)
    qed
  qed
qed

theorem sign_in_witness:
  "au_storage (fst (snd (submit_start (auth_init None, \<lparr>gt_draft = '' k1 '', gt_submitting = False, gt_error = []\<rparr>)))) = Some ''k1''
   \<and> gate_message
       (fst (sign_in_answer (Inr expired) (snd (submit_start (auth_init None, \<lparr>gt_draft = '' k1 '', gt_submitting = False, gt_error = []\<rparr>)))))
       (snd (sign_in_answer (Inr expired) (snd (submit_start (auth_init None, \<lparr>gt_draft = '' k1 '', gt_submitting = False, gt_error = []\<rparr>)))))
     = ''key revoked''"
proof -
  let ?g = "\<lparr>gt_draft = '' k1 '', gt_submitting = False, gt_error = []\<rparr>"
  obtain sent a1 g1 where e: "submit_start (auth_init None, ?g) = (sent, a1, g1)"
    by (metis prod_cases3)
  obtain a2 g2 where f: "sign_in_answer (Inr expired) (a1, g1) = (a2, g2)" by (metis surj_pair)
  have "js_trim '' k1 '' = ''k1''" by (simp add: js_trim_def trim_start_def is_ws_def)
  moreover have "get_error_message (rs_error expired) ''Invalid API key'' = ''key revoked''" "rs_status expired = 401"
    by (simp_all add: expired_def get_error_message_def)
  ultimately show ?thesis using sign_in[OF e f refl] e f by simp
qed

text \<open>
  A failure without a body is taken for a success: \<open>unwrap\<close> looks at the error value and not at
  the status, so that an answer such as an empty 502 yields data instead of an error.
\<close>

theorem unwrap_empty_failure:
  assumes "rs_status r \<noteq> 401" "rs_status r \<ge> 400" "rs_error r = Undef \<or> rs_error r = Str []"
  shows "\<not> isl (fst (unwrap b r a)) \<and> (\<not> b \<and> rs_data r = Undef \<longrightarrow> fst (unwrap b r a) = Inr Null)"
  using assms by (auto simp: unwrap_def)

theorem unwrap_empty_failure_witness:
  "fst (unwrap False \<lparr>rs_data = Undef, rs_error = Undef, rs_status = 502, rs_total = None\<rparr> (auth_init None))
   = Inr Null"
  using unwrap_empty_failure[of "\<lparr>rs_data = Undef, rs_error = Undef, rs_status = 502, rs_total = None\<rparr>"
      False "auth_init None"] by simp

text \<open>
  The upload's progress never leaves the range of a percentage, and reaches 100 exactly when at
  least 99.5 percent of a non-empty file has been sent.
\<close>

theorem upload_percent_range:
  assumes "loaded \<le> size_of" "0 < size_of"
  shows "\<exists>p. upload_percent loaded size_of = Some p \<and> 0 \<le> p \<and> p \<le> 100
    \<and> (p = 100 \<longleftrightarrow> 199 * size_of \<le> 200 * loaded)"
proof -
  let ?q = "of_nat loaded / of_nat size_of * 100 :: rat"
  have q: "0 \<le> ?q" by simp
  have "0 \<le> math_round ?q" using q unfolding math_round_def by linarith
  moreover have "100 \<le> math_round ?q \<longleftrightarrow> (199 / 2 :: rat) \<le> ?q"
    unfolding math_round_def by (simp add: le_floor_iff) linarith
  moreover have "(199 / 2 :: rat) \<le> ?q \<longleftrightarrow> of_nat (199 * size_of) \<le> (of_nat (200 * loaded) :: rat)"
    using assms(2) by (simp add: field_simps)
  ultimately show ?thesis using assms(2) by (auto simp: upload_percent_def)
qed

theorem upload_percent_range_witness:
  "\<exists>p. upload_percent 1 3 = Some p \<and> 0 \<le> p \<and> p \<le> 100"
  using upload_percent_range[of 1 3] by auto

end
