(* ===== verification/DateTime.thy ===== *)
theory DateTime imports JsValue begin

text \<open>
  The part of the \<open>Date\<close> library that the client uses: reading the ISO 8601 forms that the daemon
  sends and that \<open>datetime-local\<close> inputs produce (\<open>Date.parse\<close>, \<open>new Date(s)\<close>), and
  \<open>toISOString\<close>, after ECMAScript's date arithmetic. A time value is a number of milliseconds since
  the epoch; text of another form reads as \<open>NaN\<close>, here \<open>None\<close>. \<open>tz\<close> gives the browser's offset from
  UTC, in milliseconds, for a naive local time.
\<close>

definition day_from_year :: "int \<Rightarrow> int" where
  "day_from_year y = 365 * (y - 1970) + (y - 1969) div 4 - (y - 1901) div 100 + (y - 1601) div 400"

definition leap_year :: "int \<Rightarrow> bool" where
  "leap_year y \<longleftrightarrow> y mod 4 = 0 \<and> (y mod 100 \<noteq> 0 \<or> y mod 400 = 0)"

definition month_start :: "bool \<Rightarrow> nat \<Rightarrow> int" where
  "month_start leap m =
     [0, 31, 59, 90, 120, 151, 181, 212, 243, 273, 304, 334, 365] ! (m - 1)
     + (if leap \<and> 2 < m then 1 else 0)"

definition days_in_month :: "bool \<Rightarrow> nat \<Rightarrow> int" where
  "days_in_month leap m = month_start leap (m + 1) - month_start leap m"

definition make_day :: "int \<Rightarrow> nat \<Rightarrow> nat \<Rightarrow> int" where
  "make_day y m d = day_from_year y + month_start (leap_year y) m + int d - 1"

definition make_ms :: "int \<Rightarrow> nat \<Rightarrow> nat \<Rightarrow> nat \<Rightarrow> nat \<Rightarrow> nat \<Rightarrow> nat \<Rightarrow> int" where
  "make_ms y m d h mi s ms =
     make_day y m d * 86400000 + int h * 3600000 + int mi * 60000 + int s * 1000 + int ms"

subsection \<open>Reading\<close>

fun read_digits :: "nat \<Rightarrow> string \<Rightarrow> (nat \<times> string) option" where
  "read_digits 0 s = Some (0, s)"
| "read_digits (Suc n) [] = None"
| "read_digits (Suc n) (c # s) =
     (case digit_of c of None \<Rightarrow> None
      | Some d \<Rightarrow> (case read_digits n s of None \<Rightarrow> None | Some (v, r) \<Rightarrow> Some (d * 10 ^ n + v, r)))"

lemma read_digits_numeral:
  "read_digits (numeral n) (c # s) =
     (case digit_of c of None \<Rightarrow> None
      | Some d \<Rightarrow> (case read_digits (pred_numeral n) s of None \<Rightarrow> None
                 | Some (v, r) \<Rightarrow> Some (d * 10 ^ pred_numeral n + v, r)))"
  by (simp add: numeral_eq_Suc)

fun expect :: "char \<Rightarrow> string \<Rightarrow> string option" where
  "expect c [] = None"
| "expect c (x # s) = (if x = c then Some s else None)"

definition read_sep :: "char \<Rightarrow> nat \<Rightarrow> string \<Rightarrow> (nat \<times> string) option" where
  "read_sep c n s = Option.bind (expect c s) (read_digits n)"

text \<open>The milliseconds of a fraction: its first three digits.\<close>

definition read_fraction :: "string \<Rightarrow> nat \<times> string" where
  "read_fraction s =
     (case expect (CHR ''.'') s of
        None \<Rightarrow> (0, s)
      | Some r \<Rightarrow> (let ds = takeWhile (\<lambda>c. digit_of c \<noteq> None) r
                   in (case read_digits 3 (take 3 (ds @ ''000'')) of None \<Rightarrow> 0 | Some (v, _) \<Rightarrow> v,
                       dropWhile (\<lambda>c. digit_of c \<noteq> None) r)))"

text \<open>The zone: \<open>Some None\<close> when there is none, \<open>Some (Some ms)\<close> for \<open>Z\<close> or an offset.\<close>

definition read_zone :: "string \<Rightarrow> int option option" where
  "read_zone s =
     (if s = [] then Some None
      else if s = ''Z'' then Some (Some 0)
      else if hd s = CHR ''+'' \<or> hd s = CHR ''-'' then
        (case read_digits 2 (tl s) of
           Some (h, r) \<Rightarrow> (case read_sep (CHR '':'') 2 r of
               Some (m, []) \<Rightarrow> Some (Some ((if hd s = CHR ''-'' then - 1 else 1) * (int h * 3600000 + int m * 60000)))
             | _ \<Rightarrow> None)
         | None \<Rightarrow> None)
      else None)"

definition valid_fields :: "nat \<Rightarrow> nat \<Rightarrow> nat \<Rightarrow> nat \<Rightarrow> nat \<Rightarrow> nat \<Rightarrow> bool" where
  "valid_fields y m d h mi s \<longleftrightarrow> 1 \<le> m \<and> m \<le> 12 \<and> 1 \<le> d \<and> int d \<le> days_in_month (leap_year (int y)) m
     \<and> h \<le> 23 \<and> mi \<le> 59 \<and> s \<le> 59"

text \<open>\<open>YYYY-MM-DD\<close> (UTC) or \<open>YYYY-MM-DDTHH:MM[:SS[.fff]][Z|+HH:MM|-HH:MM]\<close> (local without a zone).\<close>

definition parse_date :: "(int \<Rightarrow> int) \<Rightarrow> string \<Rightarrow> int option" where
  "parse_date tz str =
     (case read_digits 4 str of None \<Rightarrow> None | Some (y, r1) \<Rightarrow>
     (case read_sep (CHR ''-'') 2 r1 of None \<Rightarrow> None | Some (m, r2) \<Rightarrow>
     (case read_sep (CHR ''-'') 2 r2 of None \<Rightarrow> None | Some (d, r3) \<Rightarrow>
      if r3 = [] then (if valid_fields y m d 0 0 0 then Some (make_ms (int y) m d 0 0 0 0) else None) else
     (case read_sep (CHR ''T'') 2 r3 of None \<Rightarrow> None | Some (h, r4) \<Rightarrow>
     (case read_sep (CHR '':'') 2 r4 of None \<Rightarrow> None | Some (mi, r5) \<Rightarrow>
      (let (s, r6) = (case read_sep (CHR '':'') 2 r5 of None \<Rightarrow> (0, r5) | Some x \<Rightarrow> x);
           (ms, r7) = (if r6 = r5 then (0, r6) else read_fraction r6)
       in if \<not> valid_fields y m d h mi s then None
          else (let t = make_ms (int y) m d h mi s ms in
                case read_zone r7 of
                  None \<Rightarrow> None
                | Some None \<Rightarrow> Some (t - tz t)
                | Some (Some off) \<Rightarrow> Some (t - off))))))))"

subsection \<open>Writing\<close>

lemma div_step:
  fixes a m :: int
  assumes "0 < m"
  shows "(a + 1) div m = a div m + (if (a + 1) mod m = 0 then 1 else 0)"
proof -
  define q r where "q = a div m" and "r = a mod m"
  have a: "a = m * q + r" by (simp add: q_def r_def)
  have r: "0 \<le> r" "r < m" using assms by (simp_all add: r_def)
  show ?thesis
  proof (cases "r + 1 = m")
    case True
    then have "a + 1 = m * (q + 1)" using a by (simp add: algebra_simps)
    then show ?thesis using assms by (simp add: q_def)
  next
    case False
    then have "a + 1 = m * q + (r + 1)" "0 \<le> r + 1" "r + 1 < m" using a r by simp_all
    then have "(a + 1) div m = q" "(a + 1) mod m = r + 1"
      using int_div_pos_eq int_mod_pos_eq by blast+
    then show ?thesis using r by (simp add: q_def)
  qed
qed

lemma year_length: "day_from_year (y + 1) - day_from_year y = (if leap_year y then 366 else 365)"
proof -
  define P Q R where "P \<longleftrightarrow> y mod 4 = 0" and "Q \<longleftrightarrow> y mod 100 = 0" and "R \<longleftrightarrow> y mod 400 = 0"
  define a b c where "a = (y - 1969) div 4" and "b = (y - 1901) div 100" and "c = (y - 1601) div 400"
  have e: "y + 1 - 1970 = y - 1969" "y + 1 - 1969 = y - 1969 + 1" "y + 1 - 1901 = y - 1901 + 1"
    "y + 1 - 1601 = y - 1601 + 1" by simp_all
  have s: "y - 1969 + 1 = y + 4 * (- 492)" "y - 1901 + 1 = y + 100 * (- 19)"
    "y - 1601 + 1 = y + 400 * (- 4)" by simp_all
  have m: "(y - 1969 + 1) mod 4 = 0 \<longleftrightarrow> P" "(y - 1901 + 1) mod 100 = 0 \<longleftrightarrow> Q"
    "(y - 1601 + 1) mod 400 = 0 \<longleftrightarrow> R" unfolding P_def Q_def R_def s by (simp_all only: mod_mult_self2)
  have "(100 :: int) dvd 400" "(4 :: int) dvd 100" by simp_all
  then have i: "R \<Longrightarrow> Q" "Q \<Longrightarrow> P" unfolding P_def Q_def R_def mod_eq_0_iff_dvd
    by (blast intro: dvd_trans)+
  have n: "day_from_year (y + 1) = 365 * (y - 1969) + (a + (if P then 1 else 0))
      - (b + (if Q then 1 else 0)) + (c + (if R then 1 else 0))"
    unfolding day_from_year_def e a_def b_def c_def
    by (simp only: div_step[of 4] div_step[of 100] div_step[of 400] zero_less_numeral m)
  have d: "day_from_year y = 365 * (y - 1969) - 365 + a - b + c"
    by (simp add: day_from_year_def a_def b_def c_def)
  have l: "leap_year y \<longleftrightarrow> P \<and> (\<not> Q \<or> R)" by (simp add: leap_year_def P_def Q_def R_def)
  show ?thesis unfolding n d l using i by (cases P; cases Q; cases R) simp_all
qed

lemma day_from_year_step: "day_from_year y < day_from_year (y + 1)"
  using year_length[of y] by (simp split: if_splits)

text \<open>The year of a day: the last one that starts no later, searched upwards from \<open>y\<close>.\<close>

function year_up :: "int \<Rightarrow> int \<Rightarrow> int" where
  "year_up day y = (if day_from_year (y + 1) \<le> day then year_up day (y + 1) else y)"
  by pat_completeness auto
termination
  by (relation "measure (\<lambda>(day, y). nat (day - day_from_year y))")
    (use day_from_year_step in \<open>auto simp: nat_less_eq_zless intro: order_less_le_trans\<close>)

declare year_up.simps [simp del]

definition year_of_day :: "int \<Rightarrow> int" where
  "year_of_day day = year_up day (1970 + (if day < 0 then day div 365 else day div 366))"

fun month_up :: "bool \<Rightarrow> int \<Rightarrow> nat list \<Rightarrow> nat" where
  "month_up leap n [] = 12"
| "month_up leap n (m # ms) = (if n < month_start leap (m + 1) then m else month_up leap n ms)"

definition month_of :: "bool \<Rightarrow> int \<Rightarrow> nat" where
  "month_of leap n = month_up leap n [1..<12]"

definition to_iso_string :: "int \<Rightarrow> string" where
  "to_iso_string t =
     (let day = t div 86400000; r = nat (t mod 86400000);
          y = year_of_day day; leap = leap_year y; n = day - day_from_year y;
          m = month_of leap n; d = nat (n - month_start leap m + 1)
      in pad_digits 4 (nat y) @ ''-'' @ pad_digits 2 m @ ''-'' @ pad_digits 2 d @ ''T''
         @ pad_digits 2 (r div 3600000) @ '':'' @ pad_digits 2 (r div 60000 mod 60) @ '':''
         @ pad_digits 2 (r div 1000 mod 60) @ ''.'' @ pad_digits 3 (r mod 1000) @ ''Z'')"

text \<open>The helper that six pages declare: a local time of an input as the UTC instant sent to the daemon.\<close>

definition datetime_local_to_iso :: "(int \<Rightarrow> int) \<Rightarrow> string \<Rightarrow> string" where
  "datetime_local_to_iso tz v =
     (if v = [] then [] else (case parse_date tz v of None \<Rightarrow> [] | Some t \<Rightarrow> to_iso_string t))"

subsection \<open>Writing and reading back\<close>

lemma leap_days_bound:
  fixes k :: int
  defines "l \<equiv> (k + 1) div 4 - (k + 69) div 100 + (k + 369) div 400"
  shows "0 \<le> k \<Longrightarrow> l \<le> k" "k < 0 \<Longrightarrow> l \<le> 0"
proof -
  have d: "(k + 1) div 4 * 4 \<le> k + 1" "k + 69 \<le> (k + 69) div 100 * 100 + 99"
    "(k + 369) div 400 * 400 \<le> k + 369" by linarith+
  show "l \<le> k" if "0 \<le> k"
  proof (cases "k \<le> 1")
    case True
    with that have "k = 0 \<or> k = 1" by linarith
    then show ?thesis by (auto simp: l_def)
  qed (use d in \<open>unfold l_def, linarith\<close>)
  show "l \<le> 0" if "k < 0"
  proof (cases "k < - 6")
    case False
    with that have "k = - 1 \<or> k = - 2 \<or> k = - 3 \<or> k = - 4 \<or> k = - 5 \<or> k = - 6" by linarith
    then show ?thesis by (auto simp: l_def)
  qed (use d in \<open>unfold l_def, linarith\<close>)
qed

lemma year_start_low: "day_from_year (1970 + (if day < 0 then day div 365 else day div 366)) \<le> day"
proof -
  have e: "day_from_year (1970 + k) = 365 * k + ((k + 1) div 4 - (k + 69) div 100 + (k + 369) div 400)" for k
  proof -
    have "1970 + k - 1970 = k" "1970 + k - 1969 = k + 1" "1970 + k - 1901 = k + 69"
      "1970 + k - 1601 = k + 369" by simp_all
    then show ?thesis unfolding day_from_year_def by (simp only:)
  qed
  show ?thesis
  proof (cases "day < 0")
    case True
    then have "day div 365 < 0" "365 * (day div 365) \<le> day" by linarith+
    with True show ?thesis using leap_days_bound(2)[of "day div 365"] unfolding e by simp
  next
    case False
    then have "0 \<le> day div 366" "366 * (day div 366) \<le> day" by linarith+
    with False show ?thesis using leap_days_bound(1)[of "day div 366"] unfolding e by simp
  qed
qed

lemma year_up_spec:
  "day_from_year y \<le> day \<Longrightarrow>
   day_from_year (year_up day y) \<le> day \<and> day < day_from_year (year_up day y + 1)"
proof (induction day y rule: year_up.induct)
  case (1 day y)
  then show ?case
    by (cases "day_from_year (y + 1) \<le> day") (simp_all add: year_up.simps[of day y])
qed

lemma year_of_day_spec:
  "day_from_year (year_of_day day) \<le> day \<and> day < day_from_year (year_of_day day + 1)"
  unfolding year_of_day_def by (rule year_up_spec[OF year_start_low])

lemma month_up_spec:
  "1 \<le> m \<Longrightarrow> m \<le> 12 \<Longrightarrow> month_start leap m \<le> n \<Longrightarrow> n < month_start leap 13 \<Longrightarrow>
     1 \<le> month_up leap n [m..<12] \<and> month_up leap n [m..<12] \<le> 12
     \<and> month_start leap (month_up leap n [m..<12]) \<le> n \<and> n < month_start leap (month_up leap n [m..<12] + 1)"
proof (induction "12 - m" arbitrary: m)
  case 0
  then have "m = 12" by simp
  then show ?case using 0 by simp
next
  case (Suc k)
  then have "m < 12" by simp
  then have "[m..<12] = m # [Suc m..<12]" by (rule upt_conv_Cons)
  then show ?case using Suc(1)[of "Suc m"] Suc.prems Suc(2) \<open>m < 12\<close> by (cases "n < month_start leap (m + 1)") simp_all
qed

lemma month_spec:
  assumes "0 \<le> n" "n < (if leap then 366 else 365)"
  defines "m \<equiv> month_of leap n"
  shows "1 \<le> m" "m \<le> 12" "month_start leap m \<le> n" "n < month_start leap (m + 1)"
proof -
  have "month_start leap 1 \<le> n" "n < month_start leap 13" using assms(1,2) by (cases leap; simp add: month_start_def)+
  then have "1 \<le> m \<and> m \<le> 12 \<and> month_start leap m \<le> n \<and> n < month_start leap (m + 1)"
    unfolding m_def month_of_def by (intro month_up_spec) simp_all
  then show "1 \<le> m" "m \<le> 12" "month_start leap m \<le> n" "n < month_start leap (m + 1)" by blast+
qed

lemma read_pad_aux:
  "n < 10 ^ k \<Longrightarrow> read_digits (k + j) (pad_digits k n @ s) =
     (case read_digits j s of None \<Rightarrow> None | Some (v, r) \<Rightarrow> Some (n * 10 ^ j + v, r))"
proof (induction k arbitrary: n j s)
  case (Suc k)
  have "n div 10 < 10 ^ k" using Suc.prems by (simp add: less_mult_imp_div_less mult.commute)
  then have "read_digits (Suc k + j) (pad_digits (Suc k) n @ s) =
      (case read_digits (Suc j) (digit_char (n mod 10) # s) of None \<Rightarrow> None
       | Some (v, r) \<Rightarrow> Some (n div 10 * 10 ^ Suc j + v, r))"
    using Suc.IH[of "n div 10" "Suc j" "digit_char (n mod 10) # s"] by simp
  moreover have "n div 10 * 10 ^ Suc j + (n mod 10 * 10 ^ j + v) = n * 10 ^ j + v" for v
  proof -
    define q r where "q = n div 10" and "r = n mod 10"
    have "n = q * 10 + r" by (simp add: q_def r_def)
    then show ?thesis unfolding q_def[symmetric] r_def[symmetric] power_Suc
      by (simp only: algebra_simps)
  qed
  ultimately show ?case by (simp split: option.splits prod.splits)
qed (simp split: option.splits)

lemma read_pad: "n < 10 ^ k \<Longrightarrow> read_digits k (pad_digits k n @ s) = Some (n, s)"
  using read_pad_aux[of n k 0 s] by simp

lemma read_sep_pad: "n < 10 ^ k \<Longrightarrow> read_sep c k (c # pad_digits k n @ s) = Some (n, s)"
  by (simp add: read_sep_def read_pad)

lemma pad_digits_set: "c \<in> set (pad_digits k n) \<Longrightarrow> digit_of c \<noteq> None"
  by (induction k arbitrary: n) auto

lemma pad_digits_length [simp]: "length (pad_digits k n) = k"
  by (induction k arbitrary: n) auto

lemma digit_of_Z: "digit_of (CHR ''Z'') = None"
  by (simp add: digit_of_def)

lemma read_fraction_pad:
  assumes "n < 1000" shows "read_fraction (CHR ''.'' # pad_digits 3 n @ ''Z'') = (n, ''Z'')"
proof -
  let ?d = "\<lambda>c. digit_of c \<noteq> None"
  have "takeWhile ?d (pad_digits 3 n @ ''Z'') = pad_digits 3 n"
    "dropWhile ?d (pad_digits 3 n @ ''Z'') = ''Z''"
    using pad_digits_set by (simp_all add: takeWhile_append2 dropWhile_append2 digit_of_Z)
  moreover have "read_digits 3 (pad_digits 3 n) = Some (n, [])" using read_pad[of n 3 "[]"] assms by simp
  ultimately show ?thesis by (simp only: read_fraction_def expect.simps simp_thms if_True option.case Let_def)
      (simp add: take_append)
qed

lemma day_from_year_mono: "a \<le> b \<Longrightarrow> day_from_year a \<le> day_from_year b"
proof -
  have "day_from_year a \<le> day_from_year (a + int k)" for k
  proof (induction k)
    case (Suc k)
    have e: "a + int (Suc k) = a + int k + 1" by simp
    show ?case unfolding e using Suc day_from_year_step[of "a + int k"] by linarith
  qed simp
  then show "a \<le> b \<Longrightarrow> ?thesis" by (metis zle_iff_zadd)
qed

lemma clock_parts:
  assumes "r < (86400000 :: nat)"
  shows "r div 3600000 \<le> 23" "r div 60000 mod 60 \<le> 59" "r div 1000 mod 60 \<le> 59" "r mod 1000 < 1000"
    "r div 3600000 * 3600000 + r div 60000 mod 60 * 60000 + r div 1000 mod 60 * 1000 + r mod 1000 = r"
proof -
  define a where "a = r div 1000"
  have a: "r = a * 1000 + r mod 1000" by (simp add: a_def)
  have b: "r div 60000 = a div 60" "r div 3600000 = a div 60 div 60"
    by (simp_all add: a_def div_mult2_eq[symmetric])
  have c: "a = a div 60 * 60 + a mod 60" "a div 60 = a div 60 div 60 * 60 + a div 60 mod 60" by simp_all
  show "r div 3600000 * 3600000 + r div 60000 mod 60 * 60000 + r div 1000 mod 60 * 1000 + r mod 1000 = r"
    unfolding b a_def[symmetric] using a c by linarith
  show "r div 3600000 \<le> 23" using assms by linarith
qed simp_all

lemma parse_iso_string:
  assumes "day_from_year 0 * 86400000 \<le> t" "t < day_from_year 10000 * 86400000"
  shows "parse_date tz (to_iso_string t) = Some t"
proof -
  define day r where "day = t div 86400000" and "r = nat (t mod 86400000)"
  define y where "y = year_of_day day"
  define leap n where "leap = leap_year y" and "n = day - day_from_year y"
  define m where "m = month_of leap n"
  define d where "d = nat (n - month_start leap m + 1)"
  have day: "day_from_year 0 \<le> day" "day < day_from_year 10000"
    using assms unfolding day_def by linarith+
  have y: "day_from_year y \<le> day" "day < day_from_year (y + 1)"
    using year_of_day_spec[of day] by (simp_all add: y_def)
  have "y < 10000" using day_from_year_mono[of 10000 y] day y by linarith
  moreover have y0: "0 \<le> y" using day_from_year_mono[of "y + 1" 0] day y by linarith
  ultimately have ny: "nat y < 10 ^ 4" "int (nat y) = y" by simp_all
  have n: "0 \<le> n" "n < (if leap then 366 else 365)"
    using y year_length[of y] by (auto simp: n_def leap_def split: if_splits)
  note m = month_spec[OF n, folded m_def]
  have d: "int d = n - month_start leap m + 1" "1 \<le> d" using m by (simp_all add: d_def)
  have dm: "int d \<le> days_in_month leap m" using d m by (simp add: days_in_month_def)
  have d31: "days_in_month leap m \<le> 31" using m(1,2) by (auto simp: days_in_month_def month_start_def
        le_Suc_eq numeral_eq_Suc)
  have r: "r < 86400000" by (simp add: r_def)
  define h mi sc ms where "h = r div 3600000" and "mi = r div 60000 mod 60"
    and "sc = r div 1000 mod 60" and "ms = r mod 1000"
  note c = clock_parts[OF r, folded h_def mi_def sc_def ms_def]
  have valid: "valid_fields (nat y) m d h mi sc"
    using m d dm c ny by (simp add: valid_fields_def leap_def)
  have "int h * 3600000 + int mi * 60000 + int sc * 1000 + int ms = int r"
    using c(5) by linarith
  also have "\<dots> = t mod 86400000" by (simp add: r_def)
  finally have clock: "int h * 3600000 + int mi * 60000 + int sc * 1000 + int ms = t mod 86400000" .
  have "make_day y m d = day" using d by (simp add: make_day_def n_def leap_def)
  then have ms: "make_ms y m d h mi sc ms = t"
    using clock div_mult_mod_eq[of t 86400000] unfolding make_ms_def day_def by linarith
  have str: "to_iso_string t = pad_digits 4 (nat y) @ CHR ''-'' # pad_digits 2 m @ CHR ''-'' # pad_digits 2 d
      @ CHR ''T'' # pad_digits 2 h @ CHR '':'' # pad_digits 2 mi @ CHR '':'' # pad_digits 2 sc
      @ CHR ''.'' # pad_digits 3 ms @ ''Z''"
    by (simp add: to_iso_string_def Let_def y_def[symmetric] day_def[symmetric] r_def[symmetric]
        leap_def[symmetric] n_def[symmetric] m_def[symmetric] d_def[symmetric] h_def mi_def sc_def ms_def)
  have small: "m < 10 ^ 2" "d < 10 ^ 2" "h < 10 ^ 2" "mi < 10 ^ 2" "sc < 10 ^ 2" "ms < 1000"
    using m(2) dm d31 c by simp_all
  show ?thesis
    unfolding parse_date_def str
    by (simp only: read_pad[OF ny(1)] read_sep_pad[OF small(1)] read_sep_pad[OF small(2)]
        read_sep_pad[OF small(3)] read_sep_pad[OF small(4)] read_sep_pad[OF small(5)]
        read_fraction_pad[OF small(6)] option.case prod.case)
      (simp add: read_fraction_pad[OF small(6)] valid ny ms y0 read_zone_def)
qed

lemma to_iso_string_not_Nil [simp]: "to_iso_string t \<noteq> []"
  by (simp add: to_iso_string_def Let_def)

lemma iso_idem:
  assumes "parse_date tz v = Some t" "day_from_year 0 * 86400000 \<le> t" "t < day_from_year 10000 * 86400000"
  shows "datetime_local_to_iso tz (datetime_local_to_iso tz v) = datetime_local_to_iso tz v"
  using assms by (simp add: datetime_local_to_iso_def parse_iso_string)

text \<open>
  C40 A time that the operator picks is sent as the instant it means: whenever the browser reads the
  input \<open>v\<close> as an instant of the years 0 to 9999, the text sent reads back as that very instant in
  every time zone (so also at the daemon), and converting it again changes nothing; a text that is no
  time is not sent at all.
\<close>

theorem iso_round_trip:
  assumes "v \<noteq> []" "parse_date tz v = Some t \<longrightarrow>
      day_from_year 0 * 86400000 \<le> t \<and> t < day_from_year 10000 * 86400000"
  shows "(parse_date tz v = Some t \<longrightarrow>
            parse_date tz' (datetime_local_to_iso tz v) = Some t
          \<and> datetime_local_to_iso tz (datetime_local_to_iso tz v) = datetime_local_to_iso tz v)
    \<and> (parse_date tz v = None \<longrightarrow> datetime_local_to_iso tz v = [])"
  using assms iso_idem[of tz v t] by (auto simp: datetime_local_to_iso_def parse_iso_string)

theorem iso_round_trip_witness:
  "parse_date (\<lambda>_. 0) (datetime_local_to_iso (\<lambda>_. 7200000) ''2024-07-25T11:33'')
   = parse_date (\<lambda>_. 7200000) ''2024-07-25T11:33''"
proof -
  have p: "parse_date (\<lambda>_. 7200000) ''2024-07-25T11:33'' = Some 1721899980000" by code_simp
  have "day_from_year 0 * 86400000 \<le> 1721899980000 \<and> 1721899980000 < day_from_year 10000 * 86400000"
    by (simp add: day_from_year_def)
  then show ?thesis
    using iso_round_trip[of "''2024-07-25T11:33''" "\<lambda>_. 7200000" 1721899980000 "\<lambda>_. 0"] p by simp
qed

end
