(* ===== verification/VMStats.thy ===== *)
theory VMStats imports EventStream ApiClient DateTime begin

text \<open>
  \<open>web/src/hooks/vmStatsHelpers.js\<close> (the bounded, time-ordered history of metric samples and the
  chart's columns) and \<open>web/src/hooks/useVMStats.js\<close> (the hook that loads a machine's metrics and
  keeps them current from its stream, or by polling after repeated failures).
\<close>

subsection \<open>vmStatsHelpers.js\<close>

definition sample_time :: "(int \<Rightarrow> int) \<Rightarrow> js \<Rightarrow> int option" where
  "sample_time tz sample =
     (if \<not> truthy (jget sample ''timestamp'') then None
      else parse_date tz (to_str (jget sample ''timestamp'')))"

definition append_sample :: "(int \<Rightarrow> int) \<Rightarrow> js list \<Rightarrow> js \<Rightarrow> nat \<Rightarrow> js list" where
  "append_sample tz history sample cap =
     (if \<not> truthy sample then history else
      case sample_time tz sample of
        None \<Rightarrow> history
      | Some ts \<Rightarrow>
          (case (if history \<noteq> [] then sample_time tz (last history) else None) of
             Some l \<Rightarrow> if ts \<le> l then history
                       else (if cap \<le> length history then drop (length history - cap + 1) history
                             else history) @ [sample]
           | None \<Rightarrow> (if cap \<le> length history then drop (length history - cap + 1) history
                      else history) @ [sample]))"

text \<open>\<open>[xs, ...ys]\<close>: seconds, then one column per field, with \<open>null\<close> for a missing value.\<close>

definition chart_samples :: "(int \<Rightarrow> int) \<Rightarrow> js list \<Rightarrow> (int \<times> js) list" where
  "chart_samples tz history =
     List.map_filter (\<lambda>s. map_option (\<lambda>ms. (ms div 1000, s)) (sample_time tz s)) history"

definition build_chart_data :: "(int \<Rightarrow> int) \<Rightarrow> js list \<Rightarrow> string list \<Rightarrow> js list list" where
  "build_chart_data tz history names =
     map (\<lambda>(t, s). JInt t) (chart_samples tz history)
     # map (\<lambda>f. map (\<lambda>(t, s). if is_number (jget s f) then jget s f else Null) (chart_samples tz history)) names"

subsection \<open>useVMStats.js\<close>

datatype stats_status = SLoading | SLive | SReconnecting | SFallback | SError | SClosed

record stats =
  vs_snapshot :: js
  vs_history :: "js list"
  vs_status :: stats_status
  vs_error :: "string option"
  vs_vm :: string
  vs_cap :: nat
  vs_gen :: nat
  vs_closed :: bool
  vs_failures :: nat
  vs_source :: "nat option"
  vs_open :: "nat list"
  vs_next :: nat
  vs_reconnect :: "nat option"
  vs_poll :: "nat option"
  vs_fetches :: "(nat \<times> string) list"
  vs_polls :: "string list"

text \<open>
  \<open>vs_gen\<close> numbers the effect runs (a fetch of an earlier run is a cancelled one); \<open>vs_cap\<close> and
  \<open>vs_vm\<close> are what the callbacks of the current run closed over: the limit is computed from the
  snapshot of the render in which the effect ran, before the effect resets it.
\<close>

definition stats_init :: stats where
  "stats_init =
     \<lparr>vs_snapshot = Null, vs_history = [], vs_status = SLoading, vs_error = None, vs_vm = [],
      vs_cap = 360, vs_gen = 0, vs_closed = False, vs_failures = 0, vs_source = None, vs_open = [],
      vs_next = 0, vs_reconnect = None, vs_poll = None, vs_fetches = [], vs_polls = []\<rparr>"

definition history_cap :: "js \<Rightarrow> nat" where
  "history_cap snap =
     (let n = jget snap ''history_size'' in if truthy n \<and> 0 < the_num n then nat \<lfloor>the_num n\<rfloor> else 360)"

text \<open>\<open>path\<close> is the machine's id as \<open>encodeURIComponent\<close> writes it.\<close>

definition stats_url :: "string \<Rightarrow> string \<Rightarrow> string" where
  "stats_url path api_key =
     ''/api/v1/vms/'' @ path @ ''/stats/stream''
     @ with_query (if api_key \<noteq> [] then usp_set ''api_key'' api_key [] else [])"

definition ingest_sample :: "(int \<Rightarrow> int) \<Rightarrow> js \<Rightarrow> stats \<Rightarrow> stats" where
  "ingest_sample tz sample s =
     (if \<not> truthy sample then s
      else s\<lparr>vs_history := append_sample tz (vs_history s) sample (vs_cap s),
             vs_snapshot :=
               jset ''last_sampled_at'' (js_coalesce (jget sample ''timestamp'')
                                                   (jget (js_or (vs_snapshot s) (Obj [])) ''last_sampled_at''))
                 (jset ''current'' sample (js_or (vs_snapshot s) (Obj [])))\<rparr>)"

definition stats_poll_start :: "stats \<Rightarrow> stats" where
  "stats_poll_start s = (if vs_closed s then s else s\<lparr>vs_polls := vs_polls s @ [vs_vm s]\<rparr>)"

definition start_fallback :: "stats \<Rightarrow> stats" where
  "start_fallback s =
     (if vs_closed s then s
      else (stats_poll_start (s\<lparr>vs_status := SFallback\<rparr>))\<lparr>vs_poll := Some fallback_poll_interval_ms\<rparr>)"

definition schedule_reconnect :: "stats \<Rightarrow> stats" where
  "schedule_reconnect s =
     (if vs_closed s then s
      else s\<lparr>vs_status := SReconnecting, vs_reconnect := Some (reconnect_delay (vs_failures s))\<rparr>)"

definition stats_connect :: "es_env \<Rightarrow> stats \<Rightarrow> stats" where
  "stats_connect env s =
     (if vs_closed s then s
      else if \<not> env_has_es env then start_fallback s
      else (let s1 = s\<lparr>vs_status := (if vs_failures s = 0 then SLoading else SReconnecting)\<rparr>
            in if \<not> env_ctor_ok env then schedule_reconnect s1
               else s1\<lparr>vs_source := Some (vs_next s1), vs_open := vs_next s1 # vs_open s1,
                       vs_next := Suc (vs_next s1)\<rparr>))"

definition stats_opened :: "stats \<Rightarrow> stats" where
  "stats_opened s = s\<lparr>vs_failures := 0, vs_status := SLive\<rparr>"

definition stats_message :: "(int \<Rightarrow> int) \<Rightarrow> js option \<Rightarrow> stats \<Rightarrow> stats" where
  "stats_message tz parsed s = (case parsed of None \<Rightarrow> s | Some v \<Rightarrow> ingest_sample tz v s)"

definition stats_failed :: "nat \<Rightarrow> stats \<Rightarrow> stats" where
  "stats_failed i s =
     (let s1 = s\<lparr>vs_open := removeAll i (vs_open s), vs_source := None, vs_failures := Suc (vs_failures s)\<rparr>
      in if fallback_after_failures \<le> vs_failures s1 then start_fallback s1 else schedule_reconnect s1)"

definition stats_reconnect_timer :: "es_env \<Rightarrow> stats \<Rightarrow> stats" where
  "stats_reconnect_timer env s = stats_connect env (s\<lparr>vs_reconnect := None\<rparr>)"

text \<open>The answer to the fetch that effect run \<open>g\<close> started: a message or a snapshot.\<close>

definition initial_done :: "es_env \<Rightarrow> nat \<Rightarrow> string \<Rightarrow> string + js \<Rightarrow> stats \<Rightarrow> stats" where
  "initial_done env g vm answer s =
     (let s0 = s\<lparr>vs_fetches := remove1 (g, vm) (vs_fetches s)\<rparr>
      in if vs_closed s0 then s0
         else (let s1 = (case answer of
                   Inl m \<Rightarrow> s0\<lparr>vs_error := Some (if m \<noteq> [] then m else ''failed to fetch metrics''),
                              vs_status := SError\<rparr>
                 | Inr snap \<Rightarrow> s0\<lparr>vs_history := (if is_array (jget snap ''history'') then elems (jget snap ''history'') else []),
                              vs_snapshot := snap, vs_error := None\<rparr>)
               in if g \<noteq> vs_gen s1 then s1 else stats_connect env s1))"

definition stats_poll_done :: "(int \<Rightarrow> int) \<Rightarrow> string \<Rightarrow> string + js \<Rightarrow> stats \<Rightarrow> stats" where
  "stats_poll_done tz vm answer s =
     (let s0 = s\<lparr>vs_polls := remove1 vm (vs_polls s)\<rparr>
      in case answer of
           Inl m \<Rightarrow> s0
         | Inr snap \<Rightarrow>
             if vs_closed s0 then s0
             else (let s1 = (if truthy (jget snap ''current'') then ingest_sample tz (jget snap ''current'') s0 else s0);
                       copy = (\<lambda>k v. jset k (jget snap k) v)
                   in s1\<lparr>vs_snapshot := fold copy [''state'', ''last_sampled_at'', ''history_size'', ''interval_seconds'']
                                         (js_or (vs_snapshot s1) (Obj []))\<rparr>))"

definition stats_effect :: "string \<Rightarrow> bool \<Rightarrow> stats \<Rightarrow> stats" where
  "stats_effect vm enabled s =
     (if \<not> enabled \<or> vm = [] then s\<lparr>vs_closed := True, vs_status := SClosed\<rparr>
      else s\<lparr>vs_closed := False, vs_failures := 0, vs_history := [], vs_snapshot := Null,
             vs_status := SLoading, vs_vm := vm, vs_cap := history_cap (vs_snapshot s),
             vs_gen := Suc (vs_gen s), vs_fetches := vs_fetches s @ [(Suc (vs_gen s), vm)]\<rparr>)"

definition stats_cleanup :: "stats \<Rightarrow> stats" where
  "stats_cleanup s =
     s\<lparr>vs_closed := True,
       vs_open := (case vs_source s of None \<Rightarrow> vs_open s | Some i \<Rightarrow> removeAll i (vs_open s)),
       vs_source := None, vs_reconnect := None, vs_poll := None, vs_status := SClosed\<rparr>"

inductive stats_step :: "es_env \<Rightarrow> (int \<Rightarrow> int) \<Rightarrow> bool \<times> stats \<Rightarrow> bool \<times> stats \<Rightarrow> bool" for env tz where
  vs_mount: "vm \<noteq> [] \<Longrightarrow> stats_step env tz (False, s) (True, stats_effect vm True s)"
| vs_off: "stats_step env tz (False, s) (False, stats_effect vm False s)"
| vs_unmount: "stats_step env tz (True, s) (False, stats_cleanup s)"
| vs_opened: "i \<in> set (vs_open s) \<Longrightarrow> stats_step env tz (r, s) (r, stats_opened s)"
| vs_message: "i \<in> set (vs_open s) \<Longrightarrow> stats_step env tz (r, s) (r, stats_message tz parsed s)"
| vs_failed: "i \<in> set (vs_open s) \<Longrightarrow> stats_step env tz (r, s) (r, stats_failed i s)"
| vs_timer: "vs_reconnect s = Some d \<Longrightarrow> stats_step env tz (r, s) (r, stats_reconnect_timer env s)"
| vs_tick: "vs_poll s = Some d \<Longrightarrow> stats_step env tz (r, s) (r, stats_poll_start s)"
| vs_fetched: "(g, vm) \<in> set (vs_fetches s) \<Longrightarrow> stats_step env tz (r, s) (r, initial_done env g vm a s)"
| vs_polled: "vm \<in> set (vs_polls s) \<Longrightarrow> stats_step env tz (r, s) (r, stats_poll_done tz vm a s)"

inductive stats_reach :: "es_env \<Rightarrow> (int \<Rightarrow> int) \<Rightarrow> bool \<times> stats \<Rightarrow> bool" for env tz where
  vs_start: "stats_reach env tz (False, stats_init)"
| vs_next_step: "stats_reach env tz c \<Longrightarrow> stats_step env tz c c' \<Longrightarrow> stats_reach env tz c'"

subsection \<open>The history\<close>

definition time_ordered :: "(int \<Rightarrow> int) \<Rightarrow> js list \<Rightarrow> bool" where
  "time_ordered tz h \<longleftrightarrow> (\<forall>s\<in>set h. sample_time tz s \<noteq> None)
     \<and> sorted_wrt (\<lambda>a b. the (sample_time tz a) < the (sample_time tz b)) h"

lemma time_ordered_drop: "time_ordered tz h \<Longrightarrow> time_ordered tz (drop n h)"
  by (auto simp: time_ordered_def sorted_wrt_drop dest: in_set_dropD)

lemma time_ordered_snoc:
  assumes "time_ordered tz h" "sample_time tz x = Some t"
    and "h = [] \<or> the (sample_time tz (last h)) < t"
  shows "time_ordered tz (h @ [x])"
proof (cases "h = []")
  case True
  then show ?thesis using assms(2) by (simp add: time_ordered_def)
next
  case False
  have "the (sample_time tz a) \<le> the (sample_time tz (last h))" if "a \<in> set h" for a
  proof -
    have "h = butlast h @ [last h]" using False by simp
    then have "sorted_wrt (\<lambda>a b. the (sample_time tz a) < the (sample_time tz b)) (butlast h @ [last h])"
      using assms(1) by (simp add: time_ordered_def)
    moreover have "a \<in> set (butlast h) \<or> a = last h"
      using that False by (metis Un_iff append_butlast_last_id empty_set list.simps(15) set_append singletonD)
    ultimately show ?thesis by (auto simp: sorted_wrt_append)
  qed
  then show ?thesis using assms False by (fastforce simp: time_ordered_def sorted_wrt_append)
qed

text \<open>
  The history of a chart stays in order and bounded. A sample that is no newer than the last one,
  or carries no time, changes nothing; any other becomes the last entry of a history that is still
  strictly ordered in time and never longer than the limit, and only the oldest entries go.
\<close>

theorem append_sample_ordered:
  assumes "time_ordered tz h" "1 \<le> cap" "truthy x"
  defines "h' \<equiv> append_sample tz h x cap"
  shows "time_ordered tz h' \<and> length h' \<le> max cap (length h)
    \<and> (sample_time tz x = None \<or> (h \<noteq> [] \<and> the (sample_time tz x) \<le> the (sample_time tz (last h)))
         \<longrightarrow> h' = h)
    \<and> (sample_time tz x \<noteq> None \<and> (h = [] \<or> the (sample_time tz (last h)) < the (sample_time tz x))
         \<longrightarrow> last h' = x \<and> length h' \<le> cap \<and> (\<exists>n. h' = drop n h @ [x] \<and> (length h < cap \<longrightarrow> n = 0)))"
proof (cases "sample_time tz x")
  case None
  then show ?thesis using assms by (simp add: h'_def append_sample_def)
next
  case (Some t)
  have l: "h \<noteq> [] \<Longrightarrow> \<exists>l. sample_time tz (last h) = Some l"
    using assms(1) by (auto simp: time_ordered_def)
  define k where "k = (if cap \<le> length h then length h - cap + 1 else 0)"
  have cut: "(if cap \<le> length h then drop (length h - cap + 1) h else h) = drop k h"
    by (simp add: k_def)
  have len: "length (drop k h @ [x]) \<le> cap" using assms(2) by (simp add: k_def)
  show ?thesis
  proof (cases "h = [] \<or> the (sample_time tz (last h)) < t")
    case True
    then have h': "h' = drop k h @ [x]" using Some l assms(3)
      unfolding h'_def append_sample_def cut by (auto split: option.splits)
    have "drop k h = [] \<or> the (sample_time tz (last (drop k h))) < t"
      using True by (cases "drop k h = []") (auto simp: last_drop)
    then have "time_ordered tz h'"
      unfolding h' using time_ordered_snoc[OF time_ordered_drop[OF assms(1)] Some] by blast
    moreover have "length h < cap \<longrightarrow> k = 0" by (simp add: k_def)
    ultimately show ?thesis using Some True len h' by auto
  next
    case False
    then have "h' = h" using Some l assms(3) by (auto simp: h'_def append_sample_def)
    then show ?thesis using Some False assms(1) by auto
  qed
qed

definition sample_at :: "int \<Rightarrow> js" where
  "sample_at t = Obj [(''timestamp'', Str (to_iso_string t)), (''cpu_percent'', JNat 5)]"

lemma sample_at_time:
  assumes "0 \<le> t" "t < 250000000000000" shows "sample_time tz (sample_at t) = Some t"
proof -
  have "day_from_year 0 * 86400000 \<le> t" "t < day_from_year 10000 * 86400000"
    using assms by (simp_all add: day_from_year_def)
  then show ?thesis by (simp add: sample_time_def sample_at_def parse_iso_string)
qed

lemma truthy_sample_at [simp]: "truthy (sample_at t)"
  by (simp add: sample_at_def)

theorem append_sample_ordered_witness:
  "append_sample (\<lambda>_. 0) [sample_at 1000] (sample_at 11000) 1
   = [sample_at 11000]"
proof -
  let ?a = "sample_at 1000" and ?b = "sample_at 11000"
  have o: "time_ordered (\<lambda>_. 0) [?a]" by (simp add: time_ordered_def sample_at_time)
  have "truthy ?b" by simp
  from append_sample_ordered[OF o order.refl this] obtain n
    where n: "append_sample (\<lambda>_. 0) [?a] ?b 1 = drop n [?a] @ [?b]" "length (append_sample (\<lambda>_. 0) [?a] ?b 1) \<le> 1"
    by (auto simp: sample_at_time)
  then show ?thesis by (cases n) simp_all
qed

text \<open>
  The columns of a chart always line up: one column per field plus the time column, all of the
  same length, whatever the samples hold.
\<close>

theorem chart_columns_align:
  "length (build_chart_data tz history fs) = Suc (length fs)
   \<and> (\<forall>col\<in>set (build_chart_data tz history fs). length col = length (chart_samples tz history))
   \<and> (\<forall>i<length fs. \<forall>v\<in>set (build_chart_data tz history fs ! Suc i). is_number v \<or> v = Null)"
  by (auto simp: build_chart_data_def split: if_splits)

theorem chart_columns_align_witness:
  "length (build_chart_data (\<lambda>_. 0) [sample_at 1000, Null] [''cpu_percent'', ''mem'']) = 3"
  using chart_columns_align[of "\<lambda>_. 0" "[sample_at 1000, Null]" "[''cpu_percent'', ''mem'']"]
  by simp

subsection \<open>Runs of the hook\<close>

definition stats_idle :: "stats \<Rightarrow> bool" where
  "stats_idle s \<longleftrightarrow> vs_source s = None \<and> vs_reconnect s = None \<and> vs_poll s = None"

definition stats_inv :: "bool \<times> stats \<Rightarrow> bool" where
  "stats_inv c \<longleftrightarrow> (case c of (r, s) \<Rightarrow>
     vs_open s = (case vs_source s of None \<Rightarrow> [] | Some i \<Rightarrow> [i])
     \<and> (vs_source s \<noteq> None \<longrightarrow> vs_reconnect s = None \<and> vs_poll s = None)
     \<and> (vs_reconnect s \<noteq> None \<longrightarrow> vs_poll s = None)
     \<and> (\<not> r \<longrightarrow> stats_idle s \<and> (vs_closed s \<or> vs_fetches s = []))
     \<and> (r \<longrightarrow> \<not> vs_closed s)
     \<and> distinct (vs_fetches s) \<and> (\<forall>f\<in>set (vs_fetches s). fst f \<le> vs_gen s)
     \<and> (\<forall>f\<in>set (vs_fetches s). fst f = vs_gen s \<longrightarrow> stats_idle s)
     \<and> (\<forall>f\<in>set (vs_fetches s). \<forall>f'\<in>set (vs_fetches s). fst f = vs_gen s \<and> fst f' = vs_gen s \<longrightarrow> f = f'))"

lemma stats_same:
  assumes "stats_inv (r, s)" "vs_source t = vs_source s" "vs_open t = vs_open s"
    "vs_reconnect t = vs_reconnect s" "vs_poll t = vs_poll s" "vs_closed t = vs_closed s"
    "vs_fetches t = vs_fetches s" "vs_gen t = vs_gen s"
  shows "stats_inv (r, t)"
  using assms(1) unfolding stats_inv_def stats_idle_def assms(2-) prod.case .

lemma ingest_simps [simp]:
  "vs_source (ingest_sample tz x s) = vs_source s" "vs_open (ingest_sample tz x s) = vs_open s"
  "vs_reconnect (ingest_sample tz x s) = vs_reconnect s" "vs_poll (ingest_sample tz x s) = vs_poll s"
  "vs_closed (ingest_sample tz x s) = vs_closed s" "vs_fetches (ingest_sample tz x s) = vs_fetches s"
  "vs_gen (ingest_sample tz x s) = vs_gen s" "vs_status (ingest_sample tz x s) = vs_status s"
  by (simp_all add: ingest_sample_def)

text \<open>Starting to connect from an idle state, with no fetch of the current run left.\<close>

lemma inv_stats_connect:
  assumes "\<not> vs_closed s" "stats_idle s" "vs_open s = []" "distinct (vs_fetches s)"
    "\<forall>f\<in>set (vs_fetches s). fst f < vs_gen s"
  shows "stats_inv (True, stats_connect env s)"
proof -
  have f: "\<forall>f\<in>set (vs_fetches s). fst f \<le> vs_gen s" "\<forall>f\<in>set (vs_fetches s). fst f \<noteq> vs_gen s"
    using assms(5) by auto
  show ?thesis using assms(1-4) f
    by (cases "env_has_es env"; cases "env_ctor_ok env")
      (simp_all add: stats_connect_def start_fallback_def stats_poll_start_def schedule_reconnect_def
        stats_inv_def stats_idle_def)
qed

lemma stats_not_idle:
  assumes "stats_inv (r, s)" "\<not> stats_idle s"
  shows "r" "\<not> vs_closed s" "distinct (vs_fetches s)" "\<forall>f\<in>set (vs_fetches s). fst f < vs_gen s"
proof -
  show r: "r" using assms unfolding stats_inv_def prod.case by blast
  then show "\<not> vs_closed s" "distinct (vs_fetches s)" using assms unfolding stats_inv_def prod.case by blast+
  have "\<forall>f\<in>set (vs_fetches s). fst f \<le> vs_gen s \<and> fst f \<noteq> vs_gen s"
    using assms unfolding stats_inv_def prod.case by blast
  then show "\<forall>f\<in>set (vs_fetches s). fst f < vs_gen s" by (simp add: order.strict_iff_order)
qed

lemma inv_stats_failed:
  assumes inv: "stats_inv (r, s)" and i: "i \<in> set (vs_open s)"
  shows "stats_inv (r, stats_failed i s)"
proof -
  have o: "vs_open s = [i]" "vs_source s = Some i" using assms
    by (auto simp: stats_inv_def split: option.splits)
  then have "\<not> stats_idle s" by (simp add: stats_idle_def)
  note n = stats_not_idle[OF inv this]
  have t: "vs_reconnect s = None" "vs_poll s = None" using inv o by (auto simp: stats_inv_def)
  have "\<forall>f\<in>set (vs_fetches s). fst f \<le> vs_gen s" "\<forall>f\<in>set (vs_fetches s). fst f \<noteq> vs_gen s"
    using n(4) by auto
  with n(1-3) o t show ?thesis
    by (simp add: stats_failed_def start_fallback_def stats_poll_start_def schedule_reconnect_def
        stats_inv_def stats_idle_def Let_def)
qed

lemma inv_stats_timer:
  assumes inv: "stats_inv (r, s)" and d: "vs_reconnect s = Some d"
  shows "stats_inv (r, stats_reconnect_timer env s)"
proof -
  have "\<not> stats_idle s" using d by (simp add: stats_idle_def)
  note n = stats_not_idle[OF inv this]
  have "vs_source s = None" "vs_poll s = None" "vs_open s = []" using inv d
    by (cases "vs_source s"; auto simp: stats_inv_def)+
  with n show ?thesis
    by (simp add: stats_reconnect_timer_def inv_stats_connect stats_idle_def)
qed

lemma inv_initial_done:
  assumes inv: "stats_inv (r, s)" and f: "(g, vm) \<in> set (vs_fetches s)"
  shows "stats_inv (r, initial_done env g vm a s)"
proof -
  let ?s0 = "s\<lparr>vs_fetches := remove1 (g, vm) (vs_fetches s)\<rparr>"
  have d: "distinct (vs_fetches s)" using inv by (simp add: stats_inv_def)
  have fs: "set (vs_fetches ?s0) = set (vs_fetches s) - {(g, vm)}" using d by simp
  have inv0: "stats_inv (r, ?s0)" using inv fs d by (auto simp: stats_inv_def stats_idle_def)
  define s1 where "s1 = (case a of
       Inl m \<Rightarrow> ?s0\<lparr>vs_error := Some (if m \<noteq> [] then m else ''failed to fetch metrics''), vs_status := SError\<rparr>
     | Inr snap \<Rightarrow> ?s0\<lparr>vs_history := (if is_array (jget snap ''history'') then elems (jget snap ''history'') else []),
                      vs_snapshot := snap, vs_error := None\<rparr>)"
  have inv1: "stats_inv (r, s1)" by (rule stats_same[OF inv0]) (simp_all add: s1_def split: sum.splits)
  have e: "initial_done env g vm a s =
      (if vs_closed s then ?s0 else if g \<noteq> vs_gen s then s1 else stats_connect env s1)"
    by (simp add: initial_done_def Let_def s1_def split: sum.splits)
  show ?thesis
  proof (cases "\<not> vs_closed s \<and> g = vs_gen s")
    case False
    then show ?thesis using inv0 inv1 by (auto simp: e)
  next
    case True
    have idle: "stats_idle s" using inv f True unfolding stats_inv_def prod.case by fastforce
    have only: "\<forall>f\<in>set (vs_fetches s). fst f = vs_gen s \<longrightarrow> f = (g, vm)"
      using inv f True unfolding stats_inv_def prod.case by fastforce
    have lt: "\<forall>f\<in>set (vs_fetches s1). fst f < vs_gen s1"
    proof
      fix x assume "x \<in> set (vs_fetches s1)"
      then have x: "x \<in> set (vs_fetches s)" "x \<noteq> (g, vm)" using fs by (auto simp: s1_def split: sum.splits)
      then have "fst x \<le> vs_gen s" "fst x \<noteq> vs_gen s" using inv only by (auto simp: stats_inv_def)
      then show "fst x < vs_gen s1" by (simp add: s1_def split: sum.splits)
    qed
    have "vs_open s1 = []" using idle inv by (simp add: s1_def stats_inv_def stats_idle_def split: sum.splits)
    moreover have "stats_idle s1" "\<not> vs_closed s1" "distinct (vs_fetches s1)"
      using idle True d by (simp_all add: s1_def stats_idle_def split: sum.splits)
    ultimately have "stats_inv (True, stats_connect env s1)" using lt by (intro inv_stats_connect) auto
    moreover have "r" using inv f True unfolding stats_inv_def prod.case by fastforce
    ultimately show ?thesis using True e by simp
  qed
qed

lemma inv_stats_poll_done: "stats_inv (r, s) \<Longrightarrow> stats_inv (r, stats_poll_done tz vm a s)"
  by (erule stats_same) (simp_all add: stats_poll_done_def Let_def split: sum.splits)

lemma inv_stats_message: "stats_inv (r, s) \<Longrightarrow> stats_inv (r, stats_message tz p s)"
  by (erule stats_same) (simp_all add: stats_message_def split: option.splits)

lemma inv_stats_opened: "stats_inv (r, s) \<Longrightarrow> stats_inv (r, stats_opened s)"
  by (erule stats_same) (simp_all add: stats_opened_def)

lemma inv_stats_poll_start: "stats_inv (r, s) \<Longrightarrow> stats_inv (r, stats_poll_start s)"
  by (erule stats_same) (simp_all add: stats_poll_start_def)

lemma inv_stats_mount: "stats_inv (False, s) \<Longrightarrow> vm \<noteq> [] \<Longrightarrow> stats_inv (True, stats_effect vm True s)"
  by (auto simp: stats_inv_def stats_effect_def stats_idle_def dest: bspec)

lemma inv_stats_off: "stats_inv (False, s) \<Longrightarrow> stats_inv (False, stats_effect vm False s)"
  by (auto simp: stats_inv_def stats_effect_def stats_idle_def)

lemma inv_stats_unmount: "stats_inv (True, s) \<Longrightarrow> stats_inv (False, stats_cleanup s)"
  by (cases "vs_source s") (auto simp: stats_inv_def stats_cleanup_def stats_idle_def)

lemma inv_stats_step: "stats_step env tz c c' \<Longrightarrow> stats_inv c \<Longrightarrow> stats_inv c'"
  by (induction rule: stats_step.induct)
    (blast intro: inv_stats_mount inv_stats_off inv_stats_unmount inv_stats_opened inv_stats_message
      inv_stats_failed inv_stats_timer inv_stats_poll_start inv_initial_done inv_stats_poll_done)+

lemma stats_reach_inv: "stats_reach env tz c \<Longrightarrow> stats_inv c"
proof (induction rule: stats_reach.induct)
  case vs_start
  show ?case by (simp add: stats_inv_def stats_init_def stats_idle_def)
qed (rule inv_stats_step)

text \<open>
  C38 The metrics hook uses one way at a time: in every reachable state at most one event stream is
  open, never together with an armed reconnect or the poll timer; and once the hook is unmounted or
  disabled none of them is left.
\<close>

theorem stats_exclusive:
  assumes "stats_reach env tz (r, s)"
  shows "vs_open s = (case vs_source s of None \<Rightarrow> [] | Some i \<Rightarrow> [i])
    \<and> \<not> (vs_source s \<noteq> None \<and> vs_reconnect s \<noteq> None)
    \<and> \<not> (vs_source s \<noteq> None \<and> vs_poll s \<noteq> None)
    \<and> \<not> (vs_reconnect s \<noteq> None \<and> vs_poll s \<noteq> None)
    \<and> (\<not> r \<longrightarrow> vs_open s = [] \<and> vs_reconnect s = None \<and> vs_poll s = None)"
  using stats_reach_inv[OF assms] by (auto simp: stats_inv_def stats_idle_def)

definition stats_live :: stats where
  "stats_live = stats_opened (initial_done browser_ok 1 ''vm-1'' (Inr (Obj [(''history'', Arr [])]))
                                (stats_effect ''vm-1'' True stats_init))"

lemma stats_live_reach: "stats_reach browser_ok tz (True, stats_live)"
  unfolding stats_live_def
  by (rule vs_next_step[OF vs_next_step[OF vs_next_step[OF vs_start vs_mount] vs_fetched]
        vs_opened[where i = 0]])
    (simp_all add: stats_effect_def stats_init_def initial_done_def stats_connect_def browser_ok_def Let_def)

theorem stats_exclusive_witness:
  "vs_open stats_live = [0] \<and> vs_reconnect stats_live = None \<and> vs_poll stats_live = None"
proof -
  have "vs_open stats_live = [0]" "vs_source stats_live = Some 0"
    by (simp_all add: stats_live_def stats_opened_def stats_effect_def stats_init_def
        initial_done_def stats_connect_def browser_ok_def Let_def)
  then show ?thesis using stats_exclusive[OF stats_live_reach] by auto
qed

text \<open>
  Falling back is one-way: once the hook polls, nothing that happens while it stays mounted
  opens a stream or arms a reconnect again, and the poll timer stays.
\<close>

theorem stats_fallback_stays:
  assumes "stats_reach env tz (True, s)" "vs_poll s = Some d" "stats_step env tz (True, s) (True, s')"
  shows "vs_poll s' = Some d \<and> vs_open s' = [] \<and> vs_reconnect s' = None"
proof -
  note inv = stats_reach_inv[OF assms(1)]
  have i: "vs_source s = None" "vs_open s = []" "vs_reconnect s = None"
    using inv assms(2) by (cases "vs_source s"; auto simp: stats_inv_def)+
  have g: "\<forall>f\<in>set (vs_fetches s). fst f \<noteq> vs_gen s"
    using inv assms(2) unfolding stats_inv_def prod.case stats_idle_def by fastforce
  from assms(3) show ?thesis
  proof cases
    case (vs_fetched g vm a)
    then show ?thesis using i g assms(2)
      by (auto simp: initial_done_def Let_def split: sum.splits)
  qed (use i assms(2) in \<open>auto simp: stats_poll_start_def stats_poll_done_def Let_def split: sum.splits\<close>)
qed

definition stats_polling :: stats where
  "stats_polling = initial_done \<lparr>env_has_es = False, env_ctor_ok = True\<rparr> 1 ''vm-1'' (Inl ''down'')
                     (stats_effect ''vm-1'' True stats_init)"

theorem stats_fallback_stays_witness:
  "vs_poll (stats_poll_start stats_polling) = Some 10000 \<and> vs_open (stats_poll_start stats_polling) = []"
proof -
  let ?e = "\<lparr>env_has_es = False, env_ctor_ok = True\<rparr>"
  have r: "stats_reach ?e (\<lambda>_. 0) (True, stats_polling)"
    unfolding stats_polling_def
    by (rule vs_next_step[OF vs_next_step[OF vs_start vs_mount] vs_fetched])
      (simp_all add: stats_effect_def stats_init_def)
  have p: "vs_poll stats_polling = Some 10000"
    by (simp add: stats_polling_def stats_effect_def stats_init_def initial_done_def stats_connect_def
        start_fallback_def stats_poll_start_def fallback_poll_interval_ms_def Let_def)
  show ?thesis using stats_fallback_stays[OF r p vs_tick[OF p]] by simp
qed

text \<open>
  The daemon's own history size is not honoured: the callbacks of a first mount hold the limit of
  the render before any snapshot arrived, so the first streamed sample cuts a longer history that
  the snapshot brought down to 360 entries, whatever \<open>history_size\<close> says.
\<close>

theorem stats_history_cut:
  assumes "jget snap ''history'' = Arr h" "360 \<le> length h" "vm \<noteq> []"
    and "sample_time tz (last h) = Some l" "sample_time tz x = Some t" "l < t" "truthy x"
  shows "vs_history (initial_done browser_ok 1 vm (Inr snap) (stats_effect vm True stats_init)) = h
    \<and> length (vs_history (stats_message tz (Some x)
         (initial_done browser_ok 1 vm (Inr snap) (stats_effect vm True stats_init)))) = 360"
proof -
  let ?s = "initial_done browser_ok 1 vm (Inr snap) (stats_effect vm True stats_init)"
  have "vs_history ?s = h" "vs_cap ?s = 360" using assms(1,3)
    by (simp_all add: initial_done_def stats_effect_def stats_init_def stats_connect_def browser_ok_def
        history_cap_def Let_def)
  moreover have "h \<noteq> []" using assms(2) by auto
  ultimately show ?thesis using assms(2,4-7)
    by (simp add: stats_message_def ingest_sample_def append_sample_def)
qed

theorem stats_history_cut_witness:
  "(let snap = Obj [(''history_size'', JNat 1000),
                    (''history'', Arr (replicate 400 (sample_at 1000)))]
    in history_cap snap = 1000
     \<and> length (vs_history (stats_message (\<lambda>_. 0) (Some (sample_at 11000))
          (initial_done browser_ok 1 ''vm-1'' (Inr snap) (stats_effect ''vm-1'' True stats_init)))) = 360)"
proof -
  let ?h = "replicate 400 (sample_at 1000)"
  let ?snap = "Obj [(''history_size'', JNat 1000), (''history'', Arr ?h)]"
  have h: "jget ?snap ''history'' = Arr ?h" "360 \<le> length ?h" "''vm-1'' \<noteq> ([] :: string)" by simp_all
  have l: "sample_time (\<lambda>_. 0) (last ?h) = Some 1000" by (simp add: sample_at_time)
  have t: "truthy (sample_at 11000)" by simp
  have m: "sample_time (\<lambda>_. 0) (sample_at 11000) = Some 11000" by (simp add: sample_at_time)
  have c: "history_cap ?snap = 1000" by (simp add: history_cap_def)
  show ?thesis
    using stats_history_cut[OF h l m _ t] c by (simp add: Let_def)
qed

text \<open>
  A late answer shows the wrong machine: when the hook is pointed at another machine while the
  first snapshot is in flight, that snapshot is installed for the new machine when it arrives.
\<close>

theorem stats_stale_snapshot:
  assumes "a \<noteq> []" "b \<noteq> []"
  defines "s \<equiv> stats_effect b True (stats_cleanup (stats_effect a True stats_init))"
  shows "(1, a) \<in> set (vs_fetches s) \<and> vs_vm (initial_done env 1 a (Inr snap) s) = b
    \<and> vs_snapshot (initial_done env 1 a (Inr snap) s) = snap"
  using assms(1,2) unfolding s_def
  by (simp add: stats_effect_def stats_cleanup_def stats_init_def initial_done_def Let_def)

theorem stats_stale_snapshot_witness:
  "vs_snapshot (initial_done browser_ok 1 ''vm-1'' (Inr (Obj [(''state'', Str ''running'')]))
      (stats_effect ''vm-2'' True (stats_cleanup (stats_effect ''vm-1'' True stats_init))))
   = Obj [(''state'', Str ''running'')]"
  using stats_stale_snapshot[of "''vm-1''" "''vm-2''" browser_ok "Obj [(''state'', Str ''running'')]"] by simp

end
