(* ===== verification/Selection.thy ===== *)
theory Selection imports JsValue begin

text \<open>
  Ticking rows of a list for a bulk action. \<open>ImageList\<close>, \<open>TemplateList\<close>, \<open>Settings\<close> and the
  snapshot and port lists of \<open>VMDetail\<close> keep a \<open>Set\<close> of ids, \<open>VMList\<close> an array. Both are modelled
  as they are written, over the list of ids in insertion order; the locale \<open>row_selection\<close> states
  what the pages rely on, and both are interpretations of it.
\<close>

subsection \<open>A \<open>Set\<close> of ids\<close>

definition set_add :: "string \<Rightarrow> string list \<Rightarrow> string list" where
  "set_add i s = (if i \<in> set s then s else s @ [i])"

definition set_of_list :: "string list \<Rightarrow> string list" where
  "set_of_list ids = fold set_add ids []"

definition set_toggle_one :: "string \<Rightarrow> string list \<Rightarrow> string list" where
  "set_toggle_one i s = (if i \<in> set s then removeAll i s else set_add i s)"

definition set_all_selected :: "string list \<Rightarrow> string list \<Rightarrow> bool" where
  "set_all_selected rows s \<longleftrightarrow> 0 < length s \<and> length s = length rows"

definition set_some_selected :: "string list \<Rightarrow> string list \<Rightarrow> bool" where
  "set_some_selected rows s \<longleftrightarrow> 0 < length s \<and> \<not> set_all_selected rows s"

definition set_toggle_all :: "string list \<Rightarrow> string list \<Rightarrow> string list" where
  "set_toggle_all rows s = (if set_all_selected rows s then [] else set_of_list rows)"

text \<open>The effect that drops the ids no longer listed.\<close>

definition set_prune :: "string list \<Rightarrow> string list \<Rightarrow> string list" where
  "set_prune rows s = (if rows = [] then [] else filter (\<lambda>i. i \<in> set rows) s)"

subsection \<open>An array of ids\<close>

definition arr_toggle_one :: "string \<Rightarrow> string list \<Rightarrow> string list" where
  "arr_toggle_one i s = (if i \<in> set s then filter (\<lambda>j. j \<noteq> i) s else s @ [i])"

text \<open>\<open>selectedVMs\<close>: the listed rows that are ticked.\<close>

definition arr_selected :: "string list \<Rightarrow> string list \<Rightarrow> string list" where
  "arr_selected rows s = filter (\<lambda>i. i \<in> set s) rows"

definition arr_toggle_all :: "string list \<Rightarrow> string list \<Rightarrow> string list" where
  "arr_toggle_all rows s = (if length (arr_selected rows s) = length rows then [] else rows)"

definition arr_prune :: "string list \<Rightarrow> string list \<Rightarrow> string list" where
  "arr_prune rows s = filter (\<lambda>i. i \<in> set rows) s"

subsection \<open>The interface\<close>

locale row_selection =
  fixes toggle :: "string \<Rightarrow> string list \<Rightarrow> string list"
    and toggle_all :: "string list \<Rightarrow> string list \<Rightarrow> string list"
    and prune :: "string list \<Rightarrow> string list \<Rightarrow> string list"
  assumes toggle_set: "distinct s \<Longrightarrow> set (toggle i s) = (if i \<in> set s then set s - {i} else insert i (set s))"
    and toggle_distinct: "distinct s \<Longrightarrow> distinct (toggle i s)"
    and all_set: "distinct rows \<Longrightarrow> distinct s \<Longrightarrow> set s \<subseteq> set rows \<Longrightarrow>
      set (toggle_all rows s) = (if set s = set rows then {} else set rows)"
    and all_distinct: "distinct rows \<Longrightarrow> distinct (toggle_all rows s)"
    and prune_set: "set (prune rows s) = set s \<inter> set rows"
    and prune_distinct: "distinct s \<Longrightarrow> distinct (prune rows s)"
begin

lemma toggle_twice: "distinct s \<Longrightarrow> set (toggle i (toggle i s)) = set s"
  by (auto simp: toggle_set toggle_distinct)

lemma keeps_listed:
  "distinct rows \<Longrightarrow> distinct s \<Longrightarrow> set s \<subseteq> set rows \<Longrightarrow>
   (i \<in> set rows \<longrightarrow> set (toggle i s) \<subseteq> set rows) \<and> set (toggle_all rows s) \<subseteq> set rows
   \<and> set (prune new s) \<subseteq> set new"
  by (auto simp: toggle_set all_set prune_set)

lemma all_twice:
  "distinct rows \<Longrightarrow> distinct s \<Longrightarrow> set s \<subseteq> set rows \<Longrightarrow>
   set (toggle_all rows (toggle_all rows s)) = (if set s = set rows then set rows else {})"
  using all_set[of rows s] all_distinct[of rows s] by (auto simp: all_set)

lemma prune_twice: "set (prune rows (prune rows s)) = set (prune rows s)"
  by (auto simp: prune_set)

end

lemma set_of_list_aux: "distinct acc \<Longrightarrow>
   distinct (fold set_add ids acc) \<and> set (fold set_add ids acc) = set acc \<union> set ids"
  by (induction ids arbitrary: acc) (auto simp: set_add_def)

lemma set_of_list_facts [simp]:
  "distinct (set_of_list ids)" "set (set_of_list ids) = set ids"
  using set_of_list_aux[of "[]" ids] by (simp_all add: set_of_list_def)

lemma same_length_subset:
  "distinct rows \<Longrightarrow> distinct s \<Longrightarrow> set s \<subseteq> set rows \<Longrightarrow> length s = length rows \<longleftrightarrow> set s = set rows"
  by (metis card_subset_eq distinct_card finite_set)

lemma selected_all:
  "distinct rows \<Longrightarrow> length (arr_selected rows s) = length rows \<longleftrightarrow> set rows \<subseteq> set s"
  unfolding arr_selected_def by (metis filter_True filter_id_conv length_filter_less nat_neq_iff subsetI subsetD)

interpretation set_rows: row_selection set_toggle_one set_toggle_all set_prune
proof
  fix rows s :: "string list"
  assume a: "distinct rows" "distinct s" "set s \<subseteq> set rows"
  show "set (set_toggle_all rows s) = (if set s = set rows then {} else set rows)"
  proof (cases "s = []")
    case True
    then show ?thesis by (simp add: set_toggle_all_def set_all_selected_def) 
  next
    case False
    then have "set_all_selected rows s \<longleftrightarrow> set s = set rows"
      using same_length_subset[OF a] by (simp add: set_all_selected_def)
    then show ?thesis by (simp add: set_toggle_all_def)
  qed
qed (auto simp: set_toggle_one_def set_add_def set_toggle_all_def set_prune_def distinct_removeAll)

interpretation arr_rows: row_selection arr_toggle_one arr_toggle_all arr_prune
proof
  fix rows s :: "string list"
  assume a: "distinct rows" "distinct s" "set s \<subseteq> set rows"
  show "set (arr_toggle_all rows s) = (if set s = set rows then {} else set rows)"
    using selected_all[OF a(1), of s] a(3) by (auto simp: arr_toggle_all_def)
qed (auto simp: arr_toggle_one_def arr_toggle_all_def arr_prune_def)

subsection \<open>Deleting the ticked rows\<close>

record rows =
  rw_selected :: "string list"
  rw_result :: "js option"

text \<open>
  \<open>handleBulkDelete\<close>: what it asks and sends, and the state it leaves. \<open>answer\<close> is the server's
  result, \<open>None\<close> when the request failed (the handler then rejects after the call); \<open>question\<close> is
  the confirmation some pages ask first and \<open>yes\<close> the operator's reply.
\<close>

definition bulk_delete ::
  "string \<Rightarrow> (nat \<Rightarrow> string) option \<Rightarrow> bool \<Rightarrow> js option \<Rightarrow> rows \<Rightarrow> js effect list \<times> rows" where
  "bulk_delete api question yes answer st =
     (if rw_selected st = [] then ([], st)
      else (let ask = (case question of None \<Rightarrow> [] | Some q \<Rightarrow> [Confirm (q (length (rw_selected st)))])
            in if question \<noteq> None \<and> \<not> yes then (ask, st)
               else (let call = Api api [Obj [(''ids'', Arr (map Str (rw_selected st)))]]
                     in case answer of
                          None \<Rightarrow> (ask @ [call], st)
                        | Some r \<Rightarrow> (ask @ [call, Callback ''refresh'' []],
                                     st\<lparr>rw_selected := [], rw_result := Some r\<rparr>))))"

text \<open>\<open>handleDelete\<close> of one row: confirmed, deleted, refreshed; nothing when declined.\<close>

definition delete_row :: "string \<Rightarrow> string \<Rightarrow> string \<Rightarrow> bool \<Rightarrow> bool \<Rightarrow> js effect list" where
  "delete_row api question i yes ok =
     Confirm question
     # (if yes then Api api [Str i] # (if ok then [Callback ''refresh'' []] else []) else [])"

text \<open>
  C26 What is ticked is what is deleted. On a page that keeps a \<open>Set\<close>, as on the one that keeps an
  array, ticking rows, ticking all of them and refreshing the list keep the ticked ids distinct and
  listed; ticking a row twice changes nothing; and the header box selects every listed row, or none
  when all were ticked.
\<close>

theorem selection_listed:
  assumes "distinct rows" "distinct s" "set s \<subseteq> set rows" "i \<in> set rows"
  shows "distinct (set_toggle_one i s) \<and> set (set_toggle_one i s) \<subseteq> set rows
    \<and> set (set_toggle_one i (set_toggle_one i s)) = set s
    \<and> distinct (set_toggle_all rows s)
    \<and> set (set_toggle_all rows s) = (if set s = set rows then {} else set rows)
    \<and> distinct (set_prune new s) \<and> set (set_prune new s) = set s \<inter> set new
    \<and> distinct (arr_toggle_one i s) \<and> set (arr_toggle_one i s) = set (set_toggle_one i s)
    \<and> set (arr_toggle_all rows s) = set (set_toggle_all rows s)
    \<and> set (arr_prune new s) = set (set_prune new s)"
  using assms set_rows.keeps_listed[OF assms(1-3), of i] set_rows.toggle_twice[OF assms(2)]
    set_rows.all_distinct[OF assms(1)] set_rows.toggle_distinct[OF assms(2)]
    arr_rows.toggle_distinct[OF assms(2)] set_rows.prune_distinct[OF assms(2)]
  by (simp add: set_rows.all_set arr_rows.all_set set_rows.toggle_set arr_rows.toggle_set
      set_rows.prune_set arr_rows.prune_set)

theorem selection_listed_witness:
  "set (set_toggle_all [''a'', ''b''] [''b'']) = {''a'', ''b''}
   \<and> set (arr_toggle_all [''a'', ''b''] [''b'']) = {''a'', ''b''}"
  using selection_listed[of "[''a'', ''b'']" "[''b'']" "''a''" "[]"] by auto

text \<open>
  A bulk delete sends one request, naming exactly the ticked rows, each once, and only after the
  operator agreed where the page asks; the ticks are dropped and the result shown only when the
  server answered, so that a failed request loses nothing.
\<close>

theorem bulk_delete_exact:
  assumes "distinct (rw_selected st)" "bulk_delete api question yes answer st = (effs, st')"
  shows "(rw_selected st = [] \<or> (question \<noteq> None \<and> \<not> yes) \<longrightarrow> st' = st \<and> (\<forall>e\<in>set effs. \<forall>a vs. e \<noteq> Api a vs))
    \<and> (rw_selected st \<noteq> [] \<and> (question = None \<or> yes) \<longrightarrow>
         filter (\<lambda>e. \<exists>a vs. e = Api a vs) effs = [Api api [Obj [(''ids'', Arr (map Str (rw_selected st)))]]]
         \<and> st' = (case answer of None \<Rightarrow> st | Some r \<Rightarrow> st\<lparr>rw_selected := [], rw_result := Some r\<rparr>)
         \<and> (Callback ''refresh'' [] \<in> set effs \<longleftrightarrow> answer \<noteq> None)
         \<and> distinct (elems (Arr (map Str (rw_selected st)))))"
  using assms
  by (auto simp: bulk_delete_def Let_def distinct_map inj_on_def split: if_splits option.splits)

theorem bulk_delete_exact_witness:
  "(let st = \<lparr>rw_selected = [''a'', ''b''], rw_result = None\<rparr>
    in snd (bulk_delete ''images.bulkDelete'' None True None st) = st)"
proof -
  let ?st = "\<lparr>rw_selected = [''a'', ''b''], rw_result = None\<rparr>"
  obtain effs st' where e: "bulk_delete ''images.bulkDelete'' None True None ?st = (effs, st')"
    by (metis surj_pair)
  have d: "distinct (rw_selected ?st)" by simp
  show ?thesis using bulk_delete_exact[OF d e] e by simp
qed

end
