(* ===== verification/Shared.thy ===== *)
theory Shared imports EventStream begin

text \<open>
  \<open>web/src/components/Shared.jsx\<close> and \<open>StorageLocationSelect.jsx\<close>: what the shared components show
  for their inputs (badges, indicators, progress, banners, filter panel, pagination, the storage
  picker), and the small computations that several list pages repeat (rows and total of an answer,
  the tags of a page, byte counts).
\<close>

text \<open>The interface's typographic characters, in UTF-8.\<close>

definition em_dash :: string where "em_dash = [CHR 0xE2, CHR 0x80, CHR 0x94]"
definition mid_dot :: string where "mid_dot = [CHR 0xC2, CHR 0xB7]"
definition ellipsis :: string where "ellipsis = [CHR 0xE2, CHR 0x80, CHR 0xA6]"
definition warning_sign :: string where "warning_sign = [CHR 0xE2, CHR 0x9A, CHR 0xA0]"

subsection \<open>Badges and indicators\<close>

definition state_style :: "string \<Rightarrow> string" where
  "state_style st =
     (case map_of [(''running'', ''badge-running''), (''stopped'', ''badge-stopped''),
                   (''creating'', ''badge-creating''), (''paused'', ''badge-paused''),
                   (''unknown'', ''badge-error''), (''deleted'', ''badge-error'')] st of
        Some c \<Rightarrow> c | None \<Rightarrow> ''badge-stopped'')"

text \<open>Class, whether the pulsing dot is shown, and the text.\<close>

definition status_badge :: "string \<Rightarrow> string \<times> bool \<times> string" where
  "status_badge st = (state_style st, st = ''running'', st)"

definition severity_style :: "string \<Rightarrow> string" where
  "severity_style sev =
     (case map_of
        [(''error'', ''badge-error''),
         (''warn'', ''px-1.5 py-0.5 rounded text-[10px] font-mono font-semibold bg-amber-900/40 text-amber-300 border border-amber-700/30''),
         (''info'', ''px-1.5 py-0.5 rounded text-[10px] font-mono font-semibold bg-blue-900/40 text-blue-300 border border-blue-700/30'')] sev of
        Some c \<Rightarrow> c
      | None \<Rightarrow> ''px-1.5 py-0.5 rounded text-[10px] font-mono font-semibold bg-steel-800/60 text-steel-400 border border-steel-700/30'')"

definition severity_badge :: "string \<Rightarrow> string \<times> string" where
  "severity_badge sev = (severity_style sev, if sev \<noteq> [] then sev else ''info'')"

fun es_status_str :: "es_status \<Rightarrow> string" where
  "es_status_str Connecting = ''connecting''"
| "es_status_str Live = ''live''"
| "es_status_str Reconnecting = ''reconnecting''"
| "es_status_str Fallback = ''fallback''"
| "es_status_str Shutdown = ''shutdown''"
| "es_status_str Closed = ''closed''"

text \<open>Colours, label, icon and the \<open>data-status\<close> attribute of the live pill.\<close>

definition live_indicator :: "string \<Rightarrow> string \<times> string \<times> string \<times> string" where
  "live_indicator st =
     (let d = (if st \<noteq> [] then st else ''closed'') in
      if st = es_status_str Live
      then (''bg-emerald-900/40 text-emerald-300 border-emerald-700/30'', ''live'', ''Radio'', d)
      else if st = es_status_str Reconnecting
      then (''bg-amber-900/40 text-amber-300 border-amber-700/30'', ''reconnecting'', ''RotateCcw'', d)
      else if st = es_status_str Fallback
      then (''bg-blue-900/40 text-blue-300 border-blue-700/30'', ''polling'', ''WifiOff'', d)
      else if st = es_status_str Shutdown
      then (''bg-red-950/50 text-red-300 border-red-800/40'', ''shutdown'', ''Power'', d)
      else (''bg-steel-800/60 text-steel-400 border-steel-700/30'',
            if st \<noteq> [] then st else ''offline'', ''CircleDot'', d))"

subsection \<open>Progress\<close>

definition progress_pct :: "rat \<Rightarrow> rat \<Rightarrow> rat" where
  "progress_pct v mx = (if 0 < mx then min 100 (max 0 (v / mx * 100)) else 0)"

definition progress_level :: "rat \<Rightarrow> string" where
  "progress_level pct = (if 90 \<le> pct then ''danger'' else if 75 \<le> pct then ''warn'' else ''ok'')"

definition progress_color :: "string \<Rightarrow> string" where
  "progress_color v =
     (case map_of [(''ok'', ''bg-forge-500''), (''warn'', ''bg-amber-500''), (''danger'', ''bg-red-500''),
                   (''info'', ''bg-blue-500''), (''neutral'', ''bg-steel-500'')] v of
        Some c \<Rightarrow> c | None \<Rightarrow> ''bg-forge-500'')"

text \<open>\<open>aria-valuenow\<close>, and the fill's colour and width unless the bar is indeterminate.\<close>

definition progress_bar :: "rat \<Rightarrow> rat \<Rightarrow> string \<Rightarrow> bool \<Rightarrow> int \<times> (string \<times> rat) option" where
  "progress_bar v mx variant indeterminate =
     (let pct = progress_pct v mx;
          color = progress_color (if variant \<noteq> [] then variant else progress_level pct)
      in (math_round pct, if indeterminate then None else Some (color, pct)))"

text \<open>The percentage shown (if any) and the bar of a usage card; \<open>mx\<close> is \<open>None\<close> when it is not finite.\<close>

definition usage_meter :: "rat \<Rightarrow> rat option \<Rightarrow> string \<Rightarrow> bool \<Rightarrow> int option \<times> int \<times> (string \<times> rat) option" where
  "usage_meter v mx variant show_percent =
     (let cap = (case mx of Some m \<Rightarrow> 0 < m | None \<Rightarrow> False);
          m = (case mx of Some m \<Rightarrow> m | None \<Rightarrow> 0);
          pct = (if cap then min 100 (max 0 (v / m * 100)) else 0)
      in (if cap \<and> show_percent then Some (math_round pct) else None,
          progress_bar v (if cap then m else 100) (if cap then variant else ''neutral'') False))"

text \<open>The elapsed seconds of a running operation: reset when it starts, ticked every 250 ms.\<close>

definition elapsed_seconds :: "int \<Rightarrow> int \<Rightarrow> int" where
  "elapsed_seconds start now = math_round (rat_of_int (now - start) / 1000)"

definition status_variant :: "string \<Rightarrow> string \<times> string" where
  "status_variant v =
     (let info = (''border-blue-800/40 bg-blue-950/30 text-blue-200'', ''Info'') in
      case map_of [(''success'', (''border-emerald-700/40 bg-emerald-950/30 text-emerald-200'', ''CheckCircle2'')),
                   (''warning'', (''border-amber-700/40 bg-amber-950/30 text-amber-200'', ''AlertTriangle'')),
                   (''error'', (''border-red-800/40 bg-red-950/30 text-red-300'', ''XCircle'')),
                   (''info'', info)] v of
        Some c \<Rightarrow> c | None \<Rightarrow> info)"

definition status_banner :: "string \<Rightarrow> string \<Rightarrow> (string \<times> string \<times> string) option" where
  "status_banner message variant =
     (if message = [] then None
      else Some (message, status_variant variant))"

subsection \<open>Filter panel and pagination\<close>

text \<open>
  Open state, active-count chip, whether \<open>Clear all\<close> is offered. \<open>toggles\<close> is the number of clicks
  on the header.
\<close>

definition filter_panel :: "bool \<Rightarrow> nat \<Rightarrow> nat \<Rightarrow> bool \<Rightarrow> bool \<times> nat option \<times> bool" where
  "filter_panel default_open toggles active has_clear =
     ((if even toggles then default_open else \<not> default_open),
      (if 0 < active then Some active else None), 0 < active \<and> has_clear)"

definition filter_panel_default_open :: bool where
  "filter_panel_default_open = False"

record pager =
  pg_start :: nat
  pg_end :: nat
  pg_total :: nat
  pg_page :: nat
  pg_pages :: nat
  pg_prev :: "nat option"
  pg_next :: "nat option"

text \<open>\<open>all_rows\<close> is \<open>None\<close> when the total is not finite; \<open>page\<close>, \<open>per_page\<close> may be 0 (unset).\<close>

definition ceil_div :: "nat \<Rightarrow> nat \<Rightarrow> nat" where
  "ceil_div a b = (a + b - 1) div b"

definition pagination :: "nat \<Rightarrow> nat \<Rightarrow> nat option \<Rightarrow> nat list \<Rightarrow> pager" where
  "pagination page per_page all_rows options =
     (let t = (case all_rows of Some n \<Rightarrow> n | None \<Rightarrow> 0);
          cur = max 1 (if page = 0 then 1 else page);
          per = max 1 (if per_page \<noteq> 0 then per_page
                       else if options \<noteq> [] \<and> hd options \<noteq> 0 then hd options else 25);
          pages = max 1 (ceil_div t per)
      in \<lparr>pg_start = (if t = 0 then 0 else (cur - 1) * per + 1),
          pg_end = (if t = 0 then 0 else min t (cur * per)),
          pg_total = t, pg_page = cur, pg_pages = pages,
          pg_prev = (if cur \<le> 1 then None else Some (cur - 1)),
          pg_next = (if pages \<le> cur then None else Some (cur + 1))\<rparr>)"

subsection \<open>StorageLocationSelect.jsx\<close>

fun scale_bytes :: "nat \<Rightarrow> rat \<Rightarrow> nat \<Rightarrow> rat \<times> nat" where
  "scale_bytes 0 c i = (c, i)"
| "scale_bytes (Suc left) c i = (if 1024 \<le> c then scale_bytes left (c / 1024) (Suc i) else (c, i))"

definition byte_units :: "string list" where
  "byte_units = [''B'', ''KB'', ''MB'', ''GB'', ''TB'', ''PB'']"

definition format_location_bytes :: "js \<Rightarrow> string" where
  "format_location_bytes v =
     (if \<not> truthy v then ''0 B''
      else (let (c, i) = scale_bytes (length byte_units - 1) (the_num v) 0
            in to_fixed (if 10 \<le> c \<or> i = 0 then 0 else 1) c @ '' '' @ byte_units ! i))"

definition storage_location_label :: "js \<Rightarrow> string" where
  "storage_location_label loc =
     (let n = to_str (jget loc ''name'');
          name = (if truthy (jget loc ''default'') then n @ '' (default)''
                  else if jget loc ''kind'' \<noteq> Str ''discovered'' \<and> truthy (jget loc ''path'')
                  then n @ '' ('' @ to_str (jget loc ''path'') @ '')'' else n)
      in if \<not> truthy (jget loc ''available'') then name @ '' '' @ em_dash @ '' unavailable''
         else name @ '' '' @ em_dash @ '' '' @ format_location_bytes (jget loc ''free_bytes'') @ '' free of ''
              @ format_location_bytes (jget loc ''total_bytes'')
              @ (if truthy (jget loc ''warning'') then '' '' @ warning_sign else []))"

definition is_path_location :: "js \<Rightarrow> bool" where
  "is_path_location v \<longleftrightarrow> is_string v \<and> starts_with (js_trim (the_str v)) ''/''"

definition custom_location :: string where
  "custom_location = ''__custom__''"

definition storage_known :: "js list \<Rightarrow> string \<Rightarrow> bool" where
  "storage_known locations v \<longleftrightarrow>
     (\<exists>l\<in>set locations. jget l ''name'' = Str (if v \<noteq> [] then v else ''default''))"

definition storage_custom_init :: "js list \<Rightarrow> string \<Rightarrow> bool" where
  "storage_custom_init locations v \<longleftrightarrow>
     \<not> storage_known locations v \<and> is_path_location (Str (if v \<noteq> [] then v else ''default''))"

definition storage_selected :: "bool \<Rightarrow> string \<Rightarrow> string" where
  "storage_selected custom v = (if custom then custom_location else if v \<noteq> [] then v else ''default'')"

definition storage_option :: "string \<Rightarrow> js \<Rightarrow> string \<times> bool" where
  "storage_option exclude loc =
     (storage_location_label loc @ (if jget loc ''name'' = Str exclude then '' (current)'' else []),
      \<not> truthy (jget loc ''available'') \<or> jget loc ''name'' = Str exclude)"

definition storage_groups :: "js list \<Rightarrow> js list \<times> js list" where
  "storage_groups locations =
     (filter (\<lambda>l. jget l ''kind'' \<noteq> Str ''discovered'') locations,
      filter (\<lambda>l. jget l ''kind'' = Str ''discovered'') locations)"

text \<open>\<open>handleSelect\<close>: whether the custom input is shown, and the value passed on.\<close>

definition storage_select :: "string \<Rightarrow> string \<Rightarrow> bool \<times> string" where
  "storage_select v next_choice =
     (if next_choice = custom_location then (True, if is_path_location (Str v) then v else [])
      else (False, next_choice))"

subsection \<open>What list pages compute from an answer\<close>

definition response_rows :: "js \<Rightarrow> js list" where
  "response_rows r = elems (js_or (jget r ''data'') (Arr []))"

definition total_rows :: "js \<Rightarrow> js list \<Rightarrow> js" where
  "total_rows r rows = js_coalesce (jget (jget r ''meta'') ''totalCount'') (JNat (length rows))"

fun str_le :: "string \<Rightarrow> string \<Rightarrow> bool" where
  "str_le [] _ = True"
| "str_le (a # s) [] = False"
| "str_le (a # s) (b # t) = (if a = b then str_le s t else (of_char a :: nat) < of_char b)"

fun insert_str :: "string \<Rightarrow> string list \<Rightarrow> string list" where
  "insert_str x [] = [x]"
| "insert_str x (y # ys) = (if str_le x y then x # y # ys else y # insert_str x ys)"

definition sort_strings :: "string list \<Rightarrow> string list" where
  "sort_strings xs = foldr insert_str xs []"

definition all_tags :: "js list \<Rightarrow> string list" where
  "all_tags rows =
     sort_strings (remdups (map the_str (concat (map (\<lambda>r. elems (js_or (jget r ''tags'') (Arr []))) rows))))"

definition human_size :: "rat \<Rightarrow> string" where
  "human_size bytes =
     (if 1073741824 \<le> bytes then to_fixed 1 (bytes / 1073741824) @ '' GB''
      else if 1048576 \<le> bytes then to_fixed 1 (bytes / 1048576) @ '' MB''
      else num_str (Fin bytes) @ '' B'')"

subsection \<open>Facts\<close>

lemma progress_pct_range: "0 \<le> progress_pct v mx \<and> progress_pct v mx \<le> 100"
  by (simp add: progress_pct_def)

lemma set_insert_str: "set (insert_str x xs) = insert x (set xs)"
  by (induction xs) auto

lemma set_sort_strings: "set (sort_strings xs) = set xs"
  unfolding sort_strings_def by (induction xs) (auto simp: set_insert_str)

lemma str_le_total: "str_le a b \<or> str_le b a"
  by (induction a b rule: str_le.induct) (auto simp: not_less le_less)

lemma str_le_trans: "str_le a b \<Longrightarrow> str_le b c \<Longrightarrow> str_le a c"
proof (induction a b arbitrary: c rule: str_le.induct)
  case (3 a s b t)
  then show ?case by (cases c) (auto split: if_splits)
next
  case (1 u)
  then show ?case by simp
qed simp

lemma sorted_insert_str:
  "sorted_wrt str_le xs \<Longrightarrow> sorted_wrt str_le (insert_str x xs)"
  using str_le_total by (induction xs) (auto simp: set_insert_str intro: str_le_trans)

lemma sorted_sort_strings: "sorted_wrt str_le (sort_strings xs)"
  unfolding sort_strings_def by (induction xs) (auto simp: sorted_insert_str)



end
