(* ===== verification/FetchHooks.thy ===== *)
theory FetchHooks imports JsValue begin

text \<open>
  \<open>web/src/hooks/useFetch.js\<close>: the polled request behind every page (\<open>useFetch\<close>) and the one-shot
  request behind every button (\<open>useMutation\<close>). \<open>LogViewer.jsx\<close> and \<open>Activity.jsx\<close> write the same loop
  out by hand; it differs in that each run of the effect announces that it is loading, and in that a
  paused log asks for nothing.

  A loader is described by what it asks for now (\<open>None\<close> while it asks for nothing), what it shows, and
  the requests that are still under way, each with its number; the server may answer them in any
  order.
\<close>

record 'q loader =
  ld_query :: "'q option"
  ld_data :: js
  ld_loading :: bool
  ld_error :: "string option"
  ld_interval :: bool
  ld_flight :: "(nat \<times> 'q) list"
  ld_next :: nat

definition loader_init :: "'q option \<Rightarrow> 'q loader" where
  "loader_init q =
     \<lparr>ld_query = q, ld_data = Null, ld_loading = True, ld_error = None, ld_interval = False,
      ld_flight = [], ld_next = 0\<rparr>"

definition load :: "'q loader \<Rightarrow> 'q loader" where
  "load s =
     (case ld_query s of
        None \<Rightarrow> s
      | Some q \<Rightarrow> s\<lparr>ld_flight := ld_flight s @ [(ld_next s, q)], ld_next := Suc (ld_next s)\<rparr>)"

text \<open>
  The effect that runs on mounting and whenever what is asked for changes: it loads at once and starts
  the interval anew (the cleanup of the previous run cleared the old one).
\<close>

definition load_effect :: "bool \<Rightarrow> bool \<Rightarrow> 'q option \<Rightarrow> 'q loader \<Rightarrow> 'q loader" where
  "load_effect announces polls q s =
     load (s\<lparr>ld_query := q, ld_interval := polls, ld_loading := (announces \<or> ld_loading s)\<rparr>)"

definition load_tick :: "'q loader \<Rightarrow> 'q loader" where
  "load_tick s = (if ld_interval s then load s else s)"

definition load_done :: "nat \<times> 'q \<Rightarrow> string + js \<Rightarrow> 'q loader \<Rightarrow> 'q loader" where
  "load_done r answer s =
     (let s1 = s\<lparr>ld_flight := remove1 r (ld_flight s), ld_loading := False\<rparr> in
      case answer of
        Inr d \<Rightarrow> s1\<lparr>ld_data := d, ld_error := None\<rparr>
      | Inl m \<Rightarrow> s1\<lparr>ld_error := Some m\<rparr>)"

definition load_cleanup :: "'q loader \<Rightarrow> 'q loader" where
  "load_cleanup s = s\<lparr>ld_interval := False\<rparr>"

text \<open>
  The runs of a mounted loader. \<open>srv\<close> is what the server answers to a request; with \<open>ordered\<close> the
  answers arrive in the order of the requests.
\<close>

inductive loader_reach :: "bool \<Rightarrow> bool \<Rightarrow> bool \<Rightarrow> ('q \<Rightarrow> string + js) \<Rightarrow> 'q loader \<Rightarrow> bool"
  for announces polls ordered srv where
  lr_mount: "loader_reach announces polls ordered srv (load_effect announces polls q (loader_init q))"
| lr_change: "loader_reach announces polls ordered srv s \<Longrightarrow>
    loader_reach announces polls ordered srv (load_effect announces polls q s)"
| lr_tick: "loader_reach announces polls ordered srv s \<Longrightarrow> loader_reach announces polls ordered srv (load_tick s)"
| lr_refresh: "loader_reach announces polls ordered srv s \<Longrightarrow> loader_reach announces polls ordered srv (load s)"
| lr_answer: "loader_reach announces polls ordered srv s \<Longrightarrow> r \<in> set (ld_flight s) \<Longrightarrow>
    ordered \<longrightarrow> r = hd (ld_flight s) \<Longrightarrow>
    loader_reach announces polls ordered srv (load_done r (srv (snd r)) s)"

text \<open>What the page shows is the outcome of \<open>q\<close>.\<close>

definition displays :: "('q \<Rightarrow> string + js) \<Rightarrow> 'q \<Rightarrow> 'q loader \<Rightarrow> bool" where
  "displays srv q s \<longleftrightarrow> (case srv q of Inr d \<Rightarrow> ld_data s = d \<and> ld_error s = None | Inl m \<Rightarrow> ld_error s = Some m)"

definition loader_ok :: "('q \<Rightarrow> string + js) \<Rightarrow> 'q loader \<Rightarrow> bool" where
  "loader_ok srv s \<longleftrightarrow> (\<forall>q. ld_query s = Some q \<longrightarrow>
     (if ld_flight s = [] then displays srv q s else snd (last (ld_flight s)) = q))"

lemma load_simps [simp]:
  "ld_query (load s) = ld_query s" "ld_data (load s) = ld_data s" "ld_error (load s) = ld_error s"
  "ld_loading (load s) = ld_loading s" "ld_interval (load s) = ld_interval s"
  by (simp_all add: load_def split: option.splits)

lemma load_flight: "ld_flight (load s) = ld_flight s @ (case ld_query s of None \<Rightarrow> [] | Some q \<Rightarrow> [(ld_next s, q)])"
  by (simp add: load_def split: option.splits)

lemma displays_cong: "ld_data s = ld_data t \<Longrightarrow> ld_error s = ld_error t \<Longrightarrow> displays srv q s = displays srv q t"
  by (simp add: displays_def split: sum.splits)

lemma loader_ok_load: "loader_ok srv (load s)"
  by (auto simp: loader_ok_def load_flight)

lemma loader_ok_answer:
  assumes "loader_ok srv s" "ld_flight s \<noteq> []"
  shows "loader_ok srv (load_done (hd (ld_flight s)) (srv (snd (hd (ld_flight s)))) s)"
proof -
  obtain r rs where f: "ld_flight s = r # rs" using assms(2) by (cases "ld_flight s") auto
  then show ?thesis using assms(1)
    by (cases "srv (snd r)"; cases "rs = []") (auto simp: loader_ok_def load_done_def displays_def)
qed

lemma ordered_ok:
  "loader_reach announces polls True srv s \<Longrightarrow> loader_ok srv s"
proof (induction rule: loader_reach.induct)
  case (lr_tick s)
  then show ?case by (simp add: load_tick_def loader_ok_load)
next
  case (lr_answer s r)
  then have "ld_flight s \<noteq> []" "r = hd (ld_flight s)" by auto
  then show ?case using loader_ok_answer lr_answer.IH by blast
qed (simp_all add: load_effect_def loader_ok_load)

lemma loading_pending:
  "loader_reach announces polls ordered srv s \<Longrightarrow>
   (ld_loading s \<longrightarrow> ld_flight s \<noteq> [] \<or> ld_query s = None)
   \<and> (ld_interval s \<longleftrightarrow> polls)"
  by (induction rule: loader_reach.induct)
    (auto simp: load_effect_def load_tick_def load_flight load_done_def loader_init_def Let_def
      split: option.splits sum.splits)

text \<open>
  In whatever order answers arrive: while the loader polls, the next tick asks what is asked for now,
  and the answer to any such request, whichever it is, is what the page shows next.
\<close>

lemma tick_asks:
  "ld_interval s \<Longrightarrow> ld_query s = Some q \<Longrightarrow> ld_flight (load_tick s) = ld_flight s @ [(ld_next s, q)]"
  by (simp add: load_tick_def load_flight)

lemma answer_shows: "displays srv (snd r) (load_done r (srv (snd r)) s)"
  by (simp add: displays_def load_done_def Let_def split: sum.splits)

text \<open>
  A page shows what it asks for, when answers arrive in the order of the requests: whenever
  nothing is under way, it shows the data, or the error, that the server gives for the current request,
  whatever changes of filters, polls and refreshes came before; the spinner turns only while an answer
  is awaited, and the interval keeps running.
\<close>

theorem fetch_in_order:
  assumes "loader_reach announces polls True srv s" "ld_query s = Some q" "ld_flight s = []"
  shows "(case srv q of Inr d \<Rightarrow> ld_data s = d \<and> ld_error s = None | Inl m \<Rightarrow> ld_error s = Some m)
    \<and> \<not> ld_loading s \<and> (ld_interval s \<longleftrightarrow> polls)"
  using ordered_ok[OF assms(1)] loading_pending[OF assms(1)] assms(2,3)
  by (auto simp: loader_ok_def displays_def)

theorem fetch_in_order_witness:
  "ld_data (load_done (0, ''q'') (Inr (Str ''d'')) (load_effect False True (Some ''q'') (loader_init (Some ''q'')))) = Str ''d''"
proof -
  let ?s = "load_effect False True (Some ''q'') (loader_init (Some ''q''))"
  let ?srv = "\<lambda>q. Inr (Str ''d'') :: string + js"
  let ?t = "load_done (0, ''q'') (?srv ''q'') ?s"
  have f: "ld_flight ?s = [(0, ''q'')]" by (simp add: load_effect_def load_flight loader_init_def)
  have "loader_reach False True True ?srv (load_done (0, ''q'') (?srv (snd (0::nat, ''q''))) ?s)"
    by (rule lr_answer[OF lr_mount]) (simp_all add: f)
  then have r: "loader_reach False True True ?srv ?t" by (simp only: snd_conv)
  have q: "ld_query ?t = Some ''q''" "ld_flight ?t = []"
    by (simp_all add: load_done_def Let_def f) (simp add: load_effect_def)
  show ?thesis using fetch_in_order[OF r q] by simp
qed

text \<open>
  A late answer wins: when the answer to an earlier request arrives after the answer to the current
  one, the page ends up showing the earlier request's data, with no error and no spinner, although it
  asks for something else.
\<close>

theorem fetch_stale:
  assumes "d1 \<noteq> d2"
    and s_def: "s = load_done (0, q1) (Inr d1) (load_done (1, q2) (Inr d2)
      (load_effect announces polls (Some q2) (load_effect announces polls (Some q1) (loader_init (Some q1)))))"
  shows "ld_query s = Some q2 \<and> ld_data s = d1 \<and> ld_data s \<noteq> d2 \<and> ld_flight s = [] \<and> ld_error s = None \<and> \<not> ld_loading s"
  using assms(1) by (simp add: s_def load_done_def load_effect_def load_def loader_init_def)

theorem fetch_stale_witness:
  "ld_data (load_done (0, ''a'') (Inr (Str ''old'')) (load_done (1, ''b'') (Inr (Str ''new''))
      (load_effect False True (Some ''b'') (load_effect False True (Some ''a'') (loader_init (Some ''a'')))))) = Str ''old''"
  using fetch_stale[of "Str ''old''" "Str ''new''" _ "''a''" "''b''" False True] by simp

subsection \<open>\<open>useMutation\<close>\<close>

record mutation =
  mu_loading :: bool
  mu_error :: "string option"

definition mutation_init :: mutation where
  "mutation_init = \<lparr>mu_loading = False, mu_error = None\<rparr>"

definition mutation_reset :: "mutation \<Rightarrow> mutation" where
  "mutation_reset m = m\<lparr>mu_error := None\<rparr>"

definition mutation_start :: "mutation \<Rightarrow> mutation" where
  "mutation_start m = m\<lparr>mu_loading := True, mu_error := None\<rparr>"

text \<open>The end of a request: what \<open>execute\<close> resolves to (or rejects with), and the state it leaves.\<close>

definition mutation_done :: "string + js \<Rightarrow> mutation \<Rightarrow> (string + js) \<times> mutation" where
  "mutation_done answer m =
     (answer, (case answer of Inr d \<Rightarrow> m\<lparr>mu_loading := False\<rparr>
                            | Inl e \<Rightarrow> m\<lparr>mu_error := Some e, mu_loading := False\<rparr>))"

definition mutate :: "string + js \<Rightarrow> mutation \<Rightarrow> (string + js) \<times> mutation" where
  "mutate answer m = mutation_done answer (mutation_start m)"

lemma mutate_outcome:
  "fst (mutate answer m) = answer"
  "\<not> mu_loading (snd (mutate answer m))"
  "mu_error (snd (mutate answer m)) = (case answer of Inl e \<Rightarrow> Some e | Inr d \<Rightarrow> None)"
  by (simp_all add: mutate_def mutation_done_def mutation_start_def split: sum.splits)

end
