(* ===== verification/FilterPage.thy ===== *)
theory FilterPage imports JsValue SearchParams begin

text \<open>
  The filter machinery that the list pages share (\<open>VMList\<close>, \<open>ImageList\<close>, \<open>TemplateList\<close>,
  \<open>Schedules\<close>, \<open>Settings\<close>, \<open>LogViewer\<close>, \<open>Activity\<close>): every page keeps, per filter, a
  committed value that drives its request and, for free-text filters, a live input that is committed
  250 ms after the last keystroke; a change of a filter goes back to page 1 and is mirrored in the
  URL's query string, from which the page is restored.

  A page is the record \<open>fpage\<close>; what differs between the pages is a table \<open>fconf\<close> that each
  page's theory writes out from its source. The functions here are the effects of the pages: one per
  thing the operator or a timer can do. The locale \<open>filter_page\<close> proves once what every page needs
  from a well-formed table; each page's theory interprets it.
\<close>

subsection \<open>State and tables\<close>

record fpage =
  fp_input :: "string \<Rightarrow> string"
  fp_value :: "string \<Rightarrow> string"
  fp_timer :: "string \<Rightarrow> string option"
  fp_page :: nat
  fp_per_page :: nat
  fp_url :: params

text \<open>
  \<open>fc_fields\<close>: URL key and default value of each mirrored filter, in the order they are written;
  \<open>fc_start\<close>: the first value of a filter that is not mirrored; \<open>fc_fresh\<close>: whether the query string
  is written anew, without the parameters of others; \<open>fc_debounced\<close>: the filters with a live input;
  \<open>fc_trims\<close>: whether committing trims; \<open>fc_lazy\<close>: whether a timer is armed only when there is
  something to commit;
  \<open>fc_write\<close>: how a value is written into the URL (as it is, but for times that are converted first);
  \<open>fc_restore\<close>: how a value read from the URL is checked; \<open>fc_reset\<close> and \<open>fc_dep\<close>: the filters whose
  change goes back to page 1, and the value they are compared by; \<open>fc_paged\<close>: whether page and page
  size are mirrored too, and \<open>fc_prefix\<close> what comes before \<open>page\<close> and \<open>per_page\<close> then; the last three tables serve \<open>Clear all\<close> and its badge.
\<close>

record fconf =
  fc_fields :: "(string \<times> string) list"
  fc_start :: "string \<Rightarrow> string"
  fc_fresh :: bool
  fc_debounced :: "string list"
  fc_trims :: bool
  fc_lazy :: bool
  fc_write :: "string \<Rightarrow> string \<Rightarrow> string"
  fc_restore :: "string \<Rightarrow> string \<Rightarrow> string"
  fc_reset :: "string list"
  fc_dep :: "string \<Rightarrow> string \<Rightarrow> string"
  fc_paged :: bool
  fc_prefix :: string
  fc_per_page :: nat
  fc_clear_inputs :: "string list"
  fc_clear_values :: "string list"
  fc_counted :: "string list"

definition field_keys :: "fconf \<Rightarrow> string list" where
  "field_keys c = map fst (fc_fields c)"

definition field_default :: "fconf \<Rightarrow> string \<Rightarrow> string" where
  "field_default c k = (case map_of (fc_fields c) k of None \<Rightarrow> [] | Some d \<Rightarrow> d)"

definition page_key :: "fconf \<Rightarrow> string" where
  "page_key c = fc_prefix c @ ''page''"

definition per_page_key :: "fconf \<Rightarrow> string" where
  "per_page_key c = fc_prefix c @ ''per_page''"

lemma page_keys_differ [simp]: "page_key c \<noteq> per_page_key c" "per_page_key c \<noteq> page_key c"
  by (simp_all add: page_key_def per_page_key_def)

subsection \<open>The URL\<close>

text \<open>\<open>if (v && v !== d) next.set(k, v); else next.delete(k)\<close>\<close>

definition write_field :: "(string \<Rightarrow> string) \<Rightarrow> string \<times> string \<Rightarrow> params \<Rightarrow> params" where
  "write_field v f ps =
     (case f of (k, d) \<Rightarrow> if v k \<noteq> [] \<and> v k \<noteq> d then usp_set k (v k) ps else usp_delete k ps)"

definition write_page :: "fconf \<Rightarrow> fpage \<Rightarrow> params \<Rightarrow> params" where
  "write_page c s ps =
     (if fc_paged c then
        (let ps1 = (if 1 < fp_page s then usp_set (page_key c) (nat_str (fp_page s)) ps
                    else usp_delete (page_key c) ps)
         in if fp_per_page s \<noteq> fc_per_page c then usp_set (per_page_key c) (nat_str (fp_per_page s)) ps1
            else usp_delete (per_page_key c) ps1)
      else ps)"

definition written :: "fconf \<Rightarrow> fpage \<Rightarrow> string \<Rightarrow> string" where
  "written c s k = fc_write c k (fp_value s k)"

definition sync_url :: "fconf \<Rightarrow> fpage \<Rightarrow> fpage" where
  "sync_url c s = s\<lparr>fp_url := write_page c s (fold (write_field (written c s)) (fc_fields c)
     (if fc_fresh c then [] else fp_url s))\<rparr>"

definition field_changed :: "fconf \<Rightarrow> fpage \<Rightarrow> fpage \<Rightarrow> bool" where
  "field_changed c s t \<longleftrightarrow> (\<exists>k\<in>set (field_keys c). written c s k \<noteq> written c t k)
     \<or> (fc_paged c \<and> (fp_page s \<noteq> fp_page t \<or> fp_per_page s \<noteq> fp_per_page t))"

definition reset_changed :: "fconf \<Rightarrow> fpage \<Rightarrow> fpage \<Rightarrow> bool" where
  "reset_changed c s t \<longleftrightarrow>
     (\<exists>k\<in>set (fc_reset c). fc_dep c k (fp_value s k) \<noteq> fc_dep c k (fp_value t k))"

text \<open>The effects that run after a render that went from \<open>s\<close> to \<open>t\<close>.\<close>

definition settle :: "fconf \<Rightarrow> fpage \<Rightarrow> fpage \<Rightarrow> fpage" where
  "settle c s t =
     (let t1 = (if reset_changed c s t then t\<lparr>fp_page := 1\<rparr> else t)
      in if field_changed c s t1 then sync_url c t1 else t1)"

subsection \<open>What can happen\<close>

definition norm_input :: "fconf \<Rightarrow> string \<Rightarrow> string" where
  "norm_input c v = (if fc_trims c then js_trim v else v)"

definition type_input :: "fconf \<Rightarrow> string \<Rightarrow> string \<Rightarrow> fpage \<Rightarrow> fpage" where
  "type_input c k v s =
     (if fp_input s k = v then s
      else s\<lparr>fp_input := (fp_input s)(k := v),
             fp_timer := (fp_timer s)(k := (if fc_lazy c \<and> norm_input c v = fp_value s k then None
                                            else Some (norm_input c v)))\<rparr>)"

definition fire_timer :: "fconf \<Rightarrow> string \<Rightarrow> fpage \<Rightarrow> fpage" where
  "fire_timer c k s =
     (case fp_timer s k of
        None \<Rightarrow> s
      | Some v \<Rightarrow> settle c s (s\<lparr>fp_value := (fp_value s)(k := v), fp_timer := (fp_timer s)(k := None)\<rparr>))"

definition select_value :: "fconf \<Rightarrow> string \<Rightarrow> string \<Rightarrow> fpage \<Rightarrow> fpage" where
  "select_value c k v s = settle c s (s\<lparr>fp_value := (fp_value s)(k := v)\<rparr>)"

definition set_page :: "fconf \<Rightarrow> nat \<Rightarrow> fpage \<Rightarrow> fpage" where
  "set_page c n s = settle c s (s\<lparr>fp_page := n\<rparr>)"

definition set_per_page :: "fconf \<Rightarrow> nat \<Rightarrow> fpage \<Rightarrow> fpage" where
  "set_per_page c n s = settle c s (s\<lparr>fp_per_page := n, fp_page := 1\<rparr>)"

definition clear_filters :: "fconf \<Rightarrow> fpage \<Rightarrow> fpage" where
  "clear_filters c s =
     (let t = fold (\<lambda>k. type_input c k []) (fc_clear_inputs c) s
      in settle c t (t\<lparr>fp_value := (\<lambda>k. if k \<in> set (fc_clear_values c) then [] else fp_value t k)\<rparr>))"

text \<open>A button beside some filters that empties just these.\<close>

definition clear_keys :: "fconf \<Rightarrow> string list \<Rightarrow> fpage \<Rightarrow> fpage" where
  "clear_keys c ks s =
     (let t = fold (\<lambda>k. type_input c k []) (filter (\<lambda>k. k \<in> set (fc_debounced c)) ks) s
      in settle c t (t\<lparr>fp_value :=
           (\<lambda>k. if k \<in> set ks \<and> k \<notin> set (fc_debounced c) then [] else fp_value t k)\<rparr>))"

text \<open>The badge: how many of the counted filters hold more than white space.\<close>

definition live_value :: "fconf \<Rightarrow> fpage \<Rightarrow> string \<Rightarrow> string" where
  "live_value c s k = (if k \<in> set (fc_debounced c) then fp_input s k else fp_value s k)"

definition active_count :: "fconf \<Rightarrow> fpage \<Rightarrow> nat" where
  "active_count c s = length (filter (\<lambda>k. js_trim (live_value c s k) \<noteq> []) (fc_counted c))"

subsection \<open>Mounting\<close>

definition url_value :: "fconf \<Rightarrow> params \<Rightarrow> string \<Rightarrow> string" where
  "url_value c ps k =
     (if k \<in> set (field_keys c) then fc_restore c k (usp_get_or (field_default c k) k ps) else fc_start c k)"

text \<open>\<open>parseInt(searchParams.get(k) || '', 10)\<close> when it is a positive number, else the default.\<close>

definition url_number :: "string \<Rightarrow> nat \<Rightarrow> params \<Rightarrow> nat" where
  "url_number k d ps =
     (case parse_int (usp_get_or [] k ps) of None \<Rightarrow> d | Some n \<Rightarrow> if 0 < n then nat n else d)"

text \<open>
  The first render reads the URL; the mount effects then arm the debounce timers with the values
  just read, go to page 1 and mirror the filters.
\<close>

definition first_render :: "fconf \<Rightarrow> params \<Rightarrow> fpage" where
  "first_render c ps =
     \<lparr>fp_input = (\<lambda>k. if k \<in> set (fc_debounced c) then url_value c ps k else []),
      fp_value = url_value c ps,
      fp_timer = (\<lambda>k. None),
      fp_page = (if fc_paged c then url_number (page_key c) 1 ps else 1),
      fp_per_page = (if fc_paged c then url_number (per_page_key c) (fc_per_page c) ps else fc_per_page c),
      fp_url = ps\<rparr>"

definition mount_page :: "fconf \<Rightarrow> params \<Rightarrow> fpage" where
  "mount_page c ps =
     (let s = first_render c ps;
          s1 = s\<lparr>fp_timer := (\<lambda>k. if k \<in> set (fc_debounced c) \<and> \<not> (fc_lazy c \<and> norm_input c (fp_input s k) = fp_value s k)
                             then Some (norm_input c (fp_input s k)) else None)\<rparr>;
          s2 = sync_url c s1
      in settle c s2 (s2\<lparr>fp_page := 1\<rparr>))"

subsection \<open>The invariant of a page\<close>

definition wf_conf :: "fconf \<Rightarrow> bool" where
  "wf_conf c \<longleftrightarrow> distinct (field_keys c) \<and> page_key c \<notin> set (field_keys c)
     \<and> per_page_key c \<notin> set (field_keys c)
     \<and> set (fc_clear_inputs c) \<subseteq> set (fc_debounced c)
     \<and> set (fc_debounced c) \<inter> set (fc_clear_values c) \<subseteq> set (fc_clear_inputs c)"

text \<open>What the URL says of a filter with value \<open>v\<close>: nothing when it is empty or the default.\<close>

definition url_entry :: "string \<Rightarrow> string \<Rightarrow> string option" where
  "url_entry d v = (if v \<noteq> [] \<and> v \<noteq> d then Some v else None)"

definition synced :: "fconf \<Rightarrow> fpage \<Rightarrow> bool" where
  "synced c s \<longleftrightarrow>
     (\<forall>k\<in>set (field_keys c). usp_get k (fp_url s) = url_entry (field_default c k) (written c s k))
     \<and> (fc_paged c \<longrightarrow>
          usp_get (page_key c) (fp_url s) = (if 1 < fp_page s then Some (nat_str (fp_page s)) else None)
        \<and> usp_get (per_page_key c) (fp_url s)
            = (if fp_per_page s \<noteq> fc_per_page c then Some (nat_str (fp_per_page s)) else None))"

text \<open>The parameters of the address that are the page's own.\<close>

definition own_key :: "fconf \<Rightarrow> string \<Rightarrow> bool" where
  "own_key c k \<longleftrightarrow> k \<in> set (field_keys c) \<or> (fc_paged c \<and> (k = page_key c \<or> k = per_page_key c))"

definition timers_ok :: "fconf \<Rightarrow> fpage \<Rightarrow> bool" where
  "timers_ok c s \<longleftrightarrow> (\<forall>k. if k \<in> set (fc_debounced c)
       then fp_timer s k = Some (norm_input c (fp_input s k))
          \<or> (fp_timer s k = None \<and> fp_value s k = norm_input c (fp_input s k))
       else fp_timer s k = None)"

definition page_ok :: "fconf \<Rightarrow> fpage \<Rightarrow> bool" where
  "page_ok c s \<longleftrightarrow> timers_ok c s \<and> synced c s \<and> 1 \<le> fp_page s"

lemma timers_okD:
  "timers_ok c s \<Longrightarrow> k \<in> set (fc_debounced c) \<Longrightarrow>
     fp_timer s k = Some (norm_input c (fp_input s k))
     \<or> (fp_timer s k = None \<and> fp_value s k = norm_input c (fp_input s k))"
  "timers_ok c s \<Longrightarrow> k \<notin> set (fc_debounced c) \<Longrightarrow> fp_timer s k = None"
  unfolding timers_ok_def by (meson)+

lemma timers_okI:
  "(\<And>k. k \<in> set (fc_debounced c) \<Longrightarrow> fp_timer s k = Some (norm_input c (fp_input s k))
     \<or> (fp_timer s k = None \<and> fp_value s k = norm_input c (fp_input s k))) \<Longrightarrow>
   (\<And>k. k \<notin> set (fc_debounced c) \<Longrightarrow> fp_timer s k = None) \<Longrightarrow> timers_ok c s"
  unfolding timers_ok_def by simp

text \<open>
  The states a page can get into: it is mounted on some URL; then the operator types into live
  inputs, picks values of the other filters, pages, changes the page size and clears (all filters or some), and
  debounce timers fire, in any order.
\<close>

inductive page_reach :: "fconf \<Rightarrow> fpage \<Rightarrow> bool" for c where
  pr_mount: "page_reach c (mount_page c ps)"
| pr_type: "page_reach c s \<Longrightarrow> k \<in> set (fc_debounced c) \<Longrightarrow> page_reach c (type_input c k v s)"
| pr_fire: "page_reach c s \<Longrightarrow> page_reach c (fire_timer c k s)"
| pr_select: "page_reach c s \<Longrightarrow> k \<notin> set (fc_debounced c) \<Longrightarrow> page_reach c (select_value c k v s)"
| pr_page: "page_reach c s \<Longrightarrow> 1 \<le> n \<Longrightarrow> page_reach c (set_page c n s)"
| pr_per_page: "page_reach c s \<Longrightarrow> page_reach c (set_per_page c n s)"
| pr_clear: "page_reach c s \<Longrightarrow> page_reach c (clear_filters c s)"
| pr_clear_keys: "page_reach c s \<Longrightarrow> page_reach c (clear_keys c ks s)"

text \<open>All the debounce timers that are due fire.\<close>

definition fire_all :: "fconf \<Rightarrow> fpage \<Rightarrow> fpage" where
  "fire_all c s = fold (fire_timer c) (fc_debounced c) s"

lemma usp_get_write_field:
  "usp_get k (write_field v f ps) = (if k = fst f then url_entry (snd f) (v k) else usp_get k ps)"
  by (cases f) (simp add: write_field_def url_entry_def)

lemma usp_get_fold_write:
  "distinct (map fst fs) \<Longrightarrow>
   usp_get k (fold (write_field v) fs ps) =
     (case map_of fs k of None \<Rightarrow> usp_get k ps | Some d \<Rightarrow> url_entry d (v k))"
proof (induction fs arbitrary: ps)
  case (Cons f fs)
  have f: "fst f \<notin> set (map fst fs)" using Cons.prems by simp
  then have "map_of fs (fst f) = None" by (simp only: map_of_eq_None_iff set_map not_False_eq_True)
  with Cons show ?case
    by (cases "k = fst f"; cases "map_of fs k"; cases f) (simp_all add: usp_get_write_field)
qed simp

lemma written_value: "fp_value s = fp_value t \<Longrightarrow> written c s k = written c t k"
  by (simp add: written_def)

lemma written_simps [simp]:
  "written c (s\<lparr>fp_url := u\<rparr>) k = written c s k" "written c (s\<lparr>fp_page := n\<rparr>) k = written c s k"
  "written c (s\<lparr>fp_per_page := n\<rparr>) k = written c s k" "written c (s\<lparr>fp_input := i\<rparr>) k = written c s k"
  "written c (s\<lparr>fp_timer := m\<rparr>) k = written c s k" "written c (sync_url c s) k = written c s k"
  by (simp_all add: written_def sync_url_def)

lemma settle_simps [simp]:
  "fp_input (settle c s t) = fp_input t" "fp_value (settle c s t) = fp_value t"
  "fp_timer (settle c s t) = fp_timer t" "fp_per_page (settle c s t) = fp_per_page t"
  "fp_page (settle c s t) = (if reset_changed c s t then 1 else fp_page t)"
  by (simp_all add: settle_def sync_url_def Let_def)

lemma type_input_simps [simp]:
  "fp_value (type_input c k v s) = fp_value s" "fp_page (type_input c k v s) = fp_page s"
  "fp_per_page (type_input c k v s) = fp_per_page s" "fp_url (type_input c k v s) = fp_url s"
  "fp_input (type_input c k v s) = (fp_input s)(k := v)"
  by (auto simp: type_input_def)

lemma type_fold_simps [simp]:
  "fp_value (fold (\<lambda>k. type_input c k []) ks s) = fp_value s"
  "fp_page (fold (\<lambda>k. type_input c k []) ks s) = fp_page s"
  "fp_per_page (fold (\<lambda>k. type_input c k []) ks s) = fp_per_page s"
  "fp_url (fold (\<lambda>k. type_input c k []) ks s) = fp_url s"
  by (induction ks arbitrary: s) simp_all

lemma written_type [simp]:
  "written c (type_input c k v s) k' = written c s k'"
  "written c (fold (\<lambda>k. type_input c k []) ks s) k' = written c s k'"
  by (simp_all add: written_def)

lemma type_fold_input:
  "fp_input (fold (\<lambda>k. type_input c k []) ks s) k = (if k \<in> set ks then [] else fp_input s k)"
  by (induction ks arbitrary: s) auto

lemma timers_ok_type:
  "timers_ok c s \<Longrightarrow> k \<in> set (fc_debounced c) \<Longrightarrow> timers_ok c (type_input c k v s)"
  by (simp add: timers_ok_def type_input_def)

lemma timers_ok_type_fold:
  "timers_ok c s \<Longrightarrow> set ks \<subseteq> set (fc_debounced c) \<Longrightarrow>
   timers_ok c (fold (\<lambda>k. type_input c k []) ks s)"
  by (induction ks arbitrary: s) (simp_all add: timers_ok_type)

lemma norm_input_Nil [simp]: "norm_input c [] = []"
  by (simp add: norm_input_def)

locale filter_page =
  fixes c :: fconf
  assumes wf: "wf_conf c"
begin

lemma keys_distinct: "distinct (map fst (fc_fields c))"
  and page_keys: "page_key c \<notin> set (field_keys c)" "per_page_key c \<notin> set (field_keys c)"
  using wf by (simp_all add: wf_conf_def field_keys_def)

lemma default_some: "k \<in> set (field_keys c) \<Longrightarrow> map_of (fc_fields c) k = Some (field_default c k)"
  using keys_distinct by (auto simp: field_keys_def field_default_def split: option.splits)

lemma get_synced:
  "usp_get k (fp_url (sync_url c s)) =
     (if k \<in> set (field_keys c) then url_entry (field_default c k) (written c s k)
      else if fc_paged c \<and> k = page_key c then
        (if 1 < fp_page s then Some (nat_str (fp_page s)) else None)
      else if fc_paged c \<and> k = per_page_key c then
        (if fp_per_page s \<noteq> fc_per_page c then Some (nat_str (fp_per_page s)) else None)
      else if fc_fresh c then None else usp_get k (fp_url s))"
proof -
  have p: "usp_get k (write_page c s ps) =
      (if fc_paged c \<and> k = page_key c then (if 1 < fp_page s then Some (nat_str (fp_page s)) else None)
       else if fc_paged c \<and> k = per_page_key c then
         (if fp_per_page s \<noteq> fc_per_page c then Some (nat_str (fp_per_page s)) else None)
       else usp_get k ps)" for ps
    by (simp add: write_page_def Let_def)
  have e: "usp_get k [] = None" by (simp add: usp_get_def)
  have "k \<in> set (field_keys c) \<Longrightarrow> k \<noteq> page_key c \<and> k \<noteq> per_page_key c" using page_keys by blast
  moreover have "k \<notin> set (field_keys c) \<Longrightarrow> map_of (fc_fields c) k = None"
    by (simp add: field_keys_def map_of_eq_None_iff)
  ultimately show ?thesis using default_some[of k]
    by (simp add: sync_url_def p usp_get_fold_write[OF keys_distinct] e)
qed

lemma synced_sync: "synced c (sync_url c s)"
  unfolding synced_def using page_keys by (simp add: get_synced) (simp add: sync_url_def)

lemma synced_settle:
  assumes "synced c s" "fp_url t = fp_url s"
  shows "synced c (settle c s t)"
proof -
  let ?t = "if reset_changed c s t then t\<lparr>fp_page := 1\<rparr> else t"
  show ?thesis
  proof (cases "field_changed c s ?t")
    case True
    then show ?thesis unfolding settle_def Let_def using synced_sync by simp
  next
    case False
    then have "synced c ?t" using assms by (auto simp: synced_def field_changed_def)
    with False show ?thesis by (simp add: settle_def Let_def)
  qed
qed

lemma foreign_settle:
  assumes "k \<notin> set (field_keys c)" "fc_paged c \<longrightarrow> k \<noteq> page_key c \<and> k \<noteq> per_page_key c" "\<not> fc_fresh c"
  shows "usp_get k (fp_url (settle c s t)) = usp_get k (fp_url t)"
  using assms by (cases "fc_paged c") (simp_all add: settle_def Let_def get_synced)

lemma timers_settle: "timers_ok c t \<Longrightarrow> timers_ok c (settle c s t)"
  by (simp add: timers_ok_def)

lemma ok_mount: "page_ok c (mount_page c ps)"
proof -
  have "timers_ok c (mount_page c ps)"
    by (simp add: mount_page_def timers_ok_def sync_url_def first_render_def Let_def)
  moreover have "synced c (mount_page c ps)"
    unfolding mount_page_def Let_def by (rule synced_settle[OF synced_sync]) simp
  moreover have "1 \<le> fp_page (mount_page c ps)" by (simp add: mount_page_def Let_def)
  ultimately show ?thesis by (simp add: page_ok_def)
qed

lemma ok_type: "page_ok c s \<Longrightarrow> k \<in> set (fc_debounced c) \<Longrightarrow> page_ok c (type_input c k v s)"
  by (simp add: page_ok_def timers_ok_type synced_def)

lemma timers_fired:
  assumes "timers_ok c s" "fp_timer s k = Some v"
  shows "timers_ok c (s\<lparr>fp_value := (fp_value s)(k := v), fp_timer := (fp_timer s)(k := None)\<rparr>)"
proof -
  have "k \<in> set (fc_debounced c)" using assms timers_okD(2) by fastforce
  with assms have "v = norm_input c (fp_input s k)" using timers_okD(1) by fastforce
  then show ?thesis
    by (intro timers_okI) (use timers_okD[OF assms(1)] in \<open>auto\<close>)
qed

lemma ok_fire: "page_ok c s \<Longrightarrow> page_ok c (fire_timer c k s)"
  unfolding page_ok_def fire_timer_def
  by (auto intro!: synced_settle timers_settle timers_fired split: option.splits)

lemma ok_select: "page_ok c s \<Longrightarrow> k \<notin> set (fc_debounced c) \<Longrightarrow> page_ok c (select_value c k v s)"
  unfolding page_ok_def select_value_def
  by (auto intro!: synced_settle timers_settle) (auto simp: timers_ok_def)

lemma ok_set_page: "page_ok c s \<Longrightarrow> 1 \<le> n \<Longrightarrow> page_ok c (set_page c n s)"
  unfolding page_ok_def set_page_def
  by (auto intro!: synced_settle timers_settle) (auto simp: timers_ok_def)

lemma ok_set_per_page: "page_ok c s \<Longrightarrow> page_ok c (set_per_page c n s)"
  unfolding page_ok_def set_per_page_def
  by (auto intro!: synced_settle timers_settle) (auto simp: timers_ok_def)

lemma ok_clear:
  assumes "page_ok c s" shows "page_ok c (clear_filters c s)"
proof -
  let ?t = "fold (\<lambda>k. type_input c k []) (fc_clear_inputs c) s"
  let ?u = "?t\<lparr>fp_value := (\<lambda>k. if k \<in> set (fc_clear_values c) then [] else fp_value ?t k)\<rparr>"
  have sub: "set (fc_clear_inputs c) \<subseteq> set (fc_debounced c)"
    "set (fc_debounced c) \<inter> set (fc_clear_values c) \<subseteq> set (fc_clear_inputs c)"
    using wf by (simp_all add: wf_conf_def)
  have t: "timers_ok c ?t" using assms sub by (simp add: page_ok_def timers_ok_type_fold)
  have "timers_ok c ?u"
  proof (rule timers_okI)
    fix k assume k: "k \<in> set (fc_debounced c)"
    show "fp_timer ?u k = Some (norm_input c (fp_input ?u k))
      \<or> (fp_timer ?u k = None \<and> fp_value ?u k = norm_input c (fp_input ?u k))"
      using timers_okD(1)[OF t k] sub k by (cases "k \<in> set (fc_clear_values c)")
        (auto simp: type_fold_input)
  qed (use timers_okD(2)[OF t] in simp)
  then have "timers_ok c (settle c ?t ?u)" by (rule timers_settle)
  moreover have "synced c (settle c ?t ?u)"
    using assms by (intro synced_settle) (auto simp: page_ok_def synced_def)
  ultimately show ?thesis using assms by (simp add: clear_filters_def page_ok_def Let_def)
qed

lemma ok_clear_keys:
  assumes "page_ok c s" shows "page_ok c (clear_keys c ks s)"
proof -
  let ?t = "fold (\<lambda>k. type_input c k []) (filter (\<lambda>k. k \<in> set (fc_debounced c)) ks) s"
  let ?u = "?t\<lparr>fp_value := (\<lambda>k. if k \<in> set ks \<and> k \<notin> set (fc_debounced c) then [] else fp_value ?t k)\<rparr>"
  have t: "timers_ok c ?t" using assms by (intro timers_ok_type_fold) (auto simp: page_ok_def)
  have "timers_ok c ?u" using timers_okD[OF t] by (intro timers_okI) simp_all
  then have "timers_ok c (settle c ?t ?u)" by (rule timers_settle)
  moreover have "synced c (settle c ?t ?u)"
    using assms by (intro synced_settle) (auto simp: page_ok_def synced_def)
  ultimately show ?thesis using assms by (simp add: clear_keys_def page_ok_def Let_def)
qed

lemma reach_ok: "page_reach c s \<Longrightarrow> page_ok c s"
  by (induction rule: page_reach.induct)
    (blast intro: ok_mount ok_type ok_fire ok_select ok_set_page ok_set_per_page ok_clear
      ok_clear_keys)+

text \<open>A page that writes its address anew keeps no parameter but its own.\<close>

lemma fresh_sync: "fc_fresh c \<Longrightarrow> \<not> own_key c k \<Longrightarrow> usp_get k (fp_url (sync_url c s)) = None"
  by (simp add: get_synced own_key_def)

lemma fresh_settle:
  assumes "fc_fresh c" "\<not> own_key c k" "usp_get k (fp_url t) = None"
  shows "usp_get k (fp_url (settle c s t)) = None"
  using assms fresh_sync by (simp add: settle_def Let_def)

lemma fresh_reach:
  assumes "page_reach c s" "fc_fresh c" "\<not> own_key c k"
  shows "usp_get k (fp_url s) = None"
  using assms(1)
proof (induction rule: page_reach.induct)
  case (pr_mount ps)
  show ?case unfolding mount_page_def Let_def
    by (rule fresh_settle[OF assms(2,3)]) (simp add: fresh_sync[OF assms(2,3)])
next
  case (pr_fire s k)
  then show ?case by (auto simp: fire_timer_def intro!: fresh_settle[OF assms(2,3)] split: option.splits)
qed (simp_all add: select_value_def set_page_def set_per_page_def clear_filters_def clear_keys_def Let_def
    fresh_settle[OF assms(2,3)])

lemma fire_one:
  assumes "timers_ok c s" "k \<in> set (fc_debounced c)"
  shows "fp_timer (fire_timer c k s) k = None"
    "fp_value (fire_timer c k s) k = norm_input c (fp_input s k)"
  using timers_okD(1)[OF assms] by (auto simp: fire_timer_def)

lemma fire_other:
  "k' \<noteq> k \<Longrightarrow> fp_timer (fire_timer c k s) k' = fp_timer s k' \<and> fp_value (fire_timer c k s) k' = fp_value s k'"
  "fp_input (fire_timer c k s) = fp_input s"
  by (auto simp: fire_timer_def split: option.splits)

lemma fire_fold:
  assumes "page_ok c s" "set ks \<subseteq> set (fc_debounced c)"
  shows "page_ok c (fold (fire_timer c) ks s) \<and> fp_input (fold (fire_timer c) ks s) = fp_input s
    \<and> (\<forall>k. fp_timer s k = None \<longrightarrow> fp_timer (fold (fire_timer c) ks s) k = None
           \<and> fp_value (fold (fire_timer c) ks s) k = fp_value s k)
    \<and> (\<forall>k\<in>set ks. fp_timer (fold (fire_timer c) ks s) k = None)"
  using assms
proof (induction ks arbitrary: s)
  case (Cons k ks)
  have ok: "page_ok c (fire_timer c k s)" by (rule ok_fire) (rule Cons.prems)
  note IH = Cons.IH[OF ok]
  have keep: "fp_timer s k' = None \<Longrightarrow>
      fp_timer (fire_timer c k s) k' = None \<and> fp_value (fire_timer c k s) k' = fp_value s k'" for k'
    by (cases "k' = k") (auto simp: fire_other, auto simp: fire_timer_def)
  have t: "fp_timer (fire_timer c k s) k = None"
    using Cons.prems by (intro fire_one) (auto simp: page_ok_def)
  show ?case using IH Cons.prems keep t fire_other(2)[of k s] by auto
qed simp

lemma fire_all_commits:
  assumes "page_ok c s"
  shows "page_ok c (fire_all c s)" "fp_input (fire_all c s) = fp_input s"
    "\<forall>k. fp_timer (fire_all c s) k = None"
    "\<forall>k\<in>set (fc_debounced c). fp_value (fire_all c s) k = norm_input c (fp_input s k)"
proof -
  note f = fire_fold[OF assms subset_refl, folded fire_all_def]
  from f show ok: "page_ok c (fire_all c s)" and i: "fp_input (fire_all c s) = fp_input s" by auto
  show n: "\<forall>k. fp_timer (fire_all c s) k = None"
    using f ok timers_okD(2) by (metis page_ok_def)
  show "\<forall>k\<in>set (fc_debounced c). fp_value (fire_all c s) k = norm_input c (fp_input s k)"
    using ok n i timers_okD(1) by (fastforce simp: page_ok_def)
qed

lemma mount_value:
  "k \<in> set (field_keys c) \<Longrightarrow>
   fp_value (mount_page c ps) k = fc_restore c k (usp_get_or (field_default c k) k ps)"
  by (simp add: mount_page_def Let_def sync_url_def first_render_def url_value_def)

lemma mount_keeps_foreign:
  assumes "k \<notin> set (field_keys c)" "fc_paged c \<longrightarrow> k \<noteq> page_key c \<and> k \<noteq> per_page_key c" "\<not> fc_fresh c"
  shows "usp_get k (fp_url (mount_page c ps)) = usp_get k ps"
  using assms by (cases "fc_paged c")
    (simp_all add: mount_page_def Let_def foreign_settle get_synced first_render_def)

lemma reload_value:
  assumes "page_ok c s" "k \<in> set (field_keys c)"
  shows "fp_value (mount_page c (usp_of_search (CHR ''?'' # usp_to_string (fp_url s)))) k =
    fc_restore c k (if written c s k = [] then field_default c k else written c s k)"
  using assms
  by (simp add: mount_value usp_of_search_def usp_parse_to_string usp_get_or_def page_ok_def
      synced_def url_entry_def split: option.splits if_splits)

lemma reload_page: "fp_page (mount_page c ps) = 1"
  by (simp add: mount_page_def Let_def)

end

end
