(* ===== verification/Controls.thy ===== *)
theory Controls imports FilterPage begin

text \<open>
  The filter controls that a list page offers: what each input, select and button of the page's
  markup does to the page's state. A page's theory lists its controls in the order of the markup,
  each under its \<open>data-testid\<close>; the lemmas here say once that well-formed controls never leave the
  reachable states and that what a control sets is still there after a reload.
\<close>

datatype control =
    TextOf string
  | PickOf string "string list"
  | ValueOf string
  | ClearOf "string list"

text \<open>
  \<open>onChange\<close> (or \<open>onClick\<close>) with the text \<open>v\<close>: a select can only yield one of its options. \<open>conv\<close> is
  what the page makes of an entered value before it stores it.
\<close>

fun use_control :: "fconf \<Rightarrow> (string \<Rightarrow> string \<Rightarrow> string) \<Rightarrow> control \<Rightarrow> string \<Rightarrow> fpage \<Rightarrow> fpage" where
  "use_control c conv (TextOf k) v s = type_input c k (conv k v) s"
| "use_control c conv (PickOf k opts) v s = (if v \<in> set opts then select_value c k v s else s)"
| "use_control c conv (ValueOf k) v s = select_value c k (conv k v) s"
| "use_control c conv (ClearOf ks) v s = clear_keys c ks s"

text \<open>A clearing button is rendered only while it has something to clear.\<close>

fun control_shown :: "fconf \<Rightarrow> fpage \<Rightarrow> control \<Rightarrow> bool" where
  "control_shown c s (ClearOf ks) = (\<exists>k\<in>set ks. live_value c s k \<noteq> [])"
| "control_shown c s _ = True"

text \<open>
  A control is well formed when it drives a filter of the page in the way the filter is kept; it is
  restorable when moreover every value it offers passes the check made on reading the URL.
\<close>

fun control_wf :: "fconf \<Rightarrow> control \<Rightarrow> bool" where
  "control_wf c (TextOf k) = (k \<in> set (fc_debounced c))"
| "control_wf c (PickOf k opts) = (k \<notin> set (fc_debounced c))"
| "control_wf c (ValueOf k) = (k \<notin> set (fc_debounced c))"
| "control_wf c (ClearOf ks) = True"

fun control_restorable :: "fconf \<Rightarrow> control \<Rightarrow> bool" where
  "control_restorable c (PickOf k opts) = (\<forall>v\<in>set opts. fc_restore c k v = v)"
| "control_restorable c _ = True"

definition controls_wf :: "fconf \<Rightarrow> (string \<times> control) list \<Rightarrow> bool" where
  "controls_wf c cs \<longleftrightarrow> distinct (map fst cs) \<and> (\<forall>(i, ctl)\<in>set cs. control_wf c ctl)"

text \<open>The filters a control writes.\<close>

fun control_keys :: "control \<Rightarrow> string set" where
  "control_keys (TextOf k) = {k}"
| "control_keys (PickOf k opts) = {k}"
| "control_keys (ValueOf k) = {k}"
| "control_keys (ClearOf ks) = set ks"

lemma use_control_reach:
  "page_reach c s \<Longrightarrow> control_wf c ctl \<Longrightarrow> page_reach c (use_control c conv ctl v s)"
  by (cases ctl) (auto intro: page_reach.intros)

lemma controls_reach:
  "controls_wf c cs \<Longrightarrow> (i, ctl) \<in> set cs \<Longrightarrow> page_reach c s \<Longrightarrow> page_reach c (use_control c conv ctl v s)"
  by (rule use_control_reach) (auto simp: controls_wf_def)

lemma use_control_other:
  "k \<notin> control_keys ctl \<Longrightarrow>
   fp_value (use_control c conv ctl v s) k = fp_value s k \<and> fp_input (use_control c conv ctl v s) k = fp_input s k"
  by (cases ctl) (auto simp: select_value_def clear_keys_def Let_def type_fold_input)

lemma use_control_pick:
  "v \<in> set opts \<Longrightarrow> fp_value (use_control c conv (PickOf k opts) v s) k = v"
  by (simp add: select_value_def)

lemma use_control_value: "fp_value (use_control c conv (ValueOf k) v s) k = conv k v"
  by (simp add: select_value_def)

lemma use_control_text: "fp_input (use_control c conv (TextOf k) v s) k = conv k v"
  by simp

lemma clear_keys_live:
  "k \<in> set ks \<Longrightarrow> live_value c (clear_keys c ks s) k = []"
  by (simp add: live_value_def clear_keys_def Let_def type_fold_input)

lemma use_control_clears: "\<not> control_shown c (use_control c conv (ClearOf ks) v s) (ClearOf ks)"
  by (simp add: clear_keys_live)

text \<open>Everything that can happen to the filters and the paging of a mounted page.\<close>

datatype page_event = Use control string | Fire string | GoTo nat | Resize nat | ClearAll

fun happen :: "fconf \<Rightarrow> (string \<Rightarrow> string \<Rightarrow> string) \<Rightarrow> page_event \<Rightarrow> fpage \<Rightarrow> fpage" where
  "happen c conv (Use ctl v) s = use_control c conv ctl v s"
| "happen c conv (Fire k) s = fire_timer c k s"
| "happen c conv (GoTo n) s = set_page c n s"
| "happen c conv (Resize n) s = set_per_page c n s"
| "happen c conv ClearAll s = clear_filters c s"

fun event_ok :: "fconf \<Rightarrow> page_event \<Rightarrow> bool" where
  "event_ok c (Use ctl v) = control_wf c ctl"
| "event_ok c (GoTo n) = (1 \<le> n)"
| "event_ok c _ = True"

lemma happen_reach: "page_reach c s \<Longrightarrow> event_ok c e \<Longrightarrow> page_reach c (happen c conv e s)"
  by (cases e) (auto intro: page_reach.intros use_control_reach)

text \<open>
  Pages that check what they read from the URL: a filter with a list of values takes the lower-cased
  text when it is one of them and the empty text otherwise.
\<close>

definition restore_listed :: "(string \<times> string list) list \<Rightarrow> string \<Rightarrow> string \<Rightarrow> string" where
  "restore_listed listed k v =
     (case map_of listed k of
        None \<Rightarrow> v
      | Some vs \<Rightarrow> if js_lower v \<in> set vs then js_lower v else [])"

lemma restore_listed_in:
  "map_of listed k = Some vs \<Longrightarrow> [] \<in> set vs \<Longrightarrow> restore_listed listed k v \<in> set vs"
  by (simp add: restore_listed_def)

lemma restore_listed_keep:
  "map_of listed k = Some vs \<Longrightarrow> v \<in> set vs \<Longrightarrow> js_lower v = v \<Longrightarrow> restore_listed listed k v = v"
  by (simp add: restore_listed_def)

text \<open>The offered values that do not come back from the URL.\<close>

fun control_lost :: "fconf \<Rightarrow> control \<Rightarrow> (string \<times> string) list" where
  "control_lost c (PickOf k opts) = map (Pair k) (filter (\<lambda>v. fc_restore c k v \<noteq> v) opts)"
| "control_lost c _ = []"

definition lost_options :: "fconf \<Rightarrow> (string \<times> control) list \<Rightarrow> (string \<times> string) list" where
  "lost_options c cs = concat (map (\<lambda>(i, ctl). control_lost c ctl) cs)"

lemma control_lost_iff: "control_lost c ctl = [] \<longleftrightarrow> control_restorable c ctl"
  by (cases ctl) (auto simp: filter_empty_conv)

lemma lost_options_Cons [simp]:
  "lost_options c ((i, ctl) # cs) = control_lost c ctl @ lost_options c cs" "lost_options c [] = []"
  by (simp_all add: lost_options_def)

lemma lost_options_append [simp]: "lost_options c (xs @ ys) = lost_options c xs @ lost_options c ys"
  by (simp add: lost_options_def)

context filter_page
begin

text \<open>An offered value that is picked is there again when the page is mounted on its own address.\<close>

lemma pick_survives:
  assumes "page_reach c s" "control_wf c (PickOf k opts)" "control_restorable c (PickOf k opts)"
    and "v \<in> set opts" "v \<noteq> []" "k \<in> set (field_keys c)" "fc_write c k v = v"
  shows "fp_value (mount_page c (usp_of_search (CHR ''?'' # usp_to_string
           (fp_url (use_control c conv (PickOf k opts) v s))))) k = v"
proof -
  let ?t = "use_control c conv (PickOf k opts) v s"
  have ok: "page_ok c ?t" by (intro reach_ok use_control_reach assms(1,2))
  have w: "written c ?t k = v" using assms by (simp add: written_def select_value_def)
  show ?thesis unfolding reload_value[OF ok assms(6)] w using assms(3-5) by simp
qed

end

end
