(* ===== verification/ListPage.thy ===== *)
theory ListPage imports Controls ApiClient begin

text \<open>
  From a page's filters to the request it makes: the locale \<open>list_page\<close> extends \<open>filter_page\<close> by the
  query table of the operation the page calls, by the arguments the page passes it and by what it
  sends for a filter's value, and shows once that what the operator typed reaches the server and that a reload asks for the same rows.
\<close>

text \<open>A query parameter that carries the text \<open>x\<close>: it may be left out when \<open>x\<close> is empty.\<close>

definition carries :: "js \<Rightarrow> string \<Rightarrow> bool" where
  "carries v x \<longleftrightarrow> v = Str x \<or> (x = [] \<and> v = Undef)"

lemma carries_simps [simp]: "carries (Str x) y \<longleftrightarrow> x = y" "carries Undef y \<longleftrightarrow> y = []"
  by (auto simp: carries_def)

lemma carries_or [simp]: "carries (js_or (Str x) Undef) y \<longleftrightarrow> x = y"
  by (auto simp: js_or_def)

text \<open>The argument that a query parameter is taken from.\<close>

definition arg_of :: "query_table \<Rightarrow> string \<Rightarrow> string option" where
  "arg_of t q = map_option fst (map_of t q)"

definition passes :: "query_table \<Rightarrow> js \<Rightarrow> string \<Rightarrow> js \<Rightarrow> bool" where
  "passes t a q v \<longleftrightarrow> (case arg_of t q of None \<Rightarrow> False | Some arg \<Rightarrow> jget a arg = v)"

lemma passes_carries: "passes t a q (Str v) \<Longrightarrow> carries (jget (build_query t a) q) v"
  by (cases "map_of t q") (auto simp: passes_def arg_of_def query_value_def Let_def)

locale list_page = filter_page c for c :: fconf +
  fixes table :: query_table
    and args :: "fpage \<Rightarrow> js"
    and qkey :: "string \<Rightarrow> string"
    and sent :: "string \<Rightarrow> string \<Rightarrow> string"
  assumes carried: "k \<in> set (field_keys c) \<Longrightarrow>
    carries (jget (build_query table (args s)) (qkey k)) (sent k (fp_value s k))"
begin

lemma typed_sent:
  assumes "page_reach c s" "k \<in> set (fc_debounced c)" "k \<in> set (field_keys c)"
  shows "carries (jget (build_query table (args (fire_all c s))) (qkey k)) (sent k (norm_input c (fp_input s k)))"
    "fp_timer (fire_all c s) k = None" "fp_input (fire_all c s) = fp_input s"
proof -
  note f = fire_all_commits[OF reach_ok[OF assms(1)]]
  show "carries (jget (build_query table (args (fire_all c s))) (qkey k)) (sent k (norm_input c (fp_input s k)))"
    using carried[OF assms(3), of "fire_all c s"] f(4) assms(2) by simp
  show "fp_timer (fire_all c s) k = None" "fp_input (fire_all c s) = fp_input s" using f(2,3) by simp_all
qed

lemma reload_sends:
  assumes "page_reach c s" "k \<in> set (field_keys c)"
  shows "carries (jget (build_query table (args (mount_page c (usp_of_search (CHR ''?'' # usp_to_string (fp_url s)))))) (qkey k))
    (sent k (fc_restore c k (if written c s k = [] then field_default c k else written c s k)))"
  unfolding reload_value[OF reach_ok[OF assms(1)] assms(2), symmetric] by (rule carried[OF assms(2)])

end

end
