(* ===== verification/VMListPage.thy ===== *)
theory VMListPage imports ListPage DateTime Selection Normalize Shared begin

text \<open>
  \<open>web/src/pages/VMList.jsx\<close>: the filters of the machine list and the request they make, the bulk
  actions, the row and its quick actions, and the one-time password. \<open>toiso\<close> stands for
  \<open>datetimeLocalToISO\<close> in the browser's time zone.
\<close>

subsection \<open>Filters\<close>

definition vm_fields :: "(string \<times> string) list" where
  "vm_fields =
    [(''sort'', ''id''), (''order'', ''asc''), (''search'', []), (''image'', []),
     (''default_user'', []), (''os_type'', []), (''os_variant'', []), (''firmware'', []),
     (''disk_bus'', []), (''nic_model'', []), (''machine'', []), (''clock_offset'', []),
     (''gpu'', []), (''network'', []), (''prefix'', []), (''nat_static_ip'', []),
     (''nat_gateway'', []), (''ip'', []), (''auto_start'', []), (''locked'', []),
     (''since'', []), (''until'', []), (''min_cpus'', []), (''max_cpus'', []),
     (''min_ram_mb'', []), (''max_ram_mb'', []), (''min_disk_gb'', []), (''max_disk_gb'', [])]"

definition vm_debounced :: "string list" where
  "vm_debounced =
    [''search'', ''image'', ''default_user'', ''machine'', ''network'', ''prefix'',
     ''nat_static_ip'', ''nat_gateway'', ''ip'', ''gpu'', ''min_cpus'', ''max_cpus'',
     ''min_ram_mb'', ''max_ram_mb'', ''min_disk_gb'', ''max_disk_gb'']"

definition vm_reset :: "string list" where
  "vm_reset =
    [''tag'', ''search'', ''image'', ''default_user'', ''os_type'', ''os_variant'',
     ''firmware'', ''disk_bus'', ''nic_model'', ''machine'', ''clock_offset'', ''gpu'',
     ''network'', ''prefix'', ''nat_static_ip'', ''nat_gateway'', ''ip'', ''auto_start'',
     ''locked'', ''since'', ''until'', ''min_cpus'', ''max_cpus'', ''min_ram_mb'',
     ''max_ram_mb'', ''min_disk_gb'', ''max_disk_gb'', ''sort'', ''order'']"

definition vm_clear_inputs :: "string list" where
  "vm_clear_inputs =
    [''image'', ''default_user'', ''machine'', ''network'', ''prefix'', ''nat_static_ip'',
     ''nat_gateway'', ''ip'', ''gpu'', ''min_cpus'', ''max_cpus'', ''min_ram_mb'',
     ''max_ram_mb'', ''min_disk_gb'', ''max_disk_gb'']"

definition vm_clear_values :: "string list" where
  "vm_clear_values =
    [''tag'', ''image'', ''default_user'', ''os_type'', ''os_variant'', ''firmware'',
     ''disk_bus'', ''nic_model'', ''machine'', ''clock_offset'', ''network'', ''prefix'',
     ''nat_static_ip'', ''nat_gateway'', ''ip'', ''gpu'', ''auto_start'', ''locked'', ''since'',
     ''until'', ''min_cpus'', ''max_cpus'', ''min_ram_mb'', ''max_ram_mb'', ''min_disk_gb'',
     ''max_disk_gb'']"

definition vm_counted :: "string list" where
  "vm_counted =
    [''tag'', ''image'', ''default_user'', ''os_type'', ''os_variant'', ''firmware'',
     ''disk_bus'', ''nic_model'', ''machine'', ''clock_offset'', ''network'', ''prefix'',
     ''nat_static_ip'', ''nat_gateway'', ''ip'', ''gpu'', ''auto_start'', ''locked'', ''since'',
     ''until'', ''min_cpus'', ''max_cpus'', ''min_ram_mb'', ''max_ram_mb'', ''min_disk_gb'',
     ''max_disk_gb'']"

definition vm_conf :: "(string \<Rightarrow> string) \<Rightarrow> fconf" where
  "vm_conf toiso =
     \<lparr>fc_fields = vm_fields, fc_start = (\<lambda>k. []), fc_fresh = False,
      fc_debounced = vm_debounced, fc_trims = True, fc_lazy = False,
      fc_write = (\<lambda>k v. v), fc_restore = (\<lambda>k v. v), fc_reset = vm_reset,
      fc_dep = (\<lambda>k v. if k \<in> {''since'', ''until''} then toiso v else v),
      fc_paged = False, fc_prefix = [], fc_per_page = 25, fc_clear_inputs = vm_clear_inputs,
      fc_clear_values = vm_clear_values, fc_counted = vm_counted\<rparr>"

lemma wf_vm_conf: "wf_conf (vm_conf toiso)"
  by (simp add: wf_conf_def page_key_def per_page_key_def vm_conf_def field_keys_def vm_fields_def vm_debounced_def
      vm_clear_inputs_def vm_clear_values_def)

definition vm_list_args :: "(string \<Rightarrow> string) \<Rightarrow> fpage \<Rightarrow> js" where
  "vm_list_args toiso s = Obj
    [(''tag'', Str (fp_value s ''tag'')), (''search'', Str (fp_value s ''search'')),
     (''image'', Str (fp_value s ''image'')),
     (''defaultUser'', Str (fp_value s ''default_user'')),
     (''osType'', Str (fp_value s ''os_type'')),
     (''osVariant'', Str (fp_value s ''os_variant'')),
     (''firmware'', Str (fp_value s ''firmware'')),
     (''diskBus'', Str (fp_value s ''disk_bus'')),
     (''nicModel'', Str (fp_value s ''nic_model'')),
     (''machine'', Str (fp_value s ''machine'')),
     (''clockOffset'', Str (fp_value s ''clock_offset'')), (''gpu'', Str (fp_value s ''gpu'')),
     (''network'', Str (fp_value s ''network'')), (''prefix'', Str (fp_value s ''prefix'')),
     (''natStaticIp'', Str (fp_value s ''nat_static_ip'')),
     (''natGateway'', Str (fp_value s ''nat_gateway'')), (''ip'', Str (fp_value s ''ip'')),
     (''autoStart'', Str (fp_value s ''auto_start'')),
     (''locked'', Str (fp_value s ''locked'')), (''since'', Str (toiso (fp_value s ''since''))),
     (''until'', Str (toiso (fp_value s ''until''))),
     (''minCpus'', Str (fp_value s ''min_cpus'')), (''maxCpus'', Str (fp_value s ''max_cpus'')),
     (''minRamMb'', Str (fp_value s ''min_ram_mb'')),
     (''maxRamMb'', Str (fp_value s ''max_ram_mb'')),
     (''minDiskGb'', Str (fp_value s ''min_disk_gb'')),
     (''maxDiskGb'', Str (fp_value s ''max_disk_gb'')), (''sort'', Str (fp_value s ''sort'')),
     (''order'', Str (fp_value s ''order'')), (''page'', JNat (fp_page s)),
     (''perPage'', JNat (fp_per_page s))]"

lemma vm_args_of:
  "\<forall>k\<in>set (map fst vm_fields). passes vms_table (vm_list_args toiso s) k
     (Str (if k = ''since'' \<or> k = ''until'' then toiso (fp_value s k) else fp_value s k))"
  by (simp add: vm_fields_def vms_table_def vm_list_args_def passes_def arg_of_def)

interpretation vm: list_page "vm_conf toiso" vms_table "vm_list_args toiso" "\<lambda>k. k" "fc_dep (vm_conf toiso)" for toiso
proof unfold_locales
  show "wf_conf (vm_conf toiso)" by (rule wf_vm_conf)
  fix k s assume "k \<in> set (field_keys (vm_conf toiso))"
  then have k: "k \<in> set (map fst vm_fields)" by (simp add: vm_conf_def field_keys_def)
  have "passes vms_table (vm_list_args toiso s) k (Str (fc_dep (vm_conf toiso) k (fp_value s k)))"
    using k vm_args_of[of toiso s] by (auto simp: vm_conf_def split: if_splits)
  then show "carries (jget (build_query vms_table (vm_list_args toiso s)) k) (fc_dep (vm_conf toiso) k (fp_value s k))"
    by (rule passes_carries)
qed

text \<open>\<open>GET /vms\<close> as the page makes it from its committed filters.\<close>

definition vm_list_request :: "(string \<Rightarrow> string) \<Rightarrow> fpage \<Rightarrow> request" where
  "vm_list_request toiso s = vm_request (VmList (vm_list_args toiso s))"

text \<open>
  An address with \<open>create=1\<close> opens the dialog that creates a machine and is then cleared; the state
  machine of the filters below is that of the other addresses.
\<close>

definition vm_open_create :: "params \<Rightarrow> bool \<times> params" where
  "vm_open_create ps = (if usp_get ''create'' ps = Some ''1'' then (True, []) else (False, ps))"

subsection \<open>The list\<close>

definition vm_lifecycle_types :: "string list" where
  "vm_lifecycle_types = [''vm.created'', ''vm.cloned'', ''vm.deleted'', ''vm.updated'', ''vm.started'',
                         ''vm.stopped'', ''vm.crashed'', ''vm.shutdown'']"

definition refresh_on_event :: "js \<Rightarrow> bool" where
  "refresh_on_event evt \<longleftrightarrow>
     (\<exists>t\<in>set vm_lifecycle_types. jget evt ''type'' = Str t)"

definition vm_total :: "js \<Rightarrow> js" where
  "vm_total response = total_rows response (normalize_vm_list response)"

definition vm_all_tags :: "js \<Rightarrow> string list" where
  "vm_all_tags response =
     sort_strings (remdups (map the_str (concat (map (\<lambda>v. elems (jget v ''tags'')) (normalize_vm_list response)))))"

definition resolve_os_type :: "js \<Rightarrow> string" where
  "resolve_os_type spec =
     (if js_lower (js_trim (to_str (js_or (jget spec ''os_type'') (Str [])))) = ''windows''
      then ''windows'' else ''linux'')"

fun split_ws :: "string \<Rightarrow> string list" where
  "split_ws [] = [[]]"
| "split_ws (x # xs) =
     (if is_ws x then [] # split_ws xs
      else (case split_ws xs of [] \<Rightarrow> [[x]] | w # ws \<Rightarrow> (x # w) # ws))"

definition title_case_words :: "string \<Rightarrow> string" where
  "title_case_words s =
     js_join '' '' (map (\<lambda>w. upper_char (hd w) # tl w) (filter (\<lambda>w. w \<noteq> []) (split_ws s)))"

definition os_badge_label :: "js \<Rightarrow> string" where
  "os_badge_label spec =
     (if resolve_os_type spec = ''windows'' then
        (if truthy (jget spec ''os_variant'') then
           (let v = to_str (jget spec ''os_variant'');
                w = (if starts_with v ''windows-'' then ''Windows '' @ drop (length ''windows-'') v else v)
            in title_case_words (map (\<lambda>c. if c = CHR ''-'' then CHR '' '' else c) w))
         else ''Windows'')
      else ''Linux'')"

subsection \<open>Bulk actions\<close>

definition vm_state :: "js \<Rightarrow> string" where
  "vm_state v = the_str (jget v ''state'')"

definition vm_id :: "js \<Rightarrow> string" where
  "vm_id v = to_str (jget v ''id'')"

definition vm_name :: "js \<Rightarrow> string" where
  "vm_name v = to_str (jget v ''name'')"

text \<open>The state an action needs (\<open>None\<close>: any) and the message when no ticked machine has it.\<close>

definition bulk_actions :: "(string \<times> string option \<times> string) list" where
  "bulk_actions =
    [(''start'', Some ''stopped'', ''Nothing to start '' @ em_dash @ '' selected machines are already running.''),
     (''stop'', Some ''running'', ''Nothing to stop '' @ em_dash @ '' selected machines are already stopped.''),
     (''restart'', Some ''running'', ''Nothing to restart '' @ em_dash @ '' selected machines are not running.''),
     (''force-stop'', Some ''running'', ''Nothing to force-stop '' @ em_dash @ '' selected machines are not running.''),
     (''reboot'', Some ''running'', ''Nothing to reboot '' @ em_dash @ '' selected machines are not running.''),
     (''suspend'', Some ''running'', ''Nothing to suspend '' @ em_dash @ '' selected machines are not running.''),
     (''resume'', Some ''paused'', ''Nothing to resume '' @ em_dash @ '' no selected machines are paused.''),
     (''delete'', None, [])]"

definition bulk_eligible :: "string option \<Rightarrow> js \<Rightarrow> bool" where
  "bulk_eligible need v \<longleftrightarrow> (case need of None \<Rightarrow> True | Some st \<Rightarrow> vm_state v = st)"

definition bulk_targets :: "string \<Rightarrow> js list \<Rightarrow> js list" where
  "bulk_targets action vs =
     (case map_of bulk_actions action of None \<Rightarrow> [] | Some (need, m) \<Rightarrow> filter (bulk_eligible need) vs)"

definition names_of :: "js list \<Rightarrow> string" where
  "names_of vs = js_join '', '' (map vm_name vs)"

definition bulk_question :: "string \<Rightarrow> js list \<Rightarrow> string option" where
  "bulk_question action vs =
     (if action = ''delete'' then
        Some (''Delete '' @ nat_str (length vs) @ '' machine(s)?'' @ [CHR 0x0A, CHR 0x0A] @ names_of vs)
      else if action = ''force-stop'' \<and> names_of (bulk_targets action vs) \<noteq> [] then
        Some (''Force-stop '' @ nat_str (length (bulk_targets action vs))
              @ '' machine(s)? This skips ACPI shutdown and may cause data loss.''
              @ [CHR 0x0A, CHR 0x0A] @ names_of (bulk_targets action vs))
      else None)"

text \<open>
  The loop: one request per target, in order; \<open>ok i\<close> says whether the request for machine \<open>i\<close>
  succeeds. It returns the effects and the two counters.
\<close>

fun bulk_loop :: "string \<Rightarrow> (string \<Rightarrow> bool) \<Rightarrow> nat \<Rightarrow> nat \<Rightarrow> js list \<Rightarrow> js effect list \<times> nat \<times> nat" where
  "bulk_loop action ok succ fail [] = ([], succ, fail)"
| "bulk_loop action ok succ fail (v # vs) =
     (let (succ', fail') = (if ok (vm_id v) then (Suc succ, fail) else (succ, Suc fail));
          (es, s, f) = bulk_loop action ok succ' fail' vs
      in (Api action [Str (vm_id v)] # Callback ''progress'' [JNat (succ' + fail')] # es, s, f))"

definition bulk_message :: "string \<Rightarrow> nat \<Rightarrow> nat \<Rightarrow> nat \<Rightarrow> string" where
  "bulk_message action succ fail skipped =
     js_join ('' '' @ mid_dot @ '' '')
       ([nat_str succ @ '' '' @ action @ (if succ = 1 then [] else ''s'') @ '' succeeded'']
        @ (if 0 < fail then [nat_str fail @ '' failed''] else [])
        @ (if 0 < skipped then [nat_str skipped @ '' skipped''] else []))"

definition bulk_variant :: "nat \<Rightarrow> nat \<Rightarrow> string" where
  "bulk_variant fail skipped = (if 0 < fail then ''error'' else if 0 < skipped then ''warning'' else ''success'')"

definition execute_bulk :: "string \<Rightarrow> bool \<Rightarrow> bool \<Rightarrow> (string \<Rightarrow> bool) \<Rightarrow> js list \<Rightarrow> js effect list" where
  "execute_bulk action busy yes ok vs =
     (if vs = [] \<or> busy then []
      else case map_of bulk_actions action of
        None \<Rightarrow> []
      | Some (need, empty_msg) \<Rightarrow>
          (let ask = (case bulk_question action vs of None \<Rightarrow> [] | Some q \<Rightarrow> [Confirm q])
           in if ask \<noteq> [] \<and> \<not> yes then ask
              else (let targets = bulk_targets action vs; skipped = length vs - length targets
                    in if targets = [] then
                         ask @ (if empty_msg \<noteq> [] then [Callback ''onDone'' [Str empty_msg, Str ''info'']] else [])
                       else (let (es, succ, fail) = bulk_loop action ok 0 0 targets
                             in ask @ es
                                @ [Callback ''clearSelection'' [],
                                   Callback ''onDone'' [Str (bulk_message action succ fail skipped),
                                                        Str (bulk_variant fail skipped)]]))))"

text \<open>
  The buttons of the bar, shown once something is ticked: action and whether it is disabled, from
  the numbers of running, stopped and paused machines that are ticked.
\<close>

definition bulk_buttons :: "bool \<Rightarrow> js list \<Rightarrow> (string \<times> bool) list" where
  "bulk_buttons busy vs =
     (let n = (\<lambda>st. length (filter (\<lambda>v. vm_state v = st) vs)) in
      if vs = [] then []
      else [(''start'', busy \<or> n ''stopped'' = 0), (''stop'', busy \<or> n ''running'' = 0),
            (''restart'', busy \<or> n ''running'' = 0), (''reboot'', busy \<or> n ''running'' = 0),
            (''force-stop'', busy \<or> n ''running'' = 0), (''suspend'', busy \<or> n ''running'' = 0),
            (''resume'', busy \<or> n ''paused'' = 0), (''delete'', busy), (''clear'', busy)])"

definition bulk_label :: "js list \<Rightarrow> nat \<Rightarrow> string" where
  "bulk_label vs visible =
     (if vs \<noteq> [] then nat_str (length vs) @ '' selected'' else ''Select all '' @ nat_str visible)"

definition bulk_progress_line :: "string \<Rightarrow> nat \<Rightarrow> nat \<Rightarrow> string \<times> string" where
  "bulk_progress_line action finished n =
     ((takeWhile (\<lambda>c. c \<noteq> CHR ''-'') action
       @ (case dropWhile (\<lambda>c. c \<noteq> CHR ''-'') action of [] \<Rightarrow> [] | _ # r \<Rightarrow> CHR '' '' # r)) @ '' in progress'' @ ellipsis,
      nat_str finished @ ''/'' @ nat_str n)"

subsection \<open>A row\<close>

definition row_number :: "js \<Rightarrow> string" where
  "row_number v = (if is_finite v then to_str v else em_dash)"

definition vm_row_line :: "js \<Rightarrow> string" where
  "vm_row_line v =
     (let spec = js_or (jget v ''spec'') (Obj []); sep = '' '' @ mid_dot @ '' '' in
      row_number (jget spec ''cpus'') @ '' vCPU'' @ sep @ row_number (jget spec ''ram_mb'') @ '' MB'' @ sep
      @ row_number (jget spec ''disk_gb'') @ '' GB''
      @ (if truthy (jget v ''ip'') then sep @ to_str (jget v ''ip'') else []))"

text \<open>Status badge, OS badge, lock badge, tags, and the quick actions offered.\<close>

definition vm_row_badges :: "js \<Rightarrow> (string \<times> bool \<times> string) \<times> string \<times> bool \<times> js list" where
  "vm_row_badges v =
     (let spec = js_or (jget v ''spec'') (Obj []) in
      (status_badge (vm_state v), os_badge_label spec, truthy (jget spec ''locked''), elems (jget v ''tags'')))"

definition vm_row_actions :: "js \<Rightarrow> bool \<Rightarrow> string list" where
  "vm_row_actions v menu_open =
     (if vm_state v = ''stopped'' then [''start''] else [])
     @ (if vm_state v = ''running'' then [''stop''] else [])
     @ [''menu''] @ (if menu_open then [''delete''] else [])"

text \<open>\<open>handleAction\<close>: the menu closes first; the list is refreshed unless the request failed.\<close>

definition vm_row_action :: "string \<Rightarrow> bool \<Rightarrow> bool \<Rightarrow> js \<Rightarrow> js effect list" where
  "vm_row_action action yes ok v =
     (let close = Callback ''setActionMenu'' [Null]; call = (\<lambda>a. [Api a [Str (vm_id v)]]);
          after = (if ok then [Callback ''onRefresh'' []] else [])
      in if action = ''start'' then close # call ''start'' @ after
         else if action = ''stop'' then close # call ''stop'' @ after
         else if action = ''delete'' then
           close # Confirm (''Delete '' @ vm_name v @ ''?'')
           # (if yes then call ''delete'' @ after else [Callback ''onRefresh'' []])
         else [close, Callback ''onRefresh'' []])"

definition toggle_menu :: "string option \<Rightarrow> string \<Rightarrow> string option" where
  "toggle_menu open_menu i = (if open_menu = Some i then None else Some i)"

subsection \<open>The one-time password\<close>

text \<open>Who and what the dialog shows: nothing unless the answer carries a generated password.\<close>

definition password_modal :: "js \<Rightarrow> (string \<times> string) option" where
  "password_modal info =
     (if \<not> truthy info \<or> \<not> truthy (jget info ''generated_admin_password'') then None
      else Some (to_str (js_or (jget info ''name'') (jget info ''id'')),
                 to_str (jget info ''generated_admin_password'')))"

text \<open>Copying: whether the text went to the clipboard and whether the button says so.\<close>

definition password_copy :: "bool \<Rightarrow> bool \<Rightarrow> bool \<times> bool" where
  "password_copy has_clipboard write_ok =
     (if has_clipboard then (write_ok, write_ok) else (False, True))"

subsection \<open>Facts\<close>

lemma bulk_loop_spec:
  "bulk_loop action ok s f vs = (es, s', f') \<Longrightarrow>
   filter (\<lambda>e. \<exists>a xs. e = Api a xs) es = map (\<lambda>v. Api action [Str (vm_id v)]) vs
   \<and> s' = s + length (filter (\<lambda>v. ok (vm_id v)) vs) \<and> s' + f' = s + f + length vs
   \<and> (\<forall>e\<in>set es. \<forall>q. e \<noteq> Confirm q)"
proof (induction vs arbitrary: s f es s' f')
  case (Cons v vs)
  obtain s1 f1 where 1: "(if ok (vm_id v) then (Suc s, f) else (s, Suc f)) = (s1, f1)" by (metis surj_pair)
  obtain es2 s2 f2 where 2: "bulk_loop action ok s1 f1 vs = (es2, s2, f2)" by (metis prod_cases3)
  from Cons.prems 1 2 have e: "es = Api action [Str (vm_id v)] # Callback ''progress'' [JNat (s1 + f1)] # es2"
    "s' = s2" "f' = f2" by simp_all
  have "s1 + f1 = Suc (s + f)" "s1 = s + (if ok (vm_id v) then 1 else 0)" using 1 by (auto split: if_splits)
  then show ?case using Cons.IH[OF 2] e by simp
qed simp

lemma bulk_actions_need:
  "map_option fst (map_of bulk_actions ''start'') = Some (Some ''stopped'')"
  "map_option fst (map_of bulk_actions ''stop'') = Some (Some ''running'')"
  "map_option fst (map_of bulk_actions ''restart'') = Some (Some ''running'')"
  "map_option fst (map_of bulk_actions ''force-stop'') = Some (Some ''running'')"
  "map_option fst (map_of bulk_actions ''reboot'') = Some (Some ''running'')"
  "map_option fst (map_of bulk_actions ''suspend'') = Some (Some ''running'')"
  "map_option fst (map_of bulk_actions ''resume'') = Some (Some ''paused'')"
  "map_option fst (map_of bulk_actions ''delete'') = Some None"
  by (simp_all add: bulk_actions_def)

lemma bulk_targets_need:
  "map_option fst (map_of bulk_actions a) = Some need \<Longrightarrow> bulk_targets a vs = filter (bulk_eligible need) vs"
  by (cases "map_of bulk_actions a") (auto simp: bulk_targets_def)

lemmas bulk_targets_of = bulk_actions_need[THEN bulk_targets_need]

lemma bulk_effects:
  assumes "map_of bulk_actions action = Some (need, msg)" "vs \<noteq> []" "\<not> busy"
    and ask_def: "ask = (case bulk_question action vs of None \<Rightarrow> [] | Some q \<Rightarrow> [Confirm q])"
    and t_def: "t = filter (bulk_eligible need) vs"
    and l: "bulk_loop action ok 0 0 t = (es, s, f)"
  shows "execute_bulk action busy yes ok vs =
     (if ask \<noteq> [] \<and> \<not> yes then ask
      else if t = [] then ask @ (if msg \<noteq> [] then [Callback ''onDone'' [Str msg, Str ''info'']] else [])
      else ask @ es @ [Callback ''clearSelection'' [],
             Callback ''onDone'' [Str (bulk_message action s f (length vs - length t)),
                                  Str (bulk_variant f (length vs - length t))]])"
proof -
  have t: "bulk_targets action vs = t" using assms(1) by (simp add: bulk_targets_def t_def)
  show ?thesis
    unfolding execute_bulk_def Let_def t assms(1) option.case prod.case l ask_def[symmetric]
    using assms(2,3) by simp
qed

lemma bulk_need:
  assumes "action \<in> {''start'', ''stop'', ''restart'', ''force-stop'', ''reboot'', ''suspend'', ''resume'', ''delete''}"
  shows "\<exists>msg. map_of bulk_actions action = Some (
     (if action = ''start'' then Some ''stopped'' else if action = ''resume'' then Some ''paused''
      else if action = ''delete'' then None else Some ''running''), msg)"
  using assms by (elim insertE emptyE) (simp_all add: bulk_actions_def)

text \<open>
  C10 A bulk action touches exactly the machines it may: starting the stopped ones, resuming the paused
  ones, stopping, restarting, rebooting, suspending and force-stopping the running ones, deleting any. It
  sends one request per ticked machine in that state, in list order, and none for any other. Deleting
  asks first, and so does force-stopping when there is a name to show; the question ends with the names
  of the machines concerned, and nothing is sent when it is declined; no other action asks. The report
  counts every ticked machine once, as succeeded, failed or skipped.
\<close>

theorem bulk_touches_eligible:
  assumes "action \<in> {''start'', ''stop'', ''restart'', ''force-stop'', ''reboot'', ''suspend'', ''resume'', ''delete''}"
    "vs \<noteq> []" "\<not> busy"
    and may_def: "may = filter (\<lambda>v. action = ''delete'' \<or> vm_state v =
      (if action = ''start'' then ''stopped'' else if action = ''resume'' then ''paused'' else ''running'')) vs"
    and names_def: "names = js_join '', '' (map vm_name may)"
    and asks_def: "asks \<longleftrightarrow> action = ''delete'' \<or> (action = ''force-stop'' \<and> names \<noteq> [])"
    and effs_def: "effs = execute_bulk action busy yes ok vs"
    and sent_def: "sent = filter (\<lambda>e. \<exists>a xs. e = Api a xs) effs"
  shows "sent = (if asks \<and> \<not> yes then [] else map (\<lambda>v. Api action [Str (vm_id v)]) may)
    \<and> (asks \<longrightarrow> (\<exists>p rest. effs = Confirm (p @ names) # rest \<and> (\<not> yes \<longrightarrow> rest = [])))
    \<and> (\<not> asks \<longrightarrow> (\<forall>q. Confirm q \<notin> set effs))
    \<and> (sent \<noteq> [] \<longrightarrow> (\<exists>succ fail skipped. last effs = Callback ''onDone''
            [Str (bulk_message action succ fail skipped), Str (bulk_variant fail skipped)]
          \<and> succ + fail + skipped = length vs
          \<and> succ = length (filter (\<lambda>v. ok (vm_id v)) may)))"
proof -
  obtain need msg where m: "map_of bulk_actions action = Some (need, msg)"
    and need: "need = (if action = ''start'' then Some ''stopped'' else if action = ''resume'' then Some ''paused''
      else if action = ''delete'' then None else Some ''running'')"
    using bulk_need[OF assms(1)] by blast
  define ask :: "js effect list" where "ask = (case bulk_question action vs of None \<Rightarrow> [] | Some q \<Rightarrow> [Confirm q])"
  have el: "bulk_eligible need v \<longleftrightarrow> action = ''delete'' \<or> vm_state v =
      (if action = ''start'' then ''stopped'' else if action = ''resume'' then ''paused'' else ''running'')" for v
    by (auto simp: need bulk_eligible_def)
  have may: "may = filter (bulk_eligible need) vs" unfolding may_def by (intro filter_cong refl) (simp only: el)
  have t: "bulk_targets action vs = may" using m by (simp add: bulk_targets_def may)
  have del: "action = ''delete'' \<Longrightarrow> may = vs" by (simp add: may_def)
  obtain es s f where l: "bulk_loop action ok 0 0 may = (es, s, f)" by (metis prod_cases3)
  note ls = bulk_loop_spec[OF l]
  note e = bulk_effects[OF m assms(2,3) ask_def may l, of yes, folded effs_def]
  have q: "\<exists>p. ask = [Confirm (p @ names)]" if asks
  proof (cases "action = ''delete''")
    case True
    then show ?thesis using del
      by (intro exI[of _ "''Delete '' @ nat_str (length vs) @ '' machine(s)?'' @ [CHR 0x0A, CHR 0x0A]"])
        (simp add: ask_def bulk_question_def names_of_def names_def)
  next
    case False
    then have "action = ''force-stop''" "bulk_targets ''force-stop'' vs = may" "names \<noteq> []"
      using that t by (auto simp: asks_def)
    then show ?thesis
      by (intro exI[of _ "''Force-stop '' @ nat_str (length may)
          @ '' machine(s)? This skips ACPI shutdown and may cause data loss.'' @ [CHR 0x0A, CHR 0x0A]"])
        (simp add: ask_def bulk_question_def names_of_def names_def)
  qed
  have q0: "ask = []" if "\<not> asks"
    using that by (auto simp: ask_def bulk_question_def asks_def t names_of_def names_def)
  have sum: "s + f + (length vs - length may) = length vs"
  proof -
    have "s + f = length may" using ls by simp
    then show ?thesis using length_filter_le[of "bulk_eligible need" vs] may by simp
  qed
  have cnt: "s = length (filter (\<lambda>v. ok (vm_id v)) may)" using ls by simp
  have ask: "filter (\<lambda>e. \<exists>a xs. e = Api a xs) ask = []" by (simp add: ask_def split: option.splits)
  have nq: "\<forall>q. Confirm q \<notin> set es" using ls by blast
  show ?thesis
  proof (cases "asks \<and> \<not> yes")
    case True
    then obtain p where "ask = [Confirm (p @ names)]" using q by blast
    then show ?thesis using True e by (auto simp: sent_def)
  next
    case False
    then have e2: "effs = ask @ (if may = [] then if msg \<noteq> [] then [Callback ''onDone'' [Str msg, Str ''info'']] else []
      else es @ [Callback ''clearSelection'' [],
             Callback ''onDone'' [Str (bulk_message action s f (length vs - length may)),
                                  Str (bulk_variant f (length vs - length may))]])"
      using e q q0 by auto
    have s2: "sent = map (\<lambda>v. Api action [Str (vm_id v)]) may"
      using ask ls l by (auto simp: sent_def e2)
    have c: "asks \<longrightarrow> (\<exists>p rest. effs = Confirm (p @ names) # rest \<and> (\<not> yes \<longrightarrow> rest = []))"
      using q False e2 by auto
    have n: "\<not> asks \<longrightarrow> (\<forall>q. Confirm q \<notin> set effs)" using q0 nq by (simp add: e2)
    have "\<exists>succ fail skipped. last effs = Callback ''onDone''
            [Str (bulk_message action succ fail skipped), Str (bulk_variant fail skipped)]
          \<and> succ + fail + skipped = length vs
          \<and> succ = length (filter (\<lambda>v. ok (vm_id v)) may)" if "may \<noteq> []"
      using sum cnt that by (intro exI[of _ s] exI[of _ f] exI[of _ "length vs - length may"]) (simp add: e2)
    then show ?thesis using s2 c n False by auto
  qed
qed

definition vm_in :: "string \<Rightarrow> string \<Rightarrow> js" where
  "vm_in i st = Obj [(''id'', Str i), (''name'', Str i), (''state'', Str st)]"

theorem bulk_touches_eligible_witness:
  "filter (\<lambda>e. \<exists>a xs. e = Api a xs)
     (execute_bulk ''start'' False True (\<lambda>i. i = ''a'') [vm_in ''a'' ''stopped'', vm_in ''b'' ''running'', vm_in ''c'' ''stopped''])
   = [Api ''start'' [Str ''a''], Api ''start'' [Str ''c'']]
   \<and> (\<exists>q. execute_bulk ''force-stop'' False False (\<lambda>i. True) [vm_in ''a'' ''running''] = [Confirm q])"
proof -
  have a: "''start'' \<in> {''start'', ''stop'', ''restart'', ''force-stop'', ''reboot'', ''suspend'', ''resume'', ''delete''}"
    "''force-stop'' \<in> {''start'', ''stop'', ''restart'', ''force-stop'', ''reboot'', ''suspend'', ''resume'', ''delete''}"
    by simp_all
  note s = bulk_touches_eligible[OF a(1) _ _ refl refl refl refl refl, of "[vm_in ''a'' ''stopped'', vm_in ''b'' ''running'',
        vm_in ''c'' ''stopped'']" False True "\<lambda>i. i = ''a''"]
  note f = bulk_touches_eligible[OF a(2) _ _ refl refl refl refl refl, of "[vm_in ''a'' ''running'']" False False "\<lambda>i. True"]
  show ?thesis using s f by (simp add: vm_state_def vm_in_def vm_id_def vm_name_def) blast
qed

text \<open>
  The buttons of the bulk bar match what the actions do: a button is enabled exactly when the bar
  is not busy and some ticked machine is eligible, so that an enabled button always has a target.
\<close>

theorem bulk_buttons_have_targets:
  assumes "(action, disabled) \<in> set (bulk_buttons busy vs)" "action \<noteq> ''clear''"
  shows "disabled \<longleftrightarrow> busy \<or> bulk_targets action vs = []"
proof -
  have n: "length (filter P vs) = 0 \<longleftrightarrow> filter P vs = []" for P :: "js \<Rightarrow> bool" by simp
  have t: "filter (bulk_eligible (Some st)) vs = filter (\<lambda>v. vm_state v = st) vs"
    "filter (bulk_eligible None) vs = vs" for st
    by (rule filter_cong[OF refl]) (simp_all add: bulk_eligible_def)
  have "vs \<noteq> []" using assms(1) by (auto simp: bulk_buttons_def)
  with assms show ?thesis
    unfolding bulk_buttons_def Let_def n if_not_P[OF \<open>vs \<noteq> []\<close>] list.set insert_iff empty_iff prod.inject
    by (elim disjE conjE) (simp_all only: bulk_targets_of t, simp_all)
qed

theorem bulk_buttons_have_targets_witness:
  "(''resume'', True) \<in> set (bulk_buttons False [vm_in ''a'' ''running''])
   \<and> bulk_targets ''resume'' [vm_in ''a'' ''running''] = []"
proof -
  have m: "(''resume'', True) \<in> set (bulk_buttons False [vm_in ''a'' ''running''])"
    by (simp add: bulk_buttons_def vm_state_def vm_in_def Let_def)
  from bulk_buttons_have_targets[OF m] m show ?thesis by simp
qed

lemma vm_query_of:
  "\<forall>k\<in>set vm_debounced. \<exists>arg. map_of vms_table k = Some (arg, Str [], True)
     \<and> (\<forall>s. jget (vm_list_args toiso s) arg = Str (fp_value s k))"
  by (simp add: vm_debounced_def vms_table_def vm_list_args_def)

text \<open>
  C13 What the operator types is what the server is asked for. In every reachable state of the page,
  once the debounce timers have fired, the request carries each free-text filter as typed, trimmed,
  under its parameter, and leaves it out when it is blank; and the inputs are untouched.
\<close>

theorem vm_filters_sent:
  assumes "page_reach (vm_conf toiso) s" "k \<in> set vm_debounced"
  defines "t \<equiv> fire_all (vm_conf toiso) s"
  shows "jget (rq_query (vm_list_request toiso t)) k =
      (if js_trim (fp_input s k) = [] then Undef else Str (js_trim (fp_input s k)))
    \<and> fp_timer t k = None \<and> fp_input t = fp_input s"
proof -
  note f = vm.fire_all_commits[OF vm.reach_ok[OF assms(1)], folded t_def]
  have "fp_value t k = js_trim (fp_input s k)"
    using f(4) assms(2) by (simp add: vm_conf_def norm_input_def)
  moreover obtain arg where "map_of vms_table k = Some (arg, Str [], True)"
    "jget (vm_list_args toiso t) arg = Str (fp_value t k)"
    using vm_query_of assms(2) by blast
  ultimately show ?thesis using f(2,3)
    by (simp add: vm_list_request_def req_def query_value_def js_or_def)
qed

theorem vm_filters_sent_witness:
  "jget (rq_query (vm_list_request (\<lambda>v. v) (fire_all (vm_conf (\<lambda>v. v))
      (type_input (vm_conf (\<lambda>v. v)) ''image'' '' jammy '' (mount_page (vm_conf (\<lambda>v. v)) []))))) ''image''
   = Str ''jammy''"
proof -
  let ?c = "vm_conf (\<lambda>v. v)"
  have k: "''image'' \<in> set vm_debounced" by (simp add: vm_debounced_def)
  have r: "page_reach ?c (type_input ?c ''image'' '' jammy '' (mount_page ?c []))"
    using k by (intro pr_type pr_mount) (simp add: vm_conf_def)
  have "js_trim '' jammy '' = ''jammy''" by (simp add: js_trim_def trim_start_def is_ws_def)
  then show ?thesis using vm_filters_sent[OF r k] by simp
qed

text \<open>
  C14 The filtered view survives a reload. Mounting the page again on the address it has written, in
  any reachable state, gives back every mirrored filter (a blank one as its default), on the first
  page, and parameters of others in the address are kept.
\<close>

theorem vm_reload:
  assumes "page_reach (vm_conf toiso) s" "usp_get ''create'' (fp_url s) \<noteq> Some ''1''"
  defines "ps \<equiv> usp_of_search (CHR ''?'' # usp_to_string (fp_url s))"
  defines "t \<equiv> mount_page (vm_conf toiso) (snd (vm_open_create ps))"
  shows "\<not> fst (vm_open_create ps)
    \<and> (\<forall>k\<in>set (map fst vm_fields). fp_value t k =
            (if fp_value s k = [] then field_default (vm_conf toiso) k else fp_value s k))
    \<and> fp_page t = 1
    \<and> (\<forall>k. k \<notin> set (map fst vm_fields) \<longrightarrow> usp_get k (fp_url t) = usp_get k (fp_url s))"
proof -
  have k: "set (map fst vm_fields) = set (field_keys (vm_conf toiso))"
    by (simp add: field_keys_def vm_conf_def)
  have r: "fc_restore (vm_conf toiso) k v = v" "written (vm_conf toiso) u k = fp_value u k" and p: "\<not> fc_paged (vm_conf toiso)" "\<not> fc_fresh (vm_conf toiso)" for k v u
    by (simp_all add: vm_conf_def written_def)
  have c: "vm_open_create ps = (False, ps)"
    using assms(2) by (simp add: vm_open_create_def ps_def usp_of_search_def usp_parse_to_string)
  show ?thesis unfolding t_def k c snd_conv fst_conv unfolding ps_def
    using vm.reload_value[OF vm.reach_ok[OF assms(1)]] p
    by (simp add: r vm.reload_page vm.mount_keeps_foreign usp_of_search_def usp_parse_to_string)
qed

theorem vm_reload_witness:
  "fp_value (mount_page (vm_conf (\<lambda>v. v)) (snd (vm_open_create (usp_of_search (CHR ''?'' # usp_to_string (fp_url
      (select_value (vm_conf (\<lambda>v. v)) ''os_type'' ''a&b=c'' (mount_page (vm_conf (\<lambda>v. v)) [])))))))) ''os_type''
   = ''a&b=c''"
proof -
  let ?c = "vm_conf (\<lambda>v. v)"
  have r: "page_reach ?c (select_value ?c ''os_type'' ''a&b=c'' (mount_page ?c []))"
    by (intro pr_select pr_mount) (simp add: vm_conf_def vm_debounced_def)
  have k: "''os_type'' \<in> set (map fst vm_fields)" by (simp add: vm_fields_def)
  have f: "''create'' \<notin> set (field_keys ?c)" "\<not> fc_paged ?c" "\<not> fc_fresh ?c"
    by (simp_all add: field_keys_def vm_conf_def vm_fields_def)
  have "usp_get ''create'' (fp_url (select_value ?c ''os_type'' ''a&b=c'' (mount_page ?c []))) = None"
    using f by (simp add: select_value_def vm.foreign_settle vm.mount_keeps_foreign)
  then show ?thesis using vm_reload[OF r] k by (auto simp: select_value_def)
qed

text \<open>
  A change of a filter goes back to the first page: whenever picking a value, or a debounce timer
  firing, changes what a filter asks for, the page is 1 afterwards, so that the operator never lands
  behind the last page of a narrower result.
\<close>

theorem vm_filter_first_page:
  assumes "k \<in> set vm_reset" "fc_dep (vm_conf toiso) k v \<noteq> fc_dep (vm_conf toiso) k (fp_value s k)"
  shows "fp_page (select_value (vm_conf toiso) k v s) = 1
    \<and> (fp_timer s k = Some v \<longrightarrow> fp_page (fire_timer (vm_conf toiso) k s) = 1)"
proof -
  have "k \<in> set (fc_reset (vm_conf toiso))" using assms(1) by (simp add: vm_conf_def)
  then have "reset_changed (vm_conf toiso) s t"
    if "fp_value t = (fp_value s)(k := v)" for t
    using assms(2) that by (auto simp: reset_changed_def intro!: bexI[of _ k])
  then show ?thesis by (simp add: select_value_def fire_timer_def)
qed

theorem vm_filter_first_page_witness:
  "fp_page (select_value (vm_conf (\<lambda>v. v)) ''firmware'' ''uefi''
      (set_page (vm_conf (\<lambda>v. v)) 3 (mount_page (vm_conf (\<lambda>v. v)) []))) = 1"
proof -
  let ?c = "vm_conf (\<lambda>v. v)"
  let ?s = "set_page ?c 3 (mount_page ?c [])"
  have k: "''firmware'' \<in> set vm_reset" by (simp add: vm_reset_def)
  have "fp_value ?s ''firmware'' = []"
    using vm.mount_value[of "''firmware''" "\<lambda>v. v" "[]"]
    by (simp add: set_page_def vm_conf_def field_keys_def vm_fields_def usp_get_or_def field_default_def)
  then have "fc_dep ?c ''firmware'' ''uefi'' \<noteq> fc_dep ?c ''firmware'' (fp_value ?s ''firmware'')"
    by (simp add: vm_conf_def)
  from vm_filter_first_page[OF k this] show ?thesis by blast
qed

end
