(* ===== verification/CreateVM.thy ===== *)
theory CreateVM imports VMListPage begin

text \<open>
  The form of \<open>VMList.jsx\<close> that creates a machine (\<open>CreateVMModal\<close>): its fields and extra networks,
  what applying a template and switching the guest OS do to them, and the request body that a submit
  builds. The form and the body are JavaScript objects.
\<close>

subsection \<open>The form\<close>

record create_vm =
  cv_form :: js
  cv_networks :: "js list"
  cv_tab :: string

definition empty_form :: js where
  "empty_form = Obj
    [(''name'', Str []), (''image'', Str []), (''cpus'', JNat 2), (''ram_mb'', JNat 2048),
     (''disk_gb'', JNat 20), (''description'', Str []), (''tags'', Str []), (''ssh_pub_key'', Str []),
     (''default_user'', Str []), (''nat_static_ip'', Str []), (''nat_gateway'', Str []),
     (''template_id'', Str []), (''auto_start'', Bool False), (''os_type'', Str ''linux''),
     (''os_variant'', Str []), (''admin_password'', Str []), (''disk_bus'', Str []),
     (''nic_model'', Str []), (''machine'', Str []), (''firmware'', Str []),
     (''secure_boot'', Bool False), (''boot_source'', Str ''image''), (''install_iso'', Str []),
     (''virtio_win_iso'', Str []), (''gpus'', Arr []), (''disk_location'', Str [])]"

definition create_init :: create_vm where
  "create_init = \<lparr>cv_form = empty_form, cv_networks = [], cv_tab = ''basic''\<rparr>"

definition windows_min_ram_mb :: rat where "windows_min_ram_mb = 4096"
definition windows_min_disk_gb :: rat where "windows_min_disk_gb = 64"

definition form_windows :: "js \<Rightarrow> bool" where
  "form_windows form \<longleftrightarrow> resolve_os_type form = ''windows''"

text \<open>The two effects on \<open>isWindows\<close>: drop the Windows fields, or raise memory and disk.\<close>

definition clear_windows_fields :: "js \<Rightarrow> js" where
  "clear_windows_fields f =
     (if \<not> truthy (jget f ''os_variant'') \<and> \<not> truthy (jget f ''admin_password'') then f
      else jset ''admin_password'' (Str []) (jset ''os_variant'' (Str []) f))"

definition raise_windows_minima :: "js \<Rightarrow> js" where
  "raise_windows_minima f =
     jset ''disk_gb'' (Num (Fin (max (the_num (jget f ''disk_gb'')) windows_min_disk_gb)))
       (jset ''ram_mb'' (Num (Fin (max (the_num (jget f ''ram_mb'')) windows_min_ram_mb))) f)"

definition os_effects :: "js \<Rightarrow> js" where
  "os_effects f = (if form_windows f then raise_windows_minima f else clear_windows_fields f)"

text \<open>A change of the form, with the effects it causes.\<close>

definition set_form :: "js \<Rightarrow> create_vm \<Rightarrow> create_vm" where
  "set_form f s =
     s\<lparr>cv_form := (if form_windows f \<noteq> form_windows (cv_form s) then os_effects f else f)\<rparr>"

definition form_update :: "string \<Rightarrow> js \<Rightarrow> create_vm \<Rightarrow> create_vm" where
  "form_update field v s = set_form (jset field v (cv_form s)) s"

definition number_or_zero :: "string \<Rightarrow> js" where
  "number_or_zero text = (case parse_int text of None \<Rightarrow> JInt 0 | Some n \<Rightarrow> JInt n)"

definition form_update_num :: "string \<Rightarrow> string \<Rightarrow> create_vm \<Rightarrow> create_vm" where
  "form_update_num field text s = form_update field (number_or_zero text) s"

definition toggle_gpu :: "string \<Rightarrow> create_vm \<Rightarrow> create_vm" where
  "toggle_gpu address s =
     (let current = elems (js_or (jget (cv_form s) ''gpus'') (Arr [])) in
      form_update ''gpus''
        (Arr (if Str address \<in> set current then filter (\<lambda>a. a \<noteq> Str address) current
              else current @ [Str address])) s)"

definition take_template :: "js \<Rightarrow> js \<Rightarrow> string \<Rightarrow> js \<Rightarrow> js" where
  "take_template t f0 k f = jset k (js_or (jget t k) (jget f0 k)) f"

definition template_form :: "js \<Rightarrow> js \<Rightarrow> js" where
  "template_form t f =
     (let f1 = jset ''template_id'' (jget t ''id'') f;
          f2 = fold (take_template t f) [''image'', ''cpus'', ''ram_mb'', ''disk_gb'', ''description''] f1;
          f3 = jset ''tags'' (Str (js_join '', '' (map to_str (elems (js_or (jget t ''tags'') (Arr [])))))) f2
      in fold (take_template t f) [''default_user'', ''os_type'', ''os_variant''] f3)"

definition template_network :: "js \<Rightarrow> js" where
  "template_network net = Obj
    [(''mode'', js_or (jget net ''mode'') (Str ''macvtap'')),
     (''host_interface'', js_or (js_or (jget net ''host_interface'') (jget net ''bridge'')) (Str [])),
     (''static_ip'', js_or (jget net ''static_ip'') (Str [])),
     (''gateway'', js_or (jget net ''gateway'') (Str [])),
     (''dhcp'', Bool (\<not> truthy (jget net ''static_ip'')))]"

definition find_template :: "js list \<Rightarrow> string \<Rightarrow> js" where
  "find_template templates i = (case filter (\<lambda>t. jget t ''id'' = Str i) templates of [] \<Rightarrow> Undef | t # _ \<Rightarrow> t)"

definition apply_template :: "js list \<Rightarrow> string \<Rightarrow> create_vm \<Rightarrow> create_vm" where
  "apply_template templates i s =
     (let t = find_template templates i in
      if t = Undef then (set_form (jset ''template_id'' (Str []) (cv_form s)) s)\<lparr>cv_networks := []\<rparr>
      else (set_form (template_form t (cv_form s)) s)
             \<lparr>cv_networks := map template_network (elems (js_or (jget t ''networks'') (Arr [])))\<rparr>)"

definition blank_network :: js where
  "blank_network = Obj [(''mode'', Str ''macvtap''), (''host_interface'', Str []), (''static_ip'', Str []),
                        (''gateway'', Str []), (''dhcp'', Bool False)]"

definition add_network :: "create_vm \<Rightarrow> create_vm" where
  "add_network s = s\<lparr>cv_networks := cv_networks s @ [blank_network]\<rparr>"

definition remove_network :: "nat \<Rightarrow> create_vm \<Rightarrow> create_vm" where
  "remove_network i s = s\<lparr>cv_networks := take i (cv_networks s) @ drop (Suc i) (cv_networks s)\<rparr>"

definition update_net :: "nat \<Rightarrow> string \<Rightarrow> js \<Rightarrow> create_vm \<Rightarrow> create_vm" where
  "update_net i field v s =
     s\<lparr>cv_networks := (if i < length (cv_networks s)
                       then (cv_networks s)[i := jset field v (cv_networks s ! i)] else cv_networks s)\<rparr>"

text \<open>The size behind an image in the selector; nothing when it is unknown.\<close>

definition image_size_suffix :: "js \<Rightarrow> string" where
  "image_size_suffix bytes =
     (if \<not> truthy bytes then [] else '' '' @ mid_dot @ '' '' @ human_size (the_num bytes))"

subsection \<open>Submitting\<close>

definition del_falsy :: "string \<Rightarrow> js \<Rightarrow> js" where
  "del_falsy k spec = (if \<not> truthy (jget spec k) then jdel k spec else spec)"

definition iso_mode :: "js \<Rightarrow> bool" where
  "iso_mode form \<longleftrightarrow> jget form ''boot_source'' = Str ''iso''"

definition spec_boot :: "js \<Rightarrow> js \<Rightarrow> js" where
  "spec_boot form spec =
     (if iso_mode form
      then jset ''install_iso'' (Str (js_trim (the_str (jget form ''install_iso'')))) (jdel ''image'' spec)
      else jdel ''install_iso'' spec)"

definition spec_tags :: "js \<Rightarrow> js \<Rightarrow> js" where
  "spec_tags form spec =
     (let tags = parse_tags (the_str (jget form ''tags''));
          s1 = del_falsy ''description'' (jset ''tags'' (Arr (map Str tags)) spec)
      in if tags = [] then jdel ''tags'' s1 else s1)"

definition spec_os :: "js \<Rightarrow> js" where
  "spec_os spec =
     (if resolve_os_type spec \<noteq> ''windows'' then jdel ''admin_password'' (jdel ''os_variant'' spec) else spec)"

definition spec_firmware :: "js \<Rightarrow> js \<Rightarrow> js" where
  "spec_firmware form spec =
     (if jget spec ''firmware'' = Str ''uefi''
      then jset ''secure_boot'' (Bool (truthy (jget form ''secure_boot''))) spec
      else jdel ''secure_boot'' (jdel ''firmware'' spec))"

definition spec_gpus :: "js \<Rightarrow> js" where
  "spec_gpus spec =
     (if \<not> truthy (jget spec ''gpus'') \<or> elems (jget spec ''gpus'') = [] then jdel ''gpus'' spec else spec)"

definition spec_location :: "js \<Rightarrow> js" where
  "spec_location spec =
     (let loc = js_trim (the_str (js_or (jget spec ''disk_location'') (Str [])));
          s1 = jset ''disk_location'' (Str loc) spec
      in if loc = [] \<or> loc = ''default'' then jdel ''disk_location'' s1 else s1)"

definition network_attachment :: "js \<Rightarrow> js" where
  "network_attachment n =
     (let a0 = Obj [(''mode'', jget n ''mode'')];
          a1 = (if jget n ''mode'' = Str ''bridge'' then jset ''bridge'' (jget n ''host_interface'') a0
                else jset ''host_interface'' (jget n ''host_interface'') a0);
          a2 = (if \<not> truthy (jget n ''dhcp'') \<and> truthy (jget n ''static_ip'')
                then jset ''static_ip'' (jget n ''static_ip'') a1 else a1)
      in if \<not> truthy (jget n ''dhcp'') \<and> truthy (jget n ''gateway'')
         then jset ''gateway'' (jget n ''gateway'') a2 else a2)"

definition spec_networks :: "js list \<Rightarrow> js \<Rightarrow> js" where
  "spec_networks networks spec =
     (if networks \<noteq> [] then jset ''networks'' (Arr (map network_attachment networks)) spec else spec)"

definition create_spec :: "js \<Rightarrow> js list \<Rightarrow> js" where
  "create_spec form networks =
     (let s0 = jdel ''boot_source'' (Obj (props form));
          s1 = spec_tags form (spec_boot form s0);
          s2 = fold del_falsy [''nat_static_ip'', ''nat_gateway'', ''template_id'', ''auto_start'',
                               ''os_variant'', ''admin_password''] s1;
          s3 = fold del_falsy [''disk_bus'', ''nic_model'', ''machine''] (spec_os s2);
          s4 = spec_gpus (del_falsy ''virtio_win_iso'' (spec_firmware form s3))
      in spec_networks networks (spec_location s4))"

definition submit_disabled :: "bool \<Rightarrow> js \<Rightarrow> bool" where
  "submit_disabled loading form \<longleftrightarrow>
     loading \<or> \<not> truthy (jget form ''name'')
     \<or> (if iso_mode form then js_trim (the_str (jget form ''install_iso'')) = []
        else \<not> truthy (jget form ''image'') \<and> \<not> truthy (jget form ''template_id''))"

text \<open>\<open>handleSubmit\<close>: \<open>None\<close> is a refused request, whose error the form shows; nothing is lost.\<close>

definition create_submit :: "js option \<Rightarrow> create_vm \<Rightarrow> js effect list \<times> create_vm" where
  "create_submit answer s =
     (let call = Api ''vms.create'' [create_spec (cv_form s) (cv_networks s)] in
      case answer of
        None \<Rightarrow> ([call], s)
      | Some created \<Rightarrow>
          (call # (if truthy (jget created ''generated_admin_password'')
                   then [Callback ''onPasswordGenerated'' [created]] else [])
           @ [Callback ''onCreated'' [], Callback ''onClose'' []], create_init))"

definition advanced_count :: "create_vm \<Rightarrow> nat" where
  "advanced_count s =
     length (filter (\<lambda>k. truthy (jget (cv_form s) k))
       [''description'', ''tags'', ''ssh_pub_key'', ''default_user'', ''nat_static_ip'', ''nat_gateway'',
        ''disk_bus'', ''nic_model'', ''machine'', ''virtio_win_iso''])
     + (if cv_networks s \<noteq> [] then 1 else 0)
     + (if elems (jget (cv_form s) ''gpus'') \<noteq> [] then 1 else 0)"

definition physical_interfaces :: "js list \<Rightarrow> js list" where
  "physical_interfaces ifaces =
     filter (\<lambda>i. truthy i \<and> truthy (jget i ''is_physical'') \<and> truthy (jget i ''is_up'')) ifaces"

definition template_options :: "string \<Rightarrow> js list \<Rightarrow> (string \<times> string) list" where
  "template_options search templates =
     ([], if search \<noteq> [] \<and> templates = [] then ''No templates match \"'' @ search @ ''\"'' else ''No template'')
     # map (\<lambda>t. (to_str (jget t ''id''), to_str (jget t ''name''))) templates"

text \<open>What stands in place of the image selector.\<close>

definition image_control :: "js \<Rightarrow> js list \<Rightarrow> string" where
  "image_control form images =
     (if iso_mode form then ''iso-input''
      else if images = [] \<and> \<not> truthy (jget form ''template_id'') then ''no-images'' else ''select'')"

definition image_options :: "js \<Rightarrow> js list \<Rightarrow> (string \<times> string) list" where
  "image_options form images =
     ([], (if truthy (jget form ''template_id'') then ''Use template default image'' else ''Select an image'') @ ellipsis)
     # map (\<lambda>i. (to_str (jget i ''path''), to_str (jget i ''name'') @ image_size_suffix (jget i ''size_bytes''))) images"

subsection \<open>Facts\<close>

definition is_obj :: "js \<Rightarrow> bool" where
  "is_obj v \<longleftrightarrow> (\<exists>ps. v = Obj ps)"

named_theorems spec_simps \<open>property access through the steps that build a request body\<close>

lemma is_obj_steps [simp, spec_simps]:
  "is_obj (Obj ps)" "is_obj (jset k x v)" "is_obj (jdel k v)"
  "is_obj v \<Longrightarrow> is_obj (del_falsy k v)"
  by (auto simp: is_obj_def jset_def jdel_def del_falsy_def)

lemma obj_get: "is_obj v \<Longrightarrow> assoc_get k (props v) = jget v k"
  by (auto simp: is_obj_def)

lemma get_set_obj [spec_simps]: "is_obj v \<Longrightarrow> jget (jset k x v) k' = (if k' = k then x else jget v k')"
  by (simp add: obj_get)

lemma get_del_obj [spec_simps]: "is_obj v \<Longrightarrow> jget (jdel k v) k' = (if k' = k then Undef else jget v k')"
  by (simp add: obj_get)

lemma get_del_falsy [spec_simps]:
  "is_obj v \<Longrightarrow> jget (del_falsy k v) k' = (if k' = k \<and> \<not> truthy (jget v k) then Undef else jget v k')"
  by (auto simp: del_falsy_def obj_get)

lemma has_del_falsy [spec_simps]:
  "jhas (del_falsy k v) k' \<longleftrightarrow> jhas v k' \<and> (k' = k \<longrightarrow> truthy (jget v k))"
  by (auto simp: del_falsy_def)

lemma spec_steps_obj [simp, spec_simps]:
  "is_obj v \<Longrightarrow> is_obj (spec_boot form v)" "is_obj v \<Longrightarrow> is_obj (spec_tags form v)"
  "is_obj v \<Longrightarrow> is_obj (spec_os v)" "is_obj v \<Longrightarrow> is_obj (spec_firmware form v)"
  "is_obj v \<Longrightarrow> is_obj (spec_gpus v)" "is_obj v \<Longrightarrow> is_obj (spec_location v)"
  "is_obj v \<Longrightarrow> is_obj (spec_networks ns v)"
  by (simp_all add: spec_boot_def spec_tags_def spec_os_def spec_firmware_def spec_gpus_def
      spec_location_def spec_networks_def Let_def)

text \<open>A step leaves every key alone that it does not name.\<close>

lemma spec_other [spec_simps]:
  assumes "is_obj v"
  shows "k \<notin> {''image'', ''install_iso''} \<Longrightarrow> jget (spec_boot form v) k = jget v k"
    "k \<notin> {''image'', ''install_iso''} \<Longrightarrow> jhas (spec_boot form v) k = jhas v k"
    "k \<notin> {''tags'', ''description''} \<Longrightarrow> jget (spec_tags form v) k = jget v k"
    "k \<notin> {''tags'', ''description''} \<Longrightarrow> jhas (spec_tags form v) k = jhas v k"
    "k \<notin> {''os_variant'', ''admin_password''} \<Longrightarrow> jget (spec_os v) k = jget v k"
    "k \<notin> {''os_variant'', ''admin_password''} \<Longrightarrow> jhas (spec_os v) k = jhas v k"
    "k \<notin> {''firmware'', ''secure_boot''} \<Longrightarrow> jget (spec_firmware form v) k = jget v k"
    "k \<notin> {''firmware'', ''secure_boot''} \<Longrightarrow> jhas (spec_firmware form v) k = jhas v k"
    "k \<noteq> ''gpus'' \<Longrightarrow> jget (spec_gpus v) k = jget v k" "k \<noteq> ''gpus'' \<Longrightarrow> jhas (spec_gpus v) k = jhas v k"
    "k \<noteq> ''disk_location'' \<Longrightarrow> jget (spec_location v) k = jget v k"
    "k \<noteq> ''disk_location'' \<Longrightarrow> jhas (spec_location v) k = jhas v k"
    "k \<noteq> ''networks'' \<Longrightarrow> jget (spec_networks ns v) k = jget v k"
    "k \<noteq> ''networks'' \<Longrightarrow> jhas (spec_networks ns v) k = jhas v k"
  using assms
  by (auto simp: spec_boot_def spec_tags_def spec_os_def spec_firmware_def spec_gpus_def
      spec_location_def spec_networks_def Let_def obj_get get_del_falsy has_del_falsy)

text \<open>
  \<open>create_mid form\<close> is the body after the tag and blank-field steps, before the guest OS is looked at.
\<close>

definition blank_dropped :: "string list" where
  "blank_dropped = [''nat_static_ip'', ''nat_gateway'', ''template_id'', ''auto_start'',
                    ''os_variant'', ''admin_password'']"

definition device_keys :: "string list" where
  "device_keys = [''disk_bus'', ''nic_model'', ''machine'']"

lemma fold_del_falsy:
  "is_obj v \<Longrightarrow> is_obj (fold del_falsy ks v)
     \<and> jget (fold del_falsy ks v) k' = (if k' \<in> set ks \<and> \<not> truthy (jget v k') then Undef else jget v k')
     \<and> (jhas (fold del_falsy ks v) k' \<longleftrightarrow> jhas v k' \<and> (k' \<in> set ks \<longrightarrow> truthy (jget v k')))"
proof (induction ks arbitrary: v)
  case (Cons k ks)
  have "is_obj (del_falsy k v)" using Cons.prems by simp
  from Cons.IH[OF this] show ?case
    using Cons.prems by (auto simp: get_del_falsy has_del_falsy)
qed simp

lemmas fold_del_falsy_facts [simp] =
  fold_del_falsy[THEN conjunct1] fold_del_falsy[THEN conjunct2, THEN conjunct1]
  fold_del_falsy[THEN conjunct2, THEN conjunct2]

lemma jget_Obj_props: "is_obj form \<Longrightarrow> Obj (props form) = form"
  by (auto simp: is_obj_def)

lemma resolve_os_cong: "jget a ''os_type'' = jget b ''os_type'' \<Longrightarrow> resolve_os_type a = resolve_os_type b"
  by (simp add: resolve_os_type_def)

text \<open>The request's keys that the form may leave blank.\<close>

definition optional_keys :: "string list" where
  "optional_keys = blank_dropped @ device_keys @ [''description'', ''virtio_win_iso'']"

lemma spec_tail:
  assumes "is_obj v"
  shows "k \<notin> {''networks'', ''disk_location'', ''gpus'', ''virtio_win_iso''} \<Longrightarrow>
      jget (spec_networks nets (spec_location (spec_gpus (del_falsy ''virtio_win_iso'' v)))) k = jget v k
      \<and> (jhas (spec_networks nets (spec_location (spec_gpus (del_falsy ''virtio_win_iso'' v)))) k \<longleftrightarrow> jhas v k)"
  using assms by (simp add: spec_other get_del_falsy has_del_falsy)

lemma spec_firmware_stage:
  assumes "is_obj v"
  shows "k \<notin> {''firmware'', ''secure_boot''} \<Longrightarrow> k \<notin> set device_keys \<Longrightarrow>
      jget (spec_firmware form (fold del_falsy device_keys v)) k = jget v k
      \<and> (jhas (spec_firmware form (fold del_falsy device_keys v)) k \<longleftrightarrow> jhas v k)"
    "k \<in> set device_keys \<Longrightarrow>
      jget (spec_firmware form (fold del_falsy device_keys v)) k = (if truthy (jget v k) then jget v k else Undef)
      \<and> (jhas (spec_firmware form (fold del_falsy device_keys v)) k \<longleftrightarrow> jhas v k \<and> truthy (jget v k))"
proof -
  have d: "k \<in> set device_keys \<Longrightarrow> k \<notin> {''firmware'', ''secure_boot''}" by (auto simp: device_keys_def)
  show "k \<notin> {''firmware'', ''secure_boot''} \<Longrightarrow> k \<notin> set device_keys \<Longrightarrow>
      jget (spec_firmware form (fold del_falsy device_keys v)) k = jget v k
      \<and> (jhas (spec_firmware form (fold del_falsy device_keys v)) k \<longleftrightarrow> jhas v k)"
    using assms by (simp add: spec_other)
  show "k \<in> set device_keys \<Longrightarrow>
      jget (spec_firmware form (fold del_falsy device_keys v)) k = (if truthy (jget v k) then jget v k else Undef)
      \<and> (jhas (spec_firmware form (fold del_falsy device_keys v)) k \<longleftrightarrow> jhas v k \<and> truthy (jget v k))"
    using assms d by (simp add: spec_other)
qed

lemma spec_os_stage:
  assumes "is_obj v"
  shows "k \<notin> set blank_dropped \<Longrightarrow>
      jget (spec_os (fold del_falsy blank_dropped v)) k = jget v k
      \<and> (jhas (spec_os (fold del_falsy blank_dropped v)) k \<longleftrightarrow> jhas v k)"
    "k \<in> set blank_dropped \<Longrightarrow> jhas (spec_os (fold del_falsy blank_dropped v)) k \<Longrightarrow>
      truthy (jget (spec_os (fold del_falsy blank_dropped v)) k)"
    "resolve_os_type v \<noteq> ''windows'' \<Longrightarrow> k \<in> {''os_variant'', ''admin_password''} \<Longrightarrow>
      \<not> jhas (spec_os (fold del_falsy blank_dropped v)) k"
proof -
  let ?w = "fold del_falsy blank_dropped v"
  have o: "is_obj ?w" using assms by simp
  have r: "resolve_os_type ?w = resolve_os_type v"
    by (rule resolve_os_cong) (simp add: fold_del_falsy_facts(2)[OF assms], simp add: blank_dropped_def)
  have w: "truthy (jget ?w k)" if "k \<in> set blank_dropped" "jhas ?w k"
    using that by (simp add: fold_del_falsy_facts(2,3)[OF assms])
  show "k \<notin> set blank_dropped \<Longrightarrow> jget (spec_os ?w) k = jget v k \<and> (jhas (spec_os ?w) k \<longleftrightarrow> jhas v k)"
    using spec_other(5,6)[OF o, of k] fold_del_falsy_facts(2,3)[OF assms, of blank_dropped k]
    by (auto simp: blank_dropped_def simp del: fold_simps)
  show "truthy (jget (spec_os ?w) k)" if "k \<in> set blank_dropped" "jhas (spec_os ?w) k"
    using that w o by (auto simp: spec_os_def get_del_obj simp del: jget_jdel split: if_splits)
  show "resolve_os_type v \<noteq> ''windows'' \<Longrightarrow> k \<in> {''os_variant'', ''admin_password''} \<Longrightarrow> \<not> jhas (spec_os ?w) k"
    using r by (auto simp: spec_os_def)
qed

lemma spec_head:
  assumes "is_obj form"
  defines "v \<equiv> spec_tags form (spec_boot form (jdel ''boot_source'' (Obj (props form))))"
  shows "is_obj v"
    "k \<notin> {''tags'', ''description'', ''image'', ''install_iso'', ''boot_source''} \<Longrightarrow> jget v k = jget form k"
    "\<not> jhas v ''boot_source''"
    "jhas v ''install_iso'' \<longleftrightarrow> iso_mode form"
    "iso_mode form \<Longrightarrow> \<not> jhas v ''image''"
    "\<not> iso_mode form \<Longrightarrow> jget v ''image'' = jget form ''image''"
    "jhas v ''description'' \<Longrightarrow> truthy (jget v ''description'')"
    "jhas v ''tags'' \<Longrightarrow> parse_tags (the_str (jget form ''tags'')) \<noteq> []
       \<and> jget v ''tags'' = Arr (map Str (parse_tags (the_str (jget form ''tags''))))"
proof -
  let ?b = "spec_boot form (jdel ''boot_source'' (Obj (props form)))"
  note f = jget_Obj_props[OF assms(1)]
  have o: "is_obj ?b" by simp
  have img: "is_obj (jdel ''boot_source'' form)" by simp
  show "is_obj v" by (simp add: v_def)
  show "k \<notin> {''tags'', ''description'', ''image'', ''install_iso'', ''boot_source''} \<Longrightarrow> jget v k = jget form k"
    using spec_other(3)[OF o, of k form] spec_other(1)[OF img, of k form]
    by (simp add: v_def f get_del_obj[OF assms(1)] del: jget_jdel)
  show "\<not> jhas v ''boot_source''"
    using spec_other(4)[OF o, of "''boot_source''" form] spec_other(2)[OF img, of "''boot_source''" form]
    by (simp add: v_def f)
  have i: "jhas v ''install_iso'' \<longleftrightarrow> jhas ?b ''install_iso''" "jhas v ''image'' \<longleftrightarrow> jhas ?b ''image''"
    "jget v ''image'' = jget ?b ''image''"
    using spec_other(3,4)[OF o, of _ form] by (simp_all add: v_def)
  show "jhas v ''install_iso'' \<longleftrightarrow> iso_mode form" "iso_mode form \<Longrightarrow> \<not> jhas v ''image''"
    "\<not> iso_mode form \<Longrightarrow> jget v ''image'' = jget form ''image''"
    unfolding i by (simp_all add: spec_boot_def f obj_get assms(1))
  show "jhas v ''description'' \<Longrightarrow> truthy (jget v ''description'')"
    unfolding v_def spec_tags_def Let_def
    by (auto simp: has_del_falsy get_del_falsy obj_get split: if_splits)
  show "jhas v ''tags'' \<Longrightarrow> parse_tags (the_str (jget form ''tags'')) \<noteq> []
       \<and> jget v ''tags'' = Arr (map Str (parse_tags (the_str (jget form ''tags''))))"
    unfolding v_def spec_tags_def Let_def
    by (auto simp: has_del_falsy get_del_falsy obj_get split: if_splits)
qed

lemma create_spec_stage:
  assumes "k \<notin> {''networks'', ''disk_location'', ''gpus'', ''virtio_win_iso'', ''firmware'', ''secure_boot''}"
    and f: "is_obj form"
  defines "v \<equiv> spec_tags form (spec_boot form (jdel ''boot_source'' (Obj (props form))))"
  shows "k \<notin> set device_keys \<Longrightarrow> k \<notin> set blank_dropped \<Longrightarrow>
      jget (create_spec form nets) k = jget v k \<and> (jhas (create_spec form nets) k \<longleftrightarrow> jhas v k)"
    "k \<in> set device_keys \<or> k \<in> set blank_dropped \<Longrightarrow> jhas (create_spec form nets) k \<Longrightarrow>
      truthy (jget (create_spec form nets) k)"
    "\<not> form_windows form \<Longrightarrow> k \<in> {''os_variant'', ''admin_password''} \<Longrightarrow> \<not> jhas (create_spec form nets) k"
proof -
  let ?o = "spec_os (fold del_falsy blank_dropped v)"
  let ?f = "spec_firmware form (fold del_falsy device_keys ?o)"
  have body: "create_spec form nets
      = spec_networks nets (spec_location (spec_gpus (del_falsy ''virtio_win_iso'' ?f)))"
    by (simp add: create_spec_def v_def Let_def blank_dropped_def device_keys_def)
  note vo = spec_head(1)[OF f, folded v_def]
  then have o: "is_obj ?o" by simp
  then have "is_obj ?f" by simp
  note t = spec_tail[OF this, of k nets, folded body]
  note st = spec_firmware_stage[OF o, of k form] and so = spec_os_stage[OF vo, of k]
  have r: "resolve_os_type v = resolve_os_type form"
    by (rule resolve_os_cong) (simp add: spec_head(2)[OF f, folded v_def])
  show "k \<notin> set device_keys \<Longrightarrow> k \<notin> set blank_dropped \<Longrightarrow>
      jget (create_spec form nets) k = jget v k \<and> (jhas (create_spec form nets) k \<longleftrightarrow> jhas v k)"
    using assms(1) t st(1) so(1) by simp
  show "truthy (jget (create_spec form nets) k)"
    if "k \<in> set device_keys \<or> k \<in> set blank_dropped" "jhas (create_spec form nets) k"
  proof (cases "k \<in> set device_keys")
    case True
    then show ?thesis using that assms(1) t st(2) by simp
  next
    case False
    then have b: "k \<in> set blank_dropped" using that by simp
    have "jget (create_spec form nets) k = jget ?o k" "jhas (create_spec form nets) k = jhas ?o k"
      using False assms(1) t st(1) by simp_all
    then show ?thesis using so(2)[OF b] that by simp
  qed
  show "\<not> jhas (create_spec form nets) k" if "\<not> form_windows form" "k \<in> {''os_variant'', ''admin_password''}"
  proof -
    have "k \<notin> set device_keys" using that by (auto simp: device_keys_def)
    then have "jhas (create_spec form nets) k = jhas ?o k" using assms(1) t st(1) by simp
    then show ?thesis using so(3) r that by (simp add: form_windows_def)
  qed
qed

lemma create_spec_rest:
  assumes f: "is_obj form"
  shows "jhas (create_spec form nets) ''virtio_win_iso'' \<Longrightarrow> truthy (jget (create_spec form nets) ''virtio_win_iso'')"
    "jhas (create_spec form nets) ''gpus'' \<Longrightarrow> elems (jget (create_spec form nets) ''gpus'') \<noteq> []"
    "jhas (create_spec form nets) ''disk_location'' \<Longrightarrow>
      \<exists>l. jget (create_spec form nets) ''disk_location'' = Str l \<and> l \<notin> {[], ''default''} \<and> js_trim l = l"
    "jhas (create_spec form nets) ''secure_boot'' \<longleftrightarrow> jget form ''firmware'' = Str ''uefi''"
    "jhas (create_spec form nets) ''firmware'' \<Longrightarrow> jget form ''firmware'' = Str ''uefi''"
    "jget form ''firmware'' = Str ''uefi'' \<Longrightarrow>
       jget (create_spec form nets) ''secure_boot'' = Bool (truthy (jget form ''secure_boot''))"
proof -
  define v where "v = spec_tags form (spec_boot form (jdel ''boot_source'' (Obj (props form))))"
  define w where "w = fold del_falsy device_keys (spec_os (fold del_falsy blank_dropped v))"
  define u where "u = del_falsy ''virtio_win_iso'' (spec_firmware form w)"
  define g where "g = spec_gpus u"
  have body: "create_spec form nets = spec_networks nets (spec_location g)"
    by (simp add: create_spec_def v_def w_def u_def g_def Let_def blank_dropped_def device_keys_def)
  have vo: "is_obj v" unfolding v_def by (rule spec_head(1)[OF f])
  then have wo: "is_obj w" by (simp add: w_def)
  then have fo: "is_obj (spec_firmware form w)" and uo: "is_obj u" by (simp_all add: u_def)
  then have go: "is_obj g" by (simp add: g_def)
  then have lo: "is_obj (spec_location g)" by simp
  note net = spec_other(13,14)[OF lo, of _ nets] and loc = spec_other(11,12)[OF go]
    and gp = spec_other(9,10)[OF uo, folded g_def]
  have fwv: "jget v ''firmware'' = jget form ''firmware''"
    by (simp add: v_def spec_head(2)[OF f])
  have fww: "jget w ''firmware'' = jget v ''firmware''"
    using fold_del_falsy_facts(2)[of "spec_os (fold del_falsy blank_dropped v)" device_keys "''firmware''"]
      spec_os_stage(1)[OF vo, of "''firmware''"] vo
    by (simp add: w_def device_keys_def blank_dropped_def del: fold_simps)
  show "jhas (create_spec form nets) ''virtio_win_iso'' \<Longrightarrow> truthy (jget (create_spec form nets) ''virtio_win_iso'')"
    by (simp add: body net loc gp) (simp add: u_def has_del_falsy get_del_falsy[OF fo])
  show "jhas (create_spec form nets) ''gpus'' \<Longrightarrow> elems (jget (create_spec form nets) ''gpus'') \<noteq> []"
    by (simp add: body net loc) (auto simp: g_def spec_gpus_def split: if_splits)
  show "jhas (create_spec form nets) ''disk_location'' \<Longrightarrow>
      \<exists>l. jget (create_spec form nets) ''disk_location'' = Str l \<and> l \<notin> {[], ''default''} \<and> js_trim l = l"
    by (simp add: body net) (auto simp: spec_location_def Let_def split: if_splits)
  have fk: "jget (create_spec form nets) k = jget (spec_firmware form w) k"
    "jhas (create_spec form nets) k = jhas (spec_firmware form w) k" if "k \<in> {''firmware'', ''secure_boot''}" for k
    using that by (auto simp: body net loc gp) (auto simp: u_def has_del_falsy get_del_falsy[OF fo])
  show "jhas (create_spec form nets) ''secure_boot'' \<longleftrightarrow> jget form ''firmware'' = Str ''uefi''"
    using fww fwv fk by (simp add: spec_firmware_def)
  show "jhas (create_spec form nets) ''firmware'' \<Longrightarrow> jget form ''firmware'' = Str ''uefi''"
    using fww fwv fk by (auto simp: spec_firmware_def obj_get wo split: if_splits)
  show "jget form ''firmware'' = Str ''uefi'' \<Longrightarrow>
       jget (create_spec form nets) ''secure_boot'' = Bool (truthy (jget form ''secure_boot''))"
    using fww fwv fk by (simp add: spec_firmware_def)
qed

lemma create_spec_iso:
  assumes "is_obj form" "iso_mode form"
  shows "jget (create_spec form nets) ''install_iso'' = Str (js_trim (the_str (jget form ''install_iso'')))"
proof -
  have o: "is_obj (spec_boot form (jdel ''boot_source'' (Obj (props form))))" by simp
  have "jget (create_spec form nets) ''install_iso''
      = jget (spec_tags form (spec_boot form (jdel ''boot_source'' (Obj (props form))))) ''install_iso''"
    using create_spec_stage(1)[OF _ assms(1), of "''install_iso''" nets]
    by (simp add: device_keys_def blank_dropped_def)
  also have "\<dots> = jget (spec_boot form (jdel ''boot_source'' (Obj (props form)))) ''install_iso''"
    by (simp add: spec_other(3)[OF o])
  also have "\<dots> = Str (js_trim (the_str (jget form ''install_iso'')))"
    using assms(2) by (simp add: spec_boot_def)
  finally show ?thesis .
qed

lemma create_spec_template:
  assumes "is_obj form" "truthy (jget form ''template_id'')"
  shows "truthy (jget (create_spec form nets) ''template_id'')"
proof -
  define v where "v = spec_tags form (spec_boot form (jdel ''boot_source'' (Obj (props form))))"
  let ?w = "fold del_falsy blank_dropped v"
  have vo: "is_obj v" unfolding v_def by (rule spec_head(1)[OF assms(1)])
  then have wo: "is_obj ?w" by simp
  then have so: "is_obj (spec_os ?w)" by simp
  then have fo: "is_obj (spec_firmware form (fold del_falsy device_keys (spec_os ?w)))" by simp
  have "jget (create_spec form nets) ''template_id''
      = jget (spec_firmware form (fold del_falsy device_keys (spec_os ?w))) ''template_id''"
    using spec_tail[OF fo, of "''template_id''" nets]
    by (simp add: create_spec_def v_def Let_def blank_dropped_def device_keys_def)
  also have "\<dots> = jget (spec_os ?w) ''template_id''"
    using spec_firmware_stage(1)[OF so, of "''template_id''" form] by (simp add: device_keys_def)
  also have "\<dots> = jget ?w ''template_id''" by (simp add: spec_other(5)[OF wo])
  also have "\<dots> = jget form ''template_id''"
    using spec_head(2)[OF assms(1), of "''template_id''"] assms(2)
    by (simp add: fold_del_falsy_facts(2)[OF vo] v_def[symmetric])
  finally show ?thesis using assms(2) by simp
qed

text \<open>What each step leaves under a key.\<close>

lemma get_boot:
  "is_obj v \<Longrightarrow> jget (spec_boot form v) k =
     (if k = ''install_iso'' then (if iso_mode form then Str (js_trim (the_str (jget form ''install_iso''))) else Undef)
      else if k = ''image'' \<and> iso_mode form then Undef else jget v k)"
  by (simp add: spec_boot_def obj_get)

lemma get_tags:
  "is_obj v \<Longrightarrow> jget (spec_tags form v) k =
     (let tags = parse_tags (the_str (jget form ''tags'')) in
      if k = ''tags'' then (if tags = [] then Undef else Arr (map Str tags))
      else if k = ''description'' \<and> \<not> truthy (jget v ''description'') then Undef else jget v k)"
  by (simp add: spec_tags_def Let_def obj_get get_del_falsy)

lemma get_os:
  "is_obj v \<Longrightarrow> jget (spec_os v) k =
     (if k \<in> {''os_variant'', ''admin_password''} \<and> resolve_os_type v \<noteq> ''windows'' then Undef else jget v k)"
  by (simp add: spec_os_def obj_get)

lemma get_firmware:
  "is_obj v \<Longrightarrow> jget (spec_firmware form v) k =
     (if jget v ''firmware'' = Str ''uefi''
      then if k = ''secure_boot'' then Bool (truthy (jget form ''secure_boot'')) else jget v k
      else if k \<in> {''firmware'', ''secure_boot''} then Undef else jget v k)"
  by (simp add: spec_firmware_def obj_get)

lemma get_gpus:
  "is_obj v \<Longrightarrow> jget (spec_gpus v) k =
     (if k = ''gpus'' \<and> (\<not> truthy (jget v ''gpus'') \<or> elems (jget v ''gpus'') = []) then Undef else jget v k)"
  by (auto simp: spec_gpus_def obj_get)

lemma get_location:
  "is_obj v \<Longrightarrow> jget (spec_location v) k =
     (let loc = js_trim (the_str (js_or (jget v ''disk_location'') (Str []))) in
      if k = ''disk_location'' then (if loc \<in> {[], ''default''} then Undef else Str loc) else jget v k)"
  by (simp add: spec_location_def obj_get Let_def)

lemma get_networks:
  "is_obj v \<Longrightarrow> jget (spec_networks nets v) k =
     (if k = ''networks'' \<and> nets \<noteq> [] then Arr (map network_attachment nets) else jget v k)"
  by (simp add: spec_networks_def obj_get)

lemmas spec_gets = get_boot get_tags get_os get_firmware get_gpus get_location get_networks

text \<open>What the request holds under a key that needs no care of its own: what was filled in.\<close>

definition filled :: "js \<Rightarrow> string \<Rightarrow> js" where
  "filled form k = (if truthy (jget form k) then jget form k else Undef)"

lemma create_spec_gets:
  fixes form :: js and nets :: "js list"
  assumes "is_obj form"
  defines "b \<equiv> create_spec form nets"
  shows "k \<in> {''description'', ''nat_static_ip'', ''nat_gateway'', ''template_id'', ''auto_start'', ''disk_bus'',
              ''nic_model'', ''machine'', ''virtio_win_iso''} \<Longrightarrow> jget b k = filled form k"
    "k \<in> {''os_variant'', ''admin_password''} \<Longrightarrow> jget b k = (if form_windows form then filled form k else Undef)"
    "jget b ''image'' = (if iso_mode form then Undef else jget form ''image'')"
    "jget b ''install_iso'' = (if iso_mode form then Str (js_trim (the_str (jget form ''install_iso''))) else Undef)"
    "jget b ''boot_source'' = Undef"
    "jget b ''firmware'' = (if jget form ''firmware'' = Str ''uefi'' then Str ''uefi'' else Undef)"
    "jget b ''secure_boot'' = (if jget form ''firmware'' = Str ''uefi'' then Bool (truthy (jget form ''secure_boot'')) else Undef)"
    "jget b ''tags'' = (let tags = parse_tags (the_str (jget form ''tags'')) in if tags = [] then Undef else Arr (map Str tags))"
    "jget b ''gpus'' = (if truthy (jget form ''gpus'') \<and> elems (jget form ''gpus'') \<noteq> [] then jget form ''gpus'' else Undef)"
    "jget b ''disk_location'' = (let loc = js_trim (the_str (js_or (jget form ''disk_location'') (Str []))) in
       if loc \<in> {[], ''default''} then Undef else Str loc)"
    "jget b ''networks'' = (if nets = [] then jget form ''networks'' else Arr (map network_attachment nets))"
    "k \<notin> {''description'', ''nat_static_ip'', ''nat_gateway'', ''template_id'', ''auto_start'', ''disk_bus'',
              ''nic_model'', ''machine'', ''virtio_win_iso'', ''os_variant'', ''admin_password'', ''image'', ''install_iso'',
              ''boot_source'', ''firmware'', ''secure_boot'', ''tags'', ''gpus'', ''disk_location'', ''networks''}
       \<Longrightarrow> jget b k = jget form k"
proof -
  define v where "v = spec_tags form (spec_boot form (jdel ''boot_source'' form))"
  define o' where "o' = fold del_falsy blank_dropped v"
  define w where "w = fold del_falsy device_keys (spec_os o')"
  define x where "x = del_falsy ''virtio_win_iso'' (spec_firmware form w)"
  have body: "b = spec_networks nets (spec_location (spec_gpus x))"
    by (simp add: b_def create_spec_def v_def o'_def w_def x_def Let_def blank_dropped_def device_keys_def
        jget_Obj_props[OF assms(1)])
  have ob: "is_obj v" "is_obj o'" "is_obj w" "is_obj x" "is_obj (spec_firmware form w)" "is_obj (spec_gpus x)"
    "is_obj (spec_location (spec_gpus x))" "is_obj (spec_os o')"
    by (simp_all add: v_def o'_def w_def x_def)
  have gv: "jget v k = jget (spec_tags form (spec_boot form (jdel ''boot_source'' form))) k" for k by (simp add: v_def)
  have go: "jget o' k = (if k \<in> set blank_dropped \<and> \<not> truthy (jget v k) then Undef else jget v k)" for k
    unfolding o'_def by (rule fold_del_falsy_facts(2)[OF ob(1)])
  have gw: "jget w k = (if k \<in> set device_keys \<and> \<not> truthy (jget (spec_os o') k) then Undef else jget (spec_os o') k)" for k
    unfolding w_def by (rule fold_del_falsy_facts(2)[OF ob(8)])
  have gx: "jget x k = (if k = ''virtio_win_iso'' \<and> \<not> truthy (jget (spec_firmware form w) k) then Undef
      else jget (spec_firmware form w) k)" for k
    by (auto simp: x_def get_del_falsy[OF ob(5)])
  have "jget o' ''os_type'' = jget form ''os_type''"
    by (simp add: go gv get_tags get_boot blank_dropped_def assms(1) obj_get Let_def)
  then have os: "resolve_os_type o' = resolve_os_type form" by (rule resolve_os_cong)
  have p: "k \<notin> {''networks'', ''disk_location'', ''gpus''} \<Longrightarrow> jget b k = jget x k"
    "k \<noteq> ''virtio_win_iso'' \<Longrightarrow> jget x k = jget (spec_firmware form w) k"
    "k \<notin> {''firmware'', ''secure_boot''} \<Longrightarrow> jget (spec_firmware form w) k = jget w k"
    "k \<notin> {''disk_bus'', ''nic_model'', ''machine''} \<Longrightarrow> jget w k = jget (spec_os o') k"
    "k \<notin> {''os_variant'', ''admin_password''} \<Longrightarrow> jget (spec_os o') k = jget o' k"
    "k \<notin> {''nat_static_ip'', ''nat_gateway'', ''template_id'', ''auto_start'', ''os_variant'', ''admin_password''}
       \<Longrightarrow> jget o' k = jget v k"
    "k \<notin> {''tags'', ''description'', ''image'', ''install_iso'', ''boot_source''} \<Longrightarrow> jget v k = jget form k" for k
    by (simp_all add: body get_networks[OF ob(7)] get_location[OF ob(6)] get_gpus[OF ob(4)] gx get_firmware[OF ob(3)])
      (simp_all add: gw get_os[OF ob(2)] go device_keys_def blank_dropped_def gv get_tags get_boot assms(1) obj_get Let_def)
  have q: "jget b ''networks'' = (if nets \<noteq> [] then Arr (map network_attachment nets) else jget x ''networks'')"
    "jget b ''disk_location'' = (let loc = js_trim (the_str (js_or (jget x ''disk_location'') (Str []))) in
       if loc \<in> {[], ''default''} then Undef else Str loc)"
    "jget b ''gpus'' = (if truthy (jget x ''gpus'') \<and> elems (jget x ''gpus'') \<noteq> [] then jget x ''gpus'' else Undef)"
    by (simp_all add: body get_networks[OF ob(7)] get_location[OF ob(6)] get_gpus[OF ob(4)])
  have q2: "jget x ''virtio_win_iso'' = filled (spec_firmware form w) ''virtio_win_iso''"
    "jget (spec_firmware form w) ''firmware'' = (if jget w ''firmware'' = Str ''uefi'' then Str ''uefi'' else Undef)"
    "jget (spec_firmware form w) ''secure_boot'' =
       (if jget w ''firmware'' = Str ''uefi'' then Bool (truthy (jget form ''secure_boot'')) else Undef)"
    by (simp_all add: gx filled_def get_firmware[OF ob(3)])
  have q3: "k \<in> {''disk_bus'', ''nic_model'', ''machine''} \<Longrightarrow> jget w k = filled (spec_os o') k"
    "k \<in> {''os_variant'', ''admin_password''} \<Longrightarrow> jget (spec_os o') k = (if form_windows form then jget o' k else Undef)"
    "k \<in> {''nat_static_ip'', ''nat_gateway'', ''template_id'', ''auto_start'', ''os_variant'', ''admin_password''}
       \<Longrightarrow> jget o' k = filled v k" for k
    by (auto simp: gw device_keys_def filled_def get_os[OF ob(2)] os form_windows_def go blank_dropped_def)
  have q4: "jget v ''description'' = filled form ''description''"
    "jget v ''tags'' = (let tags = parse_tags (the_str (jget form ''tags'')) in if tags = [] then Undef else Arr (map Str tags))"
    "jget v ''image'' = (if iso_mode form then Undef else jget form ''image'')"
    "jget v ''install_iso'' = (if iso_mode form then Str (js_trim (the_str (jget form ''install_iso''))) else Undef)"
    "jget v ''boot_source'' = Undef"
    by (simp_all add: gv get_tags get_boot filled_def assms(1) obj_get Let_def)
  note gets = p q q2 q3 q4 filled_def
  show "k \<in> {''description'', ''nat_static_ip'', ''nat_gateway'', ''template_id'', ''auto_start'', ''disk_bus'',
              ''nic_model'', ''machine'', ''virtio_win_iso''} \<Longrightarrow> jget b k = filled form k"
    by (elim insertE emptyE; simp add: gets)
  show "k \<in> {''os_variant'', ''admin_password''} \<Longrightarrow> jget b k = (if form_windows form then filled form k else Undef)"
    by (elim insertE emptyE; simp add: gets)
  show "jget b ''image'' = (if iso_mode form then Undef else jget form ''image'')" by (simp add: gets)
  show "jget b ''install_iso'' = (if iso_mode form then Str (js_trim (the_str (jget form ''install_iso''))) else Undef)"
    by (simp add: gets)
  show "jget b ''boot_source'' = Undef" by (simp add: gets)
  show "jget b ''firmware'' = (if jget form ''firmware'' = Str ''uefi'' then Str ''uefi'' else Undef)" by (simp add: gets)
  show "jget b ''secure_boot'' = (if jget form ''firmware'' = Str ''uefi'' then Bool (truthy (jget form ''secure_boot'')) else Undef)"
    by (simp add: gets)
  show "jget b ''tags'' = (let tags = parse_tags (the_str (jget form ''tags'')) in if tags = [] then Undef else Arr (map Str tags))"
    by (simp add: gets)
  show "jget b ''gpus'' = (if truthy (jget form ''gpus'') \<and> elems (jget form ''gpus'') \<noteq> [] then jget form ''gpus'' else Undef)"
    by (simp add: gets)
  show "jget b ''disk_location'' = (let loc = js_trim (the_str (js_or (jget form ''disk_location'') (Str []))) in
       if loc \<in> {[], ''default''} then Undef else Str loc)"
    by (simp add: gets)
  show "jget b ''networks'' = (if nets = [] then jget form ''networks'' else Arr (map network_attachment nets))"
    by (simp add: gets)
  show "k \<notin> {''description'', ''nat_static_ip'', ''nat_gateway'', ''template_id'', ''auto_start'', ''disk_bus'',
              ''nic_model'', ''machine'', ''virtio_win_iso'', ''os_variant'', ''admin_password'', ''image'', ''install_iso'',
              ''boot_source'', ''firmware'', ''secure_boot'', ''tags'', ''gpus'', ''disk_location'', ''networks''}
       \<Longrightarrow> jget b k = jget form k"
    by (simp add: gets)
qed

lemma attachment_gets:
  "jget (network_attachment n) ''mode'' = jget n ''mode''"
  "jget (network_attachment n) ''bridge'' = (if jget n ''mode'' = Str ''bridge'' then jget n ''host_interface'' else Undef)"
  "jget (network_attachment n) ''host_interface'' = (if jget n ''mode'' = Str ''bridge'' then Undef else jget n ''host_interface'')"
  "jget (network_attachment n) ''static_ip'' =
     (if \<not> truthy (jget n ''dhcp'') \<and> truthy (jget n ''static_ip'') then jget n ''static_ip'' else Undef)"
  "jget (network_attachment n) ''gateway'' =
     (if \<not> truthy (jget n ''dhcp'') \<and> truthy (jget n ''gateway'') then jget n ''gateway'' else Undef)"
  by (simp_all add: network_attachment_def Let_def get_set_obj)
lemma create_spec_absent:
  assumes "is_obj form"
  shows "jhas (create_spec form nets) k \<Longrightarrow> k \<in> set optional_keys \<Longrightarrow> truthy (jget (create_spec form nets) k)"
proof -
  assume h: "jhas (create_spec form nets) k" "k \<in> set optional_keys"
  consider "k = ''description''" | "k = ''virtio_win_iso''" | "k \<in> set device_keys \<or> k \<in> set blank_dropped"
    using h(2) by (auto simp: optional_keys_def)
  then show ?thesis
  proof cases
    case 1
    then show ?thesis using create_spec_stage(1)[OF _ assms, of "''description''" nets] spec_head(7)[OF assms] h(1)
      by (simp add: device_keys_def blank_dropped_def)
  next
    case 2
    then show ?thesis using create_spec_rest(1)[OF assms, of nets] h(1) by simp
  next
    case 3
    then have "k \<notin> {''networks'', ''disk_location'', ''gpus'', ''virtio_win_iso'', ''firmware'', ''secure_boot''}"
      by (auto simp: device_keys_def blank_dropped_def)
    from create_spec_stage(2)[OF this assms 3] show ?thesis using h(1) .
  qed
qed

text \<open>
  C8 The request that creates a machine says exactly what the operator filled in: the value under every
  key the form has. The fields always sent arrive as in the form; each optional one is the form's value
  when it is filled in and is not sent otherwise, so that the daemon resolves its default; there is
  exactly one boot source (the base image, or an installer, never both); guest variant and
  administrator password go out for a Windows guest only; UEFI firmware goes out with \<open>secure_boot\<close> as
  the operator chose, BIOS without either; tags, GPUs and the trimmed disk location are sent exactly when
  there are any; and each extra network becomes one attachment, its interface under the name its mode
  asks for, its address and gateway exactly when they are filled in and not left to DHCP.
\<close>

theorem create_spec_minimal:
  assumes "is_obj form" and b_def: "b = create_spec form nets"
    and tags_def: "tags = parse_tags (the_str (jget form ''tags''))"
    and loc_def: "loc = js_trim (the_str (js_or (jget form ''disk_location'') (Str [])))"
  shows "(\<forall>k\<in>{''name'', ''cpus'', ''ram_mb'', ''disk_gb'', ''ssh_pub_key'', ''default_user'', ''os_type''}.
        jget b k = jget form k)
    \<and> (\<forall>k\<in>{''description'', ''nat_static_ip'', ''nat_gateway'', ''template_id'', ''auto_start'', ''disk_bus'',
            ''nic_model'', ''machine'', ''virtio_win_iso''}. jget b k = filled form k)
    \<and> (\<forall>k\<in>{''os_variant'', ''admin_password''}. jget b k = (if form_windows form then filled form k else Undef))
    \<and> jget b ''image'' = (if iso_mode form then Undef else jget form ''image'')
    \<and> jget b ''install_iso'' = (if iso_mode form then Str (js_trim (the_str (jget form ''install_iso''))) else Undef)
    \<and> jget b ''boot_source'' = Undef
    \<and> (if jget form ''firmware'' = Str ''uefi''
       then jget b ''firmware'' = Str ''uefi'' \<and> jget b ''secure_boot'' = Bool (truthy (jget form ''secure_boot''))
       else jget b ''firmware'' = Undef \<and> jget b ''secure_boot'' = Undef)
    \<and> jget b ''tags'' = (if tags = [] then Undef else Arr (map Str tags))
    \<and> jget b ''gpus'' = (if truthy (jget form ''gpus'') \<and> elems (jget form ''gpus'') \<noteq> [] then jget form ''gpus'' else Undef)
    \<and> jget b ''disk_location'' = (if loc \<in> {[], ''default''} then Undef else Str loc)
    \<and> (nets \<noteq> [] \<longrightarrow> (\<exists>atts. jget b ''networks'' = Arr atts \<and> list_all2 (\<lambda>n a.
          jget a ''mode'' = jget n ''mode''
        \<and> jget a (if jget n ''mode'' = Str ''bridge'' then ''bridge'' else ''host_interface'') = jget n ''host_interface''
        \<and> jget a ''static_ip'' = (if truthy (jget n ''dhcp'') then Undef else filled n ''static_ip'')
        \<and> jget a ''gateway'' = (if truthy (jget n ''dhcp'') then Undef else filled n ''gateway'')) nets atts))
    \<and> (nets = [] \<longrightarrow> jget b ''networks'' = jget form ''networks'')
    \<and> (\<forall>k\<in>set optional_keys. jhas b k \<longrightarrow> truthy (jget b k))"
proof -
  note g = create_spec_gets[OF assms(1), where nets = nets, folded b_def]
  show ?thesis
  proof (intro conjI)
  show "\<forall>k\<in>{''name'', ''cpus'', ''ram_mb'', ''disk_gb'', ''ssh_pub_key'', ''default_user'', ''os_type''}.
      jget b k = jget form k"
    by (simp add: g(12))
  show "\<forall>k\<in>{''description'', ''nat_static_ip'', ''nat_gateway'', ''template_id'', ''auto_start'', ''disk_bus'',
      ''nic_model'', ''machine'', ''virtio_win_iso''}. jget b k = filled form k"
    by (intro ballI g(1))
  show "\<forall>k\<in>{''os_variant'', ''admin_password''}. jget b k = (if form_windows form then filled form k else Undef)"
    by (intro ballI g(2))
  show "nets \<noteq> [] \<longrightarrow> (\<exists>atts. jget b ''networks'' = Arr atts \<and> list_all2 (\<lambda>n a.
          jget a ''mode'' = jget n ''mode''
        \<and> jget a (if jget n ''mode'' = Str ''bridge'' then ''bridge'' else ''host_interface'') = jget n ''host_interface''
        \<and> jget a ''static_ip'' = (if truthy (jget n ''dhcp'') then Undef else filled n ''static_ip'')
        \<and> jget a ''gateway'' = (if truthy (jget n ''dhcp'') then Undef else filled n ''gateway'')) nets atts)"
    using g(11) by (simp add: list.rel_map attachment_gets filled_def list.rel_refl)
  show "\<forall>k\<in>set optional_keys. jhas b k \<longrightarrow> truthy (jget b k)"
    using create_spec_absent[OF assms(1)] by (simp add: b_def)
qed (simp_all add: g(3-11) tags_def loc_def Let_def)
qed

theorem create_spec_minimal_witness:
  "jget (create_spec empty_form []) ''cpus'' = JNat 2 \<and> jget (create_spec empty_form []) ''description'' = Undef
   \<and> jget (create_spec empty_form []) ''firmware'' = Undef"
proof -
  have o: "is_obj empty_form" by (simp add: empty_form_def)
  have f: "jget empty_form ''cpus'' = JNat 2" "jget empty_form ''firmware'' \<noteq> Str ''uefi''"
    "filled empty_form ''description'' = Undef"
    by (simp_all add: empty_form_def filled_def)
  show ?thesis using create_spec_minimal[OF o refl refl refl, of "[]"] f by simp
qed

text \<open>
  Switching the guest OS keeps the form valid. Turning a Linux form into a Windows one, by hand or
  by a template, raises memory and disk to the Windows minima and never lowers them; turning it back
  clears the Windows-only fields; nothing else changes, and the OS chosen stands.
\<close>

theorem os_switch_effects:
  assumes "is_obj f" and g_def: "g = cv_form (set_form f s)"
  shows "(form_windows f \<and> \<not> form_windows (cv_form s) \<longrightarrow>
            the_num (jget g ''ram_mb'') = max (the_num (jget f ''ram_mb'')) windows_min_ram_mb
          \<and> the_num (jget g ''disk_gb'') = max (the_num (jget f ''disk_gb'')) windows_min_disk_gb)
    \<and> (\<not> form_windows f \<and> form_windows (cv_form s) \<longrightarrow>
            \<not> truthy (jget g ''os_variant'') \<and> \<not> truthy (jget g ''admin_password''))
    \<and> (\<forall>k. k \<notin> {''ram_mb'', ''disk_gb'', ''os_variant'', ''admin_password''} \<longrightarrow> jget g k = jget f k)
    \<and> (form_windows g \<longleftrightarrow> form_windows f)"
proof -
  have k: "\<forall>k. k \<notin> {''ram_mb'', ''disk_gb'', ''os_variant'', ''admin_password''} \<longrightarrow> jget g k = jget f k"
    using assms(1) by (simp add: g_def set_form_def os_effects_def raise_windows_minima_def
        clear_windows_fields_def obj_get)
  then have "resolve_os_type g = resolve_os_type f" by (intro resolve_os_cong) simp
  then have w: "form_windows g \<longleftrightarrow> form_windows f" by (simp add: form_windows_def)
  have r: "the_num (jget g ''ram_mb'') = max (the_num (jget f ''ram_mb'')) windows_min_ram_mb
          \<and> the_num (jget g ''disk_gb'') = max (the_num (jget f ''disk_gb'')) windows_min_disk_gb"
    if "form_windows f" "\<not> form_windows (cv_form s)"
    using that assms(1) by (simp add: g_def set_form_def os_effects_def raise_windows_minima_def obj_get)
  have c: "\<not> truthy (jget g ''os_variant'') \<and> \<not> truthy (jget g ''admin_password'')"
    if "\<not> form_windows f" "form_windows (cv_form s)"
    using that assms(1) by (simp add: g_def set_form_def os_effects_def clear_windows_fields_def obj_get)
  show ?thesis using k w r c by blast
qed

theorem os_switch_effects_witness:
  "the_num (jget (cv_form (form_update ''os_type'' (Str ''windows'') create_init)) ''ram_mb'') = 4096"
proof -
  let ?f = "jset ''os_type'' (Str ''windows'') empty_form"
  have "\<not> form_windows empty_form" "form_windows ?f"
    by (simp_all add: empty_form_def form_windows_def resolve_os_type_def js_or_def js_trim_def trim_start_def
        is_ws_def js_lower_def lower_char_def)
  then have "the_num (jget (cv_form (set_form ?f create_init)) ''ram_mb'')
      = max (the_num (jget ?f ''ram_mb'')) windows_min_ram_mb"
    using os_switch_effects[of ?f, OF _ refl, of create_init] by (simp add: create_init_def)
  then show ?thesis by (simp add: form_update_def create_init_def empty_form_def windows_min_ram_mb_def)
qed

definition small_windows_template :: js where
  "small_windows_template = Obj [(''id'', Str ''t''), (''os_type'', Str ''windows''), (''ram_mb'', JNat 1024), (''disk_gb'', JNat 10)]"

text \<open>
  The minima are enforced on the switch only: a Windows template picked while the form is already
  a Windows one can take memory and disk below the minima again.
\<close>

theorem windows_template_below_minima:
  "the_num (jget (cv_form (apply_template [small_windows_template] ''t''
      (form_update ''os_type'' (Str ''windows'') create_init))) ''ram_mb'') < windows_min_ram_mb"
proof -
  let ?s = "form_update ''os_type'' (Str ''windows'') create_init"
  have s: "form_windows (cv_form ?s)"
    by (simp add: form_update_def set_form_def os_effects_def raise_windows_minima_def create_init_def
        empty_form_def form_windows_def resolve_os_type_def js_or_def js_trim_def trim_start_def
        is_ws_def js_lower_def lower_char_def)
  let ?t = "template_form small_windows_template (cv_form ?s)"
  have t: "find_template [small_windows_template] ''t'' = small_windows_template"
    "small_windows_template \<noteq> Undef"
    by (simp_all add: find_template_def small_windows_template_def)
  have f: "form_windows ?t" "jget ?t ''ram_mb'' = JNat 1024"
    by (simp_all add: template_form_def Let_def take_template_def small_windows_template_def js_or_def
        form_windows_def resolve_os_type_def js_trim_def trim_start_def is_ws_def js_lower_def lower_char_def)
  show ?thesis
    using s f by (simp add: apply_template_def t Let_def set_form_def windows_min_ram_mb_def)
qed

text \<open>
  C35 Submitting is safe. The button is enabled only when the request would name the machine and say
  what to boot from (image, template or installer). A refused request leaves form, networks and tab
  as they were; an accepted one resets them, and a generated password is shown, before the list is
  refreshed and the dialog closed. One request goes out, the one described by \<open>create_spec_minimal\<close>.
\<close>

theorem create_submit_safe:
  assumes "\<not> submit_disabled loading (cv_form s)" "is_obj (cv_form s)"
    and r_def: "r = create_submit answer s" and b_def: "b = create_spec (cv_form s) (cv_networks s)"
  shows "filter (\<lambda>e. \<exists>a xs. e = Api a xs) (fst r) = [Api ''vms.create'' [b]]
    \<and> truthy (jget b ''name'')
    \<and> ((\<exists>t. jget b ''install_iso'' = Str t \<and> t \<noteq> []) \<or> truthy (jget b ''image'') \<or> truthy (jget b ''template_id''))
    \<and> (answer = None \<longrightarrow> snd r = s \<and> length (fst r) = 1)
    \<and> (\<forall>v. answer = Some v \<longrightarrow> snd r = create_init
         \<and> (Callback ''onPasswordGenerated'' [v] \<in> set (fst r) \<longleftrightarrow> truthy (jget v ''generated_admin_password''))
         \<and> last (fst r) = Callback ''onClose'' [])"
proof -
  let ?f = "cv_form s"
  note st = create_spec_stage(1)[OF _ assms(2), of _ "cv_networks s", folded b_def]
  note h = spec_head[OF assms(2)]
  have n: "jget b ''name'' = jget ?f ''name''"
    using st[of "''name''"] h(2)[of "''name''"] by (simp add: device_keys_def blank_dropped_def)
  have t: "truthy (jget b ''template_id'')" if "truthy (jget ?f ''template_id'')"
    unfolding b_def by (rule create_spec_template[OF assms(2) that])
  have i: "jget b ''install_iso'' = Str (js_trim (the_str (jget ?f ''install_iso'')))" if "iso_mode ?f"
    unfolding b_def by (rule create_spec_iso[OF assms(2) that])
  have m: "jget b ''image'' = jget ?f ''image''" if "\<not> iso_mode ?f"
    using st[of "''image''"] h(6)[OF that] by (simp add: device_keys_def blank_dropped_def)
  show ?thesis
    using assms(1) n t i m
    by (auto simp: submit_disabled_def r_def create_submit_def b_def[symmetric] Let_def
        split: option.splits if_splits)
qed

definition ready_form :: create_vm where
  "ready_form = form_update ''image'' (Str ''/img/a.qcow2'') (form_update ''name'' (Str ''web'') create_init)"

theorem create_submit_safe_witness:
  "snd (create_submit None ready_form) = ready_form
   \<and> last (fst (create_submit (Some (Obj [(''generated_admin_password'', Str ''pw'')])) ready_form))
       = Callback ''onClose'' []"
proof -
  have f: "cv_form ready_form = jset ''image'' (Str ''/img/a.qcow2'') (jset ''name'' (Str ''web'') empty_form)"
    by (simp add: ready_form_def form_update_def set_form_def create_init_def form_windows_def resolve_os_type_def empty_form_def)
  have o: "is_obj (cv_form ready_form)" by (simp add: f)
  have e: "\<not> submit_disabled False (cv_form ready_form)"
    by (simp add: f submit_disabled_def iso_mode_def empty_form_def)
  show ?thesis using create_submit_safe[OF e o refl refl, of None]
      create_submit_safe[OF e o refl refl, of "Some (Obj [(''generated_admin_password'', Str ''pw'')])"]
    by simp
qed

end
