(* ===== verification/CreateForm.thy ===== *)
theory CreateForm imports CreateVM begin

text \<open>
  The dialog that creates a machine as the operator meets it, the markup of \<open>CreateVMModal\<close> in
  \<open>web/src/pages/VMList.jsx\<close>: which controls its two tabs show, in their order and under their
  \<open>data-testid\<close> (or label), what using each does to the form, the search box for templates, the rows of
  host GPUs and extra networks, and the footer. The form and the request are those of \<open>CreateVM\<close>.
\<close>

subsection \<open>What the dialog loads\<close>

record create_env =
  ce_images :: "js list"
  ce_templates :: "js list"
  ce_search :: string
  ce_locations :: "js list"
  ce_gpus :: "js list"
  ce_ifaces :: "js list"

definition create_requests :: "string \<Rightarrow> request list" where
  "create_requests template_search =
     [image_request (ImageList Undef),
      template_request (TemplateList (Obj [(''sort'', Str ''name''), (''search'', Str template_search)])),
      read_request HostInterfaces, read_request HostGpus, read_request HostStorageLocations]"

text \<open>The search box: typing restarts the timer, which commits the trimmed text.\<close>

record template_search =
  ts_input :: string
  ts_search :: string
  ts_timer :: bool

definition template_search_init :: template_search where
  "template_search_init = \<lparr>ts_input = [], ts_search = [], ts_timer = True\<rparr>"

definition template_search_type :: "string \<Rightarrow> template_search \<Rightarrow> template_search" where
  "template_search_type text s = (if text = ts_input s then s else s\<lparr>ts_input := text, ts_timer := True\<rparr>)"

definition template_search_fire :: "template_search \<Rightarrow> template_search" where
  "template_search_fire s = (if ts_timer s then s\<lparr>ts_search := js_trim (ts_input s), ts_timer := False\<rparr> else s)"

definition template_search_clearable :: "template_search \<Rightarrow> bool" where
  "template_search_clearable s \<longleftrightarrow> ts_input s \<noteq> []"

subsection \<open>Controls\<close>

text \<open>
  A control of the form: the field it drives, with the least number or the options it offers.
  \<open>TemplateChoice\<close> applies a template; \<open>LocationChoice\<close> is the shared storage picker.
\<close>

datatype form_control =
    TextField string
  | NumberField string rat
  | ChoiceField string "(string \<times> string) list"
  | RadioField string string
  | CheckField string
  | GpuField string
  | TemplateChoice "(string \<times> string) list"
  | LocationChoice string

datatype entry = Typed string | Ticked bool

definition form_uefi :: "js \<Rightarrow> bool" where
  "form_uefi form \<longleftrightarrow> jget form ''firmware'' = Str ''uefi''"

definition identity_controls :: "create_env \<Rightarrow> js \<Rightarrow> (string \<times> form_control) list" where
  "identity_controls env form =
     [(''input-vm-name'', TextField ''name''),
      (''input-vm-template'', TemplateChoice (template_options (ce_search env) (ce_templates env)))]"

definition boot_controls :: "create_env \<Rightarrow> js \<Rightarrow> (string \<times> form_control) list" where
  "boot_controls env form =
     [(''create-vm-boot-source-image'', RadioField ''boot_source'' ''image''),
      (''create-vm-boot-source-iso'', RadioField ''boot_source'' ''iso'')]
     @ (if image_control form (ce_images env) = ''iso-input'' then [(''create-vm-install-iso'', TextField ''install_iso'')]
        else if image_control form (ce_images env) = ''no-images'' then []
        else [(''input-vm-image'', ChoiceField ''image'' (image_options form (ce_images env)))])"

definition size_controls :: "js \<Rightarrow> (string \<times> form_control) list" where
  "size_controls form =
     [(''input-vm-os-type'', ChoiceField ''os_type'' [(''linux'', ''Linux''), (''windows'', ''Windows'')]),
      (''input-vm-cpus'', NumberField ''cpus'' 1),
      (''input-vm-ram'', NumberField ''ram_mb'' (if form_windows form then windows_min_ram_mb else 256))]"

definition variant_options :: "(string \<times> string) list" where
  "variant_options =
     [([], ''Select variant'' @ ellipsis), (''windows-10'', ''Windows 10''), (''windows-11'', ''Windows 11''),
      (''windows-server-2019'', ''Windows Server 2019''), (''windows-server-2022'', ''Windows Server 2022''),
      (''windows-server-2025'', ''Windows Server 2025'')]"

definition disk_controls :: "js \<Rightarrow> (string \<times> form_control) list" where
  "disk_controls form =
     (if form_windows form then [(''input-vm-os-variant'', ChoiceField ''os_variant'' variant_options)] else [])
     @ [(''input-vm-disk'', NumberField ''disk_gb'' (if form_windows form then windows_min_disk_gb else 1))]
     @ (if form_windows form then [(''input-vm-admin-password'', TextField ''admin_password'')] else [])"

definition location_controls :: "create_env \<Rightarrow> (string \<times> form_control) list" where
  "location_controls env =
     (if ce_locations env \<noteq> [] then [(''input-vm-disk-location'', LocationChoice ''disk_location'')] else [])"

definition firmware_controls :: "js \<Rightarrow> (string \<times> form_control) list" where
  "firmware_controls form =
     (''create-vm-firmware'', ChoiceField ''firmware'' [([], ''BIOS (default)''), (''uefi'', ''UEFI'')])
     # (if form_uefi form then [(''create-vm-secure-boot'', CheckField ''secure_boot'')] else [])"

definition note_controls :: "(string \<times> form_control) list" where
  "note_controls = [(''Description'', TextField ''description''), (''Tags'', TextField ''tags'')]"

definition basic_controls :: "create_env \<Rightarrow> js \<Rightarrow> (string \<times> form_control) list" where
  "basic_controls env form =
     identity_controls env form @ boot_controls env form @ size_controls form @ disk_controls form
     @ location_controls env @ firmware_controls form @ note_controls"

definition access_controls :: "(string \<times> form_control) list" where
  "access_controls =
     [(''input-vm-default-user'', TextField ''default_user''), (''input-vm-ssh-key'', TextField ''ssh_pub_key'')]"

definition lifecycle_controls :: "(string \<times> form_control) list" where
  "lifecycle_controls = [(''input-vm-auto-start'', CheckField ''auto_start'')]"

definition nat_controls :: "(string \<times> form_control) list" where
  "nat_controls = [(''Static IP (CIDR)'', TextField ''nat_static_ip''), (''Gateway'', TextField ''nat_gateway'')]"

definition device_controls :: "(string \<times> form_control) list" where
  "device_controls =
     [(''input-vm-disk-bus'', ChoiceField ''disk_bus''
         [([], ''Default (linux=virtio, windows=sata)''), (''virtio'', ''virtio''), (''sata'', ''sata'')]),
      (''input-vm-nic-model'', ChoiceField ''nic_model''
         [([], ''Default (linux=virtio, windows=e1000e)''), (''virtio'', ''virtio''), (''e1000e'', ''e1000e'')]),
      (''input-vm-machine'', TextField ''machine''),
      (''input-vm-virtio-win-iso'', TextField ''virtio_win_iso'')]"

definition gpu_controls :: "create_env \<Rightarrow> (string \<times> form_control) list" where
  "gpu_controls env =
     map (\<lambda>g. let a = to_str (jget g ''address'') in (''gpu-checkbox-'' @ a, GpuField a)) (ce_gpus env)"

definition advanced_controls :: "create_env \<Rightarrow> (string \<times> form_control) list" where
  "advanced_controls env = access_controls @ lifecycle_controls @ nat_controls @ device_controls @ gpu_controls env"

definition tab_controls :: "create_env \<Rightarrow> create_vm \<Rightarrow> (string \<times> form_control) list" where
  "tab_controls env s =
     (if cv_tab s = ''basic'' then basic_controls env (cv_form s)
      else if cv_tab s = ''advanced'' then advanced_controls env else [])"

definition pick_tab :: "string \<Rightarrow> create_vm \<Rightarrow> create_vm" where
  "pick_tab t s = s\<lparr>cv_tab := t\<rparr>"

text \<open>What an entry does: a text or number field takes what is typed, a choice only what it offers.\<close>

definition use_field :: "create_env \<Rightarrow> form_control \<Rightarrow> entry \<Rightarrow> create_vm \<Rightarrow> create_vm" where
  "use_field env c e s =
     (case (c, e) of
        (TextField k, Typed t) \<Rightarrow> form_update k (Str t) s
      | (NumberField k m, Typed t) \<Rightarrow> form_update_num k t s
      | (ChoiceField k opts, Typed v) \<Rightarrow> (if v \<in> set (map fst opts) then form_update k (Str v) s else s)
      | (RadioField k v, Ticked True) \<Rightarrow> form_update k (Str v) s
      | (CheckField k, Ticked b) \<Rightarrow> form_update k (Bool b) s
      | (GpuField a, Ticked _) \<Rightarrow> toggle_gpu a s
      | (TemplateChoice opts, Typed v) \<Rightarrow> (if v \<in> set (map fst opts) then apply_template (ce_templates env) v s else s)
      | (LocationChoice k, Typed v) \<Rightarrow> form_update k (Str v) s
      | _ \<Rightarrow> s)"

fun control_field :: "form_control \<Rightarrow> string" where
  "control_field (TextField k) = k"
| "control_field (NumberField k m) = k"
| "control_field (ChoiceField k opts) = k"
| "control_field (RadioField k v) = k"
| "control_field (CheckField k) = k"
| "control_field (GpuField a) = ''gpus''"
| "control_field (TemplateChoice opts) = ''template_id''"
| "control_field (LocationChoice k) = k"

subsection \<open>Rows and hints\<close>

text \<open>The hint beside the boot source: the template's description and tags while one is chosen.\<close>

definition template_hint :: "create_env \<Rightarrow> js \<Rightarrow> (string \<times> string list) option" where
  "template_hint env form =
     (if truthy (jget form ''template_id'') then
        (let sel = find_template (ce_templates env) (to_str (jget form ''template_id''))
         in Some (to_str (js_or (jget sel ''description'') (Str [])),
                  map to_str (elems (js_or (jget sel ''tags'') (Arr [])))))
      else None)"

definition windows_hints :: "js \<Rightarrow> string list" where
  "windows_hints form =
     (if form_windows form
      then [''Windows minimum: '' @ num_str (Fin windows_min_ram_mb) @ '' MB'', ''Windows minimum: '' @ num_str (Fin windows_min_disk_gb) @ '' GB'']
      else [])"

definition default_user_placeholder :: "js \<Rightarrow> string" where
  "default_user_placeholder form = (if form_windows form then ''Administrator'' else ''root'')"

definition nat_interface :: "js list \<Rightarrow> js" where
  "nat_interface ifaces =
     (case find (\<lambda>i. truthy i \<and> jget i ''name'' = Str ''vmsmith0'') ifaces of None \<Rightarrow> Undef | Some i \<Rightarrow> i)"

definition nat_summary :: "js list \<Rightarrow> string option" where
  "nat_summary ifaces =
     (let n = nat_interface ifaces in
      if truthy n then
        Some (to_str (jget n ''name'')
              @ (case elems (jget n ''ips'') of [] \<Rightarrow> [] | ip # _ \<Rightarrow> '' '' @ mid_dot @ '' '' @ to_str ip)
              @ (if truthy (jget n ''is_up'') then [] else '' '' @ mid_dot @ '' down''))
      else None)"

text \<open>A host GPU: whether ticked, vendor and address, driver and whether it is ready, the lines below it.\<close>

datatype gpu_note = GpuPrimaryDisplay | GpuRebind string

record gpu_view =
  gv_ticked :: bool
  gv_vendor :: string
  gv_address :: string
  gv_driver :: string
  gv_ready :: bool
  gv_primary :: bool
  gv_detail :: string
  gv_note :: "gpu_note option"

definition gpu_option :: "js \<Rightarrow> js \<Rightarrow> gpu_view" where
  "gpu_option form gpu =
     (let ready = jget gpu ''driver'' = Str ''vfio-pci''; devices = elems (jget gpu ''group_devices'') in
      \<lparr>gv_ticked = jget gpu ''address'' \<in> set (elems (js_or (jget form ''gpus'') (Arr []))),
       gv_vendor = to_str (jget gpu ''vendor''), gv_address = to_str (jget gpu ''address''),
       gv_driver = to_str (js_or (jget gpu ''driver'') (Str ''unbound'')), gv_ready = ready,
       gv_primary = truthy (jget gpu ''boot_vga''),
       gv_detail = ''device '' @ to_str (jget gpu ''device_id'') @ '' '' @ mid_dot @ '' IOMMU group '' @ to_str (jget gpu ''iommu_group'')
         @ (if 1 < length devices then '' '' @ mid_dot @ '' attaches '' @ js_join '', '' (map to_str devices) else []),
       gv_note = (if truthy (jget gpu ''boot_vga'') then Some GpuPrimaryDisplay
                  else if \<not> ready then Some (GpuRebind (to_str (js_or (jget gpu ''driver'') (Str ''no''))))
                  else None)\<rparr>)"

definition gpu_options :: "create_env \<Rightarrow> js \<Rightarrow> gpu_view list" where
  "gpu_options env form = map (gpu_option form) (ce_gpus env)"

text \<open>The controls of an extra network: the field, and for a selector its options.\<close>

definition interface_option :: "js \<Rightarrow> string \<times> string" where
  "interface_option i =
     (to_str (jget i ''name''),
      to_str (jget i ''name'') @ (case elems (jget i ''ips'') of [] \<Rightarrow> [] | ip # _ \<Rightarrow> '' ('' @ to_str ip @ '')''))"

definition net_controls :: "js list \<Rightarrow> js \<Rightarrow> form_control list" where
  "net_controls ifaces net =
     [ChoiceField ''mode'' [(''macvtap'', ''macvtap (direct)''), (''bridge'', ''bridge'')],
      (if jget net ''mode'' = Str ''macvtap'' \<and> physical_interfaces ifaces \<noteq> []
       then ChoiceField ''host_interface'' (([], ''Select'' @ ellipsis) # map interface_option (physical_interfaces ifaces))
       else TextField ''host_interface''),
      CheckField ''dhcp'']
     @ (if truthy (jget net ''dhcp'') then [] else [TextField ''static_ip'', TextField ''gateway''])"

definition net_label :: "js \<Rightarrow> string" where
  "net_label net = (if jget net ''mode'' = Str ''bridge'' then ''Bridge Name'' else ''Host Interface'')"

definition use_net :: "nat \<Rightarrow> form_control \<Rightarrow> entry \<Rightarrow> create_vm \<Rightarrow> create_vm" where
  "use_net i c e s =
     (case (c, e) of
        (TextField k, Typed t) \<Rightarrow> update_net i k (Str t) s
      | (ChoiceField k opts, Typed v) \<Rightarrow> (if v \<in> set (map fst opts) then update_net i k (Str v) s else s)
      | (CheckField k, Ticked b) \<Rightarrow> update_net i k (Bool b) s
      | _ \<Rightarrow> s)"

text \<open>The footer: progress, the error of the last request, whether cancelling and creating are possible.\<close>

definition create_footer :: "bool \<Rightarrow> string option \<Rightarrow> js \<Rightarrow> bool \<times> string option \<times> bool \<times> bool" where
  "create_footer loading err form =
     (loading,
      (case err of None \<Rightarrow> None | Some e \<Rightarrow> if e = [] then None else Some (''Error: '' @ e)),
      \<not> loading, \<not> submit_disabled loading form)"

lemmas control_defs = basic_controls_def identity_controls_def boot_controls_def size_controls_def disk_controls_def
  location_controls_def firmware_controls_def note_controls_def advanced_controls_def access_controls_def
  lifecycle_controls_def nat_controls_def device_controls_def gpu_controls_def

subsection \<open>Facts\<close>

lemma form_update_plain:
  "k \<noteq> ''os_type'' \<Longrightarrow> is_obj (cv_form s) \<Longrightarrow> form_update k v s = s\<lparr>cv_form := jset k v (cv_form s)\<rparr>"
proof -
  assume k: "k \<noteq> ''os_type''" and o: "is_obj (cv_form s)"
  have "resolve_os_type (jset k v (cv_form s)) = resolve_os_type (cv_form s)"
    by (rule resolve_os_cong) (use k o in \<open>simp add: get_set_obj obj_get\<close>)
  then show ?thesis by (simp add: form_update_def set_form_def form_windows_def)
qed

text \<open>
  Every control does what it says: a text, number, choice or check sets its own field to what was entered
  and leaves every other field and the networks alone. The guest OS is the exception that \<open>os_switch_effects\<close>
  describes.
\<close>

lemma control_sets_field:
  assumes "is_obj (cv_form s)" "control_field c \<noteq> ''os_type''" "\<And>opts. c \<noteq> TemplateChoice opts"
  shows "use_field env c e s = s \<or> (\<exists>v. use_field env c e s = s\<lparr>cv_form := jset (control_field c) v (cv_form s)\<rparr>)"
    "c = TextField k \<Longrightarrow> e = Typed t \<Longrightarrow> jget (cv_form (use_field env c e s)) k = Str t"
    "c = NumberField k m \<Longrightarrow> e = Typed t \<Longrightarrow> jget (cv_form (use_field env c e s)) k = number_or_zero t"
    "c = ChoiceField k opts \<Longrightarrow> e = Typed t \<Longrightarrow> t \<in> set (map fst opts) \<Longrightarrow> jget (cv_form (use_field env c e s)) k = Str t"
    "c = CheckField k \<Longrightarrow> e = Ticked b \<Longrightarrow> jget (cv_form (use_field env c e s)) k = Bool b"
proof -
  have p: "form_update (control_field c) v s = s\<lparr>cv_form := jset (control_field c) v (cv_form s)\<rparr>" for v
    using form_update_plain assms(1,2) by blast
  show "use_field env c e s = s \<or> (\<exists>v. use_field env c e s = s\<lparr>cv_form := jset (control_field c) v (cv_form s)\<rparr>)"
  proof (cases c)
    case (GpuField a)
    then show ?thesis using p by (cases e) (auto simp: use_field_def toggle_gpu_def Let_def)
  next
    case (RadioField k v)
    then show ?thesis using p by (cases e) (auto simp: use_field_def split: bool.splits)
  qed (use p assms(3) in \<open>cases e; auto simp: use_field_def form_update_num_def\<close>)+
  show "c = TextField k \<Longrightarrow> e = Typed t \<Longrightarrow> jget (cv_form (use_field env c e s)) k = Str t"
    "c = NumberField k m \<Longrightarrow> e = Typed t \<Longrightarrow> jget (cv_form (use_field env c e s)) k = number_or_zero t"
    "c = ChoiceField k opts \<Longrightarrow> e = Typed t \<Longrightarrow> t \<in> set (map fst opts) \<Longrightarrow> jget (cv_form (use_field env c e s)) k = Str t"
    "c = CheckField k \<Longrightarrow> e = Ticked b \<Longrightarrow> jget (cv_form (use_field env c e s)) k = Bool b"
    using p by (auto simp: use_field_def form_update_num_def)
qed

definition shown_fields :: "create_env \<Rightarrow> js \<Rightarrow> string set" where
  "shown_fields env form = control_field ` snd ` set (basic_controls env form @ advanced_controls env)"

lemma basic_fields:
  "map (control_field \<circ> snd) (basic_controls env form) =
     [''name'', ''template_id'', ''boot_source'', ''boot_source'']
     @ (if iso_mode form then [''install_iso'']
        else if ce_images env = [] \<and> \<not> truthy (jget form ''template_id'') then [] else [''image''])
     @ [''os_type'', ''cpus'', ''ram_mb''] @ (if form_windows form then [''os_variant''] else []) @ [''disk_gb'']
     @ (if form_windows form then [''admin_password''] else [])
     @ (if ce_locations env \<noteq> [] then [''disk_location''] else [])
     @ ''firmware'' # (if form_uefi form then [''secure_boot''] else []) @ [''description'', ''tags'']"
  by (simp add: control_defs image_control_def)

lemma advanced_fields:
  "map (control_field \<circ> snd) (advanced_controls env) =
     [''default_user'', ''ssh_pub_key'', ''auto_start'', ''nat_static_ip'', ''nat_gateway'', ''disk_bus'', ''nic_model'',
      ''machine'', ''virtio_win_iso''] @ map (\<lambda>_. ''gpus'') (ce_gpus env)"
  by (simp add: control_defs Let_def)

lemma shown_set:
  "shown_fields env form =
     set (map (control_field \<circ> snd) (basic_controls env form)) \<union> set (map (control_field \<circ> snd) (advanced_controls env))"
  by (simp add: shown_fields_def image_comp image_Un)

lemmas shown_list = shown_set[unfolded basic_fields advanced_fields]

lemmas in_literal = set_append list.set Un_iff insert_iff empty_iff simp_thms refl if_True if_False

text \<open>Every field of the form has its control, on one tab or the other, for some state of the form.\<close>

lemma fields_have_controls:
  assumes "ce_images env \<noteq> []" "ce_gpus env = g # gs" "ce_locations env \<noteq> []" "k \<in> set (jkeys empty_form)"
  shows "\<exists>form. k \<in> shown_fields env form"
proof -
  let ?iso = "Obj [(''boot_source'', Str ''iso''), (''os_type'', Str ''windows''), (''firmware'', Str ''uefi'')]"
  have i: "form_windows ?iso" "form_uefi ?iso" "iso_mode ?iso" "\<not> iso_mode (Obj [])"
    by (simp_all add: form_windows_def resolve_os_type_def js_or_def js_trim_def trim_start_def is_ws_def js_lower_def
        form_uefi_def iso_mode_def)
  have "jkeys empty_form = [''name'', ''image'', ''cpus'', ''ram_mb'', ''disk_gb'', ''description'', ''tags'', ''ssh_pub_key'',
      ''default_user'', ''nat_static_ip'', ''nat_gateway'', ''template_id'', ''auto_start'', ''os_type'', ''os_variant'',
      ''admin_password'', ''disk_bus'', ''nic_model'', ''machine'', ''firmware'', ''secure_boot'', ''boot_source'', ''install_iso'',
      ''virtio_win_iso'', ''gpus'', ''disk_location'']"
    unfolding jkeys_def empty_form_def props.simps list.map fst_conv ..
  then have "set (jkeys empty_form) \<subseteq> {''image''} \<union> shown_fields env ?iso"
    by (simp only: shown_list i assms list.map insert_subset empty_subsetI in_literal)
  then have "k \<in> {''image''} \<union> shown_fields env ?iso" using assms(4) by (rule subsetD)
  moreover have "''image'' \<in> shown_fields env (Obj [])"
    by (simp only: shown_list i assms in_literal)
  ultimately show ?thesis by (metis Un_iff singletonD)
qed

lemma shown_when:
  "iso_mode form \<Longrightarrow> ''install_iso'' \<in> shown_fields env form"
  "\<not> iso_mode form \<Longrightarrow> ce_images env \<noteq> [] \<or> truthy (jget form ''template_id'') \<Longrightarrow> ''image'' \<in> shown_fields env form"
  "form_windows form \<Longrightarrow> ''os_variant'' \<in> shown_fields env form"
  "form_windows form \<Longrightarrow> ''admin_password'' \<in> shown_fields env form"
  "form_uefi form \<Longrightarrow> ''secure_boot'' \<in> shown_fields env form"
  by (simp_all only: shown_list in_literal) auto

text \<open>
  C32 Nothing that the dialog hides is sent. While images are listed, or none is chosen, each of the fields
  that the dialog hides at times (image, installer, Windows variant and password, secure boot) is absent
  from the request, or blank in it, whenever its control is not shown, whatever was entered before it was
  hidden; and so are the address and the gateway of an extra network that uses DHCP.
\<close>

theorem hidden_fields_unsent:
  assumes f: "is_obj form" and img: "ce_images env \<noteq> [] \<or> \<not> truthy (jget form ''image'')"
    and b_def: "b = create_spec form nets"
  shows "(\<forall>k\<in>{''image'', ''install_iso'', ''os_variant'', ''admin_password'', ''secure_boot''}.
        k \<notin> shown_fields env form \<longrightarrow> \<not> truthy (jget b k))
    \<and> (nets \<noteq> [] \<longrightarrow> jget b ''networks'' = Arr (map network_attachment nets))
    \<and> (\<forall>net k. k \<in> {''static_ip'', ''gateway''} \<and> TextField k \<notin> set (net_controls ifaces net) \<longrightarrow>
         jget (network_attachment net) k = Undef)"
proof -
  note hd = spec_head[OF f] and rs = create_spec_rest[OF f, of nets, folded b_def]
  note st = create_spec_stage[OF _ f, of _ nets, folded b_def]
  have "is_obj b" by (simp add: b_def create_spec_def Let_def)
  then have u: "\<not> jhas b k \<Longrightarrow> \<not> truthy (jget b k)" for k using jget_not_has by (fastforce simp: is_obj_def)
  have 1: "\<not> truthy (jget b ''image'')" if m: "''image'' \<notin> shown_fields env form"
  proof -
    note s = st(1)[of "''image''", simplified device_keys_def blank_dropped_def, simplified]
    show ?thesis
    proof (cases "iso_mode form")
      case True
      then show ?thesis using s hd(5) u by metis
    next
      case False
      then have "\<not> truthy (jget form ''image'')" using m shown_when(2)[of form env] img by metis
      then show ?thesis using s hd(6) False by simp
    qed
  qed
  have 2: "\<not> truthy (jget b ''install_iso'')" if m: "''install_iso'' \<notin> shown_fields env form"
  proof -
    have "\<not> iso_mode form" using m shown_when(1)[of form env] by metis
    then have "\<not> jhas b ''install_iso''"
      using st(1)[of "''install_iso''", simplified device_keys_def blank_dropped_def, simplified] hd(4) by simp
    then show ?thesis by (rule u)
  qed
  have 3: "\<not> truthy (jget b k)" if m: "k \<in> {''os_variant'', ''admin_password''}" "\<not> form_windows form" for k
    using st(3)[of k] m u by auto
  have 4: "\<not> truthy (jget b ''secure_boot'')" if m: "''secure_boot'' \<notin> shown_fields env form"
    using rs(4) u m shown_when(5)[of form env] unfolding form_uefi_def by metis
  have win: "\<not> form_windows form" if "''os_variant'' \<notin> shown_fields env form \<or> ''admin_password'' \<notin> shown_fields env form"
    using that shown_when(3,4)[of form env] by metis
  have net: "jget (network_attachment net) k = Undef"
    if "k \<in> {''static_ip'', ''gateway''}" "TextField k \<notin> set (net_controls ifaces net)" for net k
  proof -
    have "truthy (jget net ''dhcp'')" using that by (auto simp: net_controls_def split: if_splits)
    then show ?thesis using that(1) by (auto simp: network_attachment_def Let_def)
  qed
  have nw: "nets \<noteq> [] \<Longrightarrow> jget b ''networks'' = Arr (map network_attachment nets)"
    by (simp add: b_def create_spec_def spec_networks_def Let_def)
  show ?thesis
  proof (intro conjI allI impI)
    show "\<forall>k\<in>{''image'', ''install_iso'', ''os_variant'', ''admin_password'', ''secure_boot''}.
        k \<notin> shown_fields env form \<longrightarrow> \<not> truthy (jget b k)"
      unfolding ball_simps using 1 2 3[of "''os_variant''"] 3[of "''admin_password''"] 4 win by (intro conjI impI) simp_all
  qed (use nw net in \<open>simp_all\<close>)
qed

theorem hidden_fields_unsent_witness:
  "\<not> truthy (jget (create_spec (jset ''admin_password'' (Str ''pw'') empty_form) []) ''admin_password'')"
proof -
  let ?f = "jset ''admin_password'' (Str ''pw'') empty_form"
  let ?e = "\<lparr>ce_images = [], ce_templates = [], ce_search = [], ce_locations = [], ce_gpus = [], ce_ifaces = []\<rparr>"
  have w: "\<not> form_windows ?f"
    by (simp add: empty_form_def form_windows_def resolve_os_type_def js_or_def js_trim_def trim_start_def is_ws_def
        js_lower_def lower_char_def)
  then have "''admin_password'' \<notin> shown_fields ?e ?f"
    by (simp add: shown_list iso_mode_def empty_form_def form_uefi_def)
  then show ?thesis using hidden_fields_unsent[of ?f ?e, OF _ _ refl, of "[]"] by (simp add: empty_form_def)
qed

text \<open>
  The exception: a template fills in its image, which stays when the template is dropped again; when no
  images are listed the dialog then shows that there are none, and sends the image all the same.
\<close>

definition image_template :: js where
  "image_template = Obj [(''id'', Str ''t''), (''image'', Str ''base.qcow2'')]"

definition template_dropped :: create_vm where
  "template_dropped = apply_template [image_template] [] (apply_template [image_template] ''t'' create_init)"

lemma template_dropped_form:
  "is_obj (cv_form template_dropped) \<and> jget (cv_form template_dropped) ''image'' = Str ''base.qcow2''
   \<and> jget (cv_form template_dropped) ''template_id'' = Str [] \<and> \<not> iso_mode (cv_form template_dropped)"
proof -
  let ?f = "template_form image_template empty_form"
  have t: "find_template [image_template] ''t'' = image_template" "find_template [image_template] [] = Undef" "image_template \<noteq> Undef"
    by (simp_all add: find_template_def image_template_def)
  have e: "is_obj empty_form" "jget empty_form ''os_type'' = Str ''linux''" "jget empty_form ''boot_source'' = Str ''image''"
    by (simp_all add: empty_form_def)
  have o: "is_obj (take_template t f0 k f)" for t f0 k f by (simp add: take_template_def)
  have g: "jget (take_template t f0 k f) k' = (if k' = k then js_or (jget t k) (jget f0 k) else jget f k')" if "is_obj f" for t f0 k f k'
    using get_set_obj[OF that] unfolding take_template_def .
  have f: "is_obj ?f" "jget ?f ''image'' = Str ''base.qcow2''" "jget ?f ''os_type'' = Str ''linux''"
    "jget ?f ''boot_source'' = Str ''image''"
    unfolding template_form_def Let_def fold_simps
    by (simp_all add: o g get_set_obj e image_template_def js_or_def del: jget_jset)
  have lin: "\<not> form_windows v" if "jget v ''os_type'' = Str ''linux''" for v
    using that by (simp add: form_windows_def resolve_os_type_def js_or_def js_trim_def trim_start_def is_ws_def js_lower_def)
  have w: "\<not> form_windows empty_form" by (rule lin[OF e(2)])
  have one: "cv_form (apply_template [image_template] ''t'' create_init) = ?f"
    using lin[OF f(3)] w by (simp add: apply_template_def t set_form_def create_init_def)
  let ?g = "jset ''template_id'' (Str []) ?f"
  have h: "jget ?g ''os_type'' = Str ''linux''" using f(1,3) by (simp add: get_set_obj obj_get)
  have "cv_form template_dropped = ?g"
    using lin[OF h] lin[OF f(3)] by (simp add: template_dropped_def apply_template_def[of _ "[]"] t set_form_def one)
  then show ?thesis using f by (simp add: obj_get iso_mode_def)
qed

lemma hidden_image_sent:
  assumes "ce_images env = []"
  shows "''image'' \<notin> shown_fields env (cv_form template_dropped)"
    "jget (create_spec (cv_form template_dropped) []) ''image'' = Str ''base.qcow2''"
proof -
  note d = template_dropped_form
  show "''image'' \<notin> shown_fields env (cv_form template_dropped)"
    using assms d by (simp add: shown_list image_iff)
  have "jget (create_spec (cv_form template_dropped) []) ''image''
      = jget (spec_tags (cv_form template_dropped) (spec_boot (cv_form template_dropped)
          (jdel ''boot_source'' (Obj (props (cv_form template_dropped)))))) ''image''"
    using create_spec_stage(1)[of "''image''" "cv_form template_dropped" "[]"] d
    by (simp add: device_keys_def blank_dropped_def)
  then show "jget (create_spec (cv_form template_dropped) []) ''image'' = Str ''base.qcow2''"
    using spec_head(6)[of "cv_form template_dropped"] d by simp
qed

end
