(* ===== verification/PolledPage.thy ===== *)
theory PolledPage imports ListPage FetchHooks begin

text \<open>
  A list page as a whole: its filters (\<open>FilterPage\<close>), the request that depends on them (\<open>ListPage\<close>) and
  the loader that makes it (\<open>FetchHooks\<close>). Every render whose dependencies changed runs the loader's
  effect; a change of filter that also goes back to page 1 renders twice, first with the old page. The
  locale \<open>polled_page\<close> shows once that such a page shows what its filters ask for; the pages interpret
  it.

  \<open>pc_announces\<close>: whether the effect sets the loading flag (the pages with a loop of their own);
  \<open>pc_pausable\<close>: whether the page can stop asking; \<open>pc_ask\<close> and \<open>pc_deps\<close>: the request and the
  dependencies of the effect; \<open>pc_conv\<close>: what the page makes of an entered value.
\<close>

record pconf =
  pc_conf :: fconf
  pc_announces :: bool
  pc_pausable :: bool
  pc_ask :: "fpage \<Rightarrow> request"
  pc_deps :: "fpage \<Rightarrow> string list \<times> nat \<times> nat"
  pc_conv :: "string \<Rightarrow> string \<Rightarrow> string"

record polled =
  po_page :: fpage
  po_paused :: bool
  po_loader :: "request loader"

definition po_query :: "pconf \<Rightarrow> fpage \<Rightarrow> bool \<Rightarrow> request option" where
  "po_query pc p paused = (if paused then None else Some (pc_ask pc p))"

text \<open>The state after mounting on an address.\<close>

definition po_mounted :: "pconf \<Rightarrow> params \<Rightarrow> 'a polled_scheme \<Rightarrow> bool" where
  "po_mounted pc ps s \<longleftrightarrow> po_page s = mount_page (pc_conf pc) ps \<and> \<not> po_paused s
     \<and> po_loader s = load_effect (pc_announces pc) True (Some (pc_ask pc (po_page s)))
                       (loader_init (Some (pc_ask pc (po_page s))))"

text \<open>A render with the filters and page \<open>p\<close>.\<close>

definition po_render :: "pconf \<Rightarrow> fpage \<Rightarrow> 'a polled_scheme \<Rightarrow> 'a polled_scheme" where
  "po_render pc p s =
     s\<lparr>po_page := p,
       po_loader := (if pc_deps pc p = pc_deps pc (po_page s) then po_loader s
                     else load_effect (pc_announces pc) True (po_query pc p (po_paused s)) (po_loader s))\<rparr>"

definition po_event :: "pconf \<Rightarrow> page_event \<Rightarrow> 'a polled_scheme \<Rightarrow> 'a polled_scheme" where
  "po_event pc e s =
     (let p = po_page s; p' = happen (pc_conf pc) (pc_conv pc) e p in
      po_render pc p'
        (if reset_changed (pc_conf pc) p p' then po_render pc (p'\<lparr>fp_page := fp_page p\<rparr>) s else s))"

definition po_toggle_pause :: "pconf \<Rightarrow> 'a polled_scheme \<Rightarrow> 'a polled_scheme" where
  "po_toggle_pause pc s =
     s\<lparr>po_paused := \<not> po_paused s,
       po_loader := load_effect (pc_announces pc) True (po_query pc (po_page s) (\<not> po_paused s)) (po_loader s)\<rparr>"

definition po_tick :: "'a polled_scheme \<Rightarrow> 'a polled_scheme" where
  "po_tick s = s\<lparr>po_loader := load_tick (po_loader s)\<rparr>"

definition po_refresh :: "'a polled_scheme \<Rightarrow> 'a polled_scheme" where
  "po_refresh s = s\<lparr>po_loader := load (po_loader s)\<rparr>"

definition po_answer :: "nat \<times> request \<Rightarrow> string + js \<Rightarrow> 'a polled_scheme \<Rightarrow> 'a polled_scheme" where
  "po_answer r answer s = s\<lparr>po_loader := load_done r answer (po_loader s)\<rparr>"

text \<open>
  What can happen to a mounted page; \<open>pl_other\<close> is anything that touches neither filters nor loader.
\<close>

inductive polled_reach :: "pconf \<Rightarrow> bool \<Rightarrow> (request \<Rightarrow> string + js) \<Rightarrow> 'a polled_scheme \<Rightarrow> bool"
  for pc ordered srv where
  pl_mount: "po_mounted pc ps s \<Longrightarrow> polled_reach pc ordered srv s"
| pl_event: "polled_reach pc ordered srv s \<Longrightarrow> event_ok (pc_conf pc) e \<Longrightarrow> polled_reach pc ordered srv (po_event pc e s)"
| pl_pause: "polled_reach pc ordered srv s \<Longrightarrow> pc_pausable pc \<Longrightarrow> polled_reach pc ordered srv (po_toggle_pause pc s)"
| pl_tick: "polled_reach pc ordered srv s \<Longrightarrow> polled_reach pc ordered srv (po_tick s)"
| pl_refresh: "polled_reach pc ordered srv s \<Longrightarrow> polled_reach pc ordered srv (po_refresh s)"
| pl_answer: "polled_reach pc ordered srv s \<Longrightarrow> r \<in> set (ld_flight (po_loader s)) \<Longrightarrow>
    ordered \<longrightarrow> r = hd (ld_flight (po_loader s)) \<Longrightarrow>
    polled_reach pc ordered srv (po_answer r (srv (snd r)) s)"
| pl_other: "polled_reach pc ordered srv s \<Longrightarrow> po_page t = po_page s \<Longrightarrow> po_paused t = po_paused s \<Longrightarrow>
    po_loader t = po_loader s \<Longrightarrow> polled_reach pc ordered srv t"

definition polled_ok :: "pconf \<Rightarrow> bool \<Rightarrow> (request \<Rightarrow> string + js) \<Rightarrow> 'a polled_scheme \<Rightarrow> bool" where
  "polled_ok pc ordered srv s \<longleftrightarrow> page_reach (pc_conf pc) (po_page s)
     \<and> loader_reach (pc_announces pc) True ordered srv (po_loader s)
     \<and> ld_query (po_loader s) = po_query pc (po_page s) (po_paused s)
     \<and> (\<not> pc_pausable pc \<longrightarrow> \<not> po_paused s)"

lemma effect_query [simp]: "ld_query (load_effect an po q s) = q"
  by (simp add: load_effect_def)

lemma done_query [simp]: "ld_query (load_done r a s) = ld_query s"
  by (simp add: load_done_def Let_def split: sum.splits)

lemma tick_query [simp]: "ld_query (load_tick s) = ld_query s"
  by (simp add: load_tick_def)

lemma po_mounted_make:
  "po_mounted pc ps \<lparr>po_page = mount_page (pc_conf pc) ps, po_paused = False,
     po_loader = load_effect (pc_announces pc) True (Some (pc_ask pc (mount_page (pc_conf pc) ps)))
       (loader_init (Some (pc_ask pc (mount_page (pc_conf pc) ps))))\<rparr>"
  by (simp add: po_mounted_def)

lemma po_event_page [simp]:
  "po_page (po_event pc e s) = happen (pc_conf pc) (pc_conv pc) e (po_page s)"
  "po_paused (po_event pc e s) = po_paused s"
  by (simp_all add: po_event_def po_render_def Let_def)

text \<open>
  Answers in any order: the next poll asks what the filters ask for, and from then on the answer to any
  such request under way is shown as soon as it arrives.
\<close>

definition po_recovers :: "pconf \<Rightarrow> (request \<Rightarrow> string + js) \<Rightarrow> 'a polled_scheme \<Rightarrow> bool" where
  "po_recovers pc srv s \<longleftrightarrow>
     ld_flight (po_loader (po_tick s)) = ld_flight (po_loader s) @ [(ld_next (po_loader s), pc_ask pc (po_page s))]
     \<and> (\<forall>r\<in>set (ld_flight (po_loader (po_tick s))). snd r = pc_ask pc (po_page s) \<longrightarrow>
          displays srv (pc_ask pc (po_page s)) (po_loader (po_answer r (srv (snd r)) (po_tick s))))"

locale polled_page = filter_page "pc_conf pc" for pc :: pconf +
  assumes deps_ask: "pc_deps pc p = pc_deps pc p' \<Longrightarrow> pc_ask pc p = pc_ask pc p'"
begin

lemma render_ok:
  assumes "loader_reach (pc_announces pc) True ordered srv (po_loader s)"
    "ld_query (po_loader s) = po_query pc (po_page s) (po_paused s)"
  shows "loader_reach (pc_announces pc) True ordered srv (po_loader (po_render pc p s))
    \<and> ld_query (po_loader (po_render pc p s)) = po_query pc p (po_paused s)
    \<and> po_page (po_render pc p s) = p \<and> po_paused (po_render pc p s) = po_paused s"
  using assms deps_ask[of p "po_page s"] by (auto simp: po_render_def po_query_def intro: lr_change)

lemma event_keeps:
  assumes "polled_ok pc ordered srv s" "event_ok (pc_conf pc) e"
  shows "polled_ok pc ordered srv (po_event pc e s)"
proof -
  let ?p = "happen (pc_conf pc) (pc_conv pc) e (po_page s)"
  let ?s = "if reset_changed (pc_conf pc) (po_page s) ?p
    then po_render pc (?p\<lparr>fp_page := fp_page (po_page s)\<rparr>) s else s"
  have "loader_reach (pc_announces pc) True ordered srv (po_loader ?s)
      \<and> ld_query (po_loader ?s) = po_query pc (po_page ?s) (po_paused ?s) \<and> po_paused ?s = po_paused s"
    using assms(1) render_ok[of ordered srv s] by (simp add: polled_ok_def)
  then have "loader_reach (pc_announces pc) True ordered srv (po_loader (po_render pc ?p ?s))
      \<and> ld_query (po_loader (po_render pc ?p ?s)) = po_query pc ?p (po_paused s)
      \<and> po_page (po_render pc ?p ?s) = ?p \<and> po_paused (po_render pc ?p ?s) = po_paused s"
    using render_ok[of ordered srv ?s ?p] by auto
  moreover have "page_reach (pc_conf pc) ?p" using assms by (simp add: polled_ok_def happen_reach)
  ultimately show ?thesis using assms(1) by (simp add: po_event_def Let_def polled_ok_def)
qed

lemma polled_reach_ok: "polled_reach pc ordered srv s \<Longrightarrow> polled_ok pc ordered srv s"
proof (induction rule: polled_reach.induct)
  case (pl_mount ps s)
  then show ?case by (simp add: po_mounted_def polled_ok_def po_query_def pr_mount lr_mount)
next
  case (pl_event s e)
  then show ?case by (simp add: event_keeps)
next
  case (pl_answer s r)
  then show ?case by (auto simp: polled_ok_def po_answer_def intro: lr_answer)
qed (auto simp: polled_ok_def po_toggle_pause_def po_tick_def po_refresh_def
    intro: lr_change lr_tick lr_refresh)

text \<open>What the page shows once it is idle, and what it asks for meanwhile.\<close>

lemma follows:
  assumes "polled_reach pc ordered srv s" "\<not> po_paused s"
  shows "page_ok (pc_conf pc) (po_page s)"
    "ld_query (po_loader s) = Some (pc_ask pc (po_page s))"
    "ordered \<Longrightarrow> ld_flight (po_loader s) = [] \<Longrightarrow>
       displays srv (pc_ask pc (po_page s)) (po_loader s) \<and> \<not> ld_loading (po_loader s)"
proof -
  note ok = polled_reach_ok[OF assms(1), unfolded polled_ok_def]
  show "page_ok (pc_conf pc) (po_page s)" using ok by (blast intro: reach_ok)
  show q: "ld_query (po_loader s) = Some (pc_ask pc (po_page s))"
    using ok assms(2) by (simp add: po_query_def)
  show "displays srv (pc_ask pc (po_page s)) (po_loader s) \<and> \<not> ld_loading (po_loader s)"
    if "ordered" "ld_flight (po_loader s) = []"
    using ordered_ok[of "pc_announces pc" True srv "po_loader s"]
      loading_pending[of "pc_announces pc" True True srv "po_loader s"] ok that assms(2)
    by (auto simp: loader_ok_def po_query_def)
qed

lemma recovers:
  assumes "polled_reach pc ordered srv s" "\<not> po_paused s"
  shows "po_recovers pc srv s"
proof -
  note ok = polled_reach_ok[OF assms(1), unfolded polled_ok_def]
  then have "ld_interval (po_loader s)" using loading_pending by blast
  then show ?thesis using tick_asks[OF _ follows(2)[OF assms]] answer_shows
    by (auto simp: po_recovers_def po_tick_def po_answer_def)
qed

lemma page_reached: "polled_reach pc ordered srv s \<Longrightarrow> page_reach (pc_conf pc) (po_page s)"
  using polled_reach_ok unfolding polled_ok_def by blast

text \<open>Every filter whose change goes back to page 1 is in the address, if it is one of the fields.\<close>

lemma address:
  assumes "polled_reach pc ordered srv s" "k \<in> set (field_keys (pc_conf pc))"
  shows "usp_get k (fp_url (po_page s)) =
    (let v = written (pc_conf pc) (po_page s) k
     in if v \<noteq> [] \<and> v \<noteq> field_default (pc_conf pc) k then Some v else None)"
  using reach_ok[OF page_reached[OF assms(1)]] assms(2)
  by (simp add: page_ok_def synced_def url_entry_def Let_def)

lemma page_address:
  assumes "polled_reach pc ordered srv s" "fc_paged (pc_conf pc)"
  shows "usp_get (page_key (pc_conf pc)) (fp_url (po_page s))
      = (if 1 < fp_page (po_page s) then Some (nat_str (fp_page (po_page s))) else None)"
    "usp_get (per_page_key (pc_conf pc)) (fp_url (po_page s))
      = (if fp_per_page (po_page s) \<noteq> fc_per_page (pc_conf pc) then Some (nat_str (fp_per_page (po_page s))) else None)"
  using reach_ok[OF page_reached[OF assms(1)]] assms(2) by (simp_all add: page_ok_def synced_def)

lemma never_paused: "polled_reach pc ordered srv s \<Longrightarrow> \<not> pc_pausable pc \<Longrightarrow> \<not> po_paused s"
  using polled_reach_ok unfolding polled_ok_def by blast

text \<open>Once its timer has fired, a typed filter holds what was typed.\<close>

lemma committed:
  assumes "polled_reach pc ordered srv s" "k \<in> set (fc_debounced (pc_conf pc))" "fp_timer (po_page s) k = None"
  shows "fp_value (po_page s) k = norm_input (pc_conf pc) (fp_input (po_page s) k)"
proof -
  have "page_ok (pc_conf pc) (po_page s)"
    using polled_reach_ok[OF assms(1)] by (auto simp: polled_ok_def intro: reach_ok)
  then show ?thesis using timers_okD(1)[of "pc_conf pc" "po_page s" k] assms(2,3) by (auto simp: page_ok_def)
qed

end

end
