(* ===== verification/ImageListPage.thy ===== *)
theory ImageListPage imports ListPage DateTime Selection Shared begin

text \<open>
  \<open>web/src/pages/ImageList.jsx\<close>: the filters of the image list and its request, the rows, the upload
  dialog and the edit dialog.
\<close>

subsection \<open>Filters\<close>

definition image_fields :: "(string \<times> string) list" where
  "image_fields =
    [(''sort'', ''id''), (''order'', ''asc''), (''search'', []), (''source_vm'', []),
     (''prefix'', []), (''since'', []), (''until'', []), (''min_size'', []), (''max_size'', [])]"

definition image_debounced :: "string list" where
  "image_debounced =
    [''search'', ''source_vm'', ''prefix'', ''min_size'', ''max_size'']"

definition image_reset :: "string list" where
  "image_reset =
    [''tag'', ''search'', ''source_vm'', ''prefix'', ''since'', ''until'', ''min_size'',
     ''max_size'', ''sort'', ''order'']"

definition image_clear_inputs :: "string list" where
  "image_clear_inputs =
    [''source_vm'', ''prefix'', ''min_size'', ''max_size'']"

definition image_clear_values :: "string list" where
  "image_clear_values =
    [''tag'', ''source_vm'', ''prefix'', ''since'', ''until'', ''min_size'', ''max_size'']"

definition image_counted :: "string list" where
  "image_counted =
    [''tag'', ''source_vm'', ''prefix'', ''since'', ''until'', ''min_size'', ''max_size'']"

definition image_conf :: "fconf" where
  "image_conf =
     \<lparr>fc_fields = image_fields, fc_start = (\<lambda>k. []), fc_fresh = False,
      fc_debounced = image_debounced, fc_trims = True, fc_lazy = False,
      fc_write = (\<lambda>k v. v), fc_restore = (\<lambda>k v. v), fc_reset = image_reset,
      fc_dep = (\<lambda>k v. v),
      fc_paged = False, fc_prefix = [], fc_per_page = 25, fc_clear_inputs = image_clear_inputs,
      fc_clear_values = image_clear_values, fc_counted = image_counted\<rparr>"

lemma wf_image_conf: "wf_conf (image_conf)"
  by (simp add: wf_conf_def page_key_def per_page_key_def image_conf_def field_keys_def image_fields_def image_debounced_def
      image_clear_inputs_def image_clear_values_def)

definition image_list_args :: "fpage \<Rightarrow> js" where
  "image_list_args s = Obj
    [(''page'', JNat (fp_page s)), (''perPage'', JNat (fp_per_page s)),
     (''tag'', Str (fp_value s ''tag'')), (''sourceVM'', Str (fp_value s ''source_vm'')),
     (''search'', Str (fp_value s ''search'')), (''prefix'', Str (fp_value s ''prefix'')),
     (''since'', Str (fp_value s ''since'')), (''until'', Str (fp_value s ''until'')),
     (''minSize'', Str (fp_value s ''min_size'')), (''maxSize'', Str (fp_value s ''max_size'')),
     (''sort'', Str (fp_value s ''sort'')), (''order'', Str (fp_value s ''order''))]"

text \<open>The date inputs store what the browser gives with \<open>:00Z\<close> appended.\<close>

definition image_time :: "string \<Rightarrow> string" where
  "image_time v = (if v \<noteq> [] then v @ '':00Z'' else [])"

definition image_pick_time :: "string \<Rightarrow> string \<Rightarrow> fpage \<Rightarrow> fpage" where
  "image_pick_time k v s = select_value image_conf k (image_time v) s"

lemma image_args_of:
  "\<forall>k\<in>set (map fst image_fields). passes images_table (image_list_args s) k
     (Str (fp_value s k))"
  by (simp add: image_fields_def images_table_def image_list_args_def passes_def arg_of_def)

interpretation image: list_page image_conf images_table image_list_args "\<lambda>k. k" "fc_dep image_conf"
proof unfold_locales
  show "wf_conf image_conf" by (rule wf_image_conf)
  fix k s assume "k \<in> set (field_keys image_conf)"
  then have k: "k \<in> set (map fst image_fields)" by (simp add: image_conf_def field_keys_def)
  have "passes images_table (image_list_args s) k (Str (fc_dep image_conf k (fp_value s k)))"
    using k image_args_of[of s] by (auto simp: image_conf_def split: if_splits)
  then show "carries (jget (build_query images_table (image_list_args s)) k) (fc_dep image_conf k (fp_value s k))"
    by (rule passes_carries)
qed

definition image_list_request :: "fpage \<Rightarrow> request" where
  "image_list_request s = image_request (ImageList (image_list_args s))"

subsection \<open>The list\<close>

definition image_empty_text :: "fpage \<Rightarrow> string" where
  "image_empty_text s =
     (if fp_value s ''search'' \<noteq> [] then ''No images match \"'' @ fp_value s ''search'' @ ''\".''
      else if fp_value s ''source_vm'' \<noteq> [] then
        ''No images were exported from source VM \"'' @ fp_value s ''source_vm'' @ ''\".''
      else if fp_value s ''since'' \<noteq> [] \<or> fp_value s ''until'' \<noteq> [] then
        ''No images were created in the selected time range.''
      else if fp_value s ''min_size'' \<noteq> [] \<or> fp_value s ''max_size'' \<noteq> [] then
        ''No images fall within the selected size range.''
      else if fp_value s ''tag'' \<noteq> [] then ''No images carry tag \"'' @ fp_value s ''tag'' @ ''\".''
      else ''Export a VM to create a portable disk image.'')"

definition image_subtitle :: "js \<Rightarrow> string" where
  "image_subtitle n = to_str n @ '' portable VM disk image'' @ (if n = JNat 1 then [] else ''s'')"

text \<open>Succeeded, all, and failed when there are any.\<close>

definition bulk_result_counts :: "js \<Rightarrow> nat \<times> nat \<times> nat option" where
  "bulk_result_counts r =
     (let rs = elems (js_or (jget r ''results'') (Arr []));
          ok = filter (\<lambda>x. truthy (jget x ''success'')) rs;
          bad = filter (\<lambda>x. \<not> truthy (jget x ''success'')) rs
      in (length ok, length rs, if bad \<noteq> [] then Some (length bad) else None))"

text \<open>Name, origin, description, tags, format, size and download link of a row.\<close>

definition image_row ::
  "js \<Rightarrow> string \<times> string option \<times> string option \<times> string list option \<times> string \<times> string \<times> string" where
  "image_row img =
     (to_str (jget img ''name''),
      (if truthy (jget img ''source_vm'') then Some (''from '' @ to_str (jget img ''source_vm'')) else None),
      (if truthy (jget img ''description'') then Some (to_str (jget img ''description'')) else None),
      (if elems (jget img ''tags'') \<noteq> [] then Some (map (\<lambda>t. ''#'' @ to_str t) (elems (jget img ''tags''))) else None),
      to_str (jget img ''format''), human_size (the_num (jget img ''size_bytes'')),
      image_download_url (to_str (jget img ''id'')))"

definition delete_image :: "js \<Rightarrow> bool \<Rightarrow> bool \<Rightarrow> js effect list" where
  "delete_image img yes ok =
     delete_row ''images.delete'' (''Delete image \"'' @ to_str (jget img ''name'') @ ''\"?'') (to_str (jget img ''id'')) yes ok"

definition bulk_delete_images :: "js option \<Rightarrow> rows \<Rightarrow> js effect list \<times> rows" where
  "bulk_delete_images answer st = bulk_delete ''images.bulkDelete'' None True answer st"

subsection \<open>Uploading\<close>

record upload =
  up_file :: "(string \<times> nat) option"
  up_name :: string
  up_description :: string
  up_tags :: string
  up_uploading :: bool
  up_progress :: "nat \<times> nat \<times> int"
  up_error :: string

definition upload_init :: upload where
  "upload_init = \<lparr>up_file = None, up_name = [], up_description = [], up_tags = [], up_uploading = False,
                  up_progress = (0, 0, 0), up_error = []\<rparr>"

text \<open>\<open>name.replace(/\.qcow2$/i, '')\<close>\<close>

definition strip_qcow2 :: "string \<Rightarrow> string" where
  "strip_qcow2 n = (if ends_with (js_lower n) ''.qcow2'' then take (length n - 6) n else n)"

definition handle_file :: "(string \<times> nat) option \<Rightarrow> upload \<Rightarrow> upload" where
  "handle_file f s =
     (case f of
        None \<Rightarrow> s\<lparr>up_file := None\<rparr>
      | Some (n, size_of) \<Rightarrow>
          s\<lparr>up_file := f, up_name := (if up_name s = [] then strip_qcow2 n else up_name s)\<rparr>)"

definition handle_drop :: "(string \<times> nat) option \<Rightarrow> upload \<Rightarrow> upload" where
  "handle_drop f s = (if up_uploading s \<or> f = None then s else handle_file f s)"

definition text_or_undefined :: "string \<Rightarrow> js" where
  "text_or_undefined s = js_or (Str (js_trim s)) Undef"

definition upload_args :: "upload \<Rightarrow> js list" where
  "upload_args s =
     (let tags = parse_tags (up_tags s) in
      [text_or_undefined (up_name s),
       Obj [(''description'', text_or_undefined (up_description s)),
            (''tags'', if tags \<noteq> [] then Arr (map Str tags) else Undef)]])"

definition upload_submit :: "upload \<Rightarrow> js effect list \<times> upload" where
  "upload_submit s =
     (case up_file s of
        None \<Rightarrow> ([], s)
      | Some (n, size_of) \<Rightarrow>
          ([Api ''images.upload'' (upload_args s)],
           s\<lparr>up_uploading := True, up_progress := (0, size_of, 0), up_error := []\<rparr>))"

definition upload_tick :: "nat \<Rightarrow> nat \<Rightarrow> int \<Rightarrow> upload \<Rightarrow> upload" where
  "upload_tick loaded size_of percent s = s\<lparr>up_progress := (loaded, size_of, percent)\<rparr>"

text \<open>The end of the upload; \<open>Some\<close> is the message of a failure.\<close>

definition upload_done :: "string option \<Rightarrow> upload \<Rightarrow> js effect list \<times> upload" where
  "upload_done failure s =
     (case failure of
        None \<Rightarrow> ([Callback ''onUploaded'' [], Callback ''onClose'' []],
                 s\<lparr>up_file := None, up_name := [], up_description := [], up_tags := [],
                   up_progress := (0, 0, 0), up_uploading := False\<rparr>)
      | Some e \<Rightarrow> ([], s\<lparr>up_error := e, up_uploading := False\<rparr>))"

definition upload_bytes_line :: "nat \<times> nat \<times> int \<Rightarrow> (nat \<times> nat) option" where
  "upload_bytes_line p = (case p of (loaded, size_of, pct) \<Rightarrow>
     if 0 < size_of then Some (min loaded size_of, size_of) else None)"

subsection \<open>Editing\<close>

record edit_image =
  ei_description :: string
  ei_tags :: string
  ei_error :: string
  ei_saving :: bool

definition edit_image_open :: "js \<Rightarrow> edit_image" where
  "edit_image_open img =
     \<lparr>ei_description = the_str (js_or (jget img ''description'') (Str [])),
      ei_tags = js_join '','' (map to_str (elems (js_or (jget img ''tags'') (Arr [])))),
      ei_error = [], ei_saving = False\<rparr>"

definition edit_image_patch :: "js \<Rightarrow> edit_image \<Rightarrow> js" where
  "edit_image_patch img s =
     (let d = js_trim (ei_description s);
          p1 = (if Str d \<noteq> js_or (jget img ''description'') (Str []) then jset ''description'' (Str d) (Obj []) else Obj []);
          new_tags = parse_tags (ei_tags s);
          current = js_join '','' (map to_str (elems (js_or (jget img ''tags'') (Arr []))))
      in if js_join '','' new_tags \<noteq> current then jset ''tags'' (Arr (map Str new_tags)) p1 else p1)"

text \<open>\<open>handleSave\<close>; \<open>failure\<close> is the message of a refused request.\<close>

definition edit_image_save :: "js \<Rightarrow> string option \<Rightarrow> edit_image \<Rightarrow> js effect list \<times> edit_image" where
  "edit_image_save img failure s =
     (let patch = edit_image_patch img s; s1 = s\<lparr>ei_error := []\<rparr>;
          call = Api ''images.update'' [jget img ''id'', patch]
      in if jkeys patch = [] then ([Callback ''onClose'' []], s1\<lparr>ei_saving := False\<rparr>)
         else case failure of
           None \<Rightarrow> ([call, Callback ''onSaved'' [], Callback ''onClose'' []], s1\<lparr>ei_saving := False\<rparr>)
         | Some e \<Rightarrow> ([call], s1\<lparr>ei_error := e, ei_saving := False\<rparr>))"

subsection \<open>Facts\<close>

text \<open>
  The image list asks for what the operator typed and survives a reload. In every reachable state,
  once the debounce timers have fired, each free-text filter goes out trimmed under its parameter
  (left out when blank); and mounting the page again on the address it has written makes a request
  with the same mirrored filters.
\<close>

theorem image_view_faithful:
  assumes "page_reach image_conf s"
    and t_def: "t = mount_page image_conf (usp_of_search (CHR ''?'' # usp_to_string (fp_url s)))"
  shows "(\<forall>k\<in>set image_debounced.
            carries (jget (rq_query (image_list_request (fire_all image_conf s))) k) (js_trim (fp_input s k)))
    \<and> (\<forall>k\<in>set (map fst image_fields).
            carries (jget (rq_query (image_list_request t)) k)
              (if fp_value s k = [] then field_default image_conf k else fp_value s k))"
proof -
  have k: "set (map fst image_fields) = set (field_keys image_conf)"
    and d: "set image_debounced = set (fc_debounced image_conf)"
    and n: "norm_input image_conf v = js_trim v" "fc_dep image_conf k v = v" "fc_restore image_conf k v = v"
      "written image_conf u k = fp_value u k" for k v u
    by (simp_all add: field_keys_def image_conf_def norm_input_def written_def)
  have sub: "set (fc_debounced image_conf) \<subseteq> set (field_keys image_conf)"
    by (simp add: field_keys_def image_conf_def image_debounced_def image_fields_def)
  have q: "rq_query (image_list_request u) = build_query images_table (image_list_args u)" for u
    by (simp add: image_list_request_def req_def)
  show ?thesis unfolding k d q t_def
    using image.typed_sent(1)[OF assms(1)] image.reload_sends[OF assms(1)] sub by (auto simp only: n)
qed

theorem image_view_faithful_witness:
  "carries (jget (rq_query (image_list_request (fire_all image_conf
      (type_input image_conf ''prefix'' '' ub '' (mount_page image_conf []))))) ''prefix'') ''ub''"
proof -
  have k: "''prefix'' \<in> set image_debounced" by (simp add: image_debounced_def)
  have r: "page_reach image_conf (type_input image_conf ''prefix'' '' ub '' (mount_page image_conf []))"
    using k by (intro pr_type pr_mount) (simp add: image_conf_def)
  have "js_trim '' ub '' = ''ub''" by (simp add: js_trim_def trim_start_def is_ws_def)
  then show ?thesis using image_view_faithful[OF r refl] k by fastforce
qed

text \<open>What the daemon stores for an image: a trimmed description and clean tags.\<close>

definition stored_image :: "js \<Rightarrow> string \<Rightarrow> string list \<Rightarrow> bool" where
  "stored_image img d ts \<longleftrightarrow>
     jget img ''description'' = (if d = [] then Undef else Str d) \<and> js_trim d = d
     \<and> jget img ''tags'' = (if ts = [] then Undef else Arr (map Str ts)) \<and> (\<forall>t\<in>set ts. clean_tag t)"

lemma to_str_Str: "map to_str (map Str ts) = ts"
  by (simp add: comp_def)

lemma join_clean_inj:
  "\<forall>t\<in>set ts. clean_tag t \<Longrightarrow> \<forall>t\<in>set us. clean_tag t \<Longrightarrow> js_join '','' ts = js_join '','' us \<longleftrightarrow> ts = us"
  by (metis parse_tags_join_comma)

text \<open>
  Editing an image sends exactly what was changed. The patch carries the description when its
  trimmed text differs from the stored one and the tags when the tag list differs, with the new
  values, and nothing else; when nothing differs (in particular right after opening) saving closes the
  dialog without a request; a refused save keeps both texts and shows the error.
\<close>

theorem edit_image_exact:
  assumes "stored_image img d ts"
    and p_def: "p = edit_image_patch img s"
  shows "jget p ''description'' = (if js_trim (ei_description s) = d then Undef else Str (js_trim (ei_description s)))
    \<and> jget p ''tags'' = (if parse_tags (ei_tags s) = ts then Undef else Arr (map Str (parse_tags (ei_tags s))))
    \<and> set (jkeys p) \<subseteq> {''description'', ''tags''}
    \<and> fst (edit_image_save img f (edit_image_open img)) = [Callback ''onClose'' []]
    \<and> (\<forall>i q. Api i q \<in> set (fst (edit_image_save img f s)) \<longrightarrow> q = [jget img ''id'', p] \<and> jkeys p \<noteq> [])
    \<and> (\<forall>e. f = Some e \<and> jkeys p \<noteq> [] \<longrightarrow>
         snd (edit_image_save img f s) = s\<lparr>ei_error := e, ei_saving := False\<rparr>)"
proof -
  have d: "js_or (jget img ''description'') (Str []) = Str d"
    and t: "elems (js_or (jget img ''tags'') (Arr [])) = map Str ts"
    and c: "\<forall>t\<in>set ts. clean_tag t" "js_trim d = d"
    using assms(1) by (auto simp: stored_image_def js_or_def)
  have j: "js_join '','' (parse_tags u) = js_join '','' ts \<longleftrightarrow> parse_tags u = ts" for u
    using join_clean_inj[OF _ c(1)] parse_tags_clean by blast
  note p = edit_image_patch_def[of img, unfolded d t to_str_Str j Let_def js.inject]
  have o: "edit_image_patch img (edit_image_open img) = Obj []"
    by (simp add: p edit_image_open_def d t comp_def c parse_tags_join_comma)
  have "fst (edit_image_save img f (edit_image_open img)) = [Callback ''onClose'' []]"
    by (simp add: edit_image_save_def o jkeys_def)
  then show ?thesis
    by (auto simp: p_def p edit_image_save_def Let_def jkeys_def split: option.splits if_splits)
qed

theorem edit_image_exact_witness:
  "jget (edit_image_patch (Obj [(''tags'', Arr [Str ''a'', Str ''b''])])
      \<lparr>ei_description = [], ei_tags = '' a ,c'', ei_error = [], ei_saving = False\<rparr>) ''tags'' = Arr [Str ''a'', Str ''c'']"
proof -
  have s: "stored_image (Obj [(''tags'', Arr [Str ''a'', Str ''b''])]) [] [''a'', ''b'']"
    by (simp add: stored_image_def clean_tag_def js_trim_def trim_start_def is_ws_def)
  have t: "parse_tags '' a ,c'' = [''a'', ''c'']"
    by (simp add: parse_tags_def js_trim_def trim_start_def is_ws_def)
  show ?thesis
    using edit_image_exact[OF s refl, of "\<lparr>ei_description = [], ei_tags = '' a ,c'', ei_error = [], ei_saving = False\<rparr>" None]
    by (simp add: t)
qed

end
