(* ===== verification/TemplateListPage.thy ===== *)
theory TemplateListPage imports ImageListPage CreateVM begin

text \<open>
  \<open>web/src/pages/TemplateList.jsx\<close>: the filters of the template list and its request, the rows, and
  the dialogs that edit and create a template. This page writes its two times into the URL as the
  instants it sends; \<open>toiso\<close> stands for \<open>datetimeLocalToISO\<close> in the browser's time zone.
\<close>

subsection \<open>Filters\<close>

definition template_fields :: "(string \<times> string) list" where
  "template_fields =
    [(''sort'', ''id''), (''order'', ''asc''), (''search'', []), (''image'', []),
     (''default_user'', []), (''os_type'', []), (''os_variant'', []), (''network'', []),
     (''prefix'', []), (''since'', []), (''until'', []), (''min_cpus'', []), (''max_cpus'', []),
     (''min_ram_mb'', []), (''max_ram_mb'', []), (''min_disk_gb'', []), (''max_disk_gb'', [])]"

definition template_debounced :: "string list" where
  "template_debounced =
    [''search'', ''image'', ''default_user'', ''network'', ''prefix'', ''min_cpus'',
     ''max_cpus'', ''min_ram_mb'', ''max_ram_mb'', ''min_disk_gb'', ''max_disk_gb'']"

definition template_reset :: "string list" where
  "template_reset =
    [''tag'', ''search'', ''image'', ''default_user'', ''os_type'', ''os_variant'', ''network'',
     ''prefix'', ''since'', ''until'', ''min_cpus'', ''max_cpus'', ''min_ram_mb'',
     ''max_ram_mb'', ''min_disk_gb'', ''max_disk_gb'', ''sort'', ''order'']"

definition template_clear_inputs :: "string list" where
  "template_clear_inputs =
    [''image'', ''default_user'', ''network'', ''prefix'', ''min_cpus'', ''max_cpus'',
     ''min_ram_mb'', ''max_ram_mb'', ''min_disk_gb'', ''max_disk_gb'']"

definition template_clear_values :: "string list" where
  "template_clear_values =
    [''tag'', ''image'', ''default_user'', ''os_type'', ''os_variant'', ''network'', ''prefix'',
     ''since'', ''until'', ''min_cpus'', ''max_cpus'', ''min_ram_mb'', ''max_ram_mb'',
     ''min_disk_gb'', ''max_disk_gb'']"

definition template_counted :: "string list" where
  "template_counted =
    [''tag'', ''image'', ''default_user'', ''os_type'', ''os_variant'', ''network'', ''prefix'',
     ''since'', ''until'', ''min_cpus'', ''max_cpus'', ''min_ram_mb'', ''max_ram_mb'',
     ''min_disk_gb'', ''max_disk_gb'']"

definition template_conf :: "(string \<Rightarrow> string) \<Rightarrow> fconf" where
  "template_conf toiso =
     \<lparr>fc_fields = template_fields, fc_start = (\<lambda>k. []), fc_fresh = False,
      fc_debounced = template_debounced, fc_trims = True, fc_lazy = False,
      fc_write = (\<lambda>k v. if k = ''since'' \<or> k = ''until'' then toiso v else v), fc_restore = (\<lambda>k v. v), fc_reset = template_reset,
      fc_dep = (\<lambda>k v. if k \<in> {''since'', ''until''} then toiso v else v),
      fc_paged = False, fc_prefix = [], fc_per_page = 25, fc_clear_inputs = template_clear_inputs,
      fc_clear_values = template_clear_values, fc_counted = template_counted\<rparr>"

lemma wf_template_conf: "wf_conf (template_conf toiso)"
  by (simp add: wf_conf_def page_key_def per_page_key_def template_conf_def field_keys_def template_fields_def template_debounced_def
      template_clear_inputs_def template_clear_values_def)

definition template_list_args :: "(string \<Rightarrow> string) \<Rightarrow> fpage \<Rightarrow> js" where
  "template_list_args toiso s = Obj
    [(''page'', JNat (fp_page s)), (''perPage'', JNat (fp_per_page s)),
     (''tag'', Str (fp_value s ''tag'')), (''search'', Str (fp_value s ''search'')),
     (''image'', Str (fp_value s ''image'')),
     (''defaultUser'', Str (fp_value s ''default_user'')),
     (''osType'', Str (fp_value s ''os_type'')),
     (''osVariant'', Str (fp_value s ''os_variant'')),
     (''network'', Str (fp_value s ''network'')), (''prefix'', Str (fp_value s ''prefix'')),
     (''since'', Str (toiso (fp_value s ''since''))),
     (''until'', Str (toiso (fp_value s ''until''))),
     (''minCpus'', Str (fp_value s ''min_cpus'')), (''maxCpus'', Str (fp_value s ''max_cpus'')),
     (''minRamMb'', Str (fp_value s ''min_ram_mb'')),
     (''maxRamMb'', Str (fp_value s ''max_ram_mb'')),
     (''minDiskGb'', Str (fp_value s ''min_disk_gb'')),
     (''maxDiskGb'', Str (fp_value s ''max_disk_gb'')), (''sort'', Str (fp_value s ''sort'')),
     (''order'', Str (fp_value s ''order''))]"

lemma template_args_of:
  "\<forall>k\<in>set (map fst template_fields). passes templates_table (template_list_args toiso s) k
     (Str (if k = ''since'' \<or> k = ''until'' then toiso (fp_value s k) else fp_value s k))"
  by (simp add: template_fields_def templates_table_def template_list_args_def passes_def arg_of_def)

interpretation template: list_page "template_conf toiso" templates_table "template_list_args toiso" "\<lambda>k. k" "fc_dep (template_conf toiso)" for toiso
proof unfold_locales
  show "wf_conf (template_conf toiso)" by (rule wf_template_conf)
  fix k s assume "k \<in> set (field_keys (template_conf toiso))"
  then have k: "k \<in> set (map fst template_fields)" by (simp add: template_conf_def field_keys_def)
  have "passes templates_table (template_list_args toiso s) k (Str (fc_dep (template_conf toiso) k (fp_value s k)))"
    using k template_args_of[of toiso s] by (auto simp: template_conf_def split: if_splits)
  then show "carries (jget (build_query templates_table (template_list_args toiso s)) k)
      (fc_dep (template_conf toiso) k (fp_value s k))"
    by (rule passes_carries)
qed

definition template_list_request :: "(string \<Rightarrow> string) \<Rightarrow> fpage \<Rightarrow> request" where
  "template_list_request toiso s = template_request (TemplateList (template_list_args toiso s))"

subsection \<open>The list\<close>

definition template_empty_text :: "(string \<Rightarrow> string) \<Rightarrow> fpage \<Rightarrow> string" where
  "template_empty_text toiso s =
     (let v = fp_value s; q = (\<lambda>k. CHR 0x22 # v k @ [CHR 0x22, CHR ''.'']) in
      if v ''search'' \<noteq> [] then ''No templates match '' @ q ''search''
      else if v ''image'' \<noteq> [] then ''No templates use image '' @ q ''image''
      else if v ''default_user'' \<noteq> [] then ''No templates use default user '' @ q ''default_user''
      else if v ''network'' \<noteq> [] then ''No templates attach network '' @ q ''network''
      else if v ''prefix'' \<noteq> [] then ''No templates start with '' @ q ''prefix''
      else if toiso (v ''since'') \<noteq> [] \<or> toiso (v ''until'') \<noteq> [] then
        ''No templates were created in the selected time range.''
      else if v ''min_cpus'' \<noteq> [] \<or> v ''max_cpus'' \<noteq> [] then ''No templates match the selected CPU range.''
      else if v ''min_ram_mb'' \<noteq> [] \<or> v ''max_ram_mb'' \<noteq> [] then ''No templates match the selected RAM range.''
      else if v ''min_disk_gb'' \<noteq> [] \<or> v ''max_disk_gb'' \<noteq> [] then ''No templates match the selected disk range.''
      else if v ''tag'' \<noteq> [] then ''No templates carry tag '' @ q ''tag''
      else ''Create a template to save reusable VM defaults.'')"

text \<open>Whether the empty list offers to create a template.\<close>

definition template_empty_action :: "(string \<Rightarrow> string) \<Rightarrow> fpage \<Rightarrow> bool" where
  "template_empty_action toiso s \<longleftrightarrow>
     (\<forall>k\<in>{''search'', ''image'', ''default_user'', ''network'', ''prefix'', ''min_cpus'', ''max_cpus'',
           ''min_ram_mb'', ''max_ram_mb'', ''min_disk_gb'', ''max_disk_gb'', ''tag''}. fp_value s k = [])
     \<and> toiso (fp_value s ''since'') = [] \<and> toiso (fp_value s ''until'') = []"

definition template_row :: "js \<Rightarrow> string \<times> string option \<times> string \<times> string \<times> string list option" where
  "template_row t =
     (let sep = '' '' @ mid_dot @ '' '';
          amount = (\<lambda>k unit. if truthy (jget t k) then to_str (jget t k) @ unit else ''?'' @ unit)
      in (to_str (jget t ''name''),
          (if truthy (jget t ''description'') then Some (to_str (jget t ''description'')) else None),
          (if truthy (jget t ''image'') then to_str (jget t ''image'') else em_dash),
          to_str (js_or (jget t ''cpus'') (Str ''?'')) @ '' CPU'' @ sep @ amount ''ram_mb'' '' MB'' @ sep
            @ amount ''disk_gb'' '' GB'',
          (if elems (jget t ''tags'') \<noteq> [] then Some (map (\<lambda>g. ''#'' @ to_str g) (elems (jget t ''tags''))) else None)))"

definition delete_template :: "js \<Rightarrow> bool \<Rightarrow> bool \<Rightarrow> js effect list" where
  "delete_template t yes ok =
     delete_row ''templates.delete'' (''Delete template \"'' @ to_str (jget t ''name'') @ ''\"?'')
       (to_str (jget t ''id'')) yes ok"

definition bulk_delete_templates :: "js option \<Rightarrow> rows \<Rightarrow> js effect list \<times> rows" where
  "bulk_delete_templates answer st = bulk_delete ''templates.bulkDelete'' None True answer st"

subsection \<open>Editing\<close>

definition edit_template_patch :: "js \<Rightarrow> edit_image \<Rightarrow> js" where
  "edit_template_patch t s =
     (let d = js_trim (ei_description s);
          p1 = (if Str d \<noteq> js_or (jget t ''description'') (Str []) then jset ''description'' (Str d) (Obj []) else Obj []);
          new_tags = parse_tags (ei_tags s);
          current = js_join '','' (map to_str (elems (js_or (jget t ''tags'') (Arr []))))
      in if js_join '','' new_tags \<noteq> current then jset ''tags'' (Arr (map Str new_tags)) p1 else p1)"

definition edit_template_save :: "js \<Rightarrow> string option \<Rightarrow> edit_image \<Rightarrow> js effect list \<times> edit_image" where
  "edit_template_save t failure s =
     (let patch = edit_template_patch t s; s1 = s\<lparr>ei_error := []\<rparr>;
          call = Api ''templates.update'' [jget t ''id'', patch]
      in if jkeys patch = [] then ([Callback ''onClose'' []], s1\<lparr>ei_saving := False\<rparr>)
         else case failure of
           None \<Rightarrow> ([call, Callback ''onSaved'' [], Callback ''onClose'' []], s1\<lparr>ei_saving := False\<rparr>)
         | Some e \<Rightarrow> ([call], s1\<lparr>ei_error := e, ei_saving := False\<rparr>))"

subsection \<open>Creating\<close>

definition empty_template_form :: js where
  "empty_template_form = Obj
    [(''name'', Str []), (''image'', Str []), (''cpus'', JNat 2), (''ram_mb'', JNat 2048), (''disk_gb'', JNat 20),
     (''default_user'', Str []), (''description'', Str []), (''tags'', Str [])]"

definition template_update :: "string \<Rightarrow> js \<Rightarrow> js \<Rightarrow> js" where
  "template_update field v form = jset field v form"

definition template_update_num :: "string \<Rightarrow> string \<Rightarrow> js \<Rightarrow> js" where
  "template_update_num field text form = jset field (number_or_zero text) form"

definition put_text :: "js \<Rightarrow> string \<Rightarrow> js \<Rightarrow> js" where
  "put_text form k spec =
     (let v = js_trim (the_str (jget form k)) in if v \<noteq> [] then jset k (Str v) spec else spec)"

definition template_spec :: "js \<Rightarrow> js" where
  "template_spec form =
     (let s0 = Obj [(''name'', Str (js_trim (the_str (jget form ''name'')))),
                    (''image'', Str (js_trim (the_str (jget form ''image'')))),
                    (''cpus'', jget form ''cpus''), (''ram_mb'', jget form ''ram_mb''),
                    (''disk_gb'', jget form ''disk_gb'')];
          s2 = put_text form ''description'' (put_text form ''default_user'' s0);
          tags = parse_tags (the_str (jget form ''tags''))
      in if tags \<noteq> [] then jset ''tags'' (Arr (map Str tags)) s2 else s2)"

definition template_submit_disabled :: "bool \<Rightarrow> js \<Rightarrow> bool" where
  "template_submit_disabled loading form \<longleftrightarrow>
     loading \<or> js_trim (the_str (jget form ''name'')) = [] \<or> js_trim (the_str (jget form ''image'')) = []"

text \<open>\<open>handleSubmit\<close>: the effects, and the error the dialog then shows.\<close>

definition template_submit :: "js \<Rightarrow> string option \<Rightarrow> js effect list \<times> string" where
  "template_submit form failure =
     (let call = Api ''templates.create'' [template_spec form] in
      case failure of None \<Rightarrow> ([call, Callback ''onCreated'' [], Callback ''onClose'' []], [])
      | Some e \<Rightarrow> ([call], e))"

subsection \<open>Facts\<close>

lemma edit_template_same: "edit_template_patch = edit_image_patch"
  by (intro ext) (simp add: edit_template_patch_def edit_image_patch_def)

text \<open>
  The template list asks for what the operator typed and survives a reload, times included:
  this page writes the instants it sends into the address, so that mounting it again there (as long
  as an instant converts to itself) asks for the same range.
\<close>

theorem template_view_faithful:
  assumes "page_reach (template_conf toiso) s" "toiso [] = []"
    "\<forall>k\<in>{''since'', ''until''}. toiso (toiso (fp_value s k)) = toiso (fp_value s k)"
    and t_def: "t = mount_page (template_conf toiso) (usp_of_search (CHR ''?'' # usp_to_string (fp_url s)))"
  shows "(\<forall>k\<in>set template_debounced.
            carries (jget (rq_query (template_list_request toiso (fire_all (template_conf toiso) s))) k)
              (js_trim (fp_input s k)))
    \<and> (\<forall>k\<in>{''since'', ''until''}. carries (jget (rq_query (template_list_request toiso t)) k) (toiso (fp_value s k)))
    \<and> (\<forall>k\<in>set (map fst template_fields) - {''since'', ''until''}.
            carries (jget (rq_query (template_list_request toiso t)) k)
              (if fp_value s k = [] then field_default (template_conf toiso) k else fp_value s k))"
proof -
  let ?c = "template_conf toiso"
  have k: "set (map fst template_fields) = set (field_keys ?c)"
    and d: "set template_debounced = set (fc_debounced ?c)"
    and n: "norm_input ?c v = js_trim v" "fc_restore ?c k v = v"
    and w: "written ?c s k = fc_dep ?c k (fp_value s k)" for k v
    by (simp_all add: field_keys_def template_conf_def norm_input_def written_def)
  have sub: "set (fc_debounced ?c) \<subseteq> set (field_keys ?c) - {''since'', ''until''}"
    "{''since'', ''until''} \<subseteq> set (field_keys ?c)"
    by (simp_all add: field_keys_def template_conf_def template_debounced_def template_fields_def)
  have dep: "k \<notin> {''since'', ''until''} \<Longrightarrow> fc_dep ?c k v = v" "k \<in> {''since'', ''until''} \<Longrightarrow> fc_dep ?c k v = toiso v"
    for k v by (auto simp: template_conf_def)
  have def_t: "k \<in> {''since'', ''until''} \<Longrightarrow> field_default ?c k = []" for k
    by (auto simp: field_default_def template_conf_def template_fields_def)
  have q: "rq_query (template_list_request toiso u) = build_query templates_table (template_list_args toiso u)" for u
    by (simp add: template_list_request_def req_def)
  note rs = template.reload_sends[OF assms(1), folded t_def, unfolded n w]
  have "carries (jget (build_query templates_table (template_list_args toiso (fire_all ?c s))) k) (js_trim (fp_input s k))"
    if "k \<in> set (fc_debounced ?c)" for k
  proof -
    have k: "k \<in> set (field_keys ?c)" "k \<notin> {''since'', ''until''}" using sub(1) that by blast+
    show ?thesis using template.typed_sent(1)[OF assms(1) that k(1)] by (simp only: dep(1)[OF k(2)] n)
  qed
  moreover have "carries (jget (build_query templates_table (template_list_args toiso t)) k) (toiso (fp_value s k))"
    if "k \<in> {''since'', ''until''}" for k
    using rs[of k] sub(2) that assms(2,3) dep(2)[OF that] def_t[OF that] by (auto split: if_splits)
  moreover have "carries (jget (build_query templates_table (template_list_args toiso t)) k)
      (if fp_value s k = [] then field_default ?c k else fp_value s k)"
    if "k \<in> set (field_keys ?c) - {''since'', ''until''}" for k
    using rs[of k] that dep(1)[of k] by auto
  ultimately show ?thesis unfolding k d q by blast
qed

theorem template_view_faithful_witness:
  "carries (jget (rq_query (template_list_request (datetime_local_to_iso (\<lambda>_. 0))
      (mount_page (template_conf (datetime_local_to_iso (\<lambda>_. 0))) (usp_of_search (CHR ''?'' # usp_to_string (fp_url
        (select_value (template_conf (datetime_local_to_iso (\<lambda>_. 0))) ''os_type'' ''windows''
          (mount_page (template_conf (datetime_local_to_iso (\<lambda>_. 0))) [])))))))) ''os_type'') ''windows''"
proof -
  let ?i = "datetime_local_to_iso (\<lambda>_. 0)"
  let ?c = "template_conf ?i"
  let ?s = "select_value ?c ''os_type'' ''windows'' (mount_page ?c [])"
  have r: "page_reach ?c ?s"
    by (intro pr_select pr_mount) (simp add: template_conf_def template_debounced_def)
  have e: "?i [] = []" by (simp add: datetime_local_to_iso_def)
  have v: "fp_value ?s k = []" if "k \<in> {''since'', ''until''}" for k
  proof -
    have "k \<in> set (field_keys ?c)" "field_default ?c k = []"
      using that by (auto simp: template_conf_def field_keys_def template_fields_def field_default_def)
    then have "fp_value (mount_page ?c []) k = []"
      by (simp add: template.mount_value usp_get_or_def) (simp add: template_conf_def)
    then show ?thesis using that by (auto simp: select_value_def)
  qed
  have o: "fp_value ?s ''os_type'' = ''windows''" by (simp add: select_value_def)
  have k: "''os_type'' \<in> set (map fst template_fields) - {''since'', ''until''}" by (simp add: template_fields_def)
  have i: "\<forall>k\<in>{''since'', ''until''}. ?i (?i (fp_value ?s k)) = ?i (fp_value ?s k)"
    using v e by simp
  have "carries (jget (rq_query (template_list_request ?i (mount_page ?c (usp_of_search (CHR ''?'' # usp_to_string (fp_url ?s)))))) ''os_type'')
      (if fp_value ?s ''os_type'' = [] then field_default ?c ''os_type'' else fp_value ?s ''os_type'')"
    using template_view_faithful[OF r e i refl] k by blast
  then show ?thesis unfolding o by simp
qed

text \<open>
  Clearing a template's description cannot take effect: the dialog then sends the empty text, which
  the daemon's patch reads as \<open>unchanged\<close> (as the dialog's own comment says), and reports success.
\<close>

theorem template_description_cleared:
  assumes "jget t ''description'' = Str d" "d \<noteq> []" "js_trim (ei_description s) = []"
  shows "jget (edit_template_patch t s) ''description'' = Str []
    \<and> last (fst (edit_template_save t None s)) = Callback ''onClose'' []
    \<and> ei_error (snd (edit_template_save t None s)) = []"
proof -
  have d: "jget (edit_template_patch t s) ''description'' = Str []"
    using assms by (simp add: edit_template_patch_def Let_def js_or_def)
  have "jkeys (edit_template_patch t s) \<noteq> []"
  proof
    assume "jkeys (edit_template_patch t s) = []"
    then have "props (edit_template_patch t s) = []" by (simp add: jkeys_def)
    have "is_obj (edit_template_patch t s)" by (simp add: edit_template_patch_def Let_def)
    then have "jget (edit_template_patch t s) ''description'' = Undef"
      using obj_get[of "edit_template_patch t s" "''description''"] \<open>props (edit_template_patch t s) = []\<close> by simp
    with d show False by simp
  qed
  with d show ?thesis by (simp add: edit_template_save_def Let_def)
qed

theorem template_description_cleared_witness:
  "jget (edit_template_patch (Obj [(''description'', Str ''old'')])
      \<lparr>ei_description = '' '', ei_tags = [], ei_error = [], ei_saving = True\<rparr>) ''description'' = Str []"
  using template_description_cleared[of "Obj [(''description'', Str ''old'')]" "''old''"
      "\<lparr>ei_description = '' '', ei_tags = [], ei_error = [], ei_saving = True\<rparr>"] by simp

text \<open>
  A template is created from what was filled in: the button is enabled only for a named template
  with an image; both go out trimmed, the sizes as entered, and user, description and tags exactly
  when they hold more than white space.
\<close>

theorem template_spec_exact:
  assumes "\<not> template_submit_disabled loading form" "f = template_spec form"
  shows "(\<exists>n i. jget f ''name'' = Str n \<and> n \<noteq> [] \<and> js_trim n = n \<and> jget f ''image'' = Str i \<and> i \<noteq> [] \<and> js_trim i = i)
    \<and> (\<forall>k\<in>{''cpus'', ''ram_mb'', ''disk_gb''}. jget f k = jget form k)
    \<and> (\<forall>k\<in>{''default_user'', ''description''}.
         jget f k = (if js_trim (the_str (jget form k)) = [] then Undef else Str (js_trim (the_str (jget form k)))))
    \<and> jget f ''tags'' = (if parse_tags (the_str (jget form ''tags'')) = [] then Undef
                         else Arr (map Str (parse_tags (the_str (jget form ''tags'')))))"
  using assms by (simp add: template_submit_disabled_def template_spec_def put_text_def Let_def)

theorem template_spec_exact_witness:
  "jget (template_spec (template_update ''image'' (Str ''a.qcow2'') (template_update ''name'' (Str ''t '') empty_template_form))) ''cpus'' = JNat 2"
proof -
  let ?f = "template_update ''image'' (Str ''a.qcow2'') (template_update ''name'' (Str ''t '') empty_template_form)"
  have "\<not> template_submit_disabled False ?f"
    by (simp add: template_submit_disabled_def template_update_def empty_template_form_def js_trim_def
        trim_start_def is_ws_def)
  note e = template_spec_exact[OF this refl]
  have "jget ?f ''cpus'' = JNat 2" by (simp add: template_update_def empty_template_form_def)
  with e show ?thesis by (metis insertI1)
qed

end
