(* ===== verification/FilterPanels.thy ===== *)
theory FilterPanels imports Controls VMListPage TemplateListPage begin

text \<open>
  The filter controls of \<open>web/src/pages/VMList.jsx\<close>, \<open>ImageList.jsx\<close> and \<open>TemplateList.jsx\<close>, in the order
  of the markup, and the row of tag buttons that each page shows above them (only while some listed row
  carries a tag).
\<close>

subsection \<open>Machines\<close>

definition vm_search_controls :: "(string \<times> control) list" where
  "vm_search_controls =
    [(''vm-list-search'', TextOf ''search''), (''vm-list-search-clear'', ClearOf [''search''])]"

definition vm_identity_controls :: "(string \<times> control) list" where
  "vm_identity_controls =
    [(''vm-list-image-filter'', TextOf ''image''),
     (''vm-list-image-filter-clear'', ClearOf [''image'']),
     (''vm-list-default-user-filter'', TextOf ''default_user''),
     (''vm-list-default-user-filter-clear'', ClearOf [''default_user'']),
     (''vm-list-os-type-filter'', PickOf ''os_type'' [[], ''linux'', ''windows'']),
     (''vm-list-os-variant-filter'', PickOf ''os_variant'' [[], ''windows-10'', ''windows-11'', ''windows-server-2019'', ''windows-server-2022'', ''windows-server-2025'']),
     (''vm-list-firmware-filter'', PickOf ''firmware'' [[], ''bios'', ''uefi'', ''ovmf'']),
     (''vm-list-disk-bus-filter'', PickOf ''disk_bus'' [[], ''virtio'', ''sata'']),
     (''vm-list-nic-model-filter'', PickOf ''nic_model'' [[], ''virtio'', ''e1000e'']),
     (''vm-list-machine-filter'', TextOf ''machine''),
     (''Clear machine filter'', ClearOf [''machine'']),
     (''vm-list-clock-offset-filter'', PickOf ''clock_offset'' [[], ''utc'', ''localtime''])]"

definition vm_network_controls :: "(string \<times> control) list" where
  "vm_network_controls =
    [(''vm-list-network-filter'', TextOf ''network''),
     (''vm-list-network-filter-clear'', ClearOf [''network'']),
     (''vm-list-prefix-filter'', TextOf ''prefix''),
     (''vm-list-prefix-filter-clear'', ClearOf [''prefix'']),
     (''vm-list-nat-static-ip-filter'', TextOf ''nat_static_ip''),
     (''vm-list-nat-static-ip-filter-clear'', ClearOf [''nat_static_ip'']),
     (''vm-list-nat-gateway-filter'', TextOf ''nat_gateway''),
     (''vm-list-nat-gateway-filter-clear'', ClearOf [''nat_gateway'']),
     (''vm-list-ip-filter'', TextOf ''ip''), (''vm-list-ip-filter-clear'', ClearOf [''ip'']),
     (''vm-list-gpu-filter'', TextOf ''gpu''),
     (''vm-list-gpu-filter-clear'', ClearOf [''gpu''])]"

definition vm_range_controls :: "(string \<times> control) list" where
  "vm_range_controls =
    [(''vm-list-min-cpus'', TextOf ''min_cpus''), (''vm-list-max-cpus'', TextOf ''max_cpus''),
     (''vm-list-cpus-filter-clear'', ClearOf [''min_cpus'', ''max_cpus'']),
     (''vm-list-min-ram'', TextOf ''min_ram_mb''), (''vm-list-max-ram'', TextOf ''max_ram_mb''),
     (''vm-list-ram-filter-clear'', ClearOf [''min_ram_mb'', ''max_ram_mb'']),
     (''vm-list-min-disk'', TextOf ''min_disk_gb''),
     (''vm-list-max-disk'', TextOf ''max_disk_gb''),
     (''vm-list-disk-filter-clear'', ClearOf [''min_disk_gb'', ''max_disk_gb''])]"

definition vm_sort_controls :: "(string \<times> control) list" where
  "vm_sort_controls =

     [(''vm-list-sort-field'', PickOf ''sort'' [''id'', ''name'', ''created_at'', ''state'', ''cpus'', ''ram_mb'', ''disk_gb'', ''ip'', ''image'', ''default_user'', ''gpu'', ''os_type'', ''firmware'', ''os_variant'', ''disk_bus'', ''nic_model'', ''machine'', ''clock_offset'', ''auto_start'', ''locked'', ''nat_static_ip'', ''nat_gateway'', ''description'']),
     (''vm-list-sort-order'', PickOf ''order'' [''asc'', ''desc'']),
     (''vm-list-auto-start-filter'', PickOf ''auto_start'' [[], ''true'', ''false'']),
     (''vm-list-locked-filter'', PickOf ''locked'' [[], ''true'', ''false'']),
     (''vm-list-since-filter'', ValueOf ''since''),
     (''vm-list-until-filter'', ValueOf ''until''),
     (''vm-list-time-range-clear'', ClearOf [''since'', ''until''])]"

definition vm_controls :: "(string \<times> control) list" where
  "vm_controls = vm_search_controls @ vm_identity_controls @ vm_network_controls @ vm_range_controls @ vm_sort_controls"

lemmas vm_controls_defs = vm_controls_def vm_search_controls_def vm_identity_controls_def vm_network_controls_def vm_range_controls_def vm_sort_controls_def

subsection \<open>Images\<close>

definition image_search_controls :: "(string \<times> control) list" where
  "image_search_controls =
    [(''image-list-search'', TextOf ''search''),
     (''image-list-search-clear'', ClearOf [''search''])]"

definition image_filter_controls :: "(string \<times> control) list" where
  "image_filter_controls =
    [(''image-list-source-vm'', TextOf ''source_vm''),
     (''image-list-source-vm-clear'', ClearOf [''source_vm'']),
     (''image-list-prefix-filter'', TextOf ''prefix''),
     (''image-list-prefix-filter-clear'', ClearOf [''prefix'']),
     (''image-list-since'', ValueOf ''since''), (''image-list-until'', ValueOf ''until''),
     (''image-list-time-range-clear'', ClearOf [''since'', ''until'']),
     (''image-list-min-size'', TextOf ''min_size''),
     (''image-list-max-size'', TextOf ''max_size''),
     (''image-list-size-range-clear'', ClearOf [''min_size'', ''max_size''])]"

definition image_sort_controls :: "(string \<times> control) list" where
  "image_sort_controls =

     [(''image-list-sort-field'', PickOf ''sort'' [''id'', ''name'', ''size'', ''created_at'', ''source_vm'', ''description'']),
     (''image-list-sort-order'', PickOf ''order'' [''asc'', ''desc''])]"

definition image_controls :: "(string \<times> control) list" where
  "image_controls = image_search_controls @ image_filter_controls @ image_sort_controls"

lemmas image_controls_defs = image_controls_def image_search_controls_def image_filter_controls_def image_sort_controls_def

subsection \<open>Templates\<close>

definition template_search_controls :: "(string \<times> control) list" where
  "template_search_controls =
    [(''template-list-search'', TextOf ''search''),
     (''template-list-search-clear'', ClearOf [''search''])]"

definition template_filter_controls :: "(string \<times> control) list" where
  "template_filter_controls =
    [(''template-list-image-filter'', TextOf ''image''),
     (''template-list-image-filter-clear'', ClearOf [''image'']),
     (''template-list-default-user-filter'', TextOf ''default_user''),
     (''template-list-default-user-filter-clear'', ClearOf [''default_user'']),
     (''template-list-os-type-filter'', PickOf ''os_type'' [[], ''linux'', ''windows'']),
     (''template-list-os-variant-filter'', PickOf ''os_variant'' [[], ''windows-10'', ''windows-11'', ''windows-server-2019'', ''windows-server-2022'', ''windows-server-2025'']),
     (''template-list-network-filter'', TextOf ''network''),
     (''template-list-network-filter-clear'', ClearOf [''network'']),
     (''template-list-prefix-filter'', TextOf ''prefix''),
     (''template-list-prefix-filter-clear'', ClearOf [''prefix''])]"

definition template_range_controls :: "(string \<times> control) list" where
  "template_range_controls =
    [(''template-list-since'', ValueOf ''since''), (''template-list-until'', ValueOf ''until''),
     (''template-list-time-range-clear'', ClearOf [''since'', ''until'']),
     (''template-list-min-cpus'', TextOf ''min_cpus''),
     (''template-list-max-cpus'', TextOf ''max_cpus''),
     (''template-list-cpu-range-clear'', ClearOf [''min_cpus'', ''max_cpus'']),
     (''template-list-min-ram-mb'', TextOf ''min_ram_mb''),
     (''template-list-max-ram-mb'', TextOf ''max_ram_mb''),
     (''template-list-ram-range-clear'', ClearOf [''min_ram_mb'', ''max_ram_mb'']),
     (''template-list-min-disk-gb'', TextOf ''min_disk_gb''),
     (''template-list-max-disk-gb'', TextOf ''max_disk_gb''),
     (''template-list-disk-range-clear'', ClearOf [''min_disk_gb'', ''max_disk_gb''])]"

definition template_sort_controls :: "(string \<times> control) list" where
  "template_sort_controls =

     [(''template-list-sort-field'', PickOf ''sort'' [''id'', ''name'', ''created_at'', ''cpus'', ''ram_mb'', ''disk_gb'', ''image'', ''default_user'', ''os_type'', ''os_variant'', ''description'']),
     (''template-list-sort-order'', PickOf ''order'' [''asc'', ''desc''])]"

definition template_controls :: "(string \<times> control) list" where
  "template_controls = template_search_controls @ template_filter_controls @ template_range_controls @ template_sort_controls"

lemmas template_controls_defs = template_controls_def template_search_controls_def template_filter_controls_def template_range_controls_def template_sort_controls_def

subsection \<open>Tags\<close>

text \<open>The tag buttons: \<open>All\<close> and one per tag.\<close>

definition tag_buttons :: "string list \<Rightarrow> control option" where
  "tag_buttons tags = (if tags \<noteq> [] then Some (PickOf ''tag'' ([] # tags)) else None)"

definition vm_tag_buttons :: "js \<Rightarrow> control option" where
  "vm_tag_buttons response = tag_buttons (vm_all_tags response)"

definition image_tag_buttons :: "js list \<Rightarrow> control option" where
  "image_tag_buttons rows = tag_buttons (all_tags rows)"

definition template_tag_buttons :: "js list \<Rightarrow> control option" where
  "template_tag_buttons rows = tag_buttons (all_tags rows)"

text \<open>What each page makes of an entered value: only the image list rewrites its times.\<close>

definition image_conv :: "string \<Rightarrow> string \<Rightarrow> string" where
  "image_conv k v = (if k = ''since'' \<or> k = ''until'' then image_time v else v)"

subsection \<open>Facts\<close>

lemma vm_conf_simps:
  "fc_debounced (vm_conf toiso) = vm_debounced" "fc_reset (vm_conf toiso) = vm_reset"
  "fc_restore (vm_conf toiso) k v = v" "fc_write (vm_conf toiso) k v = v"
  "field_keys (vm_conf toiso) = map fst vm_fields"
  by (simp_all add: vm_conf_def field_keys_def)

lemma vm_controls_wf: "controls_wf (vm_conf toiso) vm_controls"
proof -
  have "\<forall>(i, ctl)\<in>set vm_identity_controls. control_wf (vm_conf toiso) ctl"
    by (simp add: vm_identity_controls_def vm_conf_simps vm_debounced_def)
  moreover have "\<forall>(i, ctl)\<in>set vm_network_controls. control_wf (vm_conf toiso) ctl"
    by (simp add: vm_network_controls_def vm_conf_simps vm_debounced_def)
  moreover have "\<forall>(i, ctl)\<in>set vm_range_controls. control_wf (vm_conf toiso) ctl"
    by (simp add: vm_range_controls_def vm_conf_simps vm_debounced_def)
  moreover have "\<forall>(i, ctl)\<in>set (vm_search_controls @ vm_sort_controls). control_wf (vm_conf toiso) ctl"
    by (simp add: vm_search_controls_def vm_sort_controls_def vm_conf_simps vm_debounced_def)
  ultimately have "\<forall>(i, ctl)\<in>set vm_controls. control_wf (vm_conf toiso) ctl"
    unfolding vm_controls_def set_append ball_Un by blast
  moreover have "distinct (map fst vm_controls)" by (simp add: vm_controls_defs)
  ultimately show ?thesis unfolding controls_wf_def by blast
qed

lemma image_controls_wf: "controls_wf image_conf image_controls"
  by (simp add: controls_wf_def image_controls_defs image_conf_def image_debounced_def)

lemma template_controls_wf: "controls_wf (template_conf toiso) template_controls"
proof -
  have d: "fc_debounced (template_conf toiso) = template_debounced" by (simp add: template_conf_def)
  have "\<forall>(i, ctl)\<in>set (template_search_controls @ template_filter_controls). control_wf (template_conf toiso) ctl"
    by (simp add: template_search_controls_def template_filter_controls_def d template_debounced_def)
  moreover have "\<forall>(i, ctl)\<in>set (template_range_controls @ template_sort_controls). control_wf (template_conf toiso) ctl"
    by (simp add: template_range_controls_def template_sort_controls_def d template_debounced_def)
  ultimately have "\<forall>(i, ctl)\<in>set template_controls. control_wf (template_conf toiso) ctl"
    unfolding template_controls_def set_append ball_Un by blast
  moreover have "distinct (map fst template_controls)" by (simp add: template_controls_defs)
  ultimately show ?thesis unfolding controls_wf_def by blast
qed

lemma vm_control_fields: "\<forall>(i, ctl)\<in>set vm_controls. control_keys ctl \<subseteq> set (map fst vm_fields)"
  by (simp add: vm_controls_defs vm_fields_def)

text \<open>
  Every control of the machine list works: each is under a name of its own and drives a filter that
  is mirrored in the address; a value picked in a select is the one the next request asks for, leaves
  the other filters alone, and is there again after a reload.
\<close>

theorem vm_controls_survive:
  assumes "page_reach (vm_conf toiso) s" "(i, PickOf k opts) \<in> set vm_controls" "v \<in> set opts" "v \<noteq> []"
    and t_def: "t = use_control (vm_conf toiso) conv (PickOf k opts) v s"
  shows "distinct (map fst vm_controls)
    \<and> fp_value t k = v \<and> (\<forall>j. j \<noteq> k \<longrightarrow> fp_value t j = fp_value s j \<and> fp_input t j = fp_input s j)
    \<and> (k \<in> set vm_reset \<and> fc_dep (vm_conf toiso) k (fp_value s k) \<noteq> fc_dep (vm_conf toiso) k v \<longrightarrow> fp_page t = 1)
    \<and> fp_value (mount_page (vm_conf toiso) (usp_of_search (CHR ''?'' # usp_to_string (fp_url t)))) k = v"
proof -
  have w: "control_wf (vm_conf toiso) (PickOf k opts)"
    using vm_controls_wf[of toiso] assms(2) unfolding controls_wf_def by blast
  have k: "k \<in> set (field_keys (vm_conf toiso))"
    unfolding vm_conf_simps using bspec[OF vm_control_fields assms(2)] by simp
  have r: "control_restorable (vm_conf toiso) (PickOf k opts)" "fc_write (vm_conf toiso) k v = v"
    by (simp_all add: vm_conf_simps)
  have o: "j \<noteq> k \<Longrightarrow> fp_value t j = fp_value s j \<and> fp_input t j = fp_input s j" for j
    unfolding t_def by (rule use_control_other) simp
  have p: "fp_page t = 1"
    if "k \<in> set vm_reset" "fc_dep (vm_conf toiso) k (fp_value s k) \<noteq> fc_dep (vm_conf toiso) k v"
  proof -
    have "reset_changed (vm_conf toiso) s (s\<lparr>fp_value := (fp_value s)(k := v)\<rparr>)"
      unfolding reset_changed_def vm_conf_simps using that by (intro bexI[of _ k]) simp_all
    then show ?thesis using assms(3) by (simp add: t_def select_value_def)
  qed
  have d: "distinct (map fst vm_controls)" using vm_controls_wf[of toiso] unfolding controls_wf_def by blast
  have v: "fp_value t k = v" unfolding t_def by (rule use_control_pick) (rule assms(3))
  have "fp_value (mount_page (vm_conf toiso) (usp_of_search (CHR ''?'' # usp_to_string (fp_url t)))) k = v"
    unfolding t_def by (rule vm.pick_survives[OF assms(1) w r(1) assms(3,4) k r(2)])
  then show ?thesis using o p d v by blast
qed

theorem vm_controls_survive_witness:
  "fp_value (mount_page (vm_conf (\<lambda>v. v)) (usp_of_search (CHR ''?'' # usp_to_string (fp_url
      (use_control (vm_conf (\<lambda>v. v)) (\<lambda>k v. v) (PickOf ''disk_bus'' [[], ''virtio'', ''sata'']) ''sata''
        (mount_page (vm_conf (\<lambda>v. v)) [])))))) ''disk_bus'' = ''sata''"
proof -
  have "(''vm-list-disk-bus-filter'', PickOf ''disk_bus'' [[], ''virtio'', ''sata'']) \<in> set vm_controls"
    by (simp add: vm_controls_def vm_identity_controls_def)
  note e = vm_controls_survive[OF pr_mount this _ _ refl, of "''sata''"]
  show ?thesis by (rule e[THEN conjunct2, THEN conjunct2, THEN conjunct2, THEN conjunct2]) simp_all
qed

end
