(* ===== verification/NumberText.thy ===== *)
theory NumberText imports JsValue begin

text \<open>
  \<open>Number(text)\<close> on the texts a number field can hold (and on any other text that is not a
  hexadecimal, octal or binary literal): white space around it is dropped, blank is 0, otherwise a
  decimal literal with optional sign, fraction and exponent, or \<open>Infinity\<close>; anything else is \<open>NaN\<close>.
  Values are exact rationals: the rounding to a double is not modelled.
\<close>

definition is_digit :: "char \<Rightarrow> bool" where
  "is_digit ch \<longleftrightarrow> digit_of ch \<noteq> None"

definition digits_nat :: "string \<Rightarrow> nat" where
  "digits_nat s = (case digits_value None s of None \<Rightarrow> 0 | Some n \<Rightarrow> n)"

text \<open>The sign in front, and what follows it.\<close>

fun take_sign :: "string \<Rightarrow> bool \<times> string" where
  "take_sign [] = (False, [])"
| "take_sign (ch # s) =
     (if ch = CHR ''-'' then (True, s) else if ch = CHR ''+'' then (False, s) else (False, ch # s))"

definition scale10 :: "int \<Rightarrow> rat \<Rightarrow> rat" where
  "scale10 e r = (if 0 \<le> e then r * 10 ^ nat e else r / 10 ^ nat (- e))"

text \<open>The exponent part: none, or \<open>e\<close> with at least one digit; \<open>None\<close> when there is anything else.\<close>

definition exponent_of :: "string \<Rightarrow> int option" where
  "exponent_of s =
     (if s = [] then Some 0
      else if js_lower [hd s] \<noteq> ''e'' then None
      else (case take_sign (tl s) of (neg, ds) \<Rightarrow>
        if ds = [] \<or> \<not> list_all is_digit ds then None
        else Some (if neg then - int (digits_nat ds) else int (digits_nat ds))))"

definition unsigned_number :: "string \<Rightarrow> rat option" where
  "unsigned_number u =
     (let i = takeWhile is_digit u; r = dropWhile is_digit u;
          point = r \<noteq> [] \<and> hd r = CHR ''.'';
          f = (if point then takeWhile is_digit (tl r) else []);
          rest = (if point then dropWhile is_digit (tl r) else r)
      in if i = [] \<and> f = [] then None
         else map_option (\<lambda>e. scale10 e (of_nat (digits_nat i) + of_nat (digits_nat f) / 10 ^ length f))
                (exponent_of rest))"

definition js_number :: "string \<Rightarrow> num" where
  "js_number s =
     (let t = js_trim s in
      if t = [] then Fin 0
      else (case take_sign t of (neg, u) \<Rightarrow>
        if u = ''Infinity'' then (if neg then NInf else PInf)
        else (case unsigned_number u of None \<Rightarrow> NaN | Some r \<Rightarrow> Fin (if neg then - r else r))))"

definition is_integer :: "num \<Rightarrow> bool" where
  "is_integer n = (case n of Fin r \<Rightarrow> r = rat_of_int \<lfloor>r\<rfloor> | _ \<Rightarrow> False)"

lemma nat_str_is_digit: "list_all is_digit (nat_str n)"
  using nat_str_digits by (auto simp: is_digit_def list_all_iff)

lemma nat_str_take_sign: "take_sign (nat_str n) = (False, nat_str n)"
proof -
  obtain d where d: "d < 10" "hd (nat_str n) = digit_char d" using nat_str_hd by blast
  obtain c cs where c: "nat_str n = c # cs" by (cases "nat_str n") auto
  with d have "c = digit_char d" by simp
  with d(1) have "c \<noteq> CHR ''-''" "c \<noteq> CHR ''+''" using digit_char_facts by auto
  with c show ?thesis by simp
qed

lemma nat_str_trim: "js_trim (nat_str n) = nat_str n"
proof -
  have "\<forall>c\<in>set (nat_str n). \<not> is_ws c" using nat_str_set digit_char_facts by fastforce
  then have "dropWhile is_ws (nat_str n) = nat_str n" "dropWhile is_ws (rev (nat_str n)) = rev (nat_str n)"
    by (metis dropWhile_eq_self_iff list.set_sel(1) set_rev)+
  then show ?thesis by (simp add: js_trim_def trim_start_def)
qed

lemma js_number_nat_str [simp]: "js_number (nat_str n) = Fin (of_nat n)"
proof -
  have t: "takeWhile is_digit (nat_str n) = nat_str n" "dropWhile is_digit (nat_str n) = []"
    using nat_str_is_digit[of n] by (auto simp: takeWhile_eq_all_conv dropWhile_eq_Nil_conv list_all_iff)
  have "is_digit (hd (nat_str n))"
    using nat_str_is_digit[of n] nat_str_not_Nil[of n] by (metis list.set_sel(1) list_all_iff)
  moreover have "\<not> is_digit CHR ''I''" by (simp add: is_digit_def digit_of_def)
  ultimately have "nat_str n \<noteq> ''Infinity''" by auto
  then show ?thesis
    by (simp add: js_number_def Let_def nat_str_trim nat_str_take_sign unsigned_number_def t
        digits_nat_def digits_value_nat_str exponent_of_def scale10_def)
qed

lemma js_number_blank [simp]: "js_trim s = [] \<Longrightarrow> js_number s = Fin 0"
  by (simp add: js_number_def)

end
