(* ===== verification/SchedulesPage.thy ===== *)
theory SchedulesPage imports ListPage Controls Selection NumberText Shared DateTime begin

text \<open>
  \<open>web/src/pages/Schedules.jsx\<close>: the filters of the schedule list with their controls and the request,
  the rows and their actions, the recent runs that a row discloses, and the form that creates and
  edits a schedule. \<open>toiso\<close> stands for \<open>datetimeLocalToISO\<close> in the browser's time zone, \<open>locale\<close>
  for \<open>toLocaleString\<close>.
\<close>

subsection \<open>Filters\<close>

definition schedule_actions :: "string list" where
  "schedule_actions =
    [''snapshot'', ''start'', ''stop'', ''restart'', ''force-stop'', ''reboot'', ''suspend'', ''resume'']"

definition catch_up_policies :: "string list" where
  "catch_up_policies = [''skip'', ''run_once'', ''run_all'']"

definition schedule_listed :: "(string \<times> string list) list" where
  "schedule_listed =
    [(''action'', [] # schedule_actions), (''catch_up_policy'', [] # catch_up_policies),
     (''enabled'', [[], ''true'', ''false'']),
     (''sort'', [[], ''id'', ''name'', ''created_at'', ''next_fire_at'', ''last_fired_at'', ''vm_id'', ''action'']),
     (''order'', [[], ''asc'', ''desc''])]"

definition schedule_fields :: "(string \<times> string) list" where
  "schedule_fields =
    [(''search'', []), (''tag_selector'', []), (''action'', []), (''catch_up_policy'', []),
     (''timezone'', []), (''enabled'', []), (''since'', []), (''until'', []),
     (''next_fire_since'', []), (''next_fire_until'', []), (''last_fired_since'', []),
     (''last_fired_until'', []), (''prefix'', []), (''sort'', []), (''order'', [])]"

definition schedule_debounced :: "string list" where
  "schedule_debounced =
    [''search'', ''tag_selector'', ''timezone'', ''prefix'']"

definition schedule_reset :: "string list" where
  "schedule_reset =
    [''search'', ''tag_selector'', ''action'', ''catch_up_policy'', ''timezone'', ''enabled'',
     ''since'', ''until'', ''next_fire_since'', ''next_fire_until'', ''last_fired_since'',
     ''last_fired_until'', ''prefix'', ''sort'', ''order'']"

definition schedule_clear_inputs :: "string list" where
  "schedule_clear_inputs =
    [''tag_selector'', ''prefix'', ''timezone'']"

definition schedule_clear_values :: "string list" where
  "schedule_clear_values =
    [''action'', ''catch_up_policy'', ''enabled'', ''sort'', ''order'', ''since'', ''until'',
     ''next_fire_since'', ''next_fire_until'', ''last_fired_since'', ''last_fired_until'']"

definition schedule_counted :: "string list" where
  "schedule_counted =
    [''tag_selector'', ''prefix'', ''action'', ''catch_up_policy'', ''timezone'', ''enabled'',
     ''since'', ''until'', ''next_fire_since'', ''next_fire_until'', ''last_fired_since'',
     ''last_fired_until'']"

definition schedule_conf :: "(string \<Rightarrow> string) \<Rightarrow> fconf" where
  "schedule_conf toiso =
     \<lparr>fc_fields = schedule_fields, fc_start = (\<lambda>k. []), fc_fresh = False,
      fc_debounced = schedule_debounced, fc_trims = True, fc_lazy = False,
      fc_write = (\<lambda>k v. v), fc_restore = restore_listed schedule_listed, fc_reset = schedule_reset,
      fc_dep = (\<lambda>k v. if k \<in> {''since'', ''until'', ''next_fire_since'', ''next_fire_until'', ''last_fired_since'', ''last_fired_until''} then toiso v else v),
      fc_paged = True, fc_prefix = [], fc_per_page = 25, fc_clear_inputs = schedule_clear_inputs,
      fc_clear_values = schedule_clear_values, fc_counted = schedule_counted\<rparr>"

lemma wf_schedule_conf: "wf_conf (schedule_conf toiso)"
  by (simp add: wf_conf_def page_key_def per_page_key_def schedule_conf_def field_keys_def schedule_fields_def schedule_debounced_def
      schedule_clear_inputs_def schedule_clear_values_def)

definition schedule_list_args :: "(string \<Rightarrow> string) \<Rightarrow> fpage \<Rightarrow> js" where
  "schedule_list_args toiso s = Obj
    [(''search'', Str (fp_value s ''search'')),
     (''tagSelector'', Str (fp_value s ''tag_selector'')),
     (''action'', Str (fp_value s ''action'')),
     (''catchUpPolicy'', Str (fp_value s ''catch_up_policy'')),
     (''timezone'', Str (fp_value s ''timezone'')), (''enabled'', Str (fp_value s ''enabled'')),
     (''since'', Str (toiso (fp_value s ''since''))),
     (''until'', Str (toiso (fp_value s ''until''))),
     (''nextFireSince'', Str (toiso (fp_value s ''next_fire_since''))),
     (''nextFireUntil'', Str (toiso (fp_value s ''next_fire_until''))),
     (''lastFiredSince'', Str (toiso (fp_value s ''last_fired_since''))),
     (''lastFiredUntil'', Str (toiso (fp_value s ''last_fired_until''))),
     (''prefix'', Str (fp_value s ''prefix'')), (''sort'', Str (fp_value s ''sort'')),
     (''order'', Str (fp_value s ''order'')), (''page'', JNat (fp_page s)),
     (''perPage'', JNat (fp_per_page s))]"

definition schedule_search_controls :: "(string \<times> control) list" where
  "schedule_search_controls =
    [(''schedule-list-search'', TextOf ''search''),
     (''schedule-list-search-clear'', ClearOf [''search''])]"

definition schedule_pick_controls :: "(string \<times> control) list" where
  "schedule_pick_controls =
    [(''schedule-tag-selector-filter'', TextOf ''tag_selector''),
     (''schedule-list-prefix-filter'', TextOf ''prefix''),
     (''schedule-action-filter'', PickOf ''action'' ([] # schedule_actions)),
     (''schedule-catchup-filter'', PickOf ''catch_up_policy'' ([] # catch_up_policies)),
     (''schedule-timezone-filter'', TextOf ''timezone''),
     (''schedule-enabled-filter'', PickOf ''enabled'' [[], ''true'', ''false'']),
     (''schedule-list-sort-field'', PickOf ''sort'' [[], ''id'', ''name'', ''created_at'', ''next_fire_at'', ''last_fired_at'', ''vm_id'', ''action'', ''timezone'', ''enabled'', ''catch_up_policy'']),
     (''schedule-list-sort-order'', PickOf ''order'' [[], ''asc'', ''desc''])]"

definition schedule_range_controls :: "(string \<times> control) list" where
  "schedule_range_controls =
    [(''schedule-list-since-filter'', ValueOf ''since''),
     (''schedule-list-until-filter'', ValueOf ''until''),
     (''schedule-list-time-range-clear'', ClearOf [''since'', ''until'']),
     (''schedule-list-next-fire-since-filter'', ValueOf ''next_fire_since''),
     (''schedule-list-next-fire-until-filter'', ValueOf ''next_fire_until''),
     (''schedule-list-next-fire-range-clear'', ClearOf [''next_fire_since'', ''next_fire_until'']),
     (''schedule-list-last-fired-since-filter'', ValueOf ''last_fired_since''),
     (''schedule-list-last-fired-until-filter'', ValueOf ''last_fired_until''),
     (''schedule-list-last-fired-range-clear'', ClearOf [''last_fired_since'', ''last_fired_until''])]"

definition schedule_controls :: "(string \<times> control) list" where
  "schedule_controls = schedule_search_controls @ schedule_pick_controls @ schedule_range_controls"

lemmas schedule_controls_defs = schedule_controls_def schedule_search_controls_def
  schedule_pick_controls_def schedule_range_controls_def

lemma schedule_args_of:
  "\<forall>k\<in>set (map fst schedule_fields). passes schedules_table (schedule_list_args toiso s) k
     (Str (fc_dep (schedule_conf toiso) k (fp_value s k)))"
  by (simp add: schedule_fields_def schedules_table_def schedule_list_args_def passes_def arg_of_def
      schedule_conf_def)

interpretation schedule: list_page "schedule_conf toiso" schedules_table "schedule_list_args toiso" "\<lambda>k. k"
  "fc_dep (schedule_conf toiso)" for toiso
proof unfold_locales
  show "wf_conf (schedule_conf toiso)" by (rule wf_schedule_conf)
  fix k s assume "k \<in> set (field_keys (schedule_conf toiso))"
  then have "k \<in> set (map fst schedule_fields)" by (simp add: schedule_conf_def field_keys_def)
  then show "carries (jget (build_query schedules_table (schedule_list_args toiso s)) k)
      (fc_dep (schedule_conf toiso) k (fp_value s k))"
    using schedule_args_of by (blast intro: passes_carries)
qed

definition schedule_list_request :: "(string \<Rightarrow> string) \<Rightarrow> fpage \<Rightarrow> request" where
  "schedule_list_request toiso s = schedule_request (ScheduleList (schedule_list_args toiso s))"

subsection \<open>The list\<close>

definition format_time :: "(int \<Rightarrow> int) \<Rightarrow> (int \<Rightarrow> string) \<Rightarrow> js \<Rightarrow> string" where
  "format_time tz locale v =
     (if \<not> truthy v then em_dash
      else case parse_date tz (to_str v) of None \<Rightarrow> em_dash | Some ms \<Rightarrow> locale ms)"

definition target_label :: "js \<Rightarrow> string" where
  "target_label sched =
     (if truthy (jget sched ''vm_id'') then to_str (jget sched ''vm_id'')
      else if elems (jget sched ''tag_selector'') \<noteq> [] then
        ''tag:'' @ js_join '','' (map to_str (elems (jget sched ''tag_selector'')))
      else ''all'')"

definition delete_schedule :: "js \<Rightarrow> bool \<Rightarrow> bool \<Rightarrow> js effect list" where
  "delete_schedule sched yes ok =
     delete_row ''schedules.delete'' (''Delete schedule \"'' @ to_str (jget sched ''name'') @ ''\"?'')
       (to_str (jget sched ''id'')) yes ok"

definition toggle_schedule :: "js \<Rightarrow> bool \<Rightarrow> js effect list" where
  "toggle_schedule sched ok =
     Api ''schedules.update'' [jget sched ''id'', Obj [(''enabled'', Bool (\<not> truthy (jget sched ''enabled'')))]]
     # (if ok then [Callback ''refresh'' []] else [])"

definition run_schedule_now :: "js \<Rightarrow> bool \<Rightarrow> js effect list" where
  "run_schedule_now sched ok =
     Api ''schedules.runNow'' [jget sched ''id''] # (if ok then [Callback ''refresh'' []] else [])"

text \<open>
  What the list shows when it has no rows: that nothing matches, or that nothing is defined. The
  test names every filter but the tag selector.
\<close>

definition schedule_empty_tested :: "string list" where
  "schedule_empty_tested =
    [''search'', ''action'', ''catch_up_policy'', ''timezone'', ''enabled'', ''since'', ''until'',
     ''next_fire_since'', ''next_fire_until'', ''last_fired_since'', ''last_fired_until'', ''prefix'']"

definition schedule_empty_title :: "fpage \<Rightarrow> string" where
  "schedule_empty_title s =
     (if \<exists>k\<in>set schedule_empty_tested. fp_value s k \<noteq> [] then ''No schedules match your filters''
      else ''No schedules defined'')"

text \<open>Spinner while nothing was ever answered, else the empty card, else the rows and the pager.\<close>

datatype list_view = ListSpinner | ListEmpty | ListRows "js list" pager

definition schedule_view :: "bool \<Rightarrow> js \<Rightarrow> fpage \<Rightarrow> nat list \<Rightarrow> list_view" where
  "schedule_view loading response s options =
     (let items = response_rows response in
      if loading \<and> \<not> truthy response then ListSpinner
      else if items = [] then ListEmpty
      else ListRows items
             (pagination (fp_page s) (fp_per_page s)
               (case total_rows response items of Num (Fin r) \<Rightarrow> Some (nat \<lfloor>r\<rfloor>) | _ \<Rightarrow> None) options))"

text \<open>Icon and colour of a schedule's last result; \<open>None\<close> is the dash.\<close>

definition last_result_chip :: "js \<Rightarrow> (string \<times> string \<times> string) option" where
  "last_result_chip result =
     (if \<not> truthy result then None
      else (let l = js_lower (to_str result) in
        Some (if js_includes l ''success'' \<or> l = ''ok'' then (''CheckCircle2'', ''text-emerald-300'', to_str result)
              else if js_includes l ''error'' \<or> js_includes l ''fail'' then (''AlertCircle'', ''text-red-300'', to_str result)
              else if js_includes l ''skip'' then (''MinusCircle'', ''text-amber-300'', to_str result)
              else (''MinusCircle'', ''text-steel-400'', to_str result))))"

definition run_status_chip :: "js \<Rightarrow> string \<times> string" where
  "run_status_chip status =
     (let l = js_lower (to_str (js_or status (Str []))) in
      if l = ''success'' then (''CheckCircle2'', ''text-emerald-300'')
      else if l = ''error'' then (''AlertCircle'', ''text-red-300'')
      else if l = ''skipped'' then (''MinusCircle'', ''text-amber-300'')
      else if l = ''running'' then (''Loader2'', ''text-blue-300'')
      else (''MinusCircle'', ''text-steel-400''))"

text \<open>Name, id, action, target, whether the box is ticked, cron text, next fire and last result.\<close>

definition schedule_row ::
  "(int \<Rightarrow> int) \<Rightarrow> (int \<Rightarrow> string) \<Rightarrow> js \<Rightarrow> string list \<times> bool \<times> (string \<times> string \<times> string) option" where
  "schedule_row tz locale sched =
     ([to_str (jget sched ''name''), to_str (jget sched ''id''), to_str (jget sched ''action''),
       target_label sched, to_str (jget sched ''cron_spec''), format_time tz locale (jget sched ''next_fire_at'')],
      truthy (jget sched ''enabled''), last_result_chip (jget sched ''last_result''))"

subsection \<open>Recent runs\<close>

text \<open>
  A row's disclosure keeps its own filters: no address, no paging, the machine id and the search
  text debounced. In the terms of \<open>fpage\<close> it is a page without mirrored fields.
\<close>

definition runs_conf :: fconf where
  "runs_conf =
     \<lparr>fc_fields = [], fc_start = (\<lambda>k. []), fc_fresh = False,
      fc_debounced = [''vm_id'', ''search''], fc_trims = True, fc_lazy = False, fc_write = (\<lambda>k v. v),
      fc_restore = (\<lambda>k v. v), fc_reset = [], fc_dep = (\<lambda>k v. v), fc_paged = False, fc_prefix = [], fc_per_page = 5,
      fc_clear_inputs = [], fc_clear_values = [], fc_counted = []\<rparr>"

interpretation runs: filter_page runs_conf
  by unfold_locales (simp add: wf_conf_def page_key_def per_page_key_def runs_conf_def field_keys_def)

definition runs_controls :: "(string \<times> control) list" where
  "runs_controls =
    [(''schedule-runs-vm-filter'', TextOf ''vm_id''),
     (''schedule-runs-search-filter'', TextOf ''search''),
     (''schedule-runs-status-filter'', PickOf ''status'' [[], ''running'', ''success'', ''error'', ''skipped'']),
     (''schedule-runs-skip-reason-filter'', PickOf ''skip_reason'' [[], ''vm_not_found'', ''vm_already_stopped'', ''vm_already_running'', ''concurrent_run'', ''catch_up_skipped'', ''queue_full'']),
     (''schedule-runs-sort'', PickOf ''sort'' [[], ''started_at'', ''finished_at'', ''duration'', ''status'', ''vm_id'', ''skip_reason'', ''id'']),
     (''schedule-runs-order'', PickOf ''order'' [[], ''asc'', ''desc'']),
     (''schedule-runs-finished-since-filter'', ValueOf ''finished_since''),
     (''schedule-runs-finished-until-filter'', ValueOf ''finished_until''),
     (''schedule-runs-finished-clear'', ClearOf [''finished_since'', ''finished_until''])]"

definition runs_duration_controls :: "(string \<times> control) list" where
  "runs_duration_controls =
    [(''schedule-runs-min-duration-ms-filter'', ValueOf ''min_duration_ms''),
     (''schedule-runs-max-duration-ms-filter'', ValueOf ''max_duration_ms''),
     (''schedule-runs-duration-clear'', ClearOf [''min_duration_ms'', ''max_duration_ms''])]"


definition to_rfc3339 :: "string \<Rightarrow> string" where
  "to_rfc3339 v = (if v \<noteq> [] then v @ '':00Z'' else [])"

definition parse_positive_int :: "string \<Rightarrow> js" where
  "parse_positive_int raw =
     (if js_trim raw = [] then Undef
      else case js_number (js_trim raw) of
             Fin n \<Rightarrow> if n < 0 \<or> \<not> is_integer (Fin n) then Undef else Num (Fin n)
           | _ \<Rightarrow> Undef)"

definition runs_args :: "fpage \<Rightarrow> js" where
  "runs_args s =
     (let v = (\<lambda>k. js_or (Str (fp_value s k)) Undef);
          t = (\<lambda>k. js_or (Str (to_rfc3339 (fp_value s k))) Undef)
      in Obj [(''perPage'', JNat 5), (''status'', v ''status''), (''skipReason'', v ''skip_reason''),
              (''vmId'', v ''vm_id''), (''search'', v ''search''), (''sort'', v ''sort''), (''order'', v ''order''),
              (''finishedSince'', t ''finished_since''), (''finishedUntil'', t ''finished_until''),
              (''minDurationMs'', parse_positive_int (fp_value s ''min_duration_ms'')),
              (''maxDurationMs'', parse_positive_int (fp_value s ''max_duration_ms''))])"

text \<open>Nothing is fetched while the row is closed.\<close>

definition runs_fetch :: "js \<Rightarrow> bool \<Rightarrow> fpage \<Rightarrow> request option" where
  "runs_fetch sched expanded s =
     (if expanded then Some (schedule_request (ScheduleRuns (to_str (jget sched ''id'')) (runs_args s))) else None)"

text \<open>Start time, machine, status chip, and error or skip reason of a run.\<close>

definition run_line ::
  "(int \<Rightarrow> int) \<Rightarrow> (int \<Rightarrow> string) \<Rightarrow> js \<Rightarrow> string \<times> string \<times> (string \<times> string) \<times> string option" where
  "run_line tz locale run =
     (format_time tz locale (jget run ''started_at''), to_str (js_or (jget run ''vm_id'') (Str em_dash)),
      run_status_chip (jget run ''status''),
      (let why = js_or (jget run ''error'') (jget run ''skip_reason'')
       in if truthy why then Some (to_str why) else None))"

subsection \<open>The form\<close>

record sched_form =
  sf_name :: string
  sf_action :: string
  sf_vm :: string
  sf_tags :: string
  sf_cron :: string
  sf_timezone :: string
  sf_enabled :: bool
  sf_catch_up :: string
  sf_retention :: string
  sf_concurrent :: string
  sf_submitting :: bool
  sf_error :: "string option"

definition default_cron :: string where
  "default_cron = ''0 0 2 * * *''"

definition cron_presets :: "(string \<times> string) list" where
  "cron_presets =
    [(''cron-preset-hourly'', ''0 0 * * * *''), (''cron-preset-daily'', ''0 0 2 * * *''),
     (''cron-preset-weekly'', ''0 0 3 * * 0'')]"

definition sched_form_create :: "js \<Rightarrow> sched_form" where
  "sched_form_create initial =
     \<lparr>sf_name = to_str (js_or (jget initial ''name'') (Str [])), sf_action = ''snapshot'',
      sf_vm = to_str (js_or (jget initial ''vm_id'') (Str [])), sf_tags = [], sf_cron = default_cron,
      sf_timezone = [], sf_enabled = True, sf_catch_up = ''skip'', sf_retention = [], sf_concurrent = [],
      sf_submitting = False, sf_error = None\<rparr>"

definition number_text :: "js \<Rightarrow> string" where
  "number_text v = (if nullish v then [] else to_str v)"

definition sched_form_edit :: "js \<Rightarrow> sched_form" where
  "sched_form_edit sched =
     (let text = (\<lambda>k d. to_str (js_or (jget sched k) (Str d))) in
      \<lparr>sf_name = text ''name'' [], sf_action = text ''action'' ''snapshot'', sf_vm = text ''vm_id'' [],
       sf_tags = (if elems (jget sched ''tag_selector'') \<noteq> []
                  then js_join '', '' (map to_str (elems (jget sched ''tag_selector''))) else []),
       sf_cron = text ''cron_spec'' [], sf_timezone = text ''timezone'' [],
       sf_enabled = (jget sched ''enabled'' \<noteq> Bool False), sf_catch_up = text ''catch_up_policy'' ''skip'',
       sf_retention = number_text (jget sched ''retention_count''),
       sf_concurrent = number_text (jget sched ''max_concurrent''),
       sf_submitting = False, sf_error = None\<rparr>)"

definition sched_count :: "string \<Rightarrow> js" where
  "sched_count v =
     (if js_trim v = [] then Undef else case parse_int v of None \<Rightarrow> Num NaN | Some n \<Rightarrow> JInt n)"

definition sched_create_body :: "sched_form \<Rightarrow> js" where
  "sched_create_body f =
     (let tags = parse_tags (sf_tags f); text = (\<lambda>v. js_or (Str (js_trim v)) Undef) in
      Obj [(''name'', Str (js_trim (sf_name f))), (''action'', Str (sf_action f)), (''vm_id'', text (sf_vm f)),
           (''tag_selector'', if tags \<noteq> [] then Arr (map Str tags) else Undef),
           (''cron_spec'', Str (js_trim (sf_cron f))), (''timezone'', text (sf_timezone f)),
           (''enabled'', Bool (sf_enabled f)), (''catch_up_policy'', Str (sf_catch_up f)),
           (''retention_count'', sched_count (sf_retention f)),
           (''max_concurrent'', sched_count (sf_concurrent f))])"

definition sched_update_body :: "sched_form \<Rightarrow> js" where
  "sched_update_body f =
     Obj [(''name'', Str (js_trim (sf_name f))), (''action'', Str (sf_action f)), (''vm_id'', Str (js_trim (sf_vm f))),
          (''tag_selector'', Arr (map Str (parse_tags (sf_tags f)))),
          (''cron_spec'', Str (js_trim (sf_cron f))), (''timezone'', Str (js_trim (sf_timezone f))),
          (''enabled'', Bool (sf_enabled f)), (''catch_up_policy'', Str (sf_catch_up f)),
          (''retention_count'', js_coalesce (sched_count (sf_retention f)) (JInt 0)),
          (''max_concurrent'', js_coalesce (sched_count (sf_concurrent f)) (JInt 0))]"

text \<open>
  \<open>handleSubmit\<close>: \<open>sched\<close> is the schedule edited, \<open>None\<close> in create mode; \<open>failure\<close> the message of a
  refused request. The form stays marked as submitting when it closes.
\<close>

definition sched_submit :: "js option \<Rightarrow> string option \<Rightarrow> sched_form \<Rightarrow> js effect list \<times> sched_form" where
  "sched_submit sched failure f =
     (let call = (case sched of
            None \<Rightarrow> Api ''schedules.create'' [sched_create_body f]
          | Some x \<Rightarrow> Api ''schedules.update'' [jget x ''id'', sched_update_body f]);
          f1 = f\<lparr>sf_submitting := True, sf_error := None\<rparr>
      in case failure of
           None \<Rightarrow> ([call, Callback ''onSaved'' [], Callback ''onClose'' []], f1)
         | Some e \<Rightarrow> ([call], f1\<lparr>sf_submitting := False,
              sf_error := Some (if e \<noteq> [] then e
                else ''failed to '' @ (if sched = None then ''create'' else ''edit'') @ '' schedule'')\<rparr>))"

text \<open>
  The form's inputs, by test id; \<open>v\<close> is the new text (a select can only yield one of its options),
  a preset button puts its cron text, the check box takes its new state as \<open>on\<close>.
\<close>

definition sched_input :: "string \<Rightarrow> string \<Rightarrow> bool \<Rightarrow> sched_form \<Rightarrow> sched_form" where
  "sched_input i v on f =
     (if i = ''schedule-name-input'' then f\<lparr>sf_name := v\<rparr>
      else if i = ''schedule-action-select'' then (if v \<in> set schedule_actions then f\<lparr>sf_action := v\<rparr> else f)
      else if i = ''schedule-vmid-input'' then f\<lparr>sf_vm := v\<rparr>
      else if i = ''schedule-tags-input'' then f\<lparr>sf_tags := v\<rparr>
      else if i = ''schedule-cron-input'' then f\<lparr>sf_cron := v\<rparr>
      else if i \<in> fst ` set cron_presets then
        (case map_of cron_presets i of Some p \<Rightarrow> f\<lparr>sf_cron := p\<rparr> | None \<Rightarrow> f)
      else if i = ''schedule-timezone-input'' then f\<lparr>sf_timezone := v\<rparr>
      else if i = ''schedule-catchup-select'' then (if v \<in> set catch_up_policies then f\<lparr>sf_catch_up := v\<rparr> else f)
      else if i = ''schedule-retention-input'' then f\<lparr>sf_retention := v\<rparr>
      else if i = ''schedule-maxconcurrent-input'' then f\<lparr>sf_concurrent := v\<rparr>
      else if i = ''schedule-enabled-input'' then f\<lparr>sf_enabled := on\<rparr>
      else f)"

text \<open>
  The add dialog is open from the start on a deep link; it starts from the link's machine and name,
  and closing it removes the three parameters.
\<close>

definition schedule_prefill :: "params \<Rightarrow> bool \<times> js" where
  "schedule_prefill ps =
     (usp_get ''open'' ps = Some ''create'',
      Obj [(''vm_id'', Str (usp_get_or [] ''prefill_vm_id'' ps)), (''name'', Str (usp_get_or [] ''prefill_name'' ps))])"

definition schedule_close_add :: "params \<Rightarrow> params" where
  "schedule_close_add ps = usp_delete ''prefill_name'' (usp_delete ''prefill_vm_id'' (usp_delete ''open'' ps))"

subsection \<open>Facts\<close>

lemma schedule_conf_simps [simp]:
  "field_keys (schedule_conf toiso) = map fst schedule_fields"
  "fc_debounced (schedule_conf toiso) = schedule_debounced"
  "norm_input (schedule_conf toiso) v = js_trim v" "fc_write (schedule_conf toiso) k v = v"
  "fc_restore (schedule_conf toiso) = restore_listed schedule_listed"
  by (simp_all add: field_keys_def schedule_conf_def norm_input_def)

lemma schedule_default: "k \<in> set (map fst schedule_fields) \<Longrightarrow> field_default (schedule_conf toiso) k = []"
  by (auto simp: field_default_def schedule_conf_def schedule_fields_def)

lemma schedule_text_fields:
  "k \<in> set schedule_debounced \<Longrightarrow> k \<in> set (map fst schedule_fields) \<and> fc_dep (schedule_conf toiso) k v = v"
  by (auto simp: schedule_debounced_def schedule_fields_def schedule_conf_def)

lemma schedule_query:
  "rq_query (schedule_list_request toiso s) = build_query schedules_table (schedule_list_args toiso s)"
  by (simp add: schedule_list_request_def req_def)

text \<open>
  The schedule list asks for what the operator typed and survives a reload: whatever happened on
  the page, once the debounce timers fired every free-text filter is sent trimmed; and mounting the
  page again on the address it wrote sends every filter as before, times included, unless the value
  is one that the page does not accept from an address.
\<close>

theorem schedule_view_faithful:
  assumes "page_reach (schedule_conf toiso) s"
    and t_def: "t = mount_page (schedule_conf toiso) (usp_of_search (CHR ''?'' # usp_to_string (fp_url s)))"
  shows "(\<forall>k\<in>set schedule_debounced.
            carries (jget (rq_query (schedule_list_request toiso (fire_all (schedule_conf toiso) s))) k)
              (js_trim (fp_input s k)))
    \<and> (\<forall>k\<in>set (map fst schedule_fields). restore_listed schedule_listed k (fp_value s k) = fp_value s k \<longrightarrow>
            carries (jget (rq_query (schedule_list_request toiso t)) k)
              (fc_dep (schedule_conf toiso) k (fp_value s k)))"
proof -
  let ?c = "schedule_conf toiso"
  have w: "written ?c s k = fp_value s k" for k by (simp add: written_def)
  have "carries (jget (build_query schedules_table (schedule_list_args toiso (fire_all ?c s))) k) (js_trim (fp_input s k))"
    if "k \<in> set schedule_debounced" for k
    using schedule.typed_sent(1)[OF assms(1), of k] schedule_text_fields[OF that, of toiso] that by simp
  moreover have "carries (jget (build_query schedules_table (schedule_list_args toiso t)) k) (fc_dep ?c k (fp_value s k))"
    if "k \<in> set (map fst schedule_fields)" "restore_listed schedule_listed k (fp_value s k) = fp_value s k" for k
  proof -
    have "(if fp_value s k = [] then field_default ?c k else fp_value s k) = fp_value s k"
      using schedule_default[OF that(1)] by simp
    then show ?thesis
      using schedule.reload_sends[OF assms(1), of k, folded t_def, unfolded w] that by simp
  qed
  ultimately show ?thesis unfolding schedule_query by blast
qed

theorem schedule_view_faithful_witness:
  "carries (jget (rq_query (schedule_list_request (datetime_local_to_iso (\<lambda>_. 0))
      (mount_page (schedule_conf (datetime_local_to_iso (\<lambda>_. 0))) (usp_of_search (CHR ''?'' # usp_to_string (fp_url
        (select_value (schedule_conf (datetime_local_to_iso (\<lambda>_. 0))) ''action'' ''stop''
          (mount_page (schedule_conf (datetime_local_to_iso (\<lambda>_. 0))) [])))))))) ''action'') ''stop''"
proof -
  let ?i = "datetime_local_to_iso (\<lambda>_. 0)"
  let ?s = "select_value (schedule_conf ?i) ''action'' ''stop'' (mount_page (schedule_conf ?i) [])"
  have r: "page_reach (schedule_conf ?i) ?s"
    by (intro pr_select pr_mount) (simp add: schedule_debounced_def)
  have v: "fp_value ?s ''action'' = ''stop''" by (simp add: select_value_def)
  have "restore_listed schedule_listed ''action'' ''stop'' = ''stop''"
    by (intro restore_listed_keep[where vs = "[] # schedule_actions"])
      (simp_all add: schedule_listed_def schedule_actions_def js_lower_def)
  moreover have "''action'' \<in> set (map fst schedule_fields)" by (simp add: schedule_fields_def)
  moreover have "fc_dep (schedule_conf ?i) ''action'' ''stop'' = ''stop''" by (simp add: schedule_conf_def)
  ultimately show ?thesis using schedule_view_faithful[OF r refl] by (metis v)
qed

text \<open>
  Every control of the filter panel drives a filter the page has, under its own test id; but three
  of the sort orders it offers are not among those the page accepts from an address, so that a reload
  falls back to the default order.
\<close>

theorem schedule_sort_lost:
  shows "controls_wf (schedule_conf toiso) schedule_controls
    \<and> lost_options (schedule_conf toiso) schedule_controls
      = [(''sort'', ''timezone''), (''sort'', ''enabled''), (''sort'', ''catch_up_policy'')]
    \<and> fp_value (mount_page (schedule_conf toiso) (usp_of_search (CHR ''?'' # usp_to_string (fp_url
        (select_value (schedule_conf toiso) ''sort'' ''timezone'' (mount_page (schedule_conf toiso) ps)))))) ''sort'' = []"
proof -
  let ?c = "schedule_conf toiso"
  let ?s = "select_value ?c ''sort'' ''timezone'' (mount_page ?c ps)"
  have "page_ok ?c ?s"
    by (intro schedule.ok_select schedule.ok_mount) (simp add: schedule_debounced_def)
  moreover have "''sort'' \<in> set (field_keys ?c)" by (simp add: schedule_fields_def)
  moreover have "written ?c ?s ''sort'' = ''timezone''" by (simp add: written_def select_value_def)
  ultimately have "fp_value (mount_page ?c (usp_of_search (CHR ''?'' # usp_to_string (fp_url ?s)))) ''sort''
      = restore_listed schedule_listed ''sort'' ''timezone''"
    using schedule.reload_value by simp
  also have "\<dots> = []"
    by (simp add: restore_listed_def schedule_listed_def js_lower_def)
  finally have r: "fp_value (mount_page ?c (usp_of_search (CHR ''?'' # usp_to_string (fp_url ?s)))) ''sort'' = []" .
  have w: "controls_wf ?c schedule_controls"
    by (simp add: controls_wf_def schedule_controls_defs schedule_debounced_def)
  have "lost_options ?c schedule_controls
      = [(''sort'', ''timezone''), (''sort'', ''enabled''), (''sort'', ''catch_up_policy'')]"
    by (simp add: schedule_controls_defs restore_listed_def schedule_listed_def schedule_actions_def
        catch_up_policies_def js_lower_def)
  with r w show ?thesis by blast
qed

text \<open>
  A schedule as the daemon stores it, of those whose tags are without commas (it accepts tags with one,
  which the form cannot show: \<open>schedule_comma_split\<close>).
\<close>

definition stored_schedule :: "js \<Rightarrow> string list \<Rightarrow> bool \<Rightarrow> nat option \<Rightarrow> nat option \<Rightarrow> bool" where
  "stored_schedule sched tags on keep conc \<longleftrightarrow>
     (\<forall>k\<in>{''name'', ''action'', ''cron_spec'', ''catch_up_policy''}.
        \<exists>v. jget sched k = Str v \<and> v \<noteq> [] \<and> js_trim v = v)
     \<and> (\<forall>k\<in>{''vm_id'', ''timezone''}. jget sched k = Undef \<or> (\<exists>v. jget sched k = Str v \<and> v \<noteq> [] \<and> js_trim v = v))
     \<and> jget sched ''tag_selector'' = (if tags = [] then Undef else Arr (map Str tags)) \<and> (\<forall>t\<in>set tags. clean_tag t)
     \<and> jget sched ''enabled'' = Bool on
     \<and> jget sched ''retention_count'' = (case keep of None \<Rightarrow> Undef | Some n \<Rightarrow> JNat n)
     \<and> jget sched ''max_concurrent'' = (case conc of None \<Rightarrow> Undef | Some n \<Rightarrow> JNat n)"

lemma sched_count_text:
  "js_coalesce (sched_count (number_text (case n of None \<Rightarrow> Undef | Some m \<Rightarrow> JNat m))) (Num (Fin 0))
     = JNat (case n of None \<Rightarrow> 0 | Some m \<Rightarrow> m)"
  by (cases n) (simp_all add: number_text_def sched_count_def nullish_def js_coalesce_def nat_str_trim del: num_str.simps)

lemma sched_text:
  "jget sched k = Undef \<or> (\<exists>v. jget sched k = Str v \<and> v \<noteq> [] \<and> js_trim v = v) \<Longrightarrow>
   js_trim (to_str (js_or (jget sched k) (Str []))) = the_str (jget sched k)"
  by (auto simp: js_or_def)

text \<open>
  C15 Editing a schedule round-trips it: opening the form on a stored schedule and saving it untouched
  sends back every member as it was stored (an absent text as empty, an absent count as 0), whatever
  the schedule is, as long as no tag of its selector contains a comma.
\<close>

theorem schedule_edit_roundtrip:
  assumes "stored_schedule sched tags on keep conc"
    and b_def: "b = sched_update_body (sched_form_edit sched)"
  shows "(\<forall>k\<in>{''name'', ''action'', ''cron_spec'', ''catch_up_policy''}. jget b k = jget sched k)
    \<and> (\<forall>k\<in>{''vm_id'', ''timezone''}. jget b k = js_or (jget sched k) (Str []))
    \<and> jget b ''tag_selector'' = Arr (map Str tags) \<and> jget b ''enabled'' = jget sched ''enabled''
    \<and> jget b ''retention_count'' = JNat (case keep of None \<Rightarrow> 0 | Some n \<Rightarrow> n)
    \<and> jget b ''max_concurrent'' = JNat (case conc of None \<Rightarrow> 0 | Some n \<Rightarrow> n)"
proof -
  note st = assms(1)[unfolded stored_schedule_def]
  have tags: "parse_tags (sf_tags (sched_form_edit sched)) = tags"
    using st by (auto simp: sched_form_edit_def Let_def comp_def parse_tags_join_comma_space)
  have opt_text: "Str (js_trim (to_str (js_or (jget sched k) (Str [])))) = js_or (jget sched k) (Str [])"
    if "k \<in> {''vm_id'', ''timezone''}" for k
    using st that by (auto simp: js_or_def js_trim_def trim_start_def)
  have req: "Str (js_trim (to_str (js_or (jget sched k) d))) = jget sched k"
    "Str (to_str (js_or (jget sched k) d)) = jget sched k"
    if k: "k \<in> {''name'', ''action'', ''cron_spec'', ''catch_up_policy''}" for k d
  proof -
    obtain v where "jget sched k = Str v" "v \<noteq> []" "js_trim v = v" using st[THEN conjunct1] k by blast
    then show "Str (js_trim (to_str (js_or (jget sched k) d))) = jget sched k"
      "Str (to_str (js_or (jget sched k) d)) = jget sched k" by (simp_all add: js_or_def)
  qed
  have on: "jget sched ''enabled'' = Bool on" using st by blast
  have counts: "jget sched ''retention_count'' = (case keep of None \<Rightarrow> Undef | Some n \<Rightarrow> JNat n)"
    "jget sched ''max_concurrent'' = (case conc of None \<Rightarrow> Undef | Some n \<Rightarrow> JNat n)" using st by blast+
  show ?thesis
    unfolding b_def sched_update_body_def tags jget.simps
    using opt_text req on by (simp add: sched_form_edit_def Let_def counts sched_count_text)
qed

theorem schedule_edit_roundtrip_witness:
  "jget (sched_update_body (sched_form_edit (Obj [(''name'', Str ''n''), (''action'', Str ''stop''),
      (''cron_spec'', Str default_cron), (''catch_up_policy'', Str ''skip''), (''enabled'', Bool False),
      (''tag_selector'', Arr [Str ''a'', Str ''b'']), (''retention_count'', JNat 7)]))) ''retention_count'' = JNat 7"
proof -
  let ?x = "Obj [(''name'', Str ''n''), (''action'', Str ''stop''), (''cron_spec'', Str default_cron),
      (''catch_up_policy'', Str ''skip''), (''enabled'', Bool False),
      (''tag_selector'', Arr [Str ''a'', Str ''b'']), (''retention_count'', JNat 7)]"
  have "stored_schedule ?x [''a'', ''b''] False (Some 7) None"
    by (simp add: stored_schedule_def clean_tag_def default_cron_def js_trim_def trim_start_def is_ws_def)
  from schedule_edit_roundtrip[OF this refl] show ?thesis by (simp del: of_nat_numeral)
qed

text \<open>A tag with a comma comes back as two.\<close>

lemma schedule_comma_split:
  assumes "jget sched ''tag_selector'' = Arr [Str ''a,b'']"
  shows "jget (sched_update_body (sched_form_edit sched)) ''tag_selector'' = Arr [Str ''a'', Str ''b'']"
proof -
  have "parse_tags (sf_tags (sched_form_edit sched)) = [''a'', ''b'']"
    by (simp add: sched_form_edit_def assms parse_tags_def js_trim_def trim_start_def is_ws_def Let_def)
  then show ?thesis by (simp add: sched_update_body_def Let_def)
qed

text \<open>
  A bound on the duration of the runs goes out exactly when a natural number was entered, as that
  number; anything that is not a non-negative integer is left out, and a closed row asks for nothing.
\<close>

theorem runs_duration_sent:
  shows "jget (rq_query (the (runs_fetch sched True (select_value runs_conf ''min_duration_ms'' (nat_str n) s)))) ''min_duration_ms'' = JNat n
    \<and> jget (rq_query (the (runs_fetch sched True (select_value runs_conf ''min_duration_ms'' v s)))) ''min_duration_ms''
        \<in> insert Undef (range JNat)
    \<and> runs_fetch sched False s = None"
proof -
  have q: "jget (rq_query (the (runs_fetch sched True t))) ''min_duration_ms''
      = parse_positive_int (fp_value t ''min_duration_ms'')" for t
  proof -
    have m: "jget (runs_args t) ''minDurationMs'' = parse_positive_int (fp_value t ''min_duration_ms'')"
      by (simp add: runs_args_def Let_def)
    show ?thesis
      by (simp add: runs_fetch_def req_def runs_query_def Let_def build_query_def m nullish_def)
        (auto simp: parse_positive_int_def split: num.splits)
  qed
  have "parse_positive_int (nat_str n) = JNat n"
    by (simp add: parse_positive_int_def nat_str_trim is_integer_def)
  moreover have "parse_positive_int v \<in> insert Undef (range JNat)"
  proof (cases "parse_positive_int v")
    case (Num m)
    then have m: "js_number (js_trim v) = m" "m \<noteq> NaN" "m \<noteq> PInf" "m \<noteq> NInf"
      by (auto simp: parse_positive_int_def split: num.splits if_splits)
    then obtain r where r: "m = Fin r" by (cases m) auto
    with Num m have r: "m = Fin r" "0 \<le> r" "r = rat_of_int \<lfloor>r\<rfloor>"
      by (simp_all add: parse_positive_int_def is_integer_def not_less split: if_splits)
    then have "0 \<le> \<lfloor>r\<rfloor>" by simp
    with r(3) have "r = of_nat (nat \<lfloor>r\<rfloor>)" by (metis of_int_of_nat_eq int_nat_eq)
    then have "parse_positive_int v = JNat (nat \<lfloor>r\<rfloor>)" using Num r(1) by metis
    then show ?thesis by blast
  qed (auto simp: parse_positive_int_def split: num.splits if_splits)
  ultimately show ?thesis by (simp add: q select_value_def) (simp add: runs_fetch_def)
qed

text \<open>
  A tag selector alone that matches nothing is reported as an empty system, because the test for
  active filters leaves it out.
\<close>

lemma schedule_empty_tag:
  "(\<And>k. k \<noteq> ''tag_selector'' \<Longrightarrow> fp_value s k = []) \<Longrightarrow> schedule_empty_title s = ''No schedules defined''"
  by (simp add: schedule_empty_title_def schedule_empty_tested_def)

end
