(* ===== verification/SettingsPage.thy ===== *)
theory SettingsPage imports ListPage Controls Selection Shared DateTime "HOL-Library.Multiset" begin

text \<open>
  \<open>web/src/pages/Settings.jsx\<close>: the filters of the webhook list with their controls and the request,
  the selection, the probes and the delivery status of each row, and the dialogs that register and
  edit a webhook. \<open>toiso\<close> stands for \<open>datetimeLocalToISO\<close> in the browser's time zone, \<open>locale\<close> for
  \<open>toLocaleString\<close>. On this page a change of a time goes back to page 1 as it is typed, not as it is
  sent.
\<close>

subsection \<open>Filters\<close>

definition webhook_listed :: "(string \<times> string list) list" where
  "webhook_listed =
    [(''delivery_status'', [[], ''never'', ''healthy'', ''failing'']),
     (''active'', [[], ''true'', ''false'']),
     (''sort'', [[], ''id'', ''url'', ''created_at'', ''last_delivery_at'', ''delivery_status'', ''active'', ''description'']),
     (''order'', [[], ''asc'', ''desc''])]"

definition webhook_fields :: "(string \<times> string) list" where
  "webhook_fields =
    [(''search'', []), (''event_type'', []), (''delivery_status'', []), (''active'', []),
     (''url_prefix'', []), (''since'', []), (''until'', []), (''last_delivery_since'', []),
     (''last_delivery_until'', []), (''sort'', []), (''order'', [])]"

definition webhook_debounced :: "string list" where
  "webhook_debounced =
    [''search'', ''event_type'', ''url_prefix'']"

definition webhook_reset :: "string list" where
  "webhook_reset =
    [''search'', ''event_type'', ''delivery_status'', ''active'', ''url_prefix'', ''since'',
     ''until'', ''last_delivery_since'', ''last_delivery_until'', ''sort'', ''order'']"

definition webhook_clear_inputs :: "string list" where
  "webhook_clear_inputs =
    [''event_type'', ''url_prefix'']"

definition webhook_clear_values :: "string list" where
  "webhook_clear_values =
    [''delivery_status'', ''active'', ''sort'', ''order'', ''since'', ''until'',
     ''last_delivery_since'', ''last_delivery_until'']"

definition webhook_counted :: "string list" where
  "webhook_counted =
    [''event_type'', ''url_prefix'', ''delivery_status'', ''active'', ''since'', ''until'',
     ''last_delivery_since'', ''last_delivery_until'']"

definition webhook_conf :: "fconf" where
  "webhook_conf =
     \<lparr>fc_fields = webhook_fields, fc_start = (\<lambda>k. []), fc_fresh = False,
      fc_debounced = webhook_debounced, fc_trims = True, fc_lazy = False,
      fc_write = (\<lambda>k v. v), fc_restore = restore_listed webhook_listed, fc_reset = webhook_reset,
      fc_dep = (\<lambda>k v. v),
      fc_paged = True, fc_prefix = [], fc_per_page = 25, fc_clear_inputs = webhook_clear_inputs,
      fc_clear_values = webhook_clear_values, fc_counted = webhook_counted\<rparr>"

lemma wf_webhook_conf: "wf_conf webhook_conf"
  by (simp add: wf_conf_def page_key_def per_page_key_def webhook_conf_def field_keys_def webhook_fields_def webhook_debounced_def
      webhook_clear_inputs_def webhook_clear_values_def)

definition webhook_list_args :: "(string \<Rightarrow> string) \<Rightarrow> fpage \<Rightarrow> js" where
  "webhook_list_args toiso s = Obj
    [(''search'', Str (fp_value s ''search'')),
     (''eventType'', Str (fp_value s ''event_type'')),
     (''deliveryStatus'', Str (fp_value s ''delivery_status'')),
     (''active'', Str (fp_value s ''active'')),
     (''urlPrefix'', Str (fp_value s ''url_prefix'')),
     (''since'', Str (toiso (fp_value s ''since''))),
     (''until'', Str (toiso (fp_value s ''until''))),
     (''lastDeliverySince'', Str (toiso (fp_value s ''last_delivery_since''))),
     (''lastDeliveryUntil'', Str (toiso (fp_value s ''last_delivery_until''))),
     (''sort'', Str (fp_value s ''sort'')), (''order'', Str (fp_value s ''order'')),
     (''page'', JNat (fp_page s)), (''perPage'', JNat (fp_per_page s))]"

definition webhook_text_controls :: "(string \<times> control) list" where
  "webhook_text_controls =
    [(''webhook-list-search'', TextOf ''search''),
     (''webhook-list-search-clear'', ClearOf [''search'']),
     (''webhook-list-event-type-filter'', TextOf ''event_type''),
     (''webhook-list-event-type-filter-clear'', ClearOf [''event_type'']),
     (''webhook-list-url-prefix'', TextOf ''url_prefix''),
     (''webhook-list-url-prefix-clear'', ClearOf [''url_prefix''])]"

definition webhook_pick_controls :: "(string \<times> control) list" where
  "webhook_pick_controls =

     [(''webhook-list-delivery-status'', PickOf ''delivery_status'' [[], ''never'', ''healthy'', ''failing'']),
     (''webhook-list-active'', PickOf ''active'' [[], ''true'', ''false'']),
     (''webhook-list-sort-field'', PickOf ''sort'' [[], ''id'', ''url'', ''created_at'', ''last_delivery_at'', ''delivery_status'', ''active'', ''description'']),
     (''webhook-list-sort-order'', PickOf ''order'' [[], ''asc'', ''desc''])]"

definition webhook_range_controls :: "(string \<times> control) list" where
  "webhook_range_controls =
    [(''webhook-list-since'', ValueOf ''since''), (''webhook-list-until'', ValueOf ''until''),
     (''webhook-list-clear-range'', ClearOf [''since'', ''until'']),
     (''webhook-list-last-delivery-since'', ValueOf ''last_delivery_since''),
     (''webhook-list-last-delivery-until'', ValueOf ''last_delivery_until''),
     (''webhook-list-clear-last-delivery-range'', ClearOf [''last_delivery_since'', ''last_delivery_until''])]"

definition webhook_controls :: "(string \<times> control) list" where
  "webhook_controls = webhook_text_controls @ webhook_pick_controls @ webhook_range_controls"

lemmas webhook_controls_defs = webhook_controls_def webhook_text_controls_def webhook_pick_controls_def
  webhook_range_controls_def

definition webhook_times :: "string list" where
  "webhook_times = [''since'', ''until'', ''last_delivery_since'', ''last_delivery_until'']"

lemma webhook_args_of:
  "\<forall>k\<in>set (map fst webhook_fields). passes webhooks_table (webhook_list_args toiso s) k
     (Str (if k \<in> set webhook_times then toiso (fp_value s k) else fp_value s k))"
  by (simp add: webhook_fields_def webhooks_table_def webhook_list_args_def passes_def arg_of_def webhook_times_def)

interpretation webhook: list_page webhook_conf webhooks_table "webhook_list_args toiso" "\<lambda>k. k"
  "\<lambda>k v. if k \<in> set webhook_times then toiso v else v" for toiso
proof unfold_locales
  show "wf_conf webhook_conf" by (rule wf_webhook_conf)
  fix k s assume "k \<in> set (field_keys webhook_conf)"
  then have "k \<in> set (map fst webhook_fields)" by (simp add: webhook_conf_def field_keys_def)
  then show "carries (jget (build_query webhooks_table (webhook_list_args toiso s)) k)
      (if k \<in> set webhook_times then toiso (fp_value s k) else fp_value s k)"
    using webhook_args_of by (blast intro: passes_carries)
qed

definition webhook_list_request :: "(string \<Rightarrow> string) \<Rightarrow> fpage \<Rightarrow> request" where
  "webhook_list_request toiso s = webhook_request (WebhookList (webhook_list_args toiso s))"

subsection \<open>The list\<close>

definition webhook_ids :: "js list \<Rightarrow> string list" where
  "webhook_ids hooks = map (\<lambda>h. to_str (jget h ''id'')) hooks"

definition webhook_rows_changed :: "js list \<Rightarrow> rows \<Rightarrow> rows" where
  "webhook_rows_changed hooks st = st\<lparr>rw_selected := set_prune (webhook_ids hooks) (rw_selected st)\<rparr>"

definition webhook_toggle_all :: "js list \<Rightarrow> rows \<Rightarrow> rows" where
  "webhook_toggle_all hooks st = st\<lparr>rw_selected := set_toggle_all (webhook_ids hooks) (rw_selected st)\<rparr>"

definition webhook_toggle_one :: "string \<Rightarrow> rows \<Rightarrow> rows" where
  "webhook_toggle_one i st = st\<lparr>rw_selected := set_toggle_one i (rw_selected st)\<rparr>"

definition delete_webhook :: "js \<Rightarrow> bool \<Rightarrow> bool \<Rightarrow> js effect list" where
  "delete_webhook hook yes ok =
     delete_row ''webhooks.delete'' (''Delete webhook for '' @ to_str (jget hook ''url'') @ ''?'')
       (to_str (jget hook ''id'')) yes ok"

definition bulk_delete_webhooks :: "bool \<Rightarrow> js option \<Rightarrow> rows \<Rightarrow> js effect list \<times> rows" where
  "bulk_delete_webhooks yes answer st =
     bulk_delete ''webhooks.bulkDelete''
       (Some (\<lambda>n. ''Delete '' @ nat_str n @ '' webhook'' @ (if n = 1 then [] else ''s'') @ ''?'')) yes answer st"

text \<open>The header of the list: all ticked, some ticked, its text, and whether the delete button is off.\<close>

definition webhook_header :: "js list \<Rightarrow> bool \<Rightarrow> rows \<Rightarrow> bool \<times> bool \<times> string \<times> bool" where
  "webhook_header hooks busy st =
     (let n = length (rw_selected st) in
      (set_all_selected (webhook_ids hooks) (rw_selected st), set_some_selected (webhook_ids hooks) (rw_selected st),
       (if 0 < n then nat_str n @ '' selected'' else ''Select all''), n = 0 \<or> busy))"

definition webhook_empty_title :: "fpage \<Rightarrow> string" where
  "webhook_empty_title s =
     (if fp_value s ''event_type'' \<noteq> [] then ''No webhooks subscribed''
      else if fp_value s ''delivery_status'' \<noteq> [] then ''No webhooks in this delivery state''
      else if fp_value s ''active'' \<noteq> [] then ''No webhooks in this state''
      else if fp_value s ''last_delivery_since'' \<noteq> [] \<or> fp_value s ''last_delivery_until'' \<noteq> [] then ''No deliveries in this window''
      else if fp_value s ''search'' \<noteq> [] then ''No webhooks match your search''
      else ''No webhooks registered'')"

text \<open>Url, description, tags, event types (\<open>None\<close> for all events), last delivery.\<close>

definition webhook_row ::
  "(int \<Rightarrow> int) \<Rightarrow> (int \<Rightarrow> string) \<Rightarrow> js \<Rightarrow> string \<times> string option \<times> string list \<times> string list option \<times> string" where
  "webhook_row tz locale wh =
     (to_str (jget wh ''url''),
      (if truthy (jget wh ''description'') then Some (to_str (jget wh ''description'')) else None),
      map to_str (elems (jget wh ''tags'')),
      (if elems (jget wh ''event_types'') \<noteq> [] then Some (map to_str (elems (jget wh ''event_types''))) else None),
      (if truthy (jget wh ''last_delivery_at'')
       then (case parse_date tz (to_str (jget wh ''last_delivery_at'')) of
               None \<Rightarrow> ''Invalid Date'' | Some ms \<Rightarrow> locale ms)
       else ''never''))"

subsection \<open>Probes\<close>

text \<open>\<open>handleTest\<close>: the result of the last probe of each webhook, and the one being probed.\<close>

record probes =
  pb_results :: js
  pb_testing :: "string option"

definition probe_start :: "string \<Rightarrow> probes \<Rightarrow> js effect list \<times> probes" where
  "probe_start i p = ([Api ''webhooks.test'' [Str i]], p\<lparr>pb_testing := Some i\<rparr>)"

definition probe_done :: "string \<Rightarrow> string + js \<Rightarrow> probes \<Rightarrow> js effect list \<times> probes" where
  "probe_done i answer p =
     (case answer of
        Inr r \<Rightarrow> ([Callback ''refresh'' []], p\<lparr>pb_results := jset i r (pb_results p), pb_testing := None\<rparr>)
      | Inl e \<Rightarrow> ([], p\<lparr>pb_results := jset i (Obj [(''success'', Bool False),
                         (''error'', Str (if e \<noteq> [] then e else ''request failed''))]) (pb_results p),
                       pb_testing := None\<rparr>))"

text \<open>
  \<open>DeliveryStatus\<close>: whether it is shown as healthy, and its text; \<open>None\<close> is the dash. A probe of
  this session wins over what the daemon recorded.
\<close>

definition num_le :: "rat \<Rightarrow> js \<Rightarrow> bool" where
  "num_le r v \<longleftrightarrow> (case v of Num (Fin x) \<Rightarrow> r \<le> x | Num PInf \<Rightarrow> True | _ \<Rightarrow> False)"

definition num_less :: "js \<Rightarrow> rat \<Rightarrow> bool" where
  "num_less v r \<longleftrightarrow> (case v of Num (Fin x) \<Rightarrow> x < r | Num NInf \<Rightarrow> True | _ \<Rightarrow> False)"

definition num_greater :: "js \<Rightarrow> rat \<Rightarrow> bool" where
  "num_greater v r \<longleftrightarrow> (case v of Num (Fin x) \<Rightarrow> r < x | Num PInf \<Rightarrow> True | _ \<Rightarrow> False)"

definition delivery_status :: "js \<Rightarrow> js \<Rightarrow> (bool \<times> string) option" where
  "delivery_status wh probe =
     (let st = jget wh ''last_status''; err = jget wh ''last_error'';
          http = ''HTTP '' @ to_str st; attempt = truthy (jget wh ''last_delivery_at'');
          healthy = (\<not> truthy err \<and> num_le 200 st \<and> num_less st 300)
      in if truthy probe then
           (if truthy (jget probe ''success'') then Some (True, to_str (jget probe ''status_code'') @ '' test ok'')
            else Some (False, to_str (js_or (jget probe ''error'') (Str ''failed''))))
         else if attempt \<and> healthy then Some (True, http)
         else if truthy err then
           Some (False, if num_greater st 0 then http @ '' '' @ em_dash @ '' '' @ to_str err else to_str err)
         else if attempt \<and> num_greater st 0 then Some (False, http)
         else None)"

subsection \<open>Registering\<close>

record hook_form =
  hf_url :: string
  hf_secret :: string
  hf_types :: string
  hf_all :: bool
  hf_active :: bool
  hf_description :: string
  hf_tags :: string
  hf_submitting :: bool
  hf_error :: "string option"

definition hook_form_empty :: hook_form where
  "hook_form_empty =
     \<lparr>hf_url = [], hf_secret = [], hf_types = [], hf_all = False, hf_active = True, hf_description = [],
      hf_tags = [], hf_submitting = False, hf_error = None\<rparr>"

text \<open>The inputs of the two dialogs, by test id: new text, or new state of a check box.\<close>

definition hook_add_input :: "string \<Rightarrow> string \<Rightarrow> hook_form \<Rightarrow> hook_form" where
  "hook_add_input i v f =
     (if i = ''webhook-url-input'' then f\<lparr>hf_url := v\<rparr>
      else if i = ''webhook-secret-input'' then f\<lparr>hf_secret := v\<rparr>
      else if i = ''webhook-event-types-input'' then f\<lparr>hf_types := v\<rparr>
      else if i = ''webhook-description-input'' then f\<lparr>hf_description := v\<rparr>
      else if i = ''webhook-tags-input'' then f\<lparr>hf_tags := v\<rparr>
      else f)"

definition hook_edit_input :: "string \<Rightarrow> string \<Rightarrow> bool \<Rightarrow> hook_form \<Rightarrow> hook_form" where
  "hook_edit_input i v on f =
     (if i = ''edit-webhook-url-input'' then f\<lparr>hf_url := v\<rparr>
      else if i = ''edit-webhook-secret-input'' then f\<lparr>hf_secret := v\<rparr>
      else if i = ''edit-webhook-subscribe-all'' then f\<lparr>hf_all := on\<rparr>
      else if i = ''edit-webhook-event-types-input'' then (if hf_all f then f else f\<lparr>hf_types := v\<rparr>)
      else if i = ''edit-webhook-active-toggle'' then f\<lparr>hf_active := on\<rparr>
      else if i = ''edit-webhook-description-input'' then f\<lparr>hf_description := v\<rparr>
      else if i = ''edit-webhook-tags-input'' then f\<lparr>hf_tags := v\<rparr>
      else f)"

definition hook_create_body :: "hook_form \<Rightarrow> js" where
  "hook_create_body f =
     (let types = parse_tags (hf_types f); tags = parse_tags (hf_tags f) in
      Obj [(''url'', Str (js_trim (hf_url f))), (''secret'', Str (js_trim (hf_secret f))),
           (''event_types'', if types \<noteq> [] then Arr (map Str types) else Undef),
           (''description'', js_or (Str (js_trim (hf_description f))) Undef),
           (''tags'', if tags \<noteq> [] then Arr (map Str tags) else Undef)])"

definition hook_create :: "string option \<Rightarrow> hook_form \<Rightarrow> js effect list \<times> hook_form" where
  "hook_create failure f =
     (let call = Api ''webhooks.create'' [hook_create_body f] in
      case failure of
        None \<Rightarrow> ([call, Callback ''onCreated'' [], Callback ''onClose'' []],
                 f\<lparr>hf_url := [], hf_secret := [], hf_types := [], hf_description := [], hf_tags := [],
                   hf_error := None, hf_submitting := False\<rparr>)
      | Some e \<Rightarrow> ([call], f\<lparr>hf_error := Some (if e \<noteq> [] then e else ''failed to create webhook''),
                            hf_submitting := False\<rparr>))"

subsection \<open>Editing\<close>

definition hook_form_edit :: "js \<Rightarrow> hook_form" where
  "hook_form_edit wh =
     (let text = (\<lambda>k. to_str (js_or (jget wh k) (Str [])));
          list = (\<lambda>k. if elems (jget wh k) \<noteq> [] then js_join '', '' (map to_str (elems (jget wh k))) else [])
      in \<lparr>hf_url = text ''url'', hf_secret = [], hf_types = list ''event_types'',
          hf_all = (elems (jget wh ''event_types'') = []), hf_active = truthy (jget wh ''active''),
          hf_description = text ''description'', hf_tags = list ''tags'', hf_submitting = False, hf_error = None\<rparr>)"

definition put_if :: "bool \<Rightarrow> string \<Rightarrow> js \<Rightarrow> js \<Rightarrow> js" where
  "put_if b k v spec = (if b then jset k v spec else spec)"

definition hook_spec_types :: "js \<Rightarrow> hook_form \<Rightarrow> js \<Rightarrow> js" where
  "hook_spec_types wh f spec =
     (let current = map to_str (elems (js_or (jget wh ''event_types'') (Arr []))); typed = parse_tags (hf_types f) in
      if hf_all f then put_if (current \<noteq> []) ''event_types'' (Arr []) spec
      else put_if (typed \<noteq> current) ''event_types'' (Arr (map Str typed)) spec)"

text \<open>Tags are compared without regard to case and order.\<close>

definition same_tags :: "string list \<Rightarrow> string list \<Rightarrow> bool" where
  "same_tags a b \<longleftrightarrow> sort_strings (map js_lower a) = sort_strings (map js_lower b)"

definition hook_spec_tags :: "js \<Rightarrow> hook_form \<Rightarrow> js \<Rightarrow> js" where
  "hook_spec_tags wh f spec =
     put_if (\<not> same_tags (parse_tags (hf_tags f)) (map to_str (elems (js_or (jget wh ''tags'') (Arr [])))))
       ''tags'' (Arr (map Str (parse_tags (hf_tags f)))) spec"

definition hook_patch :: "js \<Rightarrow> hook_form \<Rightarrow> js" where
  "hook_patch wh f =
     (let u = js_trim (hf_url f); x = js_trim (hf_secret f); d = js_trim (hf_description f) in
      hook_spec_tags wh f
        (put_if (Str d \<noteq> js_or (jget wh ''description'') (Str [])) ''description'' (Str d)
          (put_if (hf_active f \<noteq> truthy (jget wh ''active'')) ''active'' (Bool (hf_active f))
            (hook_spec_types wh f
              (put_if (x \<noteq> []) ''secret'' (Str x)
                (put_if (Str u \<noteq> jget wh ''url'') ''url'' (Str u) (Obj [])))))))"

definition hook_update :: "js \<Rightarrow> string option \<Rightarrow> hook_form \<Rightarrow> js effect list \<times> hook_form" where
  "hook_update wh failure f =
     (let spec = hook_patch wh f; call = Api ''webhooks.update'' [jget wh ''id'', spec] in
      if jkeys spec = [] then ([], f\<lparr>hf_error := Some ''No fields changed.''\<rparr>)
      else case failure of
             None \<Rightarrow> ([call, Callback ''onUpdated'' [], Callback ''onClose'' []],
                      f\<lparr>hf_error := None, hf_submitting := True\<rparr>)
           | Some e \<Rightarrow> ([call], f\<lparr>hf_error := Some (if e \<noteq> [] then e else ''failed to update webhook''),
                                 hf_submitting := False\<rparr>))"

subsection \<open>Facts\<close>

lemma webhook_conf_simps [simp]:
  "field_keys webhook_conf = map fst webhook_fields" "fc_debounced webhook_conf = webhook_debounced"
  "norm_input webhook_conf v = js_trim v" "fc_write webhook_conf k v = v"
  "fc_restore webhook_conf = restore_listed webhook_listed"
  by (simp_all add: field_keys_def webhook_conf_def norm_input_def)

lemma webhook_default: "k \<in> set (map fst webhook_fields) \<Longrightarrow> field_default webhook_conf k = []"
  by (auto simp: field_default_def webhook_conf_def webhook_fields_def)

lemma webhook_text_fields:
  "k \<in> set webhook_debounced \<Longrightarrow> k \<in> set (map fst webhook_fields) \<and> k \<notin> set webhook_times"
  by (auto simp: webhook_debounced_def webhook_fields_def webhook_times_def)

lemma webhook_query:
  "rq_query (webhook_list_request toiso s) = build_query webhooks_table (webhook_list_args toiso s)"
  by (simp add: webhook_list_request_def req_def)

lemma webhook_lost: "lost_options webhook_conf webhook_controls = []"
proof -
  have "lost_options webhook_conf webhook_text_controls = []" by (simp add: webhook_text_controls_def)
  moreover have "lost_options webhook_conf webhook_pick_controls = []"
    by (simp add: webhook_pick_controls_def restore_listed_def webhook_listed_def js_lower_def)
  moreover have "lost_options webhook_conf webhook_range_controls = []" by (simp add: webhook_range_controls_def)
  ultimately show ?thesis by (simp add: webhook_controls_def)
qed

lemma webhook_controls_wf: "controls_wf webhook_conf webhook_controls"
  by (simp add: controls_wf_def webhook_controls_defs webhook_debounced_def)

lemma webhook_listed_blank:
  "\<forall>(k, vs)\<in>set webhook_listed. [] \<in> set vs \<and> map_of webhook_listed k = Some vs"
  by (simp add: webhook_listed_def)

lemma webhook_listed_fields: "set (map fst webhook_listed) \<subseteq> set (map fst webhook_fields)"
  by (simp add: webhook_listed_def webhook_fields_def)

text \<open>
  The webhook list asks for what the operator typed, survives a reload, and no stale link can wedge
  it: free-text filters are sent trimmed once the timers fired; a value that the page accepts is sent
  as before after mounting on the address the page wrote, and every value its controls offer is
  accepted; whatever a link says, the filters with a fixed set of values hold one of these.
\<close>

theorem webhook_view_faithful:
  assumes "page_reach webhook_conf s"
    and t_def: "t = mount_page webhook_conf (usp_of_search (CHR ''?'' # usp_to_string (fp_url s)))"
  shows "(\<forall>k\<in>set webhook_debounced.
            carries (jget (rq_query (webhook_list_request toiso (fire_all webhook_conf s))) k) (js_trim (fp_input s k)))
    \<and> (\<forall>k\<in>set (map fst webhook_fields). restore_listed webhook_listed k (fp_value s k) = fp_value s k \<longrightarrow>
            carries (jget (rq_query (webhook_list_request toiso t)) k)
              (if k \<in> set webhook_times then toiso (fp_value s k) else fp_value s k))
    \<and> controls_wf webhook_conf webhook_controls \<and> lost_options webhook_conf webhook_controls = []
    \<and> (\<forall>(k, vs)\<in>set webhook_listed. fp_value (mount_page webhook_conf ps) k \<in> set vs)"
proof -
  have w: "written webhook_conf s k = fp_value s k" for k by (simp add: written_def)
  have "carries (jget (build_query webhooks_table (webhook_list_args toiso (fire_all webhook_conf s))) k) (js_trim (fp_input s k))"
    if "k \<in> set webhook_debounced" for k
    using webhook.typed_sent(1)[OF assms(1), of k toiso] webhook_text_fields[OF that] that by simp
  moreover have "carries (jget (build_query webhooks_table (webhook_list_args toiso t)) k)
      (if k \<in> set webhook_times then toiso (fp_value s k) else fp_value s k)"
    if "k \<in> set (map fst webhook_fields)" "restore_listed webhook_listed k (fp_value s k) = fp_value s k" for k
  proof -
    have "(if fp_value s k = [] then field_default webhook_conf k else fp_value s k) = fp_value s k"
      using webhook_default[OF that(1)] by simp
    note e = this
    have "k \<in> set (field_keys webhook_conf)" using that(1) by simp
    from webhook.reload_sends[OF assms(1) this, of toiso, folded t_def] show ?thesis
      unfolding w e webhook_conf_simps(5) that(2) .
  qed
  moreover have "fp_value (mount_page webhook_conf ps) k \<in> set vs" if "(k, vs) \<in> set webhook_listed" for k vs
  proof -
    have "k \<in> set (field_keys webhook_conf)" using that webhook_listed_fields by force
    then show ?thesis
      using webhook_listed_blank that by (auto simp: webhook.mount_value restore_listed_in)
  qed
  ultimately show ?thesis unfolding webhook_query using webhook_lost webhook_controls_wf by blast
qed

theorem webhook_view_faithful_witness:
  "carries (jget (rq_query (webhook_list_request (datetime_local_to_iso (\<lambda>_. 0)) (fire_all webhook_conf
      (type_input webhook_conf ''url_prefix'' '' http '' (mount_page webhook_conf []))))) ''url_prefix'') ''http''"
proof -
  have k: "''url_prefix'' \<in> set webhook_debounced" by (simp add: webhook_debounced_def)
  have r: "page_reach webhook_conf (type_input webhook_conf ''url_prefix'' '' http '' (mount_page webhook_conf []))"
    using k by (intro pr_type pr_mount) simp
  have "js_trim '' http '' = ''http''" by (simp add: js_trim_def trim_start_def is_ws_def)
  then show ?thesis using webhook_view_faithful[OF r refl] k by fastforce
qed

text \<open>Two tag lists are the same exactly when they hold the same tags, case aside, equally often.\<close>

lemma mset_sort_strings: "mset (sort_strings xs) = mset xs"
proof -
  have "mset (insert_str x ys) = add_mset x (mset ys)" for x ys by (induction ys) auto
  then show ?thesis unfolding sort_strings_def by (induction xs) auto
qed

lemma str_le_antisym: "str_le a b \<Longrightarrow> str_le b a \<Longrightarrow> a = b"
  by (induction a b rule: str_le.induct) (auto split: if_splits elim: str_le.elims)

lemma sorted_strings_unique:
  "sorted_wrt str_le xs \<Longrightarrow> sorted_wrt str_le ys \<Longrightarrow> mset xs = mset ys \<Longrightarrow> xs = ys"
proof (induction xs arbitrary: ys)
  case (Cons x xs)
  from Cons.prems(3) have "ys \<noteq> []" by auto
  then obtain y zs where y: "ys = y # zs" by (cases ys) auto
  have s: "set (x # xs) = set ys" using Cons.prems(3) by (rule mset_eq_setD)
  have "str_le x y" if "x \<noteq> y" using s y that Cons.prems(1) by auto
  moreover have "str_le y x" if "x \<noteq> y" using s y that Cons.prems(2) by auto
  ultimately have "x = y" using str_le_antisym by blast
  with Cons y show ?case by simp
qed simp

lemma same_tags_mset: "same_tags a b \<longleftrightarrow> mset (map js_lower a) = mset (map js_lower b)"
  unfolding same_tags_def
  by (metis mset_sort_strings sorted_sort_strings sorted_strings_unique)

definition stored_hook :: "js \<Rightarrow> string \<Rightarrow> string \<Rightarrow> string list \<Rightarrow> string list \<Rightarrow> bool \<Rightarrow> bool" where
  "stored_hook wh u d types tags on \<longleftrightarrow>
     jget wh ''url'' = Str u \<and> u \<noteq> [] \<and> js_trim u = u
     \<and> jget wh ''description'' = (if d = [] then Undef else Str d) \<and> js_trim d = d
     \<and> jget wh ''event_types'' = (if types = [] then Undef else Arr (map Str types)) \<and> (\<forall>t\<in>set types. clean_tag t)
     \<and> jget wh ''tags'' = (if tags = [] then Undef else Arr (map Str tags)) \<and> (\<forall>t\<in>set tags. clean_tag t)
     \<and> jget wh ''active'' = Bool on"

definition is_patch :: "js \<Rightarrow> bool" where
  "is_patch spec \<longleftrightarrow> (case spec of Obj _ \<Rightarrow> True | _ \<Rightarrow> False)"

lemma put_if_get [simp]: "jget (put_if b k v (Obj ps)) k' = (if b \<and> k' = k then v else assoc_get k' ps)"
  by (simp add: put_if_def)

lemma put_if_props [simp]: "props (put_if b k v spec) = (if b then assoc_set k v (props spec) else props spec)"
  by (simp add: put_if_def)

text \<open>On a patch built up key by key, one layer at a time.\<close>

lemma put_if_layer:
  "is_patch spec \<Longrightarrow> jget (put_if b k v spec) k' = (if b \<and> k' = k then v else jget spec k')"
  by (cases spec) (simp_all add: put_if_def is_patch_def)

lemma is_patch_put_if [simp]: "is_patch (Obj ps)" "is_patch spec \<Longrightarrow> is_patch (put_if b k v spec)"
  by (simp_all add: is_patch_def put_if_def jset_def)

text \<open>
  C16 Editing a webhook sends exactly what was changed: url, secret (when one was typed), description
  and active flag, each with the new value when it differs; the event types when the list differs,
  or empty to subscribe to everything; the tags when they differ beyond order and case. A form that was
  only opened sends nothing and says that nothing changed.
\<close>

theorem hook_patch_exact:
  assumes "stored_hook wh u d types tags on"
    and p_def: "p = hook_patch wh f"
  shows "jget p ''url'' = (if js_trim (hf_url f) = u then Undef else Str (js_trim (hf_url f)))
    \<and> jget p ''secret'' = (if js_trim (hf_secret f) = [] then Undef else Str (js_trim (hf_secret f)))
    \<and> jget p ''event_types'' =
        (if hf_all f then (if types = [] then Undef else Arr [])
         else if parse_tags (hf_types f) = types then Undef else Arr (map Str (parse_tags (hf_types f))))
    \<and> jget p ''active'' = (if hf_active f = on then Undef else Bool (hf_active f))
    \<and> jget p ''description'' = (if js_trim (hf_description f) = d then Undef else Str (js_trim (hf_description f)))
    \<and> jget p ''tags'' = (if mset (map js_lower (parse_tags (hf_tags f))) = mset (map js_lower tags) then Undef
                         else Arr (map Str (parse_tags (hf_tags f))))
    \<and> hook_update wh failure (hook_form_edit wh) = ([], (hook_form_edit wh)\<lparr>hf_error := Some ''No fields changed.''\<rparr>)"
proof -
  have u: "jget wh ''url'' = Str u" and d: "js_or (jget wh ''description'') (Str []) = Str d"
    and on: "truthy (jget wh ''active'') = on"
    and ty: "map to_str (elems (js_or (jget wh ''event_types'') (Arr []))) = types"
      "map to_str (elems (jget wh ''event_types'')) = types" "elems (jget wh ''event_types'') = [] \<longleftrightarrow> types = []"
    and tg: "map to_str (elems (js_or (jget wh ''tags'') (Arr []))) = tags"
      "map to_str (elems (jget wh ''tags'')) = tags" "elems (jget wh ''tags'') = [] \<longleftrightarrow> tags = []"
    and tr: "js_trim u = u" "js_trim d = d" "u \<noteq> []"
    and cl: "\<forall>t\<in>set types. clean_tag t" "\<forall>t\<in>set tags. clean_tag t"
    using assms(1) by (auto simp: stored_hook_def js_or_def comp_def)
  note p = hook_patch_def[of wh, unfolded hook_spec_tags_def hook_spec_types_def u d on ty tg Let_def js.inject]
  have e: "hf_url (hook_form_edit wh) = u" "hf_description (hook_form_edit wh) = d"
    "hf_types (hook_form_edit wh) = js_join '', '' types" "hf_all (hook_form_edit wh) = (types = [])"
    "hf_active (hook_form_edit wh) = on" "hf_tags (hook_form_edit wh) = js_join '', '' tags"
    "hf_secret (hook_form_edit wh) = []"
    using u d on ty tg tr by (auto simp: hook_form_edit_def Let_def js_or_def)
  have "hook_patch wh (hook_form_edit wh) = Obj []"
    by (simp add: p e tr cl parse_tags_join_comma_space same_tags_def put_if_def)
  then have "hook_update wh failure (hook_form_edit wh) = ([], (hook_form_edit wh)\<lparr>hf_error := Some ''No fields changed.''\<rparr>)"
    by (simp add: hook_update_def Let_def jkeys_def)
  moreover have "jget p k =
      (if k = ''tags'' \<and> mset (map js_lower (parse_tags (hf_tags f))) \<noteq> mset (map js_lower tags)
       then Arr (map Str (parse_tags (hf_tags f)))
       else if k = ''description'' \<and> js_trim (hf_description f) \<noteq> d then Str (js_trim (hf_description f))
       else if k = ''active'' \<and> hf_active f \<noteq> on then Bool (hf_active f)
       else if k = ''event_types'' \<and> hf_all f \<and> types \<noteq> [] then Arr []
       else if k = ''event_types'' \<and> \<not> hf_all f \<and> parse_tags (hf_types f) \<noteq> types then Arr (map Str (parse_tags (hf_types f)))
       else if k = ''secret'' \<and> js_trim (hf_secret f) \<noteq> [] then Str (js_trim (hf_secret f))
       else if k = ''url'' \<and> js_trim (hf_url f) \<noteq> u then Str (js_trim (hf_url f)) else Undef)" for k
    unfolding p_def p same_tags_mset by (simp add: put_if_layer)
  ultimately show ?thesis by simp
qed

theorem hook_patch_exact_witness:
  "jget (hook_patch (Obj [(''url'', Str ''https://a''), (''tags'', Arr [Str ''b'', Str ''a'']), (''active'', Bool True)])
     (hook_form_empty\<lparr>hf_url := ''https://a'', hf_all := True, hf_tags := ''A, b''\<rparr>)) ''tags'' = Undef"
proof -
  let ?wh = "Obj [(''url'', Str ''https://a''), (''tags'', Arr [Str ''b'', Str ''a'']), (''active'', Bool True)]"
  have st: "stored_hook ?wh ''https://a'' [] [] [''b'', ''a''] True"
    by (simp add: stored_hook_def clean_tag_def js_trim_def trim_start_def is_ws_def)
  have t: "parse_tags ''A, b'' = [''A'', ''b'']" by (simp add: parse_tags_def js_trim_def trim_start_def is_ws_def)
  have "mset (map js_lower (parse_tags ''A, b'')) = mset (map js_lower [''b'', ''a''])"
    by (simp add: t js_lower_def)
  then show ?thesis using hook_patch_exact[OF st refl, of "hook_form_empty\<lparr>hf_url := ''https://a'', hf_all := True, hf_tags := ''A, b''\<rparr>"]
    by simp
qed

text \<open>
  A probe decides what its row shows and nothing else: when the answer of a probe arrives, failed
  request included, the row of that webhook shows the probe's outcome whatever the daemon had recorded,
  the probes of all other webhooks stay as they were, and the button is released.
\<close>

theorem probe_shown:
  assumes "\<forall>r. answer = Inr r \<longrightarrow> truthy r"
    and p_def: "p = snd (probe_done i answer q)"
  shows "delivery_status wh (jget (pb_results p) i) =
      Some (case answer of
              Inl e \<Rightarrow> (False, if e = [] then ''request failed'' else e)
            | Inr r \<Rightarrow> if truthy (jget r ''success'') then (True, to_str (jget r ''status_code'') @ '' test ok'')
                      else (False, to_str (js_or (jget r ''error'') (Str ''failed''))))
    \<and> (\<forall>j. j \<noteq> i \<longrightarrow> jget (pb_results p) j = assoc_get j (props (pb_results q)))
    \<and> pb_testing p = None"
proof (cases answer)
  case (Inl e)
  then show ?thesis by (simp add: p_def probe_done_def delivery_status_def Let_def js_or_def)
next
  case (Inr r)
  then show ?thesis using assms(1) by (simp add: p_def probe_done_def delivery_status_def Let_def)
qed

theorem probe_shown_witness:
  "delivery_status (Obj [(''last_status'', JNat 200), (''last_delivery_at'', Str ''t'')])
     (jget (pb_results (snd (probe_done ''w'' (Inl []) \<lparr>pb_results = Obj [], pb_testing = Some ''w''\<rparr>))) ''w'')
   = Some (False, ''request failed'')"
  using probe_shown[of "Inl []" _ "''w''" "\<lparr>pb_results = Obj [], pb_testing = Some ''w''\<rparr>"
      "Obj [(''last_status'', JNat 200), (''last_delivery_at'', Str ''t'')]"] by simp

end
