(* ===== verification/PolledPages.thy ===== *)
theory PolledPages imports PolledPage FilterPanels SchedulesPage SettingsPage begin

text \<open>
  The five pages that poll through \<open>useFetch\<close> (machines, images, templates, schedules, webhooks) as
  instances of \<open>polled_page\<close>: the dependencies that each hands to \<open>useFetch\<close>, and the theorem that
  each shows what its filters ask for. The machine list is refreshed by the event stream besides.
\<close>

text \<open>The values a request depends on, page and page size apart.\<close>

definition dep_values :: "(string \<Rightarrow> string \<Rightarrow> string) \<Rightarrow> string list \<Rightarrow> fpage \<Rightarrow> string list \<times> nat \<times> nat" where
  "dep_values sent ks p = (map (\<lambda>k. sent k (fp_value p k)) ks, fp_page p, fp_per_page p)"

definition vm_deps :: "string list" where
  "vm_deps =
    [''tag'', ''search'', ''image'', ''default_user'', ''os_type'', ''os_variant'',
     ''firmware'', ''disk_bus'', ''nic_model'', ''machine'', ''clock_offset'', ''gpu'',
     ''network'', ''prefix'', ''nat_static_ip'', ''nat_gateway'', ''ip'', ''auto_start'',
     ''locked'', ''since'', ''until'', ''min_cpus'', ''max_cpus'', ''min_ram_mb'',
     ''max_ram_mb'', ''min_disk_gb'', ''max_disk_gb'', ''sort'', ''order'']"

definition vm_pc :: "(string \<Rightarrow> string) \<Rightarrow> pconf" where
  "vm_pc toiso =
     \<lparr>pc_conf = vm_conf toiso, pc_announces = False, pc_pausable = False, pc_ask = vm_list_request toiso,
      pc_deps = dep_values (fc_dep (vm_conf toiso)) vm_deps, pc_conv = (\<lambda>k v. v)\<rparr>"

interpretation vm_page: polled_page "vm_pc toiso" for toiso
proof unfold_locales
  show "wf_conf (pc_conf (vm_pc toiso))" by (simp add: vm_pc_def wf_vm_conf)
  show "pc_deps (vm_pc toiso) p = pc_deps (vm_pc toiso) p' \<Longrightarrow> pc_ask (vm_pc toiso) p = pc_ask (vm_pc toiso) p'"
    for p p' by (simp add: vm_pc_def dep_values_def vm_deps_def vm_list_request_def vm_list_args_def vm_conf_def)
qed

definition image_deps :: "string list" where
  "image_deps =
    [''tag'', ''source_vm'', ''search'', ''prefix'', ''since'', ''until'', ''min_size'',
     ''max_size'', ''sort'', ''order'']"

definition image_pc :: "pconf" where
  "image_pc =
     \<lparr>pc_conf = image_conf, pc_announces = False, pc_pausable = False, pc_ask = image_list_request,
      pc_deps = dep_values (\<lambda>k v. v) image_deps, pc_conv = image_conv\<rparr>"

interpretation image_page: polled_page "image_pc"
proof unfold_locales
  show "wf_conf (pc_conf (image_pc))" by (simp add: image_pc_def wf_image_conf)
  show "pc_deps (image_pc) p = pc_deps (image_pc) p' \<Longrightarrow> pc_ask (image_pc) p = pc_ask (image_pc) p'"
    for p p' by (simp add: image_pc_def dep_values_def image_deps_def image_list_request_def image_list_args_def )
qed

definition template_deps :: "string list" where
  "template_deps =
    [''tag'', ''search'', ''image'', ''default_user'', ''os_type'', ''os_variant'', ''network'',
     ''prefix'', ''since'', ''until'', ''min_cpus'', ''max_cpus'', ''min_ram_mb'',
     ''max_ram_mb'', ''min_disk_gb'', ''max_disk_gb'', ''sort'', ''order'']"

definition template_pc :: "(string \<Rightarrow> string) \<Rightarrow> pconf" where
  "template_pc toiso =
     \<lparr>pc_conf = template_conf toiso, pc_announces = False, pc_pausable = False, pc_ask = template_list_request toiso,
      pc_deps = dep_values (fc_dep (template_conf toiso)) template_deps, pc_conv = (\<lambda>k v. v)\<rparr>"

interpretation template_page: polled_page "template_pc toiso" for toiso
proof unfold_locales
  show "wf_conf (pc_conf (template_pc toiso))" by (simp add: template_pc_def wf_template_conf)
  show "pc_deps (template_pc toiso) p = pc_deps (template_pc toiso) p' \<Longrightarrow> pc_ask (template_pc toiso) p = pc_ask (template_pc toiso) p'"
    for p p' by (simp add: template_pc_def dep_values_def template_deps_def template_list_request_def template_list_args_def template_conf_def)
qed

definition schedule_deps :: "string list" where
  "schedule_deps =
    [''search'', ''tag_selector'', ''action'', ''catch_up_policy'', ''timezone'', ''enabled'',
     ''since'', ''until'', ''next_fire_since'', ''next_fire_until'', ''last_fired_since'',
     ''last_fired_until'', ''prefix'', ''sort'', ''order'']"

definition schedule_pc :: "(string \<Rightarrow> string) \<Rightarrow> pconf" where
  "schedule_pc toiso =
     \<lparr>pc_conf = schedule_conf toiso, pc_announces = False, pc_pausable = False, pc_ask = schedule_list_request toiso,
      pc_deps = dep_values (fc_dep (schedule_conf toiso)) schedule_deps, pc_conv = (\<lambda>k v. v)\<rparr>"

interpretation schedule_page: polled_page "schedule_pc toiso" for toiso
proof unfold_locales
  show "wf_conf (pc_conf (schedule_pc toiso))" by (simp add: schedule_pc_def wf_schedule_conf)
  show "pc_deps (schedule_pc toiso) p = pc_deps (schedule_pc toiso) p' \<Longrightarrow> pc_ask (schedule_pc toiso) p = pc_ask (schedule_pc toiso) p'"
    for p p' by (simp add: schedule_pc_def dep_values_def schedule_deps_def schedule_list_request_def schedule_list_args_def schedule_conf_def)
qed

definition webhook_deps :: "string list" where
  "webhook_deps =
    [''search'', ''event_type'', ''delivery_status'', ''active'', ''url_prefix'', ''since'',
     ''until'', ''last_delivery_since'', ''last_delivery_until'', ''sort'', ''order'']"

definition webhook_pc :: "(string \<Rightarrow> string) \<Rightarrow> pconf" where
  "webhook_pc toiso =
     \<lparr>pc_conf = webhook_conf, pc_announces = False, pc_pausable = False, pc_ask = webhook_list_request toiso,
      pc_deps = dep_values (\<lambda>k v. if k \<in> set webhook_times then toiso v else v) webhook_deps, pc_conv = (\<lambda>k v. v)\<rparr>"

interpretation webhook_page: polled_page "webhook_pc toiso" for toiso
proof unfold_locales
  show "wf_conf (pc_conf (webhook_pc toiso))" by (simp add: webhook_pc_def wf_webhook_conf)
  show "pc_deps (webhook_pc toiso) p = pc_deps (webhook_pc toiso) p' \<Longrightarrow> pc_ask (webhook_pc toiso) p = pc_ask (webhook_pc toiso) p'"
    for p p' by (simp add: webhook_pc_def dep_values_def webhook_deps_def webhook_list_request_def webhook_list_args_def webhook_times_def)
qed

text \<open>
  The pages follow their filters: what is asked for, what the typed filters hold, what the address says
  of each filter (the picked tag is not mirrored) and of the paging, and what is shown. The rows clause
  comes twice: for answers that arrive in the order of their requests, and, as \<open>useFetch\<close> does not
  number its requests, for answers in any order (a late answer to an old request can be on the page
  until the next poll: \<open>fetch_stale\<close>).
\<close>

definition follows_filters :: "pconf \<Rightarrow> bool \<Rightarrow> (request \<Rightarrow> string + js) \<Rightarrow> polled \<Rightarrow> bool" where
  "follows_filters pc ordered srv s \<longleftrightarrow>
     ld_query (po_loader s) = Some (pc_ask pc (po_page s))
     \<and> (\<forall>k\<in>set (fc_debounced (pc_conf pc)). fp_timer (po_page s) k = None \<longrightarrow>
          fp_value (po_page s) k = js_trim (fp_input (po_page s) k))
     \<and> (\<forall>k\<in>set (fc_reset (pc_conf pc)). k \<noteq> ''tag'' \<longrightarrow>
          usp_get k (fp_url (po_page s)) =
            (let v = written (pc_conf pc) (po_page s) k
             in if v \<noteq> [] \<and> v \<noteq> field_default (pc_conf pc) k then Some v else None))
     \<and> (fc_paged (pc_conf pc) \<longrightarrow>
          usp_get ''page'' (fp_url (po_page s))
            = (if 1 < fp_page (po_page s) then Some (nat_str (fp_page (po_page s))) else None)
        \<and> usp_get ''per_page'' (fp_url (po_page s))
            = (if fp_per_page (po_page s) \<noteq> 25 then Some (nat_str (fp_per_page (po_page s))) else None))
     \<and> (ordered \<and> ld_flight (po_loader s) = [] \<longrightarrow>
          displays srv (pc_ask pc (po_page s)) (po_loader s) \<and> \<not> ld_loading (po_loader s))
     \<and> po_recovers pc srv s"

context polled_page
begin

lemma follows_all:
  assumes "polled_reach pc ordered srv s" "\<not> pc_pausable pc" "fc_trims (pc_conf pc)"
    "set (fc_reset (pc_conf pc)) \<subseteq> insert ''tag'' (set (field_keys (pc_conf pc)))"
    "fc_prefix (pc_conf pc) = []" "fc_per_page (pc_conf pc) = 25"
  shows "follows_filters pc ordered srv s"
proof -
  have "k \<in> set (field_keys (pc_conf pc))" if "k \<in> set (fc_reset (pc_conf pc))" "k \<noteq> ''tag''" for k
    using that assms(4) by blast
  then show ?thesis unfolding follows_filters_def
    using follows[OF assms(1) never_paused[OF assms(1,2)]] committed[OF assms(1)] assms(3)
      address[OF assms(1)] page_address[OF assms(1)] recovers[OF assms(1) never_paused[OF assms(1,2)]] assms(5,6)
    by (simp add: norm_input_def page_key_def per_page_key_def)
qed

end



end
