(* ===== verification/LogsPage.thy ===== *)
theory LogsPage imports PolledPage Shared DateTime begin

text \<open>
  \<open>web/src/pages/LogViewer.jsx\<close>: the filters of the log and their controls, the polled request that
  follows them and can be paused, the level filter on what is shown, scrolling and the rows. \<open>toiso\<close>
  stands for \<open>datetimeLocalToISO\<close> in the browser's time zone, \<open>clock\<close> for \<open>toLocaleTimeString\<close>.
\<close>

subsection \<open>Filters\<close>

definition log_listed :: "(string \<times> string list) list" where
  "log_listed =
    [(''sort'', [''timestamp'', ''level'', ''source'']), (''order'', [''asc'', ''desc''])]"

definition exact_listed :: "(string \<times> string list) list \<Rightarrow> string \<Rightarrow> string \<Rightarrow> string" where
  "exact_listed listed k v =
     (case map_of listed k of None \<Rightarrow> v | Some vs \<Rightarrow> if v \<in> set vs then v else [])"

definition log_fields :: "(string \<times> string) list" where
  "log_fields =
    [(''search'', []), (''vm_id'', []), (''since'', []), (''until'', []), (''sort'', []),
     (''order'', [])]"

definition log_debounced :: "string list" where
  "log_debounced =
    [''search'', ''vm_id'']"

definition log_reset :: "string list" where
  "log_reset =
    [''level'', ''source'', ''vm_id'', ''search'', ''since'', ''until'', ''sort'', ''order'']"

definition log_clear_inputs :: "string list" where
  "log_clear_inputs =
    [''vm_id'']"

definition log_clear_values :: "string list" where
  "log_clear_values =
    [''since'', ''until'']"

definition log_counted :: "string list" where
  "log_counted =
    [''vm_id'', ''since'', ''until'']"

definition log_conf :: "fconf" where
  "log_conf =
     \<lparr>fc_fields = log_fields, fc_start = (\<lambda>k. if k = ''level'' then ''debug'' else []), fc_fresh = False,
      fc_debounced = log_debounced, fc_trims = True, fc_lazy = False,
      fc_write = (\<lambda>k v. v), fc_restore = exact_listed log_listed, fc_reset = log_reset,
      fc_dep = (\<lambda>k v. v),
      fc_paged = False, fc_prefix = [], fc_per_page = 100, fc_clear_inputs = log_clear_inputs,
      fc_clear_values = log_clear_values, fc_counted = log_counted\<rparr>"

lemma wf_log_conf: "wf_conf log_conf"
  by (simp add: wf_conf_def page_key_def per_page_key_def log_conf_def field_keys_def log_fields_def log_debounced_def
      log_clear_inputs_def log_clear_values_def)

definition log_list_args :: "(string \<Rightarrow> string) \<Rightarrow> fpage \<Rightarrow> js" where
  "log_list_args toiso s = Obj
    [(''level'', Str (fp_value s ''level'')), (''page'', JNat (fp_page s)),
     (''perPage'', JNat (fp_per_page s)), (''source'', Str (fp_value s ''source'')),
     (''vmId'', Str (fp_value s ''vm_id'')), (''search'', Str (fp_value s ''search'')),
     (''since'', Str (toiso (fp_value s ''since''))),
     (''until'', Str (toiso (fp_value s ''until''))), (''sort'', Str (fp_value s ''sort'')),
     (''order'', Str (fp_value s ''order''))]"

definition log_header_controls :: "(string \<times> control) list" where
  "log_header_controls =
    [(''log-source-filter'', PickOf ''source'' [[], ''cli'', ''api'', ''daemon'']),
     (''log-level-filter'', PickOf ''level'' [''debug'', ''info'', ''warn'', ''error'']),
     (''log-sort-field'', PickOf ''sort'' [[], ''timestamp'', ''level'', ''source'', ''vm_id'']),
     (''log-sort-order'', PickOf ''order'' [[], ''asc'', ''desc''])]"

definition log_search_controls :: "(string \<times> control) list" where
  "log_search_controls =
    [(''log-search'', TextOf ''search''), (''log-search-clear'', ClearOf [''search''])]"

definition log_filter_controls :: "(string \<times> control) list" where
  "log_filter_controls =
    [(''log-vm-id-filter'', TextOf ''vm_id''),
     (''log-vm-id-filter-clear'', ClearOf [''vm_id'']),
     (''log-since-filter'', ValueOf ''since''), (''log-until-filter'', ValueOf ''until''),
     (''log-time-range-clear'', ClearOf [''since'', ''until''])]"

definition log_controls :: "(string \<times> control) list" where
  "log_controls = log_header_controls @ log_search_controls @ log_filter_controls"

lemmas log_controls_defs = log_controls_def log_header_controls_def log_search_controls_def
  log_filter_controls_def

text \<open>
  On mounting, the four effects that mirror the filters all start from the address of the first
  render, so that the last one wins: it writes sort and order only.
\<close>

definition log_mount :: "params \<Rightarrow> fpage" where
  "log_mount ps =
     (let s = mount_page log_conf ps
      in s\<lparr>fp_url := fold (write_field (written log_conf s)) [(''sort'', []), (''order'', [])] ps\<rparr>)"

lemma log_args_of:
  "\<forall>k\<in>set (map fst log_fields). passes logs_table (log_list_args toiso s) k
     (Str (if k = ''since'' \<or> k = ''until'' then toiso (fp_value s k) else fp_value s k))"
  by (simp add: log_fields_def logs_table_def log_list_args_def passes_def arg_of_def)

interpretation log: list_page log_conf logs_table "log_list_args toiso" "\<lambda>k. k"
  "\<lambda>k v. if k = ''since'' \<or> k = ''until'' then toiso v else v" for toiso
proof unfold_locales
  show "wf_conf log_conf" by (rule wf_log_conf)
  fix k s assume "k \<in> set (field_keys log_conf)"
  then have "k \<in> set (map fst log_fields)" by (simp add: log_conf_def field_keys_def)
  then show "carries (jget (build_query logs_table (log_list_args toiso s)) k)
      (if k = ''since'' \<or> k = ''until'' then toiso (fp_value s k) else fp_value s k)"
    using log_args_of by (blast intro: passes_carries)
qed

definition log_list_request :: "(string \<Rightarrow> string) \<Rightarrow> fpage \<Rightarrow> request" where
  "log_list_request toiso s = read_request (LogList (log_list_args toiso s))"

subsection \<open>The page\<close>

record logs = polled +
  lg_auto_scroll :: bool

text \<open>The dependencies of \<open>fetchLogs\<close>, and the page in the terms of \<open>polled_page\<close>.\<close>

definition log_deps :: "fpage \<Rightarrow> string list \<times> nat \<times> nat" where
  "log_deps p =
     (map (fp_value p) [''level'', ''source'', ''vm_id'', ''search'', ''since'', ''until'', ''sort'', ''order''],
      fp_page p, fp_per_page p)"

definition log_pc :: "(string \<Rightarrow> string) \<Rightarrow> pconf" where
  "log_pc toiso =
     \<lparr>pc_conf = log_conf, pc_announces = True, pc_pausable = True, pc_ask = log_list_request toiso,
      pc_deps = log_deps, pc_conv = (\<lambda>k v. v)\<rparr>"

definition log_toggle_pause :: "(string \<Rightarrow> string) \<Rightarrow> logs \<Rightarrow> logs" where
  "log_toggle_pause toiso s = po_toggle_pause (log_pc toiso) s"

interpretation logs: polled_page "log_pc toiso" for toiso
proof unfold_locales
  show "wf_conf (pc_conf (log_pc toiso))" by (simp add: log_pc_def wf_log_conf)
  show "pc_deps (log_pc toiso) p = pc_deps (log_pc toiso) p' \<Longrightarrow> pc_ask (log_pc toiso) p = pc_ask (log_pc toiso) p'"
    for p p' by (simp add: log_pc_def log_deps_def log_list_request_def log_list_args_def)
qed

text \<open>\<open>handleScroll\<close>: pinned to the bottom while less than 40 pixels are left.\<close>

definition log_scroll :: "int \<Rightarrow> int \<Rightarrow> int \<Rightarrow> logs \<Rightarrow> logs" where
  "log_scroll scroll_top scroll_height client_height s =
     s\<lparr>lg_auto_scroll := (scroll_height - scroll_top - client_height < 40)\<rparr>"

definition log_latest :: "logs \<Rightarrow> logs" where
  "log_latest s = s\<lparr>lg_auto_scroll := True\<rparr>"

text \<open>Where the effect that follows new entries puts the scroll position; \<open>None\<close> leaves it.\<close>

definition log_follow :: "int \<Rightarrow> logs \<Rightarrow> int option" where
  "log_follow scroll_height s = (if lg_auto_scroll s then Some scroll_height else None)"

subsection \<open>Entries\<close>

definition log_entries :: "js \<Rightarrow> js list" where
  "log_entries response = elems (js_or (jget (jget response ''data'') ''entries'') (Arr []))"

definition log_total :: "js \<Rightarrow> js" where
  "log_total response =
     js_coalesce (jget (jget response ''meta'') ''totalCount'')
       (js_coalesce (jget (jget response ''data'') ''total'') (JNat (length (log_entries response))))"

definition level_order :: "string \<Rightarrow> nat option" where
  "level_order l = map_of [(''debug'', 0), (''info'', 1), (''warn'', 2), (''error'', 3)] l"

definition log_visible :: "string \<Rightarrow> js list \<Rightarrow> js list" where
  "log_visible level entries =
     filter (\<lambda>e. case (level_order (to_str (jget e ''level'')), level_order level) of
                   (Some a, Some b) \<Rightarrow> b \<le> a | _ \<Rightarrow> False) entries"

text \<open>The index of the first shown entry of each source, or of each level.\<close>

definition first_step :: "(nat \<Rightarrow> string) \<Rightarrow> nat \<Rightarrow> (string \<times> nat) list \<Rightarrow> (string \<times> nat) list" where
  "first_step f i m = (if f i \<in> set (map fst m) then m else m @ [(f i, i)])"

definition first_index :: "string \<Rightarrow> js list \<Rightarrow> (string \<times> nat) list" where
  "first_index k es = fold (first_step (\<lambda>i. to_str (jget (es ! i) k))) [0..<length es] []"

definition log_mark :: "string \<Rightarrow> js list \<Rightarrow> nat \<Rightarrow> bool" where
  "log_mark k es i \<longleftrightarrow> map_of (first_index k es) (to_str (jget (es ! i) k)) = Some i"

definition log_empty_text :: "fpage \<Rightarrow> string" where
  "log_empty_text p =
     (if fp_value p ''vm_id'' \<noteq> [] then ''No log entries for VM \"'' @ fp_value p ''vm_id'' @ ''\".''
      else if fp_value p ''search'' \<noteq> [] then ''No log entries match \"'' @ fp_value p ''search'' @ ''\".''
      else if fp_value p ''since'' \<noteq> [] \<or> fp_value p ''until'' \<noteq> [] then ''No log entries in the selected time range.''
      else ''No log entries yet.'')"

definition level_badge :: "string \<Rightarrow> string" where
  "level_badge l =
     (if l = ''error'' then ''badge-error''
      else if l = ''warn'' then ''px-1.5 py-0.5 rounded text-[10px] font-mono font-semibold bg-amber-900/40 text-amber-300 border border-amber-700/30''
      else if l = ''debug'' then ''px-1.5 py-0.5 rounded text-[10px] font-mono font-semibold bg-steel-800/60 text-steel-400 border border-steel-700/30''
      else ''px-1.5 py-0.5 rounded text-[10px] font-mono font-semibold bg-blue-900/40 text-blue-300 border border-blue-700/30'')"

definition source_badge :: "string \<Rightarrow> string" where
  "source_badge src =
     (if src = ''cli'' then ''text-forge-400'' else if src = ''daemon'' then ''text-purple-400'' else ''text-steel-400'')"

definition log_time :: "(int \<Rightarrow> int) \<Rightarrow> (int \<Rightarrow> string) \<Rightarrow> js \<Rightarrow> string" where
  "log_time tz clock v =
     (case parse_date tz (to_str v) of
        None \<Rightarrow> ''Invalid Date.NaN''
      | Some ms \<Rightarrow> clock ms @ ''.'' @ pad_digits 3 (nat (ms mod 1000)))"

definition log_has_fields :: "js \<Rightarrow> bool" where
  "log_has_fields e \<longleftrightarrow> truthy (jget e ''fields'') \<and> jkeys (jget e ''fields'') \<noteq> []"

definition log_row_click :: "js \<Rightarrow> bool \<Rightarrow> bool" where
  "log_row_click e expanded = (if log_has_fields e then \<not> expanded else expanded)"

text \<open>Time, level, source and message of a row with their classes, and its fields when disclosed.\<close>

definition log_row ::
  "(int \<Rightarrow> int) \<Rightarrow> (int \<Rightarrow> string) \<Rightarrow> bool \<Rightarrow> js \<Rightarrow> (string \<times> string) list \<times> (string \<times> string) list option" where
  "log_row tz clock expanded e =
     (let l = to_str (jget e ''level''); src = to_str (jget e ''source'') in
      ([(log_time tz clock (jget e ''ts''), if l = ''error'' then ''bg-red-950/10'' else if l = ''warn'' then ''bg-amber-950/10'' else []),
        (l, level_badge l), (src, source_badge src), (to_str (jget e ''msg''), [])],
       (if expanded \<and> log_has_fields e then Some (map (\<lambda>(k, v). (k, to_str v)) (props (jget e ''fields''))) else None)))"

subsection \<open>Facts\<close>

lemma log_conf_simps [simp]:
  "field_keys log_conf = map fst log_fields" "fc_debounced log_conf = log_debounced"
  "norm_input log_conf v = js_trim v" "fc_write log_conf k v = v"
  "fc_restore log_conf = exact_listed log_listed" "fc_paged log_conf = False" "fc_fresh log_conf = False"
  "fc_fields log_conf = log_fields"
  by (simp_all add: field_keys_def log_conf_def norm_input_def)

lemma log_default: "k \<in> set (map fst log_fields) \<Longrightarrow> field_default log_conf k = []"
  by (auto simp: field_default_def log_conf_def log_fields_def)

text \<open>
  The late mount agrees with the page that the locale describes on every parameter, as long as the
  address has no mirrored parameter with an empty value.
\<close>

lemma log_mount_agrees:
  assumes "\<forall>k\<in>set (map fst log_fields). usp_get k ps \<noteq> Some []"
  shows "usp_get k (fp_url (log_mount ps)) = usp_get k (fp_url (mount_page log_conf ps))"
    and "fp_value (log_mount ps) = fp_value (mount_page log_conf ps)"
proof -
  have ok: "page_ok log_conf (mount_page log_conf ps)" by (rule log.ok_mount)
  have w: "written log_conf (mount_page log_conf ps) k = exact_listed log_listed k (usp_get_or [] k ps)"
    if "k \<in> set (map fst log_fields)" for k
    using that log.mount_value[of k ps] log_default[OF that] by (simp add: written_def)
  have free: "exact_listed log_listed k v = v" if "k \<notin> {''sort'', ''order''}" for k v
    using that by (simp add: exact_listed_def log_listed_def)
  show "usp_get k (fp_url (log_mount ps)) = usp_get k (fp_url (mount_page log_conf ps))"
  proof (cases "k \<in> set (map fst log_fields)")
    case True
    then have g: "usp_get k (fp_url (mount_page log_conf ps)) = url_entry [] (written log_conf (mount_page log_conf ps) k)"
      using ok log_default by (auto simp: page_ok_def synced_def)
    show ?thesis
    proof (cases "k \<in> {''sort'', ''order''}")
      case True
      then show ?thesis unfolding g by (auto simp: log_mount_def Let_def usp_get_write_field)
    next
      case False
      have "usp_get k ps = url_entry [] (usp_get_or [] k ps)"
        using assms True by (auto simp: url_entry_def usp_get_or_def split: option.splits)
      with False show ?thesis unfolding g w[OF True] free[OF False]
        by (auto simp: log_mount_def Let_def usp_get_write_field)
    qed
  next
    case False
    then have "k \<noteq> ''sort''" "k \<noteq> ''order''" by (auto simp: log_fields_def)
    with False show ?thesis
      by (simp add: log_mount_def Let_def usp_get_write_field log.mount_keeps_foreign)
  qed
  show "fp_value (log_mount ps) = fp_value (mount_page log_conf ps)" by (simp add: log_mount_def Let_def)
qed

lemma log_pc_simps [simp]:
  "pc_conf (log_pc toiso) = log_conf" "pc_announces (log_pc toiso) = True"
  "pc_ask (log_pc toiso) = log_list_request toiso" "pc_pausable (log_pc toiso)"
  by (simp_all add: log_pc_def)

definition log_mounted :: "(string \<Rightarrow> string) \<Rightarrow> params \<Rightarrow> logs" where
  "log_mounted toiso ps =
     (let p = mount_page log_conf ps; q = Some (log_list_request toiso p) in
      \<lparr>po_page = p, po_paused = False, po_loader = load_effect True True q (loader_init q), lg_auto_scroll = True\<rparr>)"

lemma log_mounted_reach: "polled_reach (log_pc toiso) ordered srv (log_mounted toiso ps)"
  by (rule pl_mount[of _ ps]) (simp add: po_mounted_def log_mounted_def Let_def)



text \<open>
  Pausing an idle log leaves its spinner turning: nothing is asked for any more, so nothing ever
  comes back to stop it; neither the interval nor a manual refresh changes that.
\<close>

theorem log_pause_spins:
  fixes s :: logs
  assumes "polled_reach (log_pc toiso) ordered srv s" "\<not> po_paused s" "ld_flight (po_loader s) = []"
    and t_def: "t = log_toggle_pause toiso s"
  shows "po_paused t \<and> ld_loading (po_loader t) \<and> ld_flight (po_loader t) = []
    \<and> po_tick t = t \<and> po_refresh t = t"
  using assms
  by (simp add: log_toggle_pause_def po_toggle_pause_def load_effect_def load_def po_query_def po_tick_def
      load_tick_def po_refresh_def)

theorem log_pause_spins_witness:
  "ld_loading (po_loader (log_toggle_pause (\<lambda>v. v) (po_answer (0, log_list_request (\<lambda>v. v) (mount_page log_conf [])) (Inl [])
     (log_mounted (\<lambda>v. v) []))))"
proof -
  let ?q = "log_list_request (\<lambda>v. v) (mount_page log_conf [])"
  let ?s = "log_mounted (\<lambda>v. v) []"
  have f: "ld_flight (po_loader ?s) = [(0, ?q)]" "\<not> po_paused ?s"
    by (simp_all add: log_mounted_def load_effect_def load_flight loader_init_def Let_def)
  have "polled_reach (log_pc (\<lambda>v. v)) True (\<lambda>q. Inl []) (po_answer (0, ?q) ((\<lambda>q. Inl []) (snd (0::nat, ?q))) ?s)"
    by (rule pl_answer[OF log_mounted_reach]) (simp_all add: f)
  then have r: "polled_reach (log_pc (\<lambda>v. v)) True (\<lambda>q. Inl []) (po_answer (0, ?q) (Inl []) ?s)" by simp
  have i: "\<not> po_paused (po_answer (0, ?q) (Inl []) ?s)" "ld_flight (po_loader (po_answer (0, ?q) (Inl []) ?s)) = []"
    by (simp_all add: po_answer_def load_done_def Let_def f)
  from log_pause_spins[OF r i refl] show ?thesis by blast
qed

lemma first_index_snoc:
  assumes m: "\<And>x i. map_of m x = Some i \<longleftrightarrow> i < n \<and> f i = x \<and> (\<forall>j<i. f j \<noteq> x)"
  shows "map_of (first_step f n m) x = Some i
    \<longleftrightarrow> i < Suc n \<and> f i = x \<and> (\<forall>j<i. f j \<noteq> x)"
proof -
  have mem: "map_of m (f n) = None \<longleftrightarrow> (\<forall>j<n. f j \<noteq> f n)"
  proof
    assume none: "map_of m (f n) = None"
    show "\<forall>j<n. f j \<noteq> f n"
    proof (rule ccontr)
      assume "\<not> ?thesis"
      then have ex: "\<exists>j. j < n \<and> f j = f n" by blast
      then obtain j where j: "j < n" "f j = f n" "\<forall>i<j. \<not> (i < n \<and> f i = f n)"
        using exists_least_iff[of "\<lambda>j. j < n \<and> f j = f n"] by blast
      then have "\<forall>i<j. f i \<noteq> f n" by simp
      then have "map_of m (f n) = Some j" using m[of "f n" j] j by blast
      with none show False by simp
    qed
  next
    assume "\<forall>j<n. f j \<noteq> f n"
    then show "map_of m (f n) = None" using m by (cases "map_of m (f n)") blast+
  qed
  show ?thesis
  proof (cases "map_of m (f n)")
    case None
    then have "f n \<notin> set (map fst m)" by (simp only: map_of_eq_None_iff set_map not_False_eq_True)
    moreover have "map_of (m @ [(f n, n)]) x = (if x = f n then Some n else map_of m x)"
      using None by (simp add: map_add_def split: option.splits)
    moreover have "\<forall>j<n. f j \<noteq> f n" using mem None by simp
    ultimately show ?thesis using m[of x i] by (auto simp: less_Suc_eq first_step_def)
  next
    case (Some a)
    then have "f n \<in> set (map fst m)" by (metis map_of_eq_None_iff option.distinct(1) set_map)
    moreover have "\<exists>j<n. f j = f n" using mem Some by auto
    ultimately show ?thesis using m[of x i] by (auto simp: less_Suc_eq first_step_def)
  qed
qed

lemma first_index_upto:
  "map_of (fold (first_step f) [0..<n] []) x = Some i \<longleftrightarrow> i < n \<and> f i = x \<and> (\<forall>j<i. f j \<noteq> x)"
proof (induction n arbitrary: i x)
  case (Suc n)
  have "fold (first_step f) [0..<Suc n] [] = first_step f n (fold (first_step f) [0..<n] [])" by simp
  then show ?case using first_index_snoc[OF Suc.IH] by metis
qed simp

text \<open>
  The log's address restores every control but one sort order: reloading keeps what was typed or
  picked, except that sorting by machine is offered and not accepted from the address; and each source
  and each level is marked at its first row and there only.
\<close>

theorem log_address_restores:
  assumes "page_reach log_conf p" "i < length es"
    and t_def: "t = mount_page log_conf (usp_of_search (CHR ''?'' # usp_to_string (fp_url p)))"
  shows "(\<forall>k\<in>set (map fst log_fields). fp_value t k = exact_listed log_listed k (fp_value p k))
    \<and> controls_wf log_conf log_controls \<and> lost_options log_conf log_controls = [(''sort'', ''vm_id'')]
    \<and> (log_mark f es i \<longleftrightarrow> (\<forall>j<i. to_str (jget (es ! j) f) \<noteq> to_str (jget (es ! i) f)))"
proof -
  have "fp_value t k = exact_listed log_listed k (fp_value p k)" if "k \<in> set (map fst log_fields)" for k
    using log.reload_value[OF log.reach_ok[OF assms(1)], of k] that log_default[OF that]
    by (simp add: t_def written_def)
  moreover have "controls_wf log_conf log_controls"
    by (simp add: controls_wf_def log_controls_defs log_debounced_def)
  moreover have "lost_options log_conf log_controls = [(''sort'', ''vm_id'')]"
    by (simp add: log_controls_defs exact_listed_def log_listed_def)
  moreover have "log_mark f es i \<longleftrightarrow> (\<forall>j<i. to_str (jget (es ! j) f) \<noteq> to_str (jget (es ! i) f))"
    using first_index_upto[of _ "length es"] assms(2) by (simp add: log_mark_def first_index_def)
  ultimately show ?thesis by blast
qed

theorem log_address_restores_witness:
  "log_mark ''source'' [Obj [(''source'', Str ''api'')], Obj [(''source'', Str ''cli'')]] 1"
  using log_address_restores[OF pr_mount, of 1 "[Obj [(''source'', Str ''api'')], Obj [(''source'', Str ''cli'')]]" _ "[]" "''source''"]
  by simp

end
