(* ===== verification/ActivityPage.thy ===== *)
theory ActivityPage imports PolledPage Shared DateTime begin

text \<open>
  \<open>web/src/pages/Activity.jsx\<close>: the event timeline, as a page of its own with filters mirrored in an
  address that it writes anew, or embedded in a machine's page with the machine fixed and no address.
  Its live inputs arm a timer only while they differ from what is committed, and are not trimmed.
  \<open>date\<close> and \<open>clock\<close> stand for \<open>toLocaleDateString\<close> and \<open>toLocaleTimeString\<close>.
\<close>

subsection \<open>Filters\<close>

definition activity_fields :: "(string \<times> string) list" where
  "activity_fields =
    [(''vm_id'', []), (''type'', []), (''source'', []), (''severity'', []),
     (''min_severity'', []), (''actor'', []), (''resource_id'', []), (''type_prefix'', []),
     (''search'', []), (''sort'', []), (''order'', [])]"

definition activity_debounced :: "string list" where
  "activity_debounced =
    [''search'', ''actor'', ''resource_id'', ''type_prefix'']"

definition activity_reset :: "string list" where
  "activity_reset =
    [''vm_id'', ''type'', ''source'', ''severity'', ''min_severity'', ''actor'',
     ''resource_id'', ''type_prefix'', ''search'', ''sort'', ''order'']"

definition activity_clear_inputs :: "string list" where
  "activity_clear_inputs =
    [''actor'', ''resource_id'', ''type_prefix'']"

definition activity_clear_values :: "string list" where
  "activity_clear_values =
    [''vm_id'', ''type'', ''source'', ''severity'', ''min_severity'', ''sort'', ''order'']"

definition activity_counted :: "string list" where
  "activity_counted =
    [''vm_id'', ''type'', ''source'', ''severity'', ''min_severity'', ''actor'',
     ''resource_id'', ''type_prefix'']"

definition activity_conf :: "fconf" where
  "activity_conf =
     \<lparr>fc_fields = activity_fields, fc_start = (\<lambda>k. []), fc_fresh = True,
      fc_debounced = activity_debounced, fc_trims = False, fc_lazy = True,
      fc_write = (\<lambda>k v. v), fc_restore = (\<lambda>k v. v), fc_reset = activity_reset,
      fc_dep = (\<lambda>k v. v),
      fc_paged = False, fc_prefix = [], fc_per_page = 50, fc_clear_inputs = activity_clear_inputs,
      fc_clear_values = activity_clear_values, fc_counted = activity_counted\<rparr>"

lemma wf_activity_conf: "wf_conf activity_conf"
  by (simp add: wf_conf_def page_key_def per_page_key_def activity_conf_def field_keys_def activity_fields_def activity_debounced_def
      activity_clear_inputs_def activity_clear_values_def)

definition activity_list_args :: "fpage \<Rightarrow> js" where
  "activity_list_args s = Obj
    [(''vmId'', Str (fp_value s ''vm_id'')), (''type'', Str (fp_value s ''type'')),
     (''typePrefix'', Str (fp_value s ''type_prefix'')),
     (''source'', Str (fp_value s ''source'')), (''severity'', Str (fp_value s ''severity'')),
     (''minSeverity'', Str (fp_value s ''min_severity'')),
     (''actor'', Str (fp_value s ''actor'')),
     (''resourceId'', Str (fp_value s ''resource_id'')),
     (''search'', Str (fp_value s ''search'')), (''sort'', Str (fp_value s ''sort'')),
     (''order'', Str (fp_value s ''order'')), (''page'', JNat (fp_page s)),
     (''perPage'', JNat (fp_per_page s))]"

definition activity_text_controls :: "(string \<times> control) list" where
  "activity_text_controls =
    [(''activity-filter-search'', TextOf ''search''),
     (''btn-activity-clear-search'', ClearOf [''search'']),
     (''activity-filter-vm'', ValueOf ''vm_id''), (''activity-filter-actor'', TextOf ''actor''),
     (''btn-activity-clear-actor'', ClearOf [''actor'']),
     (''activity-filter-resource-id'', TextOf ''resource_id''),
     (''btn-activity-clear-resource-id'', ClearOf [''resource_id'']),
     (''activity-filter-type-prefix'', TextOf ''type_prefix''),
     (''btn-activity-clear-type-prefix'', ClearOf [''type_prefix''])]"

definition activity_pick_controls :: "string list \<Rightarrow> (string \<times> control) list" where
  "activity_pick_controls types =
    [(''activity-filter-source'', PickOf ''source'' [[], ''libvirt'', ''app'', ''system'']),
     (''activity-filter-severity'', PickOf ''severity'' [[], ''info'', ''warn'', ''error'']),
     (''activity-filter-min-severity'', PickOf ''min_severity'' [[], ''info'', ''warn'', ''error'']),
     (''activity-filter-type'', PickOf ''type'' ([] # types)),
     (''activity-sort-field'', PickOf ''sort'' [[], ''id'', ''occurred_at'', ''type'', ''source'', ''severity'', ''actor'', ''resource_id'', ''vm_id'']),
     (''activity-sort-order'', PickOf ''order'' [[], ''asc'', ''desc''])]"

text \<open>The embedded timeline: the same filters, nothing mirrored, the machine given.\<close>

definition embedded_conf :: "string \<Rightarrow> fconf" where
  "embedded_conf vm =
     activity_conf\<lparr>fc_fields := [], fc_start := (\<lambda>k. if k = ''vm_id'' then vm else [])\<rparr>"

definition activity_conv :: "string \<Rightarrow> string \<Rightarrow> string" where
  "activity_conv k v = (if k = ''vm_id'' \<or> k = ''resource_id'' then js_trim v else v)"

definition activity_controls :: "string list \<Rightarrow> (string \<times> control) list" where
  "activity_controls types = activity_text_controls @ activity_pick_controls types"

text \<open>The order can be picked only while a sort field is.\<close>

definition activity_order_enabled :: "fpage \<Rightarrow> bool" where
  "activity_order_enabled s \<longleftrightarrow> fp_value s ''sort'' \<noteq> []"

lemma activity_args_of:
  "\<forall>k\<in>set (map fst activity_fields). passes events_table (activity_list_args s) k (Str (fp_value s k))"
  by (simp add: activity_fields_def events_table_def activity_list_args_def passes_def arg_of_def)

interpretation activity: list_page activity_conf events_table activity_list_args "\<lambda>k. k" "\<lambda>k v. v"
proof unfold_locales
  show "wf_conf activity_conf" by (rule wf_activity_conf)
  fix k s assume "k \<in> set (field_keys activity_conf)"
  then have "k \<in> set (map fst activity_fields)" by (simp add: activity_conf_def field_keys_def)
  then show "carries (jget (build_query events_table (activity_list_args s)) k) (fp_value s k)"
    using activity_args_of by (blast intro: passes_carries)
qed

definition activity_request :: "fpage \<Rightarrow> request" where
  "activity_request s = read_request (EventList (activity_list_args s))"

subsection \<open>The page\<close>

definition activity_keys :: "string list" where
  "activity_keys = map fst activity_fields"

definition activity_deps :: "fpage \<Rightarrow> string list \<times> nat \<times> nat" where
  "activity_deps p = (map (fp_value p) activity_keys, fp_page p, fp_per_page p)"

definition activity_pc :: pconf where
  "activity_pc =
     \<lparr>pc_conf = activity_conf, pc_announces = True, pc_pausable = False, pc_ask = activity_request,
      pc_deps = activity_deps, pc_conv = activity_conv\<rparr>"

text \<open>Embedded, the machine asked for is the one given, whatever the filter says.\<close>

definition embedded_request :: "string \<Rightarrow> fpage \<Rightarrow> request" where
  "embedded_request vm s = read_request (EventList (jset ''vmId'' (Str vm) (activity_list_args s)))"

definition embedded_pc :: "string \<Rightarrow> pconf" where
  "embedded_pc vm =
     \<lparr>pc_conf = embedded_conf vm, pc_announces = True, pc_pausable = False, pc_ask = embedded_request vm,
      pc_deps = activity_deps, pc_conv = activity_conv\<rparr>"

text \<open>
  The machine's page hands over another machine: the request for it is made at once, on the page the
  timeline was on; then its id becomes the filter, from page 1.
\<close>

definition embedded_switch :: "string \<Rightarrow> polled \<Rightarrow> polled" where
  "embedded_switch vm s =
     (let p = (po_page s)\<lparr>fp_value := (fp_value (po_page s))(''vm_id'' := vm), fp_page := 1\<rparr>;
          l = load_effect True True (Some (embedded_request vm (po_page s))) (po_loader s)
      in s\<lparr>po_page := p,
           po_loader := (if activity_deps p = activity_deps (po_page s) then l
                         else load_effect True True (Some (embedded_request vm p)) l)\<rparr>)"

lemma activity_request_deps: "activity_deps p = activity_deps p' \<Longrightarrow> activity_list_args p = activity_list_args p'"
  by (simp add: activity_deps_def activity_keys_def activity_fields_def activity_list_args_def)

interpretation timeline: polled_page activity_pc
proof unfold_locales
  show "wf_conf (pc_conf activity_pc)" by (simp add: activity_pc_def wf_activity_conf)
  show "pc_deps activity_pc p = pc_deps activity_pc p' \<Longrightarrow> pc_ask activity_pc p = pc_ask activity_pc p'" for p p'
    using activity_request_deps[of p p'] by (simp add: activity_pc_def activity_request_def)
qed

interpretation embedded: polled_page "embedded_pc vm" for vm
proof unfold_locales
  show "wf_conf (pc_conf (embedded_pc vm))"
    using wf_activity_conf by (simp add: embedded_pc_def embedded_conf_def wf_conf_def field_keys_def)
  show "pc_deps (embedded_pc vm) p = pc_deps (embedded_pc vm) p' \<Longrightarrow> pc_ask (embedded_pc vm) p = pc_ask (embedded_pc vm) p'"
    for p p' using activity_request_deps[of p p'] by (simp add: embedded_pc_def embedded_request_def)
qed

subsection \<open>Events\<close>

definition activity_items :: "js \<Rightarrow> js list" where
  "activity_items response = elems (js_or (jget response ''data'') (Arr []))"

definition activity_total :: "js \<Rightarrow> js" where
  "activity_total response =
     js_coalesce (jget (jget response ''meta'') ''totalCount'')
       (js_coalesce (jget (js_or (jget response ''data'') (Arr [])) ''length'') (JInt 0))"

definition distinct_types :: "js list \<Rightarrow> string list" where
  "distinct_types items =
     sort_strings (remdups (map to_str (filter truthy (map (\<lambda>e. jget e ''type'') items))))"

definition activity_subtitle :: "bool \<Rightarrow> js \<Rightarrow> string" where
  "activity_subtitle emb n =
     to_str n @ (if n = JNat 1 then '' event'' else '' events'') @ (if emb then '' for this VM'' else [])"

text \<open>The names of the machines, by id; \<open>None\<close> when the list could not be fetched.\<close>

definition vm_index :: "js option \<Rightarrow> js" where
  "vm_index response =
     (case response of
        None \<Rightarrow> Obj []
      | Some r \<Rightarrow> fold (\<lambda>vm m. jset (to_str (jget vm ''id'')) (jget vm ''name'') m)
                    (elems (js_or (jget r ''data'') (Arr []))) (Obj []))"

definition source_label :: "js \<Rightarrow> string" where
  "source_label src = to_str (js_or src (Str em_dash))"

definition format_event_time ::
  "(int \<Rightarrow> int) \<Rightarrow> (int \<Rightarrow> string) \<Rightarrow> (int \<Rightarrow> string) \<Rightarrow> js \<Rightarrow> string" where
  "format_event_time tz date clock evt =
     (let ts = js_or (jget evt ''occurred_at'') (jget evt ''created_at'') in
      if \<not> truthy ts then em_dash
      else case parse_date tz (to_str ts) of
             None \<Rightarrow> em_dash | Some ms \<Rightarrow> date ms @ '' '' @ clock ms)"

text \<open>\<open>Object.entries(attributes)\<close> by key (\<open>localeCompare\<close> is taken as the order of the texts).\<close>

definition attr_entries :: "js \<Rightarrow> (string \<times> string) list" where
  "attr_entries evt =
     (let ps = (if truthy (jget evt ''attributes'') then props (jget evt ''attributes'') else [])
      in map (\<lambda>k. (k, to_str (assoc_get k ps))) (sort_strings (map fst ps)))"

definition has_details :: "js \<Rightarrow> bool" where
  "has_details evt \<longleftrightarrow> truthy (jget evt ''actor'') \<or> truthy (jget evt ''resource_id'') \<or> attr_entries evt \<noteq> []"

definition activity_row_click :: "js \<Rightarrow> bool \<Rightarrow> bool" where
  "activity_row_click evt expanded = (if has_details evt then \<not> expanded else expanded)"

text \<open>The machine's cell: link target and text, or the dash.\<close>

definition activity_vm_cell :: "js \<Rightarrow> js \<Rightarrow> (string \<times> string) option" where
  "activity_vm_cell index evt =
     (let vm = jget evt ''vm_id'' in
      if truthy vm then Some (''/vms/'' @ to_str vm, to_str (js_or (jget index (to_str vm)) vm)) else None)"

text \<open>What the details show while disclosed: actor, resource, attributes.\<close>

definition activity_details :: "bool \<Rightarrow> js \<Rightarrow> (string option \<times> string option \<times> (string \<times> string) list) option" where
  "activity_details expanded evt =
     (if expanded \<and> has_details evt then
        Some (if truthy (jget evt ''actor'') then Some (to_str (jget evt ''actor'')) else None,
              if truthy (jget evt ''resource_id'') then Some (to_str (jget evt ''resource_id'')) else None,
              attr_entries evt)
      else None)"

subsection \<open>Facts\<close>

lemma activity_conf_simps [simp]:
  "field_keys activity_conf = map fst activity_fields" "fc_debounced activity_conf = activity_debounced"
  "norm_input activity_conf v = v" "fc_write activity_conf k v = v" "fc_restore activity_conf k v = v"
  "fc_fresh activity_conf" "fc_paged activity_conf = False" "fc_lazy activity_conf"
  by (simp_all add: field_keys_def activity_conf_def norm_input_def)

lemma activity_pc_simps [simp]:
  "pc_conf activity_pc = activity_conf" "pc_ask activity_pc = activity_request" "\<not> pc_pausable activity_pc"
  "pc_conf (embedded_pc vm) = embedded_conf vm" "pc_ask (embedded_pc vm) = embedded_request vm"
  "\<not> pc_pausable (embedded_pc vm)"
  by (simp_all add: activity_pc_def embedded_pc_def)

lemma activity_default: "k \<in> set (map fst activity_fields) \<Longrightarrow> field_default activity_conf k = []"
  by (auto simp: field_default_def activity_conf_def activity_fields_def)

lemma activity_controls_wf: "controls_wf activity_conf (activity_controls types)"
  by (simp add: controls_wf_def activity_controls_def activity_text_controls_def activity_pick_controls_def
      activity_debounced_def)

text \<open>
  C20 The timeline's address says exactly what the timeline shows: after anything that can happen on the
  page, the address holds every non-empty filter and no other parameter (whatever parameters the page
  was opened with), mounting on it gives every filter back, and the events asked for are those of these
  filters. When answers arrive in the order of their requests and none is awaited, these are the events
  shown; in whatever order they arrive, the next poll asks for them once more, and the answer to any such
  request under way puts them on the page.
\<close>

theorem activity_address_exact:
  assumes "polled_reach activity_pc ordered srv s"
    and t_def: "t = mount_page activity_conf (usp_of_search (CHR ''?'' # usp_to_string (fp_url (po_page s))))"
  shows "(\<forall>k\<in>set activity_keys. usp_get k (fp_url (po_page s)) =
            (if fp_value (po_page s) k = [] then None else Some (fp_value (po_page s) k))
          \<and> fp_value t k = fp_value (po_page s) k)
    \<and> (\<forall>k. k \<notin> set activity_keys \<longrightarrow> usp_get k (fp_url (po_page s)) = None)
    \<and> ld_query (po_loader s) = Some (activity_request (po_page s))
    \<and> (ordered \<and> ld_flight (po_loader s) = [] \<longrightarrow> displays srv (activity_request (po_page s)) (po_loader s))
    \<and> po_recovers activity_pc srv s"
proof -
  note r = timeline.recovers[OF assms(1) timeline.never_paused[OF assms(1)], simplified]
  have o: "usp_get k (fp_url (po_page s)) = None" if "k \<notin> set activity_keys" for k
    using timeline.fresh_reach[OF timeline.page_reached[OF assms(1)]] that
    by (simp add: own_key_def activity_keys_def)
  note f = timeline.follows[OF assms(1) timeline.never_paused[OF assms(1)], simplified]
  have "usp_get k (fp_url (po_page s)) = (if fp_value (po_page s) k = [] then None else Some (fp_value (po_page s) k))
      \<and> fp_value t k = fp_value (po_page s) k" if "k \<in> set activity_keys" for k
  proof -
    have k: "k \<in> set (map fst activity_fields)" using that by (simp add: activity_keys_def)
    have "usp_get k (fp_url (po_page s)) = url_entry (field_default activity_conf k) (written activity_conf (po_page s) k)"
      using f(1) k by (auto simp: page_ok_def synced_def)
    moreover have "fp_value t k = fp_value (po_page s) k"
      using activity.reload_value[OF f(1), of k] k activity_default[OF k] by (simp add: t_def written_def)
    ultimately show ?thesis unfolding activity_default[OF k] by (simp add: url_entry_def written_def)
  qed
  then show ?thesis using f r o by blast
qed

theorem activity_address_exact_witness:
  "usp_get ''vm_id'' (fp_url (po_page (po_event activity_pc (Use (ValueOf ''vm_id'') '' vm-1'')
      \<lparr>po_page = mount_page (pc_conf activity_pc) [(''open'', ''x'')], po_paused = False,
       po_loader = load_effect (pc_announces activity_pc) True
         (Some (pc_ask activity_pc (mount_page (pc_conf activity_pc) [(''open'', ''x'')])))
         (loader_init (Some (pc_ask activity_pc (mount_page (pc_conf activity_pc) [(''open'', ''x'')]))))\<rparr>)))
   = Some ''vm-1''"
proof -
  let ?ps = "[(''open'', ''x'')]"
  let ?s = "\<lparr>po_page = mount_page (pc_conf activity_pc) ?ps, po_paused = False,
       po_loader = load_effect (pc_announces activity_pc) True (Some (pc_ask activity_pc (mount_page (pc_conf activity_pc) ?ps)))
         (loader_init (Some (pc_ask activity_pc (mount_page (pc_conf activity_pc) ?ps))))\<rparr>"
  let ?e = "Use (ValueOf ''vm_id'') '' vm-1''"
  have k: "event_ok (pc_conf activity_pc) ?e" by (simp add: activity_debounced_def)
  have r: "polled_reach activity_pc True (\<lambda>q. Inl []) (po_event activity_pc ?e ?s)"
    by (rule pl_event[OF pl_mount[OF po_mounted_make] k])
  have v: "fp_value (po_page (po_event activity_pc ?e ?s)) ''vm_id'' = ''vm-1''"
    by (simp add: select_value_def) (simp add: activity_pc_def activity_conv_def js_trim_def trim_start_def is_ws_def)
  have "''vm_id'' \<in> set activity_keys" by (simp add: activity_keys_def activity_fields_def)
  then show ?thesis using activity_address_exact[OF r refl] v by force
qed

text \<open>
  An embedded timeline stays with its machine: whatever is filtered, it asks for the events of the
  machine it was given and never touches the address; handed another machine it asks for that one's
  events, from page 1.
\<close>

theorem embedded_timeline:
  assumes "polled_reach (embedded_pc vm) ordered srv s"
  shows "(\<exists>q. ld_query (po_loader s) = Some q \<and> jget (rq_query q) ''vm_id'' = Str vm)
    \<and> (\<exists>ps. fp_url (po_page s) = fp_url (mount_page (embedded_conf vm) ps))
    \<and> (\<exists>q. ld_query (po_loader (embedded_switch vm' s)) = Some q \<and> jget (rq_query q) ''vm_id'' = Str vm'
          \<and> jget (rq_query q) ''page'' = JNat 1)"
proof -
  have q: "jget (rq_query (embedded_request w p)) ''vm_id'' = Str w"
    "jget (rq_query (embedded_request w p)) ''page'' = JNat (fp_page p)" for w p
    by (simp_all add: embedded_request_def req_def build_query_def events_table_def query_value_def Let_def
        activity_list_args_def)
  have u: "\<exists>ps. fp_url p = fp_url (mount_page (embedded_conf vm) ps)" if "page_reach (embedded_conf vm) p" for p
  proof -
    have w: "\<not> field_changed (embedded_conf vm) x y" for x y
      by (simp add: field_changed_def embedded_conf_def field_keys_def activity_conf_def)
    have st: "fp_url (settle (embedded_conf vm) x y) = fp_url y" for x y
      by (simp add: settle_def w Let_def)
    from that show ?thesis
      by induction (auto simp: fire_timer_def select_value_def set_page_def set_per_page_def clear_filters_def
          clear_keys_def st Let_def split: option.splits)
  qed
  have "polled_ok (embedded_pc vm) ordered srv s" by (rule embedded.polled_reach_ok[OF assms])
  then have "page_reach (embedded_conf vm) (po_page s)"
    "ld_query (po_loader s) = Some (embedded_request vm (po_page s))"
    using embedded.never_paused[OF assms] by (simp_all add: polled_ok_def po_query_def)
  moreover have "\<exists>q. ld_query (po_loader (embedded_switch vm' s)) = Some q \<and> jget (rq_query q) ''vm_id'' = Str vm'
          \<and> jget (rq_query q) ''page'' = JNat 1"
  proof -
    let ?p = "(po_page s)\<lparr>fp_value := (fp_value (po_page s))(''vm_id'' := vm'), fp_page := 1\<rparr>"
    show ?thesis
    proof (cases "activity_deps ?p = activity_deps (po_page s)")
      case True
      then have "fp_page (po_page s) = 1" by (simp add: activity_deps_def)
      moreover have "ld_query (po_loader (embedded_switch vm' s)) = Some (embedded_request vm' (po_page s))"
        using True by (simp add: embedded_switch_def Let_def)
      ultimately show ?thesis using q by metis
    next
      case False
      then have "ld_query (po_loader (embedded_switch vm' s)) = Some (embedded_request vm' ?p)"
        by (simp add: embedded_switch_def Let_def)
      then show ?thesis using q(1)[of vm' ?p] q(2)[of vm' ?p] by auto
    qed
  qed
  ultimately show ?thesis using u q(1) by metis
qed

theorem embedded_timeline_witness:
  "\<exists>q. ld_query (po_loader (embedded_switch ''b'' \<lparr>po_page = mount_page (pc_conf (embedded_pc ''a'')) [], po_paused = False,
       po_loader = load_effect (pc_announces (embedded_pc ''a'')) True (Some (pc_ask (embedded_pc ''a'') (mount_page (pc_conf (embedded_pc ''a'')) [])))
         (loader_init (Some (pc_ask (embedded_pc ''a'') (mount_page (pc_conf (embedded_pc ''a'')) []))))\<rparr>)) = Some q
     \<and> jget (rq_query q) ''vm_id'' = Str ''b''"
  using embedded_timeline[OF pl_mount[OF po_mounted_make[of "embedded_pc ''a''" "[]"]], where vm' = "''b''"] by blast

end
