(* ===== verification/DetailLists.thy ===== *)
theory DetailLists imports PolledPages begin

text \<open>
  The two lists of the machine page, \<open>web/src/pages/VMDetail.jsx\<close>: snapshots and port forwards of one
  machine. Both keep their filters in the page's address, under the prefixes \<open>snap_\<close> and \<open>port_\<close>, and
  each has a loader of its own that depends on its own filters only. The page is modelled as the
  composition of two polled pages over one table of filters: \<open>snaps_of\<close> and \<open>ports_of\<close> project a state
  to each, and every step of the page is a step (or none) of both. One mounting shows one machine.
\<close>

subsection \<open>Filters\<close>

definition snap_fields :: "(string \<times> string) list" where
  "snap_fields = [(''snap_search'', []), (''snap_prefix'', []), (''snap_since'', []), (''snap_until'', [])]"

definition port_fields :: "(string \<times> string) list" where
  "port_fields =
    [(''port_sort'', ''id''), (''port_order'', ''asc''), (''port_search'', []), (''port_protocol'', []),
     (''port_min_host'', []), (''port_max_host'', []), (''port_min_guest'', []), (''port_max_guest'', []),
     (''port_guest_ip'', [])]"

definition detail_start :: "string \<Rightarrow> string" where
  "detail_start k = (if k = ''snap_sort'' then ''id'' else if k = ''snap_order'' then ''asc'' else [])"

definition detail_debounced :: "string list" where
  "detail_debounced =
    [''snap_search'', ''snap_prefix'', ''port_search'', ''port_min_host'', ''port_max_host'',
     ''port_min_guest'', ''port_max_guest'', ''port_guest_ip'']"

definition port_reset :: "string list" where
  "port_reset = map fst port_fields"

definition detail_conf :: fconf where
  "detail_conf =
     \<lparr>fc_fields = port_fields @ snap_fields, fc_start = detail_start, fc_fresh = False,
      fc_debounced = detail_debounced, fc_trims = True, fc_lazy = False,
      fc_write = (\<lambda>k v. v), fc_restore = (\<lambda>k v. v), fc_reset = port_reset, fc_dep = (\<lambda>k v. v),
      fc_paged = True, fc_prefix = ''port_'', fc_per_page = 25, fc_clear_inputs = [],
      fc_clear_values = [], fc_counted = []\<rparr>"

lemma wf_detail_conf: "wf_conf detail_conf"
  by (simp add: wf_conf_def page_key_def per_page_key_def detail_conf_def field_keys_def port_fields_def
      snap_fields_def)

lemma detail_conf_simps [simp]:
  "fc_debounced detail_conf = detail_debounced" "fc_trims detail_conf" "fc_restore detail_conf k v = v"
  "field_keys detail_conf = map fst port_fields @ map fst snap_fields" "fc_paged detail_conf"
  "fc_per_page detail_conf = 25" "page_key detail_conf = ''port_page''" "per_page_key detail_conf = ''port_per_page''"
  "fc_fields detail_conf = port_fields @ snap_fields" "fc_reset detail_conf = port_reset" "fc_dep detail_conf k v = v"
  "\<not> fc_fresh detail_conf"
  by (simp_all add: detail_conf_def field_keys_def page_key_def per_page_key_def)

subsection \<open>Requests\<close>

definition snap_list_args :: "fpage \<Rightarrow> js" where
  "snap_list_args s = Obj
    [(''sort'', Str (fp_value s ''snap_sort'')), (''order'', Str (fp_value s ''snap_order'')),
     (''search'', Str (fp_value s ''snap_search'')), (''prefix'', Str (fp_value s ''snap_prefix'')),
     (''since'', Str (fp_value s ''snap_since'')), (''until'', Str (fp_value s ''snap_until''))]"

definition port_list_args :: "fpage \<Rightarrow> js" where
  "port_list_args s = Obj
    [(''sort'', Str (fp_value s ''port_sort'')), (''order'', Str (fp_value s ''port_order'')),
     (''search'', Str (fp_value s ''port_search'')), (''protocol'', Str (fp_value s ''port_protocol'')),
     (''minHostPort'', Str (fp_value s ''port_min_host'')), (''maxHostPort'', Str (fp_value s ''port_max_host'')),
     (''minGuestPort'', Str (fp_value s ''port_min_guest'')), (''maxGuestPort'', Str (fp_value s ''port_max_guest'')),
     (''guestIp'', Str (fp_value s ''port_guest_ip'')),
     (''page'', JNat (fp_page s)), (''perPage'', JNat (fp_per_page s))]"

definition snap_keys :: "string list" where
  "snap_keys = [''snap_sort'', ''snap_order'', ''snap_search'', ''snap_prefix'', ''snap_since'', ''snap_until'']"

definition snap_list_request :: "string \<Rightarrow> fpage \<Rightarrow> request" where
  "snap_list_request vm s = snapshot_request (SnapList vm (snap_list_args s))"

definition port_list_request :: "string \<Rightarrow> fpage \<Rightarrow> request" where
  "port_list_request vm s = port_request (PortList vm (port_list_args s))"

text \<open>The times that are picked are stored with seconds and a zone.\<close>

definition detail_conv :: "string \<Rightarrow> string \<Rightarrow> string" where
  "detail_conv k v = (if k \<in> {''snap_since'', ''snap_until''} then image_time v else v)"

definition snap_pc :: "string \<Rightarrow> pconf" where
  "snap_pc vm =
     \<lparr>pc_conf = detail_conf, pc_announces = False, pc_pausable = False, pc_ask = snap_list_request vm,
      pc_deps = (\<lambda>p. (map (fp_value p) snap_keys, 0, 0)), pc_conv = detail_conv\<rparr>"

definition port_pc :: "string \<Rightarrow> pconf" where
  "port_pc vm =
     \<lparr>pc_conf = detail_conf, pc_announces = False, pc_pausable = False, pc_ask = port_list_request vm,
      pc_deps = dep_values (\<lambda>k v. v) (map fst port_fields), pc_conv = detail_conv\<rparr>"

lemma detail_pc_simps [simp]:
  "pc_conf (snap_pc vm) = detail_conf" "pc_conf (port_pc vm) = detail_conf"
  "pc_conv (snap_pc vm) = detail_conv" "pc_conv (port_pc vm) = detail_conv"
  "\<not> pc_pausable (snap_pc vm)" "\<not> pc_pausable (port_pc vm)"
  "pc_ask (snap_pc vm) = snap_list_request vm" "pc_ask (port_pc vm) = port_list_request vm"
  by (simp_all add: snap_pc_def port_pc_def)

interpretation detail: filter_page detail_conf
  by unfold_locales (rule wf_detail_conf)

interpretation snap_page: polled_page "snap_pc vm" for vm
proof unfold_locales
  show "wf_conf (pc_conf (snap_pc vm))" by (simp add: wf_detail_conf)
  show "pc_deps (snap_pc vm) p = pc_deps (snap_pc vm) p' \<Longrightarrow> pc_ask (snap_pc vm) p = pc_ask (snap_pc vm) p'" for p p'
    by (simp add: snap_pc_def snap_keys_def snap_list_request_def snap_list_args_def)
qed

interpretation port_page: polled_page "port_pc vm" for vm
proof unfold_locales
  show "wf_conf (pc_conf (port_pc vm))" by (simp add: wf_detail_conf)
  show "pc_deps (port_pc vm) p = pc_deps (port_pc vm) p' \<Longrightarrow> pc_ask (port_pc vm) p = pc_ask (port_pc vm) p'" for p p'
    by (simp add: port_pc_def dep_values_def port_fields_def port_list_request_def port_list_args_def)
qed

subsection \<open>The page\<close>

record detail =
  dt_page :: fpage
  dt_snaps :: "request loader"
  dt_ports :: "request loader"

definition snaps_of :: "detail \<Rightarrow> polled" where
  "snaps_of d = \<lparr>po_page = dt_page d, po_paused = False, po_loader = dt_snaps d\<rparr>"

definition ports_of :: "detail \<Rightarrow> polled" where
  "ports_of d = \<lparr>po_page = dt_page d, po_paused = False, po_loader = dt_ports d\<rparr>"

definition loader_mounted :: "pconf \<Rightarrow> fpage \<Rightarrow> request loader" where
  "loader_mounted pc p = load_effect (pc_announces pc) True (Some (pc_ask pc p)) (loader_init (Some (pc_ask pc p)))"

definition detail_mount :: "string \<Rightarrow> params \<Rightarrow> detail" where
  "detail_mount vm ps =
     (let p = mount_page detail_conf ps
      in \<lparr>dt_page = p, dt_snaps = loader_mounted (snap_pc vm) p, dt_ports = loader_mounted (port_pc vm) p\<rparr>)"

definition detail_event :: "string \<Rightarrow> page_event \<Rightarrow> detail \<Rightarrow> detail" where
  "detail_event vm e d =
     \<lparr>dt_page = happen detail_conf detail_conv e (dt_page d),
      dt_snaps = po_loader (po_event (snap_pc vm) e (snaps_of d)),
      dt_ports = po_loader (po_event (port_pc vm) e (ports_of d))\<rparr>"

inductive detail_reach :: "string \<Rightarrow> bool \<Rightarrow> (request \<Rightarrow> string + js) \<Rightarrow> detail \<Rightarrow> bool" for vm ordered srv where
  dr_mount: "detail_reach vm ordered srv (detail_mount vm ps)"
| dr_event: "detail_reach vm ordered srv d \<Longrightarrow> event_ok detail_conf e \<Longrightarrow> detail_reach vm ordered srv (detail_event vm e d)"
| dr_snap_tick: "detail_reach vm ordered srv d \<Longrightarrow> detail_reach vm ordered srv (d\<lparr>dt_snaps := load_tick (dt_snaps d)\<rparr>)"
| dr_port_tick: "detail_reach vm ordered srv d \<Longrightarrow> detail_reach vm ordered srv (d\<lparr>dt_ports := load_tick (dt_ports d)\<rparr>)"
| dr_snap_refresh: "detail_reach vm ordered srv d \<Longrightarrow> detail_reach vm ordered srv (d\<lparr>dt_snaps := load (dt_snaps d)\<rparr>)"
| dr_port_refresh: "detail_reach vm ordered srv d \<Longrightarrow> detail_reach vm ordered srv (d\<lparr>dt_ports := load (dt_ports d)\<rparr>)"
| dr_snap_answer: "detail_reach vm ordered srv d \<Longrightarrow> r \<in> set (ld_flight (dt_snaps d)) \<Longrightarrow>
    ordered \<longrightarrow> r = hd (ld_flight (dt_snaps d)) \<Longrightarrow>
    detail_reach vm ordered srv (d\<lparr>dt_snaps := load_done r (srv (snd r)) (dt_snaps d)\<rparr>)"
| dr_port_answer: "detail_reach vm ordered srv d \<Longrightarrow> r \<in> set (ld_flight (dt_ports d)) \<Longrightarrow>
    ordered \<longrightarrow> r = hd (ld_flight (dt_ports d)) \<Longrightarrow>
    detail_reach vm ordered srv (d\<lparr>dt_ports := load_done r (srv (snd r)) (dt_ports d)\<rparr>)"

text \<open>Each list is a polled page of its own.\<close>

lemma view_mount:
  "snaps_of (detail_mount vm ps) = \<lparr>po_page = mount_page (pc_conf (snap_pc vm)) ps, po_paused = False,
     po_loader = loader_mounted (snap_pc vm) (mount_page (pc_conf (snap_pc vm)) ps)\<rparr>"
  "ports_of (detail_mount vm ps) = \<lparr>po_page = mount_page (pc_conf (port_pc vm)) ps, po_paused = False,
     po_loader = loader_mounted (port_pc vm) (mount_page (pc_conf (port_pc vm)) ps)\<rparr>"
  by (simp_all add: snaps_of_def ports_of_def detail_mount_def Let_def)

lemma polled_eqI:
  "po_page s = po_page t \<Longrightarrow> po_paused s = po_paused t \<Longrightarrow> po_loader s = po_loader t \<Longrightarrow> (s :: polled) = t"
  by simp

lemma view_event:
  "snaps_of (detail_event vm e d) = po_event (snap_pc vm) e (snaps_of d)"
  "ports_of (detail_event vm e d) = po_event (port_pc vm) e (ports_of d)"
  by (rule polled_eqI; simp add: snaps_of_def ports_of_def detail_event_def)+

lemma view_step:
  "snaps_of (d\<lparr>dt_snaps := load_tick (dt_snaps d)\<rparr>) = po_tick (snaps_of d)"
  "snaps_of (d\<lparr>dt_snaps := load (dt_snaps d)\<rparr>) = po_refresh (snaps_of d)"
  "snaps_of (d\<lparr>dt_snaps := load_done r a (dt_snaps d)\<rparr>) = po_answer r a (snaps_of d)"
  "snaps_of (d\<lparr>dt_ports := l\<rparr>) = snaps_of d"
  "ports_of (d\<lparr>dt_ports := load_tick (dt_ports d)\<rparr>) = po_tick (ports_of d)"
  "ports_of (d\<lparr>dt_ports := load (dt_ports d)\<rparr>) = po_refresh (ports_of d)"
  "ports_of (d\<lparr>dt_ports := load_done r a (dt_ports d)\<rparr>) = po_answer r a (ports_of d)"
  "ports_of (d\<lparr>dt_snaps := l\<rparr>) = ports_of d"
  by (simp_all add: snaps_of_def ports_of_def po_tick_def po_refresh_def po_answer_def)

lemma view_simps [simp]:
  "po_page (snaps_of d) = dt_page d" "po_page (ports_of d) = dt_page d"
  "po_loader (snaps_of d) = dt_snaps d" "po_loader (ports_of d) = dt_ports d"
  by (simp_all add: snaps_of_def ports_of_def)

lemma detail_views:
  "detail_reach vm ordered srv d \<Longrightarrow>
   polled_reach (snap_pc vm) ordered srv (snaps_of d) \<and> polled_reach (port_pc vm) ordered srv (ports_of d)"
proof (induction rule: detail_reach.induct)
  case (dr_mount ps)
  show ?case unfolding view_mount loader_mounted_def
    using pl_mount[OF po_mounted_make] by blast
next
  case (dr_event d e)
  then show ?case unfolding view_event by (simp add: pl_event)
qed (auto simp: view_step intro: pl_tick pl_refresh pl_answer)

text \<open>An event that writes only the given filters.\<close>

fun touches :: "string set \<Rightarrow> page_event \<Rightarrow> bool" where
  "touches ks (Use ctl v) = (control_keys ctl \<subseteq> ks)"
| "touches ks (Fire k) = (k \<in> ks)"
| "touches ks _ = False"

lemma happen_other:
  "touches ks e \<Longrightarrow> k \<notin> ks \<Longrightarrow> fp_value (happen c conv e s) k = fp_value s k"
proof (cases e)
  case (Use ctl v)
  then show "touches ks e \<Longrightarrow> k \<notin> ks \<Longrightarrow> ?thesis" using use_control_other[of k ctl c conv v s] by auto
next
  case (Fire k')
  then show "touches ks e \<Longrightarrow> k \<notin> ks \<Longrightarrow> ?thesis" by (auto simp: fire_timer_def split: option.splits)
qed simp_all

lemma reset_changed_value:
  "fp_value t = fp_value t' \<Longrightarrow> reset_changed c s t = reset_changed c s t'"
  "fp_value s = fp_value s' \<Longrightarrow> reset_changed c s t = reset_changed c s' t"
  by (simp_all add: reset_changed_def)

lemma happen_page:
  assumes "touches ks e"
  shows "fp_page (happen c conv e s) = (if reset_changed c s (happen c conv e s) then 1 else fp_page s)
    \<and> fp_per_page (happen c conv e s) = fp_per_page s"
proof (cases e)
  case (Use ctl v)
  then show ?thesis
    by (cases ctl) (simp_all add: select_value_def clear_keys_def Let_def reset_changed_def)
next
  case (Fire k)
  then show ?thesis by (simp add: fire_timer_def reset_changed_def split: option.splits)
qed (use assms in simp_all)

lemma po_event_same:
  assumes "pc_deps pc p' = pc_deps pc (po_page s)"
    "pc_deps pc (p'\<lparr>fp_page := fp_page (po_page s)\<rparr>) = pc_deps pc (po_page s)"
    and p_def: "p' = happen (pc_conf pc) (pc_conv pc) e (po_page s)"
  shows "po_loader (po_event pc e s) = po_loader s"
  using assms(1,2) by (simp add: po_event_def po_render_def Let_def flip: p_def)

text \<open>
  The two lists of the machine page do not disturb each other: a snapshot filter being typed,
  picked, cleared or committed leaves the port list's requests, data and loading state as they are,
  and a port filter or the paging of the ports leaves those of the snapshot list.
\<close>

theorem detail_lists_independent:
  shows "(touches (set snap_keys) e \<longrightarrow> dt_ports (detail_event vm e d) = dt_ports d)
    \<and> (touches (set (map fst port_fields)) e \<or> (\<exists>n. e = GoTo n \<or> e = Resize n) \<longrightarrow>
         dt_snaps (detail_event vm e d) = dt_snaps d)"
proof (intro conjI impI)
  let ?p = "happen detail_conf detail_conv e (dt_page d)"
  assume t: "touches (set snap_keys) e"
  have v: "k \<in> set (map fst port_fields) \<Longrightarrow> fp_value ?p k = fp_value (dt_page d) k" for k
    using happen_other[OF t, of k] by (auto simp: snap_keys_def port_fields_def)
  have "\<not> reset_changed detail_conf (dt_page d) ?p" using v by (simp add: reset_changed_def port_reset_def)
  then have g: "fp_page ?p = fp_page (dt_page d)" "fp_per_page ?p = fp_per_page (dt_page d)"
    using happen_page[OF t, of detail_conf detail_conv "dt_page d"] by simp_all
  have m: "\<forall>x\<in>set port_fields. fp_value ?p (fst x) = fp_value (dt_page d) (fst x)" using v by simp
  have "po_loader (po_event (port_pc vm) e (ports_of d)) = po_loader (ports_of d)"
    by (rule po_event_same[OF _ _ refl]; simp only: detail_pc_simps view_simps; simp add: port_pc_def dep_values_def g m)
  then show "dt_ports (detail_event vm e d) = dt_ports d" by (simp add: detail_event_def)
next
  let ?p = "happen detail_conf detail_conv e (dt_page d)"
  assume t: "touches (set (map fst port_fields)) e \<or> (\<exists>n. e = GoTo n \<or> e = Resize n)"
  have v: "fp_value ?p k = fp_value (dt_page d) k" if "k \<in> set snap_keys" for k
    using t
  proof
    assume "touches (set (map fst port_fields)) e"
    from happen_other[OF this, of k] show ?thesis using that by (auto simp: snap_keys_def port_fields_def)
  qed (auto simp: set_page_def set_per_page_def)
  have m: "map (fp_value ?p) snap_keys = map (fp_value (dt_page d)) snap_keys" using v by (rule map_cong[OF refl])
  have "po_loader (po_event (snap_pc vm) e (snaps_of d)) = po_loader (snaps_of d)"
    by (rule po_event_same[OF _ _ refl]; simp only: detail_pc_simps view_simps; simp add: snap_pc_def m)
  then show "dt_snaps (detail_event vm e d) = dt_snaps d" by (simp add: detail_event_def)
qed

theorem detail_lists_independent_witness:
  "dt_ports (detail_event ''vm-1'' (Use (TextOf ''snap_search'') ''nightly'') (detail_mount ''vm-1'' []))
     = dt_ports (detail_mount ''vm-1'' [])"
  by (rule detail_lists_independent[THEN conjunct1, rule_format]) (simp add: snap_keys_def)



end
