(* ===== verification/DetailTables.thy ===== *)
theory DetailTables imports DetailLists begin

text \<open>
  What the two lists of the machine page offer, \<open>web/src/pages/VMDetail.jsx\<close>: the controls of their
  filters, ticking and bulk deletion, the actions of a row, and the dialogs that create and edit a
  snapshot (\<open>CreateSnapshotModal\<close>, \<open>EditSnapshotModal\<close>) and a port forward (\<open>AddPortModal\<close>,
  \<open>EditPortModal\<close>).
\<close>

subsection \<open>Controls\<close>

definition snap_controls :: "(string \<times> control) list" where
  "snap_controls =
    [(''snap-sort-field'', PickOf ''snap_sort'' [''id'', ''name'', ''created_at'', ''description'']),
     (''snap-sort-order'', PickOf ''snap_order'' [''asc'', ''desc'']),
     (''snap-list-search'', TextOf ''snap_search''), (''snap-list-search-clear'', ClearOf [''snap_search'']),
     (''snap-list-prefix'', TextOf ''snap_prefix''), (''snap-list-prefix-clear'', ClearOf [''snap_prefix'']),
     (''snap-list-since'', ValueOf ''snap_since''), (''snap-list-until'', ValueOf ''snap_until''),
     (''snap-list-time-range-clear'', ClearOf [''snap_since'', ''snap_until''])]"

definition port_controls :: "(string \<times> control) list" where
  "port_controls =
    [(''port-sort-field'', PickOf ''port_sort'' [''id'', ''host_port'', ''guest_port'', ''protocol'', ''description'', ''guest_ip'']),
     (''port-sort-order'', PickOf ''port_order'' [''asc'', ''desc'']),
     (''port-protocol-filter'', PickOf ''port_protocol'' [[], ''tcp'', ''udp'']),
     (''port-list-search'', TextOf ''port_search''), (''port-list-search-clear'', ClearOf [''port_search'']),
     (''port-min-host-port'', TextOf ''port_min_host''), (''port-max-host-port'', TextOf ''port_max_host''),
     (''port-host-port-clear'', ClearOf [''port_min_host'', ''port_max_host'']),
     (''port-min-guest-port'', TextOf ''port_min_guest''), (''port-max-guest-port'', TextOf ''port_max_guest''),
     (''port-guest-port-clear'', ClearOf [''port_min_guest'', ''port_max_guest'']),
     (''port-guest-ip-filter'', TextOf ''port_guest_ip''), (''port-guest-ip-clear'', ClearOf [''port_guest_ip''])]"

lemma detail_controls_wf: "controls_wf detail_conf (snap_controls @ port_controls)"
  by (simp add: controls_wf_def snap_controls_def port_controls_def detail_debounced_def)

lemma snap_controls_touch: "(i, ctl) \<in> set snap_controls \<Longrightarrow> touches (set snap_keys) (Use ctl v)"
  by (auto simp: snap_controls_def snap_keys_def)

lemma port_controls_touch: "(i, ctl) \<in> set port_controls \<Longrightarrow> touches (set (map fst port_fields)) (Use ctl v)"
  by (auto simp: port_controls_def port_fields_def)

text \<open>The pager of the ports, shown while there is any rule.\<close>

definition port_pager :: "js \<Rightarrow> detail \<Rightarrow> pager option" where
  "port_pager response d =
     (case total_rows response (response_rows response) of
        Num (Fin r) \<Rightarrow>
          (if 0 < r then Some (pagination (fp_page (dt_page d)) (fp_per_page (dt_page d)) (Some (nat \<lfloor>r\<rfloor>)) [10, 25, 50, 100])
           else None)
      | _ \<Rightarrow> None)"

definition snap_empty_text :: "string \<Rightarrow> string" where
  "snap_empty_text search =
     (if search \<noteq> [] then ''No snapshots match \"'' @ search @ ''\".'' else ''Capture the VM state at any point.'')"

definition port_empty_title :: "string \<Rightarrow> string" where
  "port_empty_title search =
     (if search \<noteq> [] then ''No port forwards match \"'' @ search @ ''\"'' else ''No port forwards'')"

subsection \<open>Ticking and deleting\<close>

definition snap_names :: "js list \<Rightarrow> string list" where
  "snap_names snaps = map (\<lambda>s. to_str (jget s ''name'')) snaps"

definition port_ids :: "js list \<Rightarrow> string list" where
  "port_ids pfs = map (\<lambda>p. to_str (jget p ''id'')) pfs"

definition snap_rows_changed :: "js list \<Rightarrow> rows \<Rightarrow> rows" where
  "snap_rows_changed snaps st = st\<lparr>rw_selected := set_prune (snap_names snaps) (rw_selected st)\<rparr>"

definition port_rows_changed :: "js list \<Rightarrow> rows \<Rightarrow> rows" where
  "port_rows_changed pfs st = st\<lparr>rw_selected := set_prune (port_ids pfs) (rw_selected st)\<rparr>"

definition snap_toggle_all :: "js list \<Rightarrow> rows \<Rightarrow> rows" where
  "snap_toggle_all snaps st = st\<lparr>rw_selected := set_toggle_all (snap_names snaps) (rw_selected st)\<rparr>"

definition port_toggle_all :: "js list \<Rightarrow> rows \<Rightarrow> rows" where
  "port_toggle_all pfs st = st\<lparr>rw_selected := set_toggle_all (port_ids pfs) (rw_selected st)\<rparr>"

definition snap_toggle_one :: "string \<Rightarrow> rows \<Rightarrow> rows" where
  "snap_toggle_one n st = st\<lparr>rw_selected := set_toggle_one n (rw_selected st)\<rparr>"

definition port_toggle_one :: "string \<Rightarrow> rows \<Rightarrow> rows" where
  "port_toggle_one i st = st\<lparr>rw_selected := set_toggle_one i (rw_selected st)\<rparr>"

text \<open>
  The two \<open>handleBulkDelete\<close>: nothing is asked first. \<open>answer\<close> is what the server answered, \<open>None\<close> when
  the request failed, which the handler does not catch.
\<close>

definition snap_bulk_delete :: "string \<Rightarrow> js option \<Rightarrow> rows \<Rightarrow> request option \<times> bool \<times> rows" where
  "snap_bulk_delete vm answer st =
     (if rw_selected st = [] then (None, False, st)
      else (Some (snapshot_request (SnapBulkDelete vm (Obj [(''names'', Arr (map Str (rw_selected st)))]))),
            (case answer of None \<Rightarrow> (False, st)
                          | Some r \<Rightarrow> (True, st\<lparr>rw_result := Some r, rw_selected := []\<rparr>))))"

definition port_bulk_delete :: "string \<Rightarrow> js option \<Rightarrow> rows \<Rightarrow> request option \<times> bool \<times> rows" where
  "port_bulk_delete vm answer st =
     (if rw_selected st = [] then (None, False, st)
      else (Some (port_request (PortBulkDelete vm (Obj [(''ids'', Arr (map Str (rw_selected st)))]))),
            (case answer of None \<Rightarrow> (False, st)
                          | Some r \<Rightarrow> (True, st\<lparr>rw_result := Some r, rw_selected := []\<rparr>))))"

definition bulk_delete_line :: "js \<Rightarrow> string" where
  "bulk_delete_line r =
     (let rs = elems (jget r ''results'') in
      ''Bulk delete: '' @ nat_str (length (filter (\<lambda>x. truthy (jget x ''success'')) rs)) @ '' of ''
        @ nat_str (length rs) @ '' succeeded'')"

definition tick_label :: "rows \<Rightarrow> string" where
  "tick_label st = (if rw_selected st \<noteq> [] then nat_str (length (rw_selected st)) @ '' selected'' else ''Select all'')"

subsection \<open>A row of the snapshots\<close>

text \<open>The name of the snapshot being restored, the one being deleted, and the two requests.\<close>

record snap_ops =
  so_restoring :: "string option"
  so_deleting :: "string option"
  so_restore :: mutation
  so_delete :: mutation

definition snap_op_enabled :: "snap_ops \<Rightarrow> bool" where
  "snap_op_enabled s \<longleftrightarrow> \<not> mu_loading (so_restore s) \<and> \<not> mu_loading (so_delete s)"

definition snap_restore_start :: "string \<Rightarrow> string \<Rightarrow> snap_ops \<Rightarrow> request option \<times> snap_ops" where
  "snap_restore_start vm n s =
     (if snap_op_enabled s
      then (Some (snapshot_request (SnapRestore vm n)),
            s\<lparr>so_restoring := Some n, so_restore := mutation_start (so_restore s)\<rparr>)
      else (None, s))"

definition snap_restore_done :: "string + js \<Rightarrow> snap_ops \<Rightarrow> bool \<times> snap_ops" where
  "snap_restore_done answer s =
     (case answer of Inr _ \<Rightarrow> True | Inl _ \<Rightarrow> False,
      s\<lparr>so_restoring := None, so_restore := snd (mutation_done answer (so_restore s))\<rparr>)"

definition snap_delete_start :: "string \<Rightarrow> string \<Rightarrow> snap_ops \<Rightarrow> request option \<times> snap_ops" where
  "snap_delete_start vm n s =
     (if snap_op_enabled s
      then (Some (snapshot_request (SnapDelete vm n)),
            s\<lparr>so_deleting := Some n, so_delete := mutation_start (so_delete s)\<rparr>)
      else (None, s))"

definition snap_delete_done :: "string + js \<Rightarrow> snap_ops \<Rightarrow> bool \<times> snap_ops" where
  "snap_delete_done answer s =
     (case answer of Inr _ \<Rightarrow> True | Inl _ \<Rightarrow> False,
      s\<lparr>so_deleting := None, so_delete := snd (mutation_done answer (so_delete s))\<rparr>)"

definition snap_op_label :: "snap_ops \<Rightarrow> bool \<Rightarrow> nat \<Rightarrow> string option" where
  "snap_op_label s bulk_loading ticked =
     (case so_restoring s of
        Some n \<Rightarrow> Some (''Restoring snapshot \"'' @ n @ ''\"'' @ ellipsis)
      | None \<Rightarrow>
          if bulk_loading
          then Some (''Deleting '' @ (if ticked = 0 then [] else nat_str ticked) @ '' snapshot(s)'' @ ellipsis)
          else map_option (\<lambda>n. ''Deleting snapshot \"'' @ n @ ''\"'' @ ellipsis) (so_deleting s))"

text \<open>Name, whether the time and the description are shown, and the tags of a row.\<close>

definition snap_row :: "js \<Rightarrow> string \<times> js option \<times> string option \<times> string list option" where
  "snap_row snap =
     (to_str (jget snap ''name''),
      (if truthy (jget snap ''created_at'') then Some (jget snap ''created_at'') else None),
      (if truthy (jget snap ''description'') then Some (to_str (jget snap ''description'')) else None),
      (if elems (jget snap ''tags'') \<noteq> [] then Some (map (\<lambda>t. ''#'' @ to_str t) (elems (jget snap ''tags''))) else None))"

subsection \<open>A row of the port forwards\<close>

definition arrow :: string where "arrow = [CHR 0xE2, CHR 0x86, CHR 0x92]"

definition port_route :: "js \<Rightarrow> string" where
  "port_route pf =
     '':'' @ to_str (jget pf ''host_port'') @ '' '' @ arrow @ '' '' @ to_str (jget pf ''guest_ip'') @ '':''
       @ to_str (jget pf ''guest_port'')"

definition port_row :: "js \<Rightarrow> string \<times> string \<times> string option \<times> string list option" where
  "port_row pf =
     (port_route pf, to_str (jget pf ''protocol''),
      (if truthy (jget pf ''description'') then Some (to_str (jget pf ''description'')) else None),
      (if is_array (jget pf ''tags'') \<and> elems (jget pf ''tags'') \<noteq> [] then Some (map to_str (elems (jget pf ''tags'')))
       else None))"

definition port_remove :: "string \<Rightarrow> js \<Rightarrow> bool \<Rightarrow> request \<times> bool" where
  "port_remove vm pf ok = (port_request (PortRemove vm (to_str (jget pf ''id''))), ok)"

subsection \<open>Editing a snapshot\<close>

record edit_text =
  et_description :: string
  et_tags :: string

definition edit_text_open :: "js \<Rightarrow> edit_text" where
  "edit_text_open row =
     \<lparr>et_description = the_str (js_or (jget row ''description'') (Str [])),
      et_tags = js_join '', '' (map to_str (elems (js_or (jget row ''tags'') (Arr []))))\<rparr>"

definition edit_snap_spec :: "js \<Rightarrow> edit_text \<Rightarrow> js" where
  "edit_snap_spec snap f =
     (let spec = put_if (Str (et_description f) \<noteq> js_or (jget snap ''description'') (Str [])) ''description''
                   (Str (et_description f)) (Obj [])
      in put_if (\<not> same_tags (parse_tags (et_tags f)) (map to_str (elems (js_or (jget snap ''tags'') (Arr [])))))
           ''tags'' (Arr (map Str (parse_tags (et_tags f)))) spec)"

text \<open>The request, if any, and whether the dialog is done: with an answer, or at once when nothing changed.\<close>

definition edit_snap_save :: "string \<Rightarrow> js \<Rightarrow> bool \<Rightarrow> edit_text \<Rightarrow> request option \<times> bool" where
  "edit_snap_save vm snap ok f =
     (let spec = edit_snap_spec snap f in
      if jkeys spec = [] then (None, True)
      else (Some (snapshot_request (SnapUpdate vm (to_str (jget snap ''name'')) spec)), ok))"

subsection \<open>Editing a port forward\<close>

definition lower_tags :: "string \<Rightarrow> string list" where
  "lower_tags s = filter (\<lambda>t. t \<noteq> []) (map (\<lambda>t. js_lower (js_trim t)) (js_split (CHR '','') s))"

definition edit_port_tags_changed :: "js \<Rightarrow> edit_text \<Rightarrow> bool" where
  "edit_port_tags_changed pf f \<longleftrightarrow>
     sort_strings (lower_tags (et_tags f)) \<noteq> sort_strings (map to_str (elems (js_or (jget pf ''tags'') (Arr []))))"

definition edit_port_patch :: "js \<Rightarrow> edit_text \<Rightarrow> js" where
  "edit_port_patch pf f =
     put_if (edit_port_tags_changed pf f) ''tags'' (Arr (map Str (lower_tags (et_tags f))))
       (Obj [(''description'', Str (et_description f))])"

definition edit_port_save :: "string \<Rightarrow> js \<Rightarrow> bool \<Rightarrow> edit_text \<Rightarrow> request \<times> bool" where
  "edit_port_save vm pf ok f =
     (port_request (PortUpdate vm (to_str (jget pf ''id'')) (edit_port_patch pf f)), ok)"

subsection \<open>Creating a snapshot\<close>

record snap_form =
  sn_name :: string
  sn_description :: string
  sn_tags :: string

definition snap_form_empty :: snap_form where
  "snap_form_empty = \<lparr>sn_name = [], sn_description = [], sn_tags = []\<rparr>"

definition snap_create_disabled :: "bool \<Rightarrow> snap_form \<Rightarrow> bool" where
  "snap_create_disabled loading f \<longleftrightarrow> sn_name f = [] \<or> loading"

text \<open>The request, the callbacks after a success, and the form left behind.\<close>

definition snap_create :: "string \<Rightarrow> bool \<Rightarrow> snap_form \<Rightarrow> request \<times> string list \<times> snap_form" where
  "snap_create vm ok f =
     (snapshot_request (SnapCreate vm (sn_name f) (Str (js_trim (sn_description f))) (Arr (map Str (parse_tags (sn_tags f))))),
      (if ok then ([''onCreated'', ''onClose''], snap_form_empty) else ([], f)))"

subsection \<open>Adding a port forward\<close>

record port_form =
  pf_host :: string
  pf_guest :: string
  pf_protocol :: string
  pf_description :: string
  pf_tags :: string

definition port_form_empty :: port_form where
  "port_form_empty = \<lparr>pf_host = [], pf_guest = [], pf_protocol = ''tcp'', pf_description = [], pf_tags = []\<rparr>"

definition int_or_nan :: "string \<Rightarrow> js" where
  "int_or_nan s = (case parse_int s of None \<Rightarrow> Num NaN | Some i \<Rightarrow> JInt i)"

definition port_add_disabled :: "bool \<Rightarrow> port_form \<Rightarrow> bool" where
  "port_add_disabled loading f \<longleftrightarrow> pf_host f = [] \<or> pf_guest f = [] \<or> loading"

definition port_add :: "string \<Rightarrow> bool \<Rightarrow> port_form \<Rightarrow> request \<times> string list \<times> port_form" where
  "port_add vm ok f =
     (let tags = lower_tags (pf_tags f) in
      (port_request (PortAdd vm (int_or_nan (pf_host f)) (int_or_nan (pf_guest f)) (Str (pf_protocol f))
         (js_or (Str (js_trim (pf_description f))) Undef) (if tags \<noteq> [] then Arr (map Str tags) else Undef)),
       (if ok then ([''onCreated'', ''onClose''],
                    f\<lparr>pf_host := [], pf_guest := [], pf_description := [], pf_tags := []\<rparr>)
        else ([], f))))"

subsection \<open>Facts\<close>

definition stored_row :: "js \<Rightarrow> string \<Rightarrow> string list \<Rightarrow> bool" where
  "stored_row row d ts \<longleftrightarrow>
     jget row ''description'' = (if d = [] then Undef else Str d)
     \<and> jget row ''tags'' = (if ts = [] then Undef else Arr (map Str ts)) \<and> (\<forall>t\<in>set ts. clean_tag t)"

lemma stored_row_reads:
  assumes "stored_row row d ts"
  shows "js_or (jget row ''description'') (Str []) = Str d"
    "map to_str (elems (js_or (jget row ''tags'') (Arr []))) = ts" "\<forall>t\<in>set ts. clean_tag t"
    "edit_text_open row = \<lparr>et_description = d, et_tags = js_join '', '' ts\<rparr>"
  using assms by (auto simp: stored_row_def js_or_def edit_text_open_def comp_def)

lemma lower_tags_parse: "lower_tags s = map js_lower (parse_tags s)"
proof -
  have "filter (\<lambda>t. t \<noteq> []) (map (\<lambda>t. js_lower (js_trim t)) ws) = map js_lower (filter (\<lambda>t. t \<noteq> []) (map js_trim ws))" for ws
    by (induction ws) (simp_all add: js_lower_def)
  then show ?thesis by (simp add: lower_tags_def parse_tags_def)
qed

text \<open>
  Editing a snapshot sends what changed. Of a stored snapshot, a description goes out exactly when
  it differs, untrimmed; tags exactly when they differ as a collection, whatever their order and case;
  saving the dialog as it was opened sends nothing; and no request carries anything else.
\<close>

theorem edit_snapshot_exact:
  assumes "stored_row snap d ts"
    and p_def: "p = edit_snap_spec snap f"
  shows "jget p ''description'' = (if et_description f = d then Undef else Str (et_description f))
    \<and> jget p ''tags'' = (if mset (map js_lower (parse_tags (et_tags f))) = mset (map js_lower ts) then Undef
                          else Arr (map Str (parse_tags (et_tags f))))
    \<and> set (jkeys p) \<subseteq> {''description'', ''tags''}
    \<and> edit_snap_save vm snap ok (edit_text_open snap) = (None, True)
    \<and> (\<forall>q. fst (edit_snap_save vm snap ok f) = Some q \<longrightarrow>
         q = snapshot_request (SnapUpdate vm (to_str (jget snap ''name'')) p) \<and> jkeys p \<noteq> [])"
proof -
  note r = stored_row_reads[OF assms(1)]
  note s = edit_snap_spec_def[of snap, unfolded r same_tags_mset Let_def]
  have "edit_snap_spec snap (edit_text_open snap) = Obj []"
    by (simp add: s r(4) parse_tags_join_comma_space[OF r(3)] put_if_def)
  then have "edit_snap_save vm snap ok (edit_text_open snap) = (None, True)"
    by (simp add: edit_snap_save_def jkeys_def)
  then show ?thesis
    by (auto simp: p_def s put_if_def edit_snap_save_def Let_def jkeys_def split: if_splits)
qed

theorem edit_snapshot_exact_witness:
  "edit_snap_spec (Obj [(''name'', Str ''s''), (''description'', Str ''old''), (''tags'', Arr [Str ''b'', Str ''a''])])
     \<lparr>et_description = ''new'', et_tags = ''A, b''\<rparr> = Obj [(''description'', Str ''new'')]"
proof -
  let ?s = "Obj [(''name'', Str ''s''), (''description'', Str ''old''), (''tags'', Arr [Str ''b'', Str ''a''])]"
  let ?f = "\<lparr>et_description = ''new'', et_tags = ''A, b''\<rparr>"
  have s: "stored_row ?s ''old'' [''b'', ''a'']"
    by (simp add: stored_row_def clean_tag_def js_trim_def trim_start_def is_ws_def)
  have t: "parse_tags ''A, b'' = [''A'', ''b'']" by (simp add: parse_tags_def js_trim_def trim_start_def is_ws_def)
  have l: "js_lower ''A'' = ''a''" "js_lower ''b'' = ''b''" "js_lower ''a'' = ''a''"
    by code_simp+
  have "jget (edit_snap_spec ?s ?f) ''tags'' = Undef" "jget (edit_snap_spec ?s ?f) ''description'' = Str ''new''"
    using edit_snapshot_exact[OF s refl, of ?f] by (simp_all add: t l add_mset_commute)
  then show ?thesis by (auto simp: edit_snap_spec_def put_if_def jset_def Let_def js_or_def split: if_splits)
qed

text \<open>
  A port forward is added as typed: both ports as the numbers entered, the protocol, the description
  trimmed and only when there is one, the tags in lower case and only when there are any, and nothing
  else. A refused request leaves the form as it was; a success empties it but for the protocol.
\<close>

theorem port_add_exact:
  assumes "pf_host f = nat_str m" "pf_guest f = nat_str n"
    and b_def: "b = rq_body (fst (port_add vm ok f))"
  shows "jget b ''host_port'' = JNat m \<and> jget b ''guest_port'' = JNat n \<and> jget b ''protocol'' = Str (pf_protocol f)
    \<and> jget b ''description'' = (if js_trim (pf_description f) = [] then Undef else Str (js_trim (pf_description f)))
    \<and> jget b ''tags'' = (if parse_tags (pf_tags f) = [] then Undef else Arr (map Str (map js_lower (parse_tags (pf_tags f)))))
    \<and> set (jkeys b) \<subseteq> {''host_port'', ''guest_port'', ''protocol'', ''description'', ''tags''}
    \<and> snd (port_add vm False f) = ([], f)
    \<and> snd (port_add vm True f) = ([''onCreated'', ''onClose''], port_form_empty\<lparr>pf_protocol := pf_protocol f\<rparr>)"
proof -
  have i: "int_or_nan (nat_str k) = JNat k" for k by (simp add: int_or_nan_def)
  have "b = port_body (JNat m) (JNat n) (Str (pf_protocol f)) (js_or (Str (js_trim (pf_description f))) Undef)
      (if lower_tags (pf_tags f) \<noteq> [] then Arr (map Str (lower_tags (pf_tags f))) else Undef)"
    by (simp add: b_def port_add_def Let_def assms(1,2) i req_def)
  then show ?thesis
    by (auto simp: port_body_def put_tags_def js_or_def Let_def jkeys_def lower_tags_parse port_add_def port_form_empty_def)
qed

theorem port_add_exact_witness:
  "jget (rq_body (fst (port_add ''vm-1'' True (port_form_empty\<lparr>pf_host := nat_str 2222, pf_guest := nat_str 22\<rparr>)))) ''host_port''
     = JNat 2222"
  by (rule port_add_exact[THEN conjunct1, OF _ _ refl]) (simp_all del: nat_str.simps)

text \<open>
  Editing a port forward always sends the description as typed, and the tags exactly when they are
  another collection than the stored ones; so saving a rule as it was opened sends back the stored
  description and no tags.
\<close>

theorem edit_port_exact:
  assumes "stored_row pf d ts" "\<forall>t\<in>set ts. js_lower t = t"
    and p_def: "p = edit_port_patch pf f"
  shows "jget p ''description'' = Str (et_description f)
    \<and> jget p ''tags'' = (if mset (map js_lower (parse_tags (et_tags f))) = mset ts then Undef
                          else Arr (map Str (map js_lower (parse_tags (et_tags f)))))
    \<and> set (jkeys p) \<subseteq> {''description'', ''tags''}
    \<and> edit_port_patch pf (edit_text_open pf) = Obj [(''description'', Str d)]"
proof -
  note r = stored_row_reads[OF assms(1)]
  have u: "sort_strings us = sort_strings vs \<longleftrightarrow> mset us = mset vs" for us vs
    by (metis mset_sort_strings sorted_sort_strings sorted_strings_unique)
  have l: "map js_lower ts = ts" using assms(2) by (induction ts) auto
  have "edit_port_patch pf (edit_text_open pf) = Obj [(''description'', Str d)]"
    by (simp add: edit_port_patch_def edit_port_tags_changed_def r lower_tags_parse
        parse_tags_join_comma_space[OF r(3)] l put_if_def)
  then show ?thesis
    by (auto simp: p_def edit_port_patch_def edit_port_tags_changed_def r u lower_tags_parse put_if_def jkeys_def)
qed

theorem edit_port_exact_witness:
  "edit_port_patch (Obj [(''description'', Str ''web''), (''tags'', Arr [Str ''b''])])
     (edit_text_open (Obj [(''description'', Str ''web''), (''tags'', Arr [Str ''b''])])) = Obj [(''description'', Str ''web'')]"
proof -
  have s: "stored_row (Obj [(''description'', Str ''web''), (''tags'', Arr [Str ''b''])]) ''web'' [''b'']"
    by (simp add: stored_row_def clean_tag_def js_trim_def trim_start_def is_ws_def)
  have "\<forall>t\<in>set [''b'']. js_lower t = t" by (simp add: js_lower_def)
  from edit_port_exact[OF s this refl] show ?thesis by blast
qed

text \<open>
  Deleting the ticked snapshots (or rules) names exactly the ticked ones in one request, makes none
  when nothing is ticked, keeps every tick when the request fails, and afterwards reports how many of
  how many were deleted.
\<close>

theorem detail_bulk_exact:
  shows "fst (snap_bulk_delete vm answer st) =
      (if rw_selected st = [] then None
       else Some (req ''POST'' ''/vms/{vmID}/snapshots/bulk_delete'' [(''vmID'', vm)] Undef
              (Obj [(''names'', Arr (map Str (rw_selected st)))])))
    \<and> fst (port_bulk_delete vm answer st) =
      (if rw_selected st = [] then None
       else Some (req ''POST'' ''/vms/{vmID}/ports/bulk_delete'' [(''vmID'', vm)] Undef
              (Obj [(''ids'', Arr (map Str (rw_selected st)))])))
    \<and> snd (snd (snap_bulk_delete vm None st)) = st \<and> snd (snd (port_bulk_delete vm None st)) = st
    \<and> rw_selected (snd (snd (snap_bulk_delete vm (Some r) st))) = []
    \<and> rw_selected (snd (snd (port_bulk_delete vm (Some r) st))) = []"
  by (simp add: snap_bulk_delete_def port_bulk_delete_def ports_bulk_body_def jset_def)

text \<open>
  While a snapshot is being restored or deleted no other can be: both buttons of every row are
  disabled until the answer arrives, which releases them whether it is a success or not.
\<close>

lemma snap_op_exclusive:
  assumes "snd (snap_restore_start vm n s) = t"
  shows "snap_op_enabled s \<Longrightarrow> fst (snap_restore_start vm n s) \<noteq> None \<and> fst (snap_delete_start vm m t) = None
      \<and> fst (snap_restore_start vm m t) = None \<and> snap_op_enabled (snd (snap_restore_done a t))
      \<and> so_restoring (snd (snap_restore_done a t)) = None"
    and "\<not> snap_op_enabled s \<Longrightarrow> fst (snap_restore_start vm n s) = None \<and> t = s"
  using assms by (auto simp: snap_restore_start_def snap_delete_start_def snap_restore_done_def snap_op_enabled_def
      mutation_start_def mutation_done_def split: sum.splits)

end
