(* ===== verification/DetailForms.thy ===== *)
theory DetailForms imports DetailTables begin

text \<open>
  The dialogs of the machine page that run for long, \<open>web/src/pages/VMDetail.jsx\<close>: following the
  progress of an operation (\<open>useOperationProgress\<close>), cloning, moving the disk, editing the machine and
  exporting it as an image.
\<close>

subsection \<open>\<open>useOperationProgress\<close>\<close>

text \<open>
  The percentage shown, the connection in the ref, and all connections that are open; each frame
  handler has the operation and name of the render that started it.
\<close>

record progress =
  op_percent :: "num option"
  op_es :: "nat option"
  op_open :: "(nat \<times> string \<times> string) list"
  op_next :: nat

definition progress_init :: progress where
  "progress_init = \<lparr>op_percent = None, op_es = None, op_open = [], op_next = 0\<rparr>"

definition progress_stop :: "progress \<Rightarrow> progress" where
  "progress_stop s =
     (case op_es s of
        None \<Rightarrow> s
      | Some e \<Rightarrow> s\<lparr>op_open := filter (\<lambda>c. fst c \<noteq> e) (op_open s), op_es := None\<rparr>)"

text \<open>\<open>works\<close> is whether an \<open>EventSource\<close> can be constructed; \<open>enc\<close> is \<open>encodeURIComponent\<close>.\<close>

definition progress_url :: "(string \<Rightarrow> string) \<Rightarrow> string \<Rightarrow> string \<Rightarrow> string" where
  "progress_url enc token vm =
     ''/api/v1/vms/'' @ vm @ ''/operations/progress'' @ (if token \<noteq> [] then ''?api_key='' @ enc token else [])"

definition progress_start :: "bool \<Rightarrow> string \<Rightarrow> string \<Rightarrow> progress \<Rightarrow> progress" where
  "progress_start works op name s =
     (let s1 = s\<lparr>op_percent := Some (Fin 0)\<rparr> in
      if works then s1\<lparr>op_es := Some (op_next s), op_open := op_open s @ [(op_next s, op, name)], op_next := Suc (op_next s)\<rparr>
      else s1)"

text \<open>A frame on a connection; \<open>None\<close> is a text that does not parse.\<close>

definition progress_frame :: "nat \<times> string \<times> string \<Rightarrow> js option \<Rightarrow> progress \<Rightarrow> progress" where
  "progress_frame c frame s =
     (case (c, frame) of
        (_, None) \<Rightarrow> s
      | ((e, op, name), Some msg) \<Rightarrow>
          if truthy (jget msg ''op'') \<and> op \<noteq> [] \<and> jget msg ''op'' \<noteq> Str op then s
          else if truthy (jget msg ''name'') \<and> name \<noteq> [] \<and> jget msg ''name'' \<noteq> Str name then s
          else if truthy (jget msg ''done'') then progress_stop s
          else (case jget msg ''percent'' of Num n \<Rightarrow> s\<lparr>op_percent := Some n\<rparr> | _ \<Rightarrow> s))"

definition progress_finish :: "progress \<Rightarrow> progress" where
  "progress_finish s = s\<lparr>op_percent := Some (Fin 100)\<rparr>"

definition progress_reset :: "progress \<Rightarrow> progress" where
  "progress_reset s = (progress_stop s)\<lparr>op_percent := None\<rparr>"

text \<open>\<open>ProgressReadout\<close>: nothing, the indeterminate bar, or the rounded percentage and its bar.\<close>

datatype readout = NoReadout | Indeterminate string | Determinate string int "int \<times> (string \<times> rat) option"

definition progress_readout :: "bool \<Rightarrow> num option \<Rightarrow> string \<Rightarrow> readout" where
  "progress_readout active percent label =
     (if \<not> active then NoReadout
      else (case percent of
              Some (Fin r) \<Rightarrow>
                if 0 < r then Determinate label (math_round r) (progress_bar r 100 ''info'' False) else Indeterminate label
            | _ \<Rightarrow> Indeterminate label))"

subsection \<open>A dialog that starts an operation\<close>

text \<open>
  \<open>handleSubmit\<close> of the three dialogs: the submit button is disabled while the request runs; the dialog
  itself can be closed meanwhile. \<open>closes\<close> is whether a success closes the dialog (\<open>handleClose\<close>).
\<close>

record op_dialog =
  od_request :: mutation
  od_progress :: progress

definition op_dialog_init :: op_dialog where
  "op_dialog_init = \<lparr>od_request = mutation_init, od_progress = progress_init\<rparr>"

definition op_submit :: "bool \<Rightarrow> string \<Rightarrow> string \<Rightarrow> op_dialog \<Rightarrow> op_dialog" where
  "op_submit works op name s =
     (if mu_loading (od_request s) then s
      else s\<lparr>od_request := mutation_start (od_request s), od_progress := progress_start works op name (od_progress s)\<rparr>)"

definition op_close :: "bool \<Rightarrow> op_dialog \<Rightarrow> op_dialog" where
  "op_close forgets s =
     s\<lparr>od_request := (if forgets then mutation_reset (od_request s) else od_request s),
       od_progress := progress_reset (od_progress s)\<rparr>"

definition op_done :: "bool \<Rightarrow> bool \<Rightarrow> string + js \<Rightarrow> op_dialog \<Rightarrow> op_dialog" where
  "op_done closes forgets answer s =
     (let s1 = s\<lparr>od_request := snd (mutation_done answer (od_request s))\<rparr>;
          s2 = (case answer of
                  Inl e \<Rightarrow> s1
                | Inr d \<Rightarrow> (let s3 = s1\<lparr>od_progress := progress_finish (od_progress s1)\<rparr>
                            in if closes then op_close forgets s3 else s3))
      in s2\<lparr>od_progress := progress_stop (od_progress s2)\<rparr>)"

inductive op_reach :: "bool \<Rightarrow> bool \<Rightarrow> op_dialog \<Rightarrow> bool" for closes forgets where
  or_init: "op_reach closes forgets op_dialog_init"
| or_submit: "op_reach closes forgets s \<Longrightarrow> op_reach closes forgets (op_submit works op name s)"
| or_close: "op_reach closes forgets s \<Longrightarrow> op_reach closes forgets (op_close forgets s)"
| or_frame: "op_reach closes forgets s \<Longrightarrow> c \<in> set (op_open (od_progress s)) \<Longrightarrow>
    op_reach closes forgets (s\<lparr>od_progress := progress_frame c frame (od_progress s)\<rparr>)"
| or_done: "op_reach closes forgets s \<Longrightarrow> mu_loading (od_request s) \<Longrightarrow>
    op_reach closes forgets (op_done closes forgets answer s)"

definition progress_ok :: "progress \<Rightarrow> bool" where
  "progress_ok p \<longleftrightarrow>
     (case op_es p of None \<Rightarrow> op_open p = [] | Some e \<Rightarrow> \<exists>op name. op_open p = [(e, op, name)])"

lemma progress_stop_simps [simp]:
  "op_es (progress_stop p) = None" "op_percent (progress_stop p) = op_percent p"
  "progress_ok p \<Longrightarrow> op_open (progress_stop p) = []"
  by (cases "op_es p"; force simp: progress_stop_def progress_ok_def)+

lemma progress_okI: "op_es p = None \<Longrightarrow> op_open p = [] \<Longrightarrow> progress_ok p"
  by (simp add: progress_ok_def)

lemma progress_finish_ok [simp]: "progress_ok p \<Longrightarrow> progress_ok (progress_finish p)"
  by (simp add: progress_ok_def progress_finish_def split: option.splits)

lemma progress_reset_ok [simp]: "progress_ok p \<Longrightarrow> progress_ok (progress_reset p)"
  by (rule progress_okI) (simp_all add: progress_reset_def)

lemma op_done_closed:
  assumes "progress_ok (od_progress s)"
  shows "op_open (od_progress (op_done closes forgets answer s)) = []"
    "op_es (od_progress (op_done closes forgets answer s)) = None"
  using assms by (simp_all add: op_done_def op_close_def Let_def split: sum.splits)

lemma progress_frame_ok: "progress_ok p \<Longrightarrow> progress_ok (progress_frame c frame p)"
proof -
  assume p: "progress_ok p"
  then have "progress_ok (progress_stop p)" by (intro progress_okI) simp_all
  moreover have "progress_ok (p\<lparr>op_percent := n\<rparr>)" for n using p by (simp add: progress_ok_def split: option.splits)
  ultimately show ?thesis using p by (simp add: progress_frame_def split: option.splits prod.splits js.splits)
qed

lemma progress_frame_closed: "op_es p = None \<Longrightarrow> op_es (progress_frame c frame p) = None"
  by (simp add: progress_frame_def progress_stop_def split: option.splits prod.splits js.splits)

definition op_inv :: "op_dialog \<Rightarrow> bool" where
  "op_inv s \<longleftrightarrow> progress_ok (od_progress s) \<and> (\<not> mu_loading (od_request s) \<longrightarrow> op_es (od_progress s) = None)"

lemma op_invariant: "op_reach closes forgets s \<Longrightarrow> op_inv s"
proof (induction rule: op_reach.induct)
  case or_init
  show ?case by (simp add: op_inv_def op_dialog_init_def progress_init_def mutation_init_def progress_ok_def)
next
  case (or_submit s works op name)
  then show ?case
    by (auto simp: op_inv_def op_submit_def progress_start_def Let_def mutation_start_def progress_ok_def)
next
  case (or_close s)
  then show ?case
    by (auto simp: op_inv_def op_close_def progress_reset_def mutation_reset_def intro!: progress_okI)
next
  case (or_frame s c frame)
  then show ?case by (simp add: op_inv_def progress_frame_ok progress_frame_closed)
next
  case (or_done s answer)
  then have "progress_ok (od_progress s)" by (simp add: op_inv_def)
  from op_done_closed[OF this] show ?case by (simp add: op_inv_def progress_okI)
qed

text \<open>
  C5 Following the progress of a clone, a move or an export never leaks a connection and never shows
  somebody else's progress: in every state there is at most one open connection, and none once the
  request has been answered; a frame for another operation or another name changes nothing; and a frame
  saying that the operation is done closes the connection for good.
\<close>

theorem progress_connection:
  assumes "op_reach closes forgets s"
  shows "length (op_open (od_progress s)) \<le> 1
    \<and> (\<not> mu_loading (od_request s) \<longrightarrow> op_open (od_progress s) = [])
    \<and> (op \<noteq> [] \<and> truthy (jget msg ''op'') \<and> jget msg ''op'' \<noteq> Str op \<longrightarrow>
         progress_frame (e, op, name) (Some msg) (od_progress s) = od_progress s)
    \<and> (name \<noteq> [] \<and> truthy (jget msg ''name'') \<and> jget msg ''name'' \<noteq> Str name \<longrightarrow>
         progress_frame (e, op, name) (Some msg) (od_progress s) = od_progress s)
    \<and> op_open (od_progress (op_done closes forgets answer s)) = []"
proof -
  note i = op_invariant[OF assms, unfolded op_inv_def]
  have "op_open (od_progress (op_done closes forgets answer s)) = []" using op_done_closed i by blast
  moreover have "length (op_open (od_progress s)) \<le> 1"
    "\<not> mu_loading (od_request s) \<Longrightarrow> op_open (od_progress s) = []"
    using i by (auto simp: progress_ok_def split: option.splits)
  ultimately show ?thesis by (auto simp: progress_frame_def)
qed

theorem progress_connection_witness:
  "op_open (od_progress (op_done True True (Inl ''disk full'') (op_submit True ''clone'' ''web-2'' op_dialog_init))) = []"
  using progress_connection[OF or_submit[OF or_init, of True True True "''clone''" "''web-2''"], where answer = "Inl ''disk full''"]
  by blast

subsection \<open>\<open>CloneVMModal\<close>\<close>

record clone =
  cl_name :: string
  cl_op :: op_dialog

definition clone_init :: clone where
  "clone_init = \<lparr>cl_name = [], cl_op = op_dialog_init\<rparr>"

text \<open>
  The effect that fills the dialog in: it runs when the dialog opens and, while it is open, whenever the
  page hands it another \<open>vm\<close> object, which every poll of the machine does.
\<close>

definition clone_effect :: "bool \<Rightarrow> js \<Rightarrow> clone \<Rightarrow> clone" where
  "clone_effect shown vm s =
     (if shown \<and> truthy vm
      then s\<lparr>cl_name := to_str (jget vm ''name'') @ ''-clone'',
             cl_op := (cl_op s)\<lparr>od_request := mutation_reset (od_request (cl_op s))\<rparr>\<rparr>
      else s)"

definition clone_disabled :: "clone \<Rightarrow> bool" where
  "clone_disabled s \<longleftrightarrow> js_trim (cl_name s) = [] \<or> mu_loading (od_request (cl_op s))"

definition clone_submit :: "bool \<Rightarrow> js \<Rightarrow> clone \<Rightarrow> request option \<times> clone" where
  "clone_submit works vm s =
     (if clone_disabled s then (None, s)
      else (Some (vm_request (VmClone (to_str (jget vm ''id'')) (js_trim (cl_name s)))),
            s\<lparr>cl_op := op_submit works ''clone'' (js_trim (cl_name s)) (cl_op s)\<rparr>))"

definition clone_close :: "clone \<Rightarrow> clone" where
  "clone_close s = s\<lparr>cl_op := op_close True (cl_op s), cl_name := []\<rparr>"

text \<open>What the page does next: it closes the dialog and goes to the new machine, or stays.\<close>

definition clone_done :: "string + js \<Rightarrow> clone \<Rightarrow> js effect list \<times> clone" where
  "clone_done answer s =
     (case answer of
        Inl e \<Rightarrow> ([], s\<lparr>cl_op := op_done True True answer (cl_op s)\<rparr>)
      | Inr d \<Rightarrow>
          (Callback ''onClose'' []
             # (if truthy (jget d ''id'') then [Callback ''navigate'' [Str (''/vms/'' @ to_str (jget d ''id''))]] else []),
           s\<lparr>cl_op := op_done True True answer (cl_op s), cl_name := []\<rparr>))"

text \<open>
  Cloning asks for the name that stands in the field, trimmed, once at a time; a success leads to the
  new machine with the dialog empty again, a failure keeps the name and shows its message.
\<close>

theorem clone_exact:
  assumes "mu_loading (od_request (cl_op s)) = False"
  shows "fst (clone_submit works vm s) =
      (if js_trim (cl_name s) = [] then None
       else Some (req ''POST'' ''/vms/{vmID}/clone'' [(''vmID'', to_str (jget vm ''id''))] Undef
                    (Obj [(''name'', Str (js_trim (cl_name s)))])))
    \<and> fst (clone_submit works vm (snd (clone_submit works vm s))) = None
    \<and> cl_name (snd (clone_done (Inl e) (snd (clone_submit works vm s)))) = cl_name s
    \<and> mu_error (od_request (cl_op (snd (clone_done (Inl e) (snd (clone_submit works vm s)))))) = Some e
    \<and> clone_done (Inr (Obj [(''id'', Str (CHR ''v'' # i))])) (snd (clone_submit works vm s)) =
        ([Callback ''onClose'' [], Callback ''navigate'' [Str (''/vms/v'' @ i)]],
         snd (clone_done (Inr (Obj [(''id'', Str (CHR ''v'' # i))])) (snd (clone_submit works vm s))))"
  using assms
  by (auto simp: clone_submit_def clone_disabled_def op_submit_def mutation_start_def clone_done_def op_done_def
      mutation_done_def)

theorem clone_exact_witness:
  "fst (clone_submit True (Obj [(''id'', Str ''vm-1'')]) (clone_init\<lparr>cl_name := ''web-2''\<rparr>)) =
     Some (req ''POST'' ''/vms/{vmID}/clone'' [(''vmID'', ''vm-1'')] Undef (Obj [(''name'', Str ''web-2'')]))"
proof -
  have t: "js_trim ''web-2'' = ''web-2''" by (simp add: js_trim_def trim_start_def is_ws_def)
  have "mu_loading (od_request (cl_op (clone_init\<lparr>cl_name := ''web-2''\<rparr>))) = False"
    by (simp add: clone_init_def op_dialog_init_def mutation_init_def)
  from clone_exact[OF this, of True "Obj [(''id'', Str ''vm-1'')]"] show ?thesis by (simp add: t)
qed

text \<open>
  A poll of the machine undoes what is being typed: while the dialog is open, the next answer for the
  machine puts the default name back, whatever was in the field, and takes the last error away.
\<close>

theorem clone_name_lost:
  shows "cl_name (clone_effect True (Obj ((''name'', Str n) # ps)) (s\<lparr>cl_name := typed\<rparr>)) = n @ ''-clone''
    \<and> mu_error (od_request (cl_op (clone_effect True (Obj ((''name'', Str n) # ps)) s))) = None"
  by (simp add: clone_effect_def mutation_reset_def)

subsection \<open>\<open>MoveDiskModal\<close>\<close>

record move_disk =
  mv_open :: bool
  mv_location :: string
  mv_preselected :: bool
  mv_locations :: "js list"
  mv_op :: op_dialog

definition move_init :: move_disk where
  "move_init = \<lparr>mv_open = False, mv_location = [], mv_preselected = False, mv_locations = [], mv_op = op_dialog_init\<rparr>"

definition move_current :: "js \<Rightarrow> string" where
  "move_current vm = to_str (js_or (jget (jget vm ''spec'') ''disk_location'') (Str ''default''))"

definition move_target :: "string \<Rightarrow> js \<Rightarrow> bool" where
  "move_target current l \<longleftrightarrow> truthy (jget l ''available'') \<and> jget l ''name'' \<noteq> Str current"

text \<open>The effect that chooses the first possible target, once per opening.\<close>

definition move_preselect :: "string \<Rightarrow> move_disk \<Rightarrow> move_disk" where
  "move_preselect current s =
     (if \<not> mv_open s \<or> mv_preselected s then s
      else case find (move_target current) (mv_locations s) of
             None \<Rightarrow> s
           | Some l \<Rightarrow> s\<lparr>mv_preselected := True, mv_location := to_str (jget l ''name'')\<rparr>)"

definition move_open :: "string \<Rightarrow> move_disk \<Rightarrow> move_disk" where
  "move_open current s =
     move_preselect current
       (s\<lparr>mv_open := True, mv_location := [], mv_preselected := False,
          mv_op := (mv_op s)\<lparr>od_request := mutation_reset (od_request (mv_op s))\<rparr>\<rparr>)"

definition move_loaded :: "string \<Rightarrow> js \<Rightarrow> move_disk \<Rightarrow> move_disk" where
  "move_loaded current ls s = move_preselect current (s\<lparr>mv_locations := safe_array ls\<rparr>)"

definition move_pick :: "string \<Rightarrow> move_disk \<Rightarrow> move_disk" where
  "move_pick l s = s\<lparr>mv_location := l\<rparr>"

definition move_close :: "move_disk \<Rightarrow> move_disk" where
  "move_close s = s\<lparr>mv_open := False, mv_op := op_close True (mv_op s)\<rparr>"

definition move_disabled :: "string \<Rightarrow> move_disk \<Rightarrow> bool" where
  "move_disabled current s \<longleftrightarrow>
     js_trim (mv_location s) = [] \<or> js_trim (mv_location s) = current \<or> mu_loading (od_request (mv_op s))"

definition move_submit :: "bool \<Rightarrow> string \<Rightarrow> string \<Rightarrow> move_disk \<Rightarrow> request option \<times> move_disk" where
  "move_submit works vm current s =
     (if move_disabled current s then (None, s)
      else (Some (vm_request (VmMoveDisk vm (js_trim (mv_location s)))),
            s\<lparr>mv_op := op_submit works ''move_disk'' (mv_location s) (mv_op s)\<rparr>))"

definition move_done :: "string + js \<Rightarrow> move_disk \<Rightarrow> js effect list \<times> move_disk" where
  "move_done answer s =
     (case answer of
        Inl e \<Rightarrow> ([], s\<lparr>mv_op := op_done True True answer (mv_op s)\<rparr>)
      | Inr d \<Rightarrow> ([Callback ''onMoved'' [], Callback ''reloadLocations'' [], Callback ''onClose'' []],
                  s\<lparr>mv_open := False, mv_op := op_done True True answer (mv_op s)\<rparr>))"

definition move_selectable :: "string \<Rightarrow> move_disk \<Rightarrow> bool" where
  "move_selectable current s \<longleftrightarrow> (\<exists>l\<in>set (mv_locations s). move_target current l)"

text \<open>What the dialog shows between the current location and the buttons.\<close>

datatype move_view = MoveSpinner | MoveError string | MoveSelect bool

definition move_show :: "bool \<Rightarrow> string option \<Rightarrow> string \<Rightarrow> move_disk \<Rightarrow> move_view" where
  "move_show loading err current s =
     (if loading \<and> mv_locations s = [] then MoveSpinner
      else case err of Some e \<Rightarrow> MoveError e | None \<Rightarrow> MoveSelect (\<not> move_selectable current s))"

text \<open>
  C18 The disk is never moved to where it is, and the operator's choice stands. On opening, the first
  available location other than the current one is chosen, if there is one; once one was chosen, another
  list of locations changes nothing; and a request goes out only for a location that is not blank and
  not the current one, only one at a time, carrying the location trimmed.
\<close>

theorem move_disk_safe:
  shows "mv_location (move_open current s) =
      (case find (move_target current) (mv_locations s) of None \<Rightarrow> [] | Some l \<Rightarrow> to_str (jget l ''name''))
    \<and> (mv_preselected s \<longrightarrow> mv_location (move_loaded current ls (move_pick l s)) = l)
    \<and> (\<forall>q. fst (move_submit works vm current s) = Some q \<longrightarrow>
         js_trim (mv_location s) \<notin> {[], current} \<and> \<not> mu_loading (od_request (mv_op s))
         \<and> rq_body q = Obj [(''location'', Str (js_trim (mv_location s)))]
         \<and> fst (move_submit works vm current (snd (move_submit works vm current s))) = None)"
proof -
  have "mv_location (move_open current s) =
      (case find (move_target current) (mv_locations s) of None \<Rightarrow> [] | Some l \<Rightarrow> to_str (jget l ''name''))"
    by (simp add: move_open_def move_preselect_def split: option.splits)
  moreover have "mv_preselected s \<longrightarrow> mv_location (move_loaded current ls (move_pick l s)) = l"
    by (simp add: move_loaded_def move_preselect_def move_pick_def)
  ultimately show ?thesis
    by (auto simp: move_submit_def move_disabled_def op_submit_def mutation_start_def req_def split: if_splits)
qed

theorem move_disk_safe_witness:
  "mv_location (move_loaded ''default'' (Arr []) (move_pick ''/mnt/ssd'' (move_init\<lparr>mv_preselected := True\<rparr>))) = ''/mnt/ssd''"
  by (rule move_disk_safe[THEN conjunct2, THEN conjunct1, rule_format]) simp

subsection \<open>\<open>ExportImageModal\<close>\<close>

record export =
  ex_name :: string
  ex_done :: bool
  ex_op :: op_dialog

definition export_init :: export where
  "export_init = \<lparr>ex_name = [], ex_done = False, ex_op = op_dialog_init\<rparr>"

definition export_disabled :: "export \<Rightarrow> bool" where
  "export_disabled s \<longleftrightarrow> ex_name s = [] \<or> mu_loading (od_request (ex_op s))"

definition export_submit :: "bool \<Rightarrow> string \<Rightarrow> export \<Rightarrow> request option \<times> export" where
  "export_submit works vm s =
     (if export_disabled s then (None, s)
      else (Some (image_request (ImageCreate vm (ex_name s) Undef)),
            s\<lparr>ex_op := op_submit works ''export'' (ex_name s) (ex_op s)\<rparr>))"

definition export_done :: "string + js \<Rightarrow> export \<Rightarrow> export" where
  "export_done answer s =
     s\<lparr>ex_op := op_done False False answer (ex_op s),
       ex_done := (case answer of Inr _ \<Rightarrow> True | Inl _ \<Rightarrow> ex_done s)\<rparr>"

definition export_close :: "export \<Rightarrow> export" where
  "export_close s = s\<lparr>ex_op := op_close False (ex_op s), ex_name := [], ex_done := False\<rparr>"

text \<open>A dialog closed after a refused export opens with the old message: it is not reset.\<close>

lemma export_error_stays:
  "mu_error (od_request (ex_op (export_close (export_done (Inl e) s)))) = Some e"
  by (simp add: export_close_def export_done_def op_close_def op_done_def mutation_done_def)

end
