(* ===== verification/EditMachine.thy ===== *)
theory EditMachine imports DetailForms begin

text \<open>
  Editing a machine, \<open>EditVMModal\<close> of \<open>web/src/pages/VMDetail.jsx\<close>: the form is filled in when the
  dialog opens, and saving sends a patch of what differs from the machine as it is then. The fields of
  \<open>edit_vm\<close> are the component's states.
\<close>

record edit_vm =
  ev_cpus :: string
  ev_ram :: string
  ev_disk :: string
  ev_description :: string
  ev_tags :: string
  ev_ip :: string
  ev_auto_start :: bool
  ev_locked :: bool
  ev_disk_bus :: string
  ev_nic_model :: string

definition edit_vm_empty :: edit_vm where
  "edit_vm_empty = \<lparr>ev_cpus = [], ev_ram = [], ev_disk = [], ev_description = [], ev_tags = [], ev_ip = [],
     ev_auto_start = False, ev_locked = False, ev_disk_bus = [], ev_nic_model = []\<rparr>"

subsection \<open>What the machine has now\<close>

definition spec_number :: "js \<Rightarrow> string \<Rightarrow> rat" where
  "spec_number vm k = the_num (jget (normalize_spec (jget vm ''spec'')) k)"

text \<open>\<open>ip.replace(/\/\d+$/, '')\<close>\<close>

definition strip_mask :: "string \<Rightarrow> string" where
  "strip_mask s =
     (let ds = takeWhile is_digit (rev s); r = dropWhile is_digit (rev s) in
      if ds \<noteq> [] \<and> r \<noteq> [] \<and> hd r = CHR ''/'' then rev (tl r) else s)"

definition current_ip :: "js \<Rightarrow> string" where
  "current_ip vm =
     (let i = jget (normalize_spec (jget vm ''spec'')) ''nat_static_ip'' in
      the_str (js_or (jget vm ''ip'') (Str (if truthy i then strip_mask (the_str i) else []))))"

definition spec_flag :: "js \<Rightarrow> string \<Rightarrow> bool" where
  "spec_flag vm k = truthy (jget (normalize_spec (jget vm ''spec'')) k)"

definition spec_text :: "js \<Rightarrow> string \<Rightarrow> string" where
  "spec_text vm k = the_str (js_or (jget (normalize_spec (jget vm ''spec'')) k) (Str []))"

definition vm_tags_joined :: "string \<Rightarrow> js \<Rightarrow> string" where
  "vm_tags_joined sep vm = js_join sep (map to_str (safe_array (jget vm ''tags'')))"

definition vm_description :: "js \<Rightarrow> string" where
  "vm_description vm = the_str (js_or (jget vm ''description'') (Str []))"

subsection \<open>Opening and saving\<close>

definition number_field :: "rat \<Rightarrow> string" where
  "number_field r = (if 0 < r then num_str (Fin r) else [])"

definition edit_vm_open :: "js \<Rightarrow> edit_vm" where
  "edit_vm_open vm =
     \<lparr>ev_cpus = number_field (spec_number vm ''cpus''), ev_ram = number_field (spec_number vm ''ram_mb''),
      ev_disk = number_field (spec_number vm ''disk_gb''), ev_description = vm_description vm,
      ev_tags = vm_tags_joined '', '' vm, ev_ip = current_ip vm,
      ev_auto_start = spec_flag vm ''auto_start'', ev_locked = spec_flag vm ''locked'',
      ev_disk_bus = spec_text vm ''disk_bus'', ev_nic_model = spec_text vm ''nic_model''\<rparr>"

text \<open>The effect depends on \<open>open\<close> only: polls of the machine leave the form alone.\<close>

definition edit_vm_effect :: "bool \<Rightarrow> bool \<Rightarrow> js \<Rightarrow> edit_vm \<Rightarrow> edit_vm" where
  "edit_vm_effect was_open is_open vm f = (if is_open \<noteq> was_open \<and> is_open \<and> truthy vm then edit_vm_open vm else f)"

definition switch_to_virtio :: "edit_vm \<Rightarrow> edit_vm" where
  "switch_to_virtio f = f\<lparr>ev_disk_bus := ''virtio'', ev_nic_model := ''virtio''\<rparr>"

definition patch_numbers :: "js \<Rightarrow> edit_vm \<Rightarrow> js \<Rightarrow> js" where
  "patch_numbers vm f p =
     put_if (int_or_nan (ev_disk f) \<noteq> Num (Fin (spec_number vm ''disk_gb''))) ''disk_gb'' (int_or_nan (ev_disk f))
       (put_if (int_or_nan (ev_ram f) \<noteq> Num (Fin (spec_number vm ''ram_mb''))) ''ram_mb'' (int_or_nan (ev_ram f))
         (put_if (int_or_nan (ev_cpus f) \<noteq> Num (Fin (spec_number vm ''cpus''))) ''cpus'' (int_or_nan (ev_cpus f)) p))"

definition patch_texts :: "js \<Rightarrow> edit_vm \<Rightarrow> js \<Rightarrow> js" where
  "patch_texts vm f p =
     (let d = js_trim (ev_description f); ts = parse_tags (ev_tags f) in
      put_if (js_join '','' ts \<noteq> vm_tags_joined '','' vm) ''tags'' (Arr (map Str ts))
        (put_if (d \<noteq> vm_description vm) ''description'' (Str d) p))"

text \<open>An address without a mask gets \<open>/24\<close>; a blank one is not sent.\<close>

definition with_mask :: "string \<Rightarrow> string" where
  "with_mask ip = (if CHR ''/'' \<in> set ip then ip else ip @ ''/24'')"

definition patch_ip :: "js \<Rightarrow> edit_vm \<Rightarrow> js \<Rightarrow> js" where
  "patch_ip vm f p =
     (let ip = js_trim (ev_ip f) in
      put_if (ip \<noteq> [] \<and> ip \<noteq> current_ip vm) ''nat_static_ip'' (Str (with_mask ip)) p)"

definition patch_devices :: "js \<Rightarrow> edit_vm \<Rightarrow> js \<Rightarrow> js" where
  "patch_devices vm f p =
     put_if (ev_nic_model f \<noteq> spec_text vm ''nic_model'') ''nic_model'' (Str (ev_nic_model f))
       (put_if (ev_disk_bus f \<noteq> spec_text vm ''disk_bus'') ''disk_bus'' (Str (ev_disk_bus f))
         (put_if (ev_locked f \<noteq> spec_flag vm ''locked'') ''locked'' (Bool (ev_locked f))
           (put_if (ev_auto_start f \<noteq> spec_flag vm ''auto_start'') ''auto_start'' (Bool (ev_auto_start f)) p)))"

definition edit_vm_patch :: "js \<Rightarrow> edit_vm \<Rightarrow> js" where
  "edit_vm_patch vm f = patch_devices vm f (patch_ip vm f (patch_texts vm f (patch_numbers vm f (Obj []))))"

text \<open>The request, if any, and the callbacks, given whether the request succeeds.\<close>

definition edit_vm_submit :: "js \<Rightarrow> bool \<Rightarrow> edit_vm \<Rightarrow> request option \<times> string list" where
  "edit_vm_submit vm ok f =
     (let p = edit_vm_patch vm f in
      if jkeys p = [] then (None, [''onClose''])
      else (Some (vm_request (VmUpdate (to_str (jget vm ''id'')) p)), if ok then [''onUpdated'', ''onClose''] else []))"

subsection \<open>Facts\<close>

text \<open>A machine as the daemon stores it.\<close>

record machine =
  mc_cpus :: nat
  mc_ram :: nat
  mc_disk :: nat
  mc_description :: string
  mc_tags :: "string list"
  mc_ip :: string
  mc_auto_start :: bool
  mc_locked :: bool
  mc_disk_bus :: string
  mc_nic_model :: string

definition stored_vm :: "js \<Rightarrow> machine \<Rightarrow> bool" where
  "stored_vm vm m \<longleftrightarrow>
     spec_number vm ''cpus'' = of_nat (mc_cpus m) \<and> spec_number vm ''ram_mb'' = of_nat (mc_ram m)
     \<and> spec_number vm ''disk_gb'' = of_nat (mc_disk m)
     \<and> vm_description vm = mc_description m \<and> js_trim (mc_description m) = mc_description m
     \<and> map to_str (safe_array (jget vm ''tags'')) = mc_tags m \<and> (\<forall>t\<in>set (mc_tags m). clean_tag t)
     \<and> current_ip vm = mc_ip m \<and> js_trim (mc_ip m) = mc_ip m
     \<and> spec_flag vm ''auto_start'' = mc_auto_start m \<and> spec_flag vm ''locked'' = mc_locked m
     \<and> spec_text vm ''disk_bus'' = mc_disk_bus m \<and> spec_text vm ''nic_model'' = mc_nic_model m"

lemma int_or_nan_nat [simp]: "int_or_nan (nat_str n) = JNat n"
  by (simp add: int_or_nan_def)

lemma number_field_nat: "number_field (of_nat n) = (if 0 < n then nat_str n else [])"
  by (simp add: number_field_def int_str_def)

lemma strip_mask_with_mask:
  assumes "CHR ''/'' \<notin> set ip" shows "strip_mask (with_mask ip) = ip"
  using assms by (simp add: with_mask_def strip_mask_def is_digit_def digit_of_def)

lemma edit_vm_patch_gets:
  assumes "stored_vm vm m" and p_def: "p = edit_vm_patch vm f"
  shows "jget p ''cpus'' = (if int_or_nan (ev_cpus f) = JNat (mc_cpus m) then Undef else int_or_nan (ev_cpus f))"
    "jget p ''ram_mb'' = (if int_or_nan (ev_ram f) = JNat (mc_ram m) then Undef else int_or_nan (ev_ram f))"
    "jget p ''disk_gb'' = (if int_or_nan (ev_disk f) = JNat (mc_disk m) then Undef else int_or_nan (ev_disk f))"
    "jget p ''description'' = (if js_trim (ev_description f) = mc_description m then Undef else Str (js_trim (ev_description f)))"
    "jget p ''tags'' = (if parse_tags (ev_tags f) = mc_tags m then Undef else Arr (map Str (parse_tags (ev_tags f))))"
    "jget p ''nat_static_ip'' =
        (if js_trim (ev_ip f) \<in> {[], mc_ip m} then Undef else Str (with_mask (js_trim (ev_ip f))))"
    "jget p ''auto_start'' = (if ev_auto_start f = mc_auto_start m then Undef else Bool (ev_auto_start f))"
    "jget p ''locked'' = (if ev_locked f = mc_locked m then Undef else Bool (ev_locked f))"
    "jget p ''disk_bus'' = (if ev_disk_bus f = mc_disk_bus m then Undef else Str (ev_disk_bus f))"
    "jget p ''nic_model'' = (if ev_nic_model f = mc_nic_model m then Undef else Str (ev_nic_model f))"
proof -
  note s = assms(1)[unfolded stored_vm_def]
  have j: "js_join '','' (parse_tags u) = vm_tags_joined '','' vm \<longleftrightarrow> parse_tags u = mc_tags m" for u
    using s join_clean_inj parse_tags_clean unfolding vm_tags_joined_def by metis
  note p = p_def[unfolded edit_vm_patch_def patch_numbers_def patch_texts_def patch_ip_def patch_devices_def Let_def j]
  show "jget p ''cpus'' = (if int_or_nan (ev_cpus f) = JNat (mc_cpus m) then Undef else int_or_nan (ev_cpus f))"
    "jget p ''ram_mb'' = (if int_or_nan (ev_ram f) = JNat (mc_ram m) then Undef else int_or_nan (ev_ram f))"
    "jget p ''disk_gb'' = (if int_or_nan (ev_disk f) = JNat (mc_disk m) then Undef else int_or_nan (ev_disk f))"
    "jget p ''description'' = (if js_trim (ev_description f) = mc_description m then Undef else Str (js_trim (ev_description f)))"
    "jget p ''tags'' = (if parse_tags (ev_tags f) = mc_tags m then Undef else Arr (map Str (parse_tags (ev_tags f))))"
    "jget p ''nat_static_ip'' =
        (if js_trim (ev_ip f) \<in> {[], mc_ip m} then Undef else Str (with_mask (js_trim (ev_ip f))))"
    "jget p ''auto_start'' = (if ev_auto_start f = mc_auto_start m then Undef else Bool (ev_auto_start f))"
    "jget p ''locked'' = (if ev_locked f = mc_locked m then Undef else Bool (ev_locked f))"
    "jget p ''disk_bus'' = (if ev_disk_bus f = mc_disk_bus m then Undef else Str (ev_disk_bus f))"
    "jget p ''nic_model'' = (if ev_nic_model f = mc_nic_model m then Undef else Str (ev_nic_model f))"
    using s by (simp_all add: p put_if_layer)
qed

lemma edit_vm_unchanged:
  assumes "stored_vm vm m" "0 < mc_cpus m" "0 < mc_ram m" "0 < mc_disk m"
  shows "edit_vm_submit vm ok (edit_vm_open vm) = (None, [''onClose''])"
proof -
  note s = assms(1)[unfolded stored_vm_def]
  have t: "parse_tags (vm_tags_joined '', '' vm) = mc_tags m"
    using s parse_tags_join_comma_space unfolding vm_tags_joined_def by metis
  have tj: "vm_tags_joined '','' vm = js_join '','' (mc_tags m)" using s unfolding vm_tags_joined_def by metis
  have i: "js_trim (current_ip vm) = current_ip vm" "js_trim (vm_description vm) = vm_description vm"
    using s by simp_all
  have n: "int_or_nan (number_field (spec_number vm k)) = Num (Fin (spec_number vm k))"
    if "k \<in> {''cpus'', ''ram_mb'', ''disk_gb''}" for k
    using that s assms(2-4) by (auto simp: number_field_nat)
  have "edit_vm_patch vm (edit_vm_open vm) = Obj []"
    by (simp add: edit_vm_patch_def patch_numbers_def patch_texts_def patch_ip_def patch_devices_def edit_vm_open_def
        put_if_def n i tj t Let_def)
  then show ?thesis by (simp add: edit_vm_submit_def jkeys_def)
qed

text \<open>
  C9 Editing a machine sends exactly what was changed: each size when the number typed is another one,
  the description and the tags when they differ, the address (with a mask) when it is neither blank nor
  the current one, each flag and each device model when it was switched, and nothing else. Saving the
  dialog as it was opened sends nothing, and polls of the machine do not touch the form meanwhile.
\<close>

theorem edit_vm_exact:
  assumes "stored_vm vm m" "0 < mc_cpus m" "0 < mc_ram m" "0 < mc_disk m"
    and p_def: "p = edit_vm_patch vm f"
  shows "jget p ''cpus'' = (if int_or_nan (ev_cpus f) = JNat (mc_cpus m) then Undef else int_or_nan (ev_cpus f))
    \<and> jget p ''ram_mb'' = (if int_or_nan (ev_ram f) = JNat (mc_ram m) then Undef else int_or_nan (ev_ram f))
    \<and> jget p ''disk_gb'' = (if int_or_nan (ev_disk f) = JNat (mc_disk m) then Undef else int_or_nan (ev_disk f))
    \<and> jget p ''description'' = (if js_trim (ev_description f) = mc_description m then Undef else Str (js_trim (ev_description f)))
    \<and> jget p ''tags'' = (if parse_tags (ev_tags f) = mc_tags m then Undef else Arr (map Str (parse_tags (ev_tags f))))
    \<and> jget p ''nat_static_ip'' =
        (if js_trim (ev_ip f) \<in> {[], mc_ip m} then Undef else Str (with_mask (js_trim (ev_ip f))))
    \<and> jget p ''auto_start'' = (if ev_auto_start f = mc_auto_start m then Undef else Bool (ev_auto_start f))
    \<and> jget p ''locked'' = (if ev_locked f = mc_locked m then Undef else Bool (ev_locked f))
    \<and> jget p ''disk_bus'' = (if ev_disk_bus f = mc_disk_bus m then Undef else Str (ev_disk_bus f))
    \<and> jget p ''nic_model'' = (if ev_nic_model f = mc_nic_model m then Undef else Str (ev_nic_model f))
    \<and> edit_vm_submit vm ok (edit_vm_open vm) = (None, [''onClose''])
    \<and> edit_vm_effect True True vm' f = f"
  using edit_vm_patch_gets[OF assms(1) p_def] edit_vm_unchanged[OF assms(1-4)] by (simp add: edit_vm_effect_def)

theorem edit_vm_exact_witness:
  "jget (edit_vm_patch (Obj [(''spec'', Obj [(''cpus'', JNat 2), (''ram_mb'', JNat 2048), (''disk_gb'', JNat 20)]), (''ip'', Str ''10.0.0.5'')])
     (edit_vm_empty\<lparr>ev_cpus := nat_str 4, ev_ram := nat_str 2048, ev_disk := nat_str 20, ev_ip := ''10.0.0.7''\<rparr>)) ''nat_static_ip''
   = Str ''10.0.0.7/24''"
proof -
  let ?vm = "Obj [(''spec'', Obj [(''cpus'', JNat 2), (''ram_mb'', JNat 2048), (''disk_gb'', JNat 20)]), (''ip'', Str ''10.0.0.5'')]"
  let ?m = "\<lparr>mc_cpus = 2, mc_ram = 2048, mc_disk = 20, mc_description = [], mc_tags = [], mc_ip = ''10.0.0.5'',
     mc_auto_start = False, mc_locked = False, mc_disk_bus = [], mc_nic_model = []\<rparr>"
  let ?f = "edit_vm_empty\<lparr>ev_cpus := nat_str 4, ev_ram := nat_str 2048, ev_disk := nat_str 20, ev_ip := ''10.0.0.7''\<rparr>"
  have s: "stored_vm ?vm ?m"
    by (simp add: stored_vm_def spec_number_def normalize_spec_def vm_description_def current_ip_def spec_flag_def
        spec_text_def js_or_def safe_array_def js_trim_def trim_start_def is_ws_def)
  have t: "js_trim ''10.0.0.7'' = ''10.0.0.7''" by (simp add: js_trim_def trim_start_def is_ws_def)
  have "jget (edit_vm_patch ?vm ?f) ''nat_static_ip'' =
      (if js_trim (ev_ip ?f) \<in> {[], mc_ip ?m} then Undef else Str (with_mask (js_trim (ev_ip ?f))))"
    using edit_vm_exact[OF s _ _ _ refl, of ?f] by force
  then show ?thesis by (simp add: t with_mask_def)
qed

text \<open>
  A machine whose size is not known (the field starts blank) is patched by a dialog that was only opened
  and saved: the blank number is not a number, which differs from everything.
\<close>

lemma edit_vm_unknown_size:
  assumes "spec_number vm ''cpus'' = 0"
  shows "fst (edit_vm_submit vm ok (edit_vm_open vm)) \<noteq> None"
proof -
  have "int_or_nan (ev_cpus (edit_vm_open vm)) = Num NaN"
    by (simp add: edit_vm_open_def assms number_field_def int_or_nan_def)
  then have "jget (edit_vm_patch vm (edit_vm_open vm)) ''cpus'' = Num NaN"
    by (simp add: edit_vm_patch_def patch_numbers_def patch_texts_def patch_ip_def patch_devices_def put_if_layer Let_def)
  then have "jkeys (edit_vm_patch vm (edit_vm_open vm)) \<noteq> []"
    by (cases "edit_vm_patch vm (edit_vm_open vm)") (auto simp: jkeys_def split: if_splits)
  then show ?thesis by (simp add: edit_vm_submit_def Let_def)
qed

end
