(* ===== verification/DetailView.thy ===== *)
theory DetailView imports EditMachine begin

text \<open>
  What the machine page shows and offers, \<open>web/src/pages/VMDetail.jsx\<close>: the header with the lifecycle
  buttons, the cards of the overview, the schedules that target the machine, and the metrics tab.
  \<open>locale\<close> stands for \<open>toLocaleString\<close>, \<open>enc\<close> for \<open>encodeURIComponent\<close>.
\<close>

subsection \<open>The page and its header\<close>

datatype screen = ScreenSpinner | ScreenError string | ScreenNothing | ScreenPage js

definition detail_screen :: "bool \<Rightarrow> string option \<Rightarrow> js \<Rightarrow> screen" where
  "detail_screen loading err vm =
     (if loading \<and> \<not> truthy vm then ScreenSpinner
      else case err of
        Some e \<Rightarrow> (if e = [] then (if truthy vm then ScreenPage vm else ScreenNothing) else ScreenError e)
      | None \<Rightarrow> if truthy vm then ScreenPage vm else ScreenNothing)"

definition os_badge :: "js \<Rightarrow> string" where
  "os_badge spec =
     (if resolve_os_type spec = ''windows'' then
        (let v = to_str (jget spec ''os_variant'');
             v1 = (if starts_with v ''windows-'' then ''Windows '' @ drop 8 v else v)
         in if truthy (jget spec ''os_variant'')
            then title_case_words (map (\<lambda>ch. if ch = CHR ''-'' then CHR '' '' else ch) v1) else ''Windows'')
      else ''Linux'')"

text \<open>The lifecycle buttons: name, state it is offered in, the question asked first, and the request.\<close>

definition lifecycle_buttons :: "(string \<times> string \<times> (string \<Rightarrow> string) option \<times> (string \<Rightarrow> vm_op)) list" where
  "lifecycle_buttons =
    [(''btn-start'', ''stopped'', None, VmStart), (''btn-stop'', ''running'', None, VmStop),
     (''btn-force-stop'', ''running'',
      Some (\<lambda>n. ''Force-stop '' @ n @ ''? This skips graceful shutdown and may cause data loss.''), VmForceStop),
     (''btn-restart'', ''running'', None, VmRestart), (''btn-reboot'', ''running'', None, VmReboot),
     (''btn-suspend'', ''running'', None, VmSuspend), (''btn-resume'', ''paused'', None, VmResume)]"

definition offered :: "js \<Rightarrow> (string \<times> string \<times> (string \<Rightarrow> string) option \<times> (string \<Rightarrow> vm_op)) list" where
  "offered vm = filter (\<lambda>(i, st, q, op). jget vm ''state'' = Str st) lifecycle_buttons"

text \<open>A click on an offered button: the question, the request and, when it succeeds, a refresh.\<close>

datatype step = Ask string | Send request | Refresh | Navigate string | OpenTab string

definition lifecycle_click :: "string \<Rightarrow> string \<Rightarrow> js \<Rightarrow> bool \<Rightarrow> bool \<Rightarrow> step list" where
  "lifecycle_click button mid vm yes ok =
     (case filter (\<lambda>(i, st, q, op). i = button) (offered vm) of
        [] \<Rightarrow> []
      | (i, st, q, op) # _ \<Rightarrow>
          (let go = Send (vm_request (op mid)) # (if ok then [Refresh] else []) in
           case q of None \<Rightarrow> go | Some f \<Rightarrow> Ask (f (to_str (jget vm ''name''))) # (if yes then go else [])))"

definition console_offered :: "js \<Rightarrow> bool" where
  "console_offered vm \<longleftrightarrow> jget vm ''state'' = Str ''running''"

definition open_console :: "string \<Rightarrow> step list" where
  "open_console mid = [OpenTab (''/vms/'' @ mid @ ''/console'')]"

definition handle_delete_vm :: "string \<Rightarrow> js \<Rightarrow> bool \<Rightarrow> bool \<Rightarrow> step list" where
  "handle_delete_vm mid vm yes ok =
     Ask (''Delete '' @ to_str (jget vm ''name'') @ ''? This cannot be undone.'')
     # (if yes then Send (vm_request (VmDelete mid)) # (if ok then [Navigate ''/vms''] else []) else [])"

text \<open>The label of the progress bar; the requests under way in the order start, stop, \<dots>, delete.\<close>

definition lifecycle_labels :: "string list" where
  "lifecycle_labels =
    map (\<lambda>s. s @ ellipsis)
      [''Starting machine'', ''Stopping machine'', ''Force-stopping machine'', ''Restarting machine'',
       ''Rebooting guest OS'', ''Suspending machine'', ''Resuming machine'', ''Deleting machine'']"

definition lifecycle_label :: "bool list \<Rightarrow> string option" where
  "lifecycle_label loading = (case filter fst (zip loading lifecycle_labels) of [] \<Rightarrow> None | (_, l) # _ \<Rightarrow> Some l)"

subsection \<open>The overview\<close>

definition finite_or_dash :: "js \<Rightarrow> string" where
  "finite_or_dash v = (if is_finite v then to_str v else em_dash)"

definition secure_boot_on :: "js \<Rightarrow> bool" where
  "secure_boot_on spec \<longleftrightarrow>
     jget spec ''secure_boot'' = Bool True
     \<or> nullish (jget spec ''secure_boot'')
       \<and> js_lower (to_str (js_or (jget spec ''os_variant'') (Str []))) = ''windows-11''"

definition firmware_text :: "js \<Rightarrow> string" where
  "firmware_text spec =
     (let raw = js_lower (js_trim (to_str (js_or (jget spec ''firmware'') (Str [])))); on = secure_boot_on spec in
      if raw = ''uefi'' \<or> raw = ''ovmf'' \<or> on
      then ''UEFI '' @ mid_dot @ '' Secure Boot '' @ (if on then ''on'' else ''off'') else ''BIOS'')"

definition ssh_user :: "js \<Rightarrow> string" where
  "ssh_user spec =
     to_str (js_or (jget spec ''default_user'')
       (Str (if resolve_os_type spec = ''windows'' then ''Administrator'' else ''root'')))"

definition or_dash :: "js \<Rightarrow> string" where
  "or_dash v = (if truthy v then to_str v else em_dash)"

definition access_text :: "js \<Rightarrow> js \<Rightarrow> string" where
  "access_text vm spec =
     (if truthy (jget vm ''ip'') then
        (if resolve_os_type spec = ''windows''
         then ''RDP '' @ to_str (jget vm ''ip'') @ '' '' @ mid_dot @ '' user: '' @ ssh_user spec
         else ''ssh '' @ ssh_user spec @ ''@'' @ to_str (jget vm ''ip''))
      else ''user: '' @ ssh_user spec)"

definition info_cards :: "(js \<Rightarrow> string) \<Rightarrow> js \<Rightarrow> (string \<times> string) list" where
  "info_cards locale vm =
     (let spec = normalize_spec (jget vm ''spec''); tags = safe_array (jget vm ''tags'') in
     [(''IP Address'', to_str (js_or (jget vm ''ip'') (Str ''Not assigned''))),
      (''Image'', or_dash (jget spec ''image'')),
      (''Resources'', finite_or_dash (jget spec ''cpus'') @ '' vCPU '' @ mid_dot @ '' '' @ finite_or_dash (jget spec ''ram_mb'')
          @ '' MB RAM '' @ mid_dot @ '' '' @ finite_or_dash (jget spec ''disk_gb'') @ '' GB disk''),
      (''Created'', if truthy (jget vm ''created_at'') then locale (jget vm ''created_at'') else em_dash),
      (''Description'', or_dash (jget vm ''description'')),
      (''Tags'', if tags \<noteq> [] then js_join ('' '' @ mid_dot @ '' '') (map (\<lambda>t. ''#'' @ to_str t) tags) else em_dash),
      (if resolve_os_type spec = ''windows'' then ''Access'' else ''SSH'', access_text vm spec),
      (''Auto-start at boot'', if truthy (jget spec ''auto_start'') then ''On'' else ''Off''),
      (''Delete protection'', if truthy (jget spec ''locked'') then ''Locked'' else ''Unlocked''),
      (''Firmware'', firmware_text spec)])"

text \<open>Location, path, whether the disk can be moved now, and the button's hint.\<close>

definition disk_card :: "js \<Rightarrow> string \<times> string \<times> bool \<times> string" where
  "disk_card vm =
     (let can = (jget vm ''state'' = Str ''stopped'') in
      (to_str (js_or (jget (normalize_spec (jget vm ''spec'')) ''disk_location'') (Str ''default'')),
       to_str (js_or (jget vm ''disk_path'') (Str [])), can,
       if can then ''Move the disk to another storage location'' else ''Stop the machine to move its disk''))"

definition install_iso :: "js \<Rightarrow> string" where
  "install_iso spec = (case jget spec ''install_iso'' of Str s \<Rightarrow> js_trim s | _ \<Rightarrow> [])"

definition handle_eject_iso :: "string \<Rightarrow> js \<Rightarrow> bool \<Rightarrow> bool \<Rightarrow> step list" where
  "handle_eject_iso mid vm yes ok =
     Ask (''Eject the installer ISO from '' @ to_str (jget vm ''name'') @ ''? The VM will boot from its disk.''
          @ (if jget vm ''state'' = Str ''running'' then '' The machine will restart to apply the change.'' else []))
     # (if yes then Send (vm_request (VmUpdate mid (Obj [(''install_iso'', Str [])]))) # (if ok then [Refresh] else [])
        else [])"

text \<open>\<open>Number(v)\<close>\<close>

fun to_number :: "js \<Rightarrow> num" where
  "to_number (Num n) = n"
| "to_number (Str s) = js_number s"
| "to_number Null = Fin 0"
| "to_number (Bool b) = Fin (if b then 1 else 0)"
| "to_number _ = NaN"

definition rdp_forward :: "js list \<Rightarrow> js option" where
  "rdp_forward pfs =
     (let rdp = (\<lambda>p. to_number (jget p ''guest_port'') = Fin 3389) in
      case find (\<lambda>p. rdp p \<and> js_lower (to_str (js_or (jget p ''protocol'') (Str []))) = ''tcp'') pfs of
        Some p \<Rightarrow> Some p
      | None \<Rightarrow> find rdp pfs)"

definition rdp_hint :: "js \<Rightarrow> js list \<Rightarrow> string option" where
  "rdp_hint spec pfs =
     (if resolve_os_type spec = ''windows''
      then map_option (\<lambda>p. ''localhost:'' @ to_str (jget p ''host_port'')) (rdp_forward pfs) else None)"

text \<open>Interface, mode, host side and address of each extra network; \<open>None\<close> is DHCP.\<close>

definition network_row :: "nat \<Rightarrow> js \<Rightarrow> string \<times> string \<times> string \<times> string option" where
  "network_row i net =
     (''eth'' @ nat_str (i + 1), to_str (jget net ''mode''),
      to_str (js_or (jget net ''host_interface'') (jget net ''bridge'')),
      if truthy (jget net ''static_ip'') then Some (to_str (jget net ''static_ip'')) else None)"

definition network_rows :: "js \<Rightarrow> (string \<times> string \<times> string \<times> string option) list" where
  "network_rows spec =
     (let ns = safe_array (jget spec ''networks'') in map (\<lambda>(i, n). network_row i n) (zip [0..<length ns] ns))"

definition gpu_rows :: "js \<Rightarrow> string list" where
  "gpu_rows spec = map to_str (safe_array (jget spec ''gpus''))"

subsection \<open>Schedules of the machine\<close>

text \<open>The target of a schedule: its machine, its tags, or every machine; not whether it is enabled.\<close>

definition schedule_targets :: "string \<Rightarrow> string list \<Rightarrow> js \<Rightarrow> bool" where
  "schedule_targets mid tags sched =
     (let v = jget sched ''vm_id''; sel = jget sched ''tag_selector'';
          selector = (if is_array sel then map (\<lambda>t. js_lower (to_str t)) (elems sel) else [])
      in if truthy v \<and> v = Str mid then True
         else if truthy v then False
         else if selector = [] then True
         else (\<exists>t\<in>set selector. t \<in> set (map js_lower tags)))"

definition vm_schedule_list :: "string \<Rightarrow> js \<Rightarrow> js \<Rightarrow> js list" where
  "vm_schedule_list mid vm response =
     filter (schedule_targets mid (map to_str (safe_array (jget vm ''tags'')))) (response_rows response)"

definition schedule_reason :: "string \<Rightarrow> js \<Rightarrow> string" where
  "schedule_reason mid sched =
     (if jget sched ''vm_id'' = Str mid then ''Direct VM schedule''
      else if is_array (jget sched ''tag_selector'') \<and> elems (jget sched ''tag_selector'') \<noteq> []
      then ''Matches tags: '' @ js_join '', '' (map to_str (elems (jget sched ''tag_selector'')))
      else ''All VMs'')"

text \<open>Name, action, whether it is marked disabled, why it is listed, cron line, and next time.\<close>

definition vm_schedule_row :: "(js \<Rightarrow> string) \<Rightarrow> string \<Rightarrow> js \<Rightarrow> string \<times> string \<times> bool \<times> string \<times> string \<times> string" where
  "vm_schedule_row locale mid sched =
     (to_str (jget sched ''name''), to_str (jget sched ''action''), \<not> truthy (jget sched ''enabled''),
      schedule_reason mid sched, to_str (jget sched ''cron_spec''),
      ''Next: '' @ (if truthy (jget sched ''next_fire_at'') then locale (jget sched ''next_fire_at'') else em_dash))"

definition add_schedule_url :: "(string \<Rightarrow> string) \<Rightarrow> string \<Rightarrow> js \<Rightarrow> string" where
  "add_schedule_url enc mid vm =
     ''/schedules?open=create&prefill_vm_id='' @ enc mid @ ''&prefill_name=''
       @ enc (to_str (js_or (jget vm ''name'') (Str mid)) @ ''-schedule'')"

subsection \<open>Facts\<close>

text \<open>
  C28 The machine page offers what the machine's state allows and does what was clicked. A stopped machine
  can be started, a running one stopped, force-stopped, restarted, rebooted and suspended, a paused one
  resumed, and a machine in any other state none of these. A click sends one request, of the button's kind
  and for this machine, and the page is read anew when it succeeded; a button that is not there does
  nothing. Forcing a stop and deleting ask first, with the machine's name, and send nothing when declined;
  the page is left only after a deletion that succeeded.
\<close>

theorem lifecycle_safe:
  assumes go_def: "go = (\<lambda>op. Send (vm_request op) # (if ok then [Refresh] else []))"
    and st_def: "st = jget vm ''state''"
  shows "map fst (offered vm) =
        (if st = Str ''stopped'' then [''btn-start'']
         else if st = Str ''running''
         then [''btn-stop'', ''btn-force-stop'', ''btn-restart'', ''btn-reboot'', ''btn-suspend'']
         else if st = Str ''paused'' then [''btn-resume''] else [])
    \<and> (st = Str ''stopped'' \<longrightarrow> lifecycle_click ''btn-start'' mid vm yes ok = go (VmStart mid))
    \<and> (st = Str ''running'' \<longrightarrow>
          lifecycle_click ''btn-stop'' mid vm yes ok = go (VmStop mid)
        \<and> lifecycle_click ''btn-force-stop'' mid vm yes ok =
            Ask (''Force-stop '' @ to_str (jget vm ''name'') @ ''? This skips graceful shutdown and may cause data loss.'')
            # (if yes then go (VmForceStop mid) else [])
        \<and> lifecycle_click ''btn-restart'' mid vm yes ok = go (VmRestart mid)
        \<and> lifecycle_click ''btn-reboot'' mid vm yes ok = go (VmReboot mid)
        \<and> lifecycle_click ''btn-suspend'' mid vm yes ok = go (VmSuspend mid))
    \<and> (st = Str ''paused'' \<longrightarrow> lifecycle_click ''btn-resume'' mid vm yes ok = go (VmResume mid))
    \<and> (i \<notin> set (map fst (offered vm)) \<longrightarrow> lifecycle_click i mid vm yes ok = [])
    \<and> handle_delete_vm mid vm yes ok =
        Ask (''Delete '' @ to_str (jget vm ''name'') @ ''? This cannot be undone.'')
        # (if yes then Send (vm_request (VmDelete mid)) # (if ok then [Navigate ''/vms''] else []) else [])"
proof -
  have n: "lifecycle_click i mid vm yes ok = []" if "i \<notin> set (map fst (offered vm))"
  proof -
    have "filter (\<lambda>(j, st, q, op). j = i) (offered vm) = []" using that by (force simp: filter_empty_conv)
    then show ?thesis by (simp add: lifecycle_click_def)
  qed
  consider "st = Str ''stopped''" | "st = Str ''running''" | "st = Str ''paused''"
    | "st \<notin> {Str ''stopped'', Str ''running'', Str ''paused''}" by blast
  then show ?thesis
    by cases (use n in \<open>simp_all add: offered_def lifecycle_buttons_def lifecycle_click_def handle_delete_vm_def
      go_def flip: st_def\<close>)
qed

theorem lifecycle_safe_witness:
  "lifecycle_click ''btn-suspend'' ''vm-1'' (Obj [(''state'', Str ''running'')]) False True = [Send (vm_request (VmSuspend ''vm-1'')), Refresh]
   \<and> lifecycle_click ''btn-force-stop'' ''vm-1'' (Obj [(''state'', Str ''stopped'')]) True True = []"
  using lifecycle_safe[of _ True, OF refl refl, of "Obj [(''state'', Str ''running'')]" "''vm-1''" False]
    lifecycle_safe[of _ True, OF refl refl, of "Obj [(''state'', Str ''stopped'')]" "''vm-1''" True "''btn-force-stop''"]
  by (simp del: set_map)

text \<open>
  C29 The schedules listed on a machine page are, of the schedules it has fetched (the hundred that fire
  next) and in their order, exactly those whose target is the machine: one that names a machine is listed
  exactly on that machine's page, whatever its tags; one that names none is listed when it has no tag
  selector or shares a tag with the machine, whatever the case of the letters. Whether a schedule is
  enabled makes no difference to the list (a disabled one never fires); it is marked in its row.
\<close>

theorem vm_schedules_exact:
  assumes "jget response ''data'' = Arr rows"
    "\<forall>s\<in>set rows. jget s ''tag_selector'' = Undef \<or> (\<exists>sel. jget s ''tag_selector'' = Arr (map Str sel))"
  shows "vm_schedule_list mid vm response =
      filter (\<lambda>s. if truthy (jget s ''vm_id'') then jget s ''vm_id'' = Str mid
        else \<forall>sel. jget s ''tag_selector'' = Arr (map Str sel) \<and> sel \<noteq> [] \<longrightarrow>
          js_lower ` set sel \<inter> js_lower ` to_str ` set (safe_array (jget vm ''tags'')) \<noteq> {}) rows
    \<and> fst (snd (snd (vm_schedule_row locale mid s))) = (\<not> truthy (jget s ''enabled''))"
proof -
  have r: "response_rows response = rows" using assms(1) by (simp add: response_rows_def js_or_def)
  have "schedule_targets mid ts s \<longleftrightarrow>
      (if truthy (jget s ''vm_id'') then jget s ''vm_id'' = Str mid
       else \<forall>sel. jget s ''tag_selector'' = Arr (map Str sel) \<and> sel \<noteq> [] \<longrightarrow> js_lower ` set sel \<inter> js_lower ` set ts \<noteq> {})"
    if m: "s \<in> set rows" for s ts
  proof -
    have inj: "map Str a = map Str b \<longleftrightarrow> a = b" for a b by (simp add: inj_map_eq_map inj_def)
    consider "jget s ''tag_selector'' = Undef" | sel where "jget s ''tag_selector'' = Arr (map Str sel)"
      using assms(2) m by blast
    then show ?thesis
    proof cases
      case 2
      have x: "js_lower ` set a \<inter> js_lower ` set b \<noteq> {} \<longleftrightarrow> (\<exists>t\<in>js_lower ` set a. t \<in> js_lower ` set b)" for a b
        by blast
      have l: "map (\<lambda>t. js_lower (to_str t)) (map Str sel) = map js_lower sel" by simp
      have q: "(\<forall>sel'. jget s ''tag_selector'' = Arr (map Str sel') \<and> sel' \<noteq> [] \<longrightarrow> P sel') \<longleftrightarrow> (sel \<noteq> [] \<longrightarrow> P sel)" for P
        unfolding 2 js.inject inj by blast
      have t: "schedule_targets mid ts s \<longleftrightarrow> (if truthy (jget s ''vm_id'') then jget s ''vm_id'' = Str mid
          else sel = [] \<or> (\<exists>t\<in>js_lower ` set sel. t \<in> js_lower ` set ts))"
        unfolding schedule_targets_def Let_def 2 is_array.simps elems.simps if_True l by simp
      show ?thesis unfolding q x t by (rule if_cong) blast+
    qed (simp add: schedule_targets_def Let_def)
  qed
  from this[of _ "map to_str (safe_array (jget vm ''tags''))"] show ?thesis
    unfolding vm_schedule_list_def r set_map by (intro conjI filter_cong refl) (simp_all add: vm_schedule_row_def)
qed

theorem vm_schedules_exact_witness:
  "Obj [(''tag_selector'', Arr (map Str [''Web'']))] \<in> set (vm_schedule_list ''vm-1'' (Obj [(''tags'', Arr [Str ''WEB''])])
     (Obj [(''data'', Arr [Obj [(''tag_selector'', Arr (map Str [''Web'']))]])]))"
proof -
  let ?s = "Obj [(''tag_selector'', Arr (map Str [''Web'']))]"
  have l: "js_lower ''Web'' = ''web''" "js_lower ''WEB'' = ''web''" by (simp_all add: js_lower_def)
  have e: "\<exists>sel. [Str ''Web''] = map Str sel" by (rule exI[of _ "[''Web'']"]) simp
  have h: "jget (Obj [(''data'', Arr [?s])]) ''data'' = Arr [?s]"
    "\<forall>s\<in>set [?s]. jget s ''tag_selector'' = Undef \<or> (\<exists>sel. jget s ''tag_selector'' = Arr (map Str sel))"
    by (simp_all add: e)
  show ?thesis
    by (subst vm_schedules_exact[OF h, THEN conjunct1]) (auto simp: l safe_array_def)
qed

text \<open>
  A failed poll replaces the whole page by its message, although the machine is known: dialogs that are
  open, with what was typed in them, are unmounted.
\<close>

lemma failed_poll_hides_page: "e \<noteq> [] \<Longrightarrow> truthy vm \<Longrightarrow> detail_screen False (Some e) vm = ScreenError e"
  by (simp add: detail_screen_def)

end
