(* ===== verification/DetailMetrics.thy ===== *)
theory DetailMetrics imports DetailView VMStats begin

text \<open>
  The metrics tab of the machine page (\<open>VMMetrics\<close> and its helpers in \<open>web/src/pages/VMDetail.jsx\<close>)
  and the axis labels of \<open>web/src/components/MetricChart.jsx\<close>; the plotting itself is third-party.
  \<open>tz\<close> is the zone of \<open>Date.parse\<close> and \<open>locale\<close> stands for \<open>toLocaleString\<close> of a number.
\<close>

subsection \<open>Arithmetic on numbers\<close>

fun num_add :: "num \<Rightarrow> num \<Rightarrow> num" where
  "num_add (Fin a) (Fin b) = Fin (a + b)"
| "num_add NaN b = NaN"
| "num_add a NaN = NaN"
| "num_add PInf NInf = NaN"
| "num_add NInf PInf = NaN"
| "num_add PInf b = PInf"
| "num_add NInf b = NInf"
| "num_add a PInf = PInf"
| "num_add a NInf = NInf"

fun num_div_nat :: "num \<Rightarrow> nat \<Rightarrow> num" where
  "num_div_nat (Fin a) n = Fin (a / of_nat n)"
| "num_div_nat a n = a"

definition num_fixed :: "nat \<Rightarrow> num \<Rightarrow> string" where
  "num_fixed k n = (case n of Fin r \<Rightarrow> to_fixed k r | _ \<Rightarrow> num_str n)"

definition num_round :: "num \<Rightarrow> num" where
  "num_round n = (case n of Fin r \<Rightarrow> Fin (of_int (math_round r)) | _ \<Rightarrow> n)"

subsection \<open>The five-minute window\<close>

definition recent_samples :: "(int \<Rightarrow> int) \<Rightarrow> int \<Rightarrow> js list \<Rightarrow> js list" where
  "recent_samples tz now history =
     filter (\<lambda>s. case sample_time tz s of None \<Rightarrow> False | Some ts \<Rightarrow> now - 300000 \<le> ts) history"

text \<open>The sum and the count, in exact arithmetic (the code adds doubles).\<close>

fun avg_loop :: "string \<Rightarrow> js list \<Rightarrow> num \<times> nat \<Rightarrow> num \<times> nat" where
  "avg_loop field [] acc = acc"
| "avg_loop field (s # ss) (t, n) =
     (case jget s field of
        Num v \<Rightarrow> avg_loop field ss (num_add t v, Suc n)
      | _ \<Rightarrow> avg_loop field ss (t, n))"

text \<open>\<open>avgFloat\<close> (and \<open>avgInt\<close>, which is the same function).\<close>

definition avg_field :: "(int \<Rightarrow> int) \<Rightarrow> int \<Rightarrow> js list \<Rightarrow> string \<Rightarrow> js" where
  "avg_field tz now history field =
     (case avg_loop field (recent_samples tz now history) (Fin 0, 0) of
        (t, n) \<Rightarrow> if n = 0 then Null else Num (num_div_nat t n))"

subsection \<open>Formats\<close>

definition fmt_percent :: "js \<Rightarrow> string" where
  "fmt_percent v = (case v of Num n \<Rightarrow> num_fixed 1 n @ ''%'' | _ \<Rightarrow> ''n/a'')"

definition fmt_mb :: "(num \<Rightarrow> string) \<Rightarrow> js \<Rightarrow> string" where
  "fmt_mb locale v = (case v of Num n \<Rightarrow> locale (num_round n) @ '' MB'' | _ \<Rightarrow> ''n/a'')"

fun num_ge :: "num \<Rightarrow> rat \<Rightarrow> bool" where
  "num_ge (Fin r) k = (k \<le> r)"
| "num_ge PInf k = True"
| "num_ge _ k = False"

definition num_over :: "num \<Rightarrow> rat \<Rightarrow> num" where
  "num_over n k = (case n of Fin r \<Rightarrow> Fin (r / k) | _ \<Rightarrow> n)"

definition bps_text :: "num \<Rightarrow> string" where
  "bps_text n =
     (if num_ge n 1073741824 then num_fixed 1 (num_over n 1073741824) @ '' GB/s''
      else if num_ge n 1048576 then num_fixed 1 (num_over n 1048576) @ '' MB/s''
      else if num_ge n 1024 then num_fixed 1 (num_over n 1024) @ '' KB/s''
      else num_str (num_round n) @ '' B/s'')"

definition fmt_bps :: "js \<Rightarrow> string" where
  "fmt_bps v = (case v of Num n \<Rightarrow> bps_text n | _ \<Rightarrow> ''n/a'')"

text \<open>\<open>MetricChart.jsx\<close>: when there is anything to plot, and the labels of the axis.\<close>

definition chart_has_data :: "js list list \<Rightarrow> bool" where
  "chart_has_data cols \<longleftrightarrow> cols \<noteq> [] \<and> 1 < length (hd cols)"

definition chart_bps :: "js \<Rightarrow> string" where
  "chart_bps v = (if is_finite v then (case v of Num n \<Rightarrow> bps_text n | _ \<Rightarrow> ''0'') else ''0'')"

definition axis_value :: "(num \<Rightarrow> string) \<Rightarrow> string \<Rightarrow> js \<Rightarrow> string" where
  "axis_value locale fmt v =
     (case v of
        Num n \<Rightarrow>
          (if fmt = ''percent'' then num_fixed 0 n @ ''%''
           else if fmt = ''mb'' then locale (num_round n) @ '' MB''
           else if fmt = ''bps'' then chart_bps v
           else locale n)
      | _ \<Rightarrow> to_str v)"

subsection \<open>Gauges and table\<close>

definition mem_total :: "js \<Rightarrow> rat" where
  "mem_total cur = the_num (jget cur ''mem_used_mb'') + the_num (jget cur ''mem_avail_mb'')"

definition mem_percent :: "js \<Rightarrow> rat" where
  "mem_percent cur = (if mem_total cur = 0 then 0 else the_num (jget cur ''mem_used_mb'') / mem_total cur * 100)"

definition metric_gauge :: "rat \<Rightarrow> rat \<Rightarrow> string \<Rightarrow> string \<times> (int \<times> (string \<times> rat) option) \<times> string" where
  "metric_gauge v mx shown =
     (shown, progress_bar v mx [] False, int_str (math_round (progress_pct v mx)) @ ''% utilised'')"

definition cpu_gauge :: "js \<Rightarrow> string \<times> (int \<times> (string \<times> rat) option) \<times> string" where
  "cpu_gauge cur = metric_gauge (the_num (jget cur ''cpu_percent'')) 100 (fmt_percent (jget cur ''cpu_percent''))"

definition mem_gauge :: "(num \<Rightarrow> string) \<Rightarrow> js \<Rightarrow> string \<times> (int \<times> (string \<times> rat) option) \<times> string" where
  "mem_gauge locale cur =
     metric_gauge (mem_percent cur) 100
       (fmt_mb locale (jget cur ''mem_used_mb'')
          @ (if mem_total cur \<noteq> 0 then '' / '' @ fmt_mb locale (Num (Fin (mem_total cur))) else []))"

text \<open>Label, current value and average of each row.\<close>

definition metric_rows ::
  "(int \<Rightarrow> int) \<Rightarrow> (num \<Rightarrow> string) \<Rightarrow> int \<Rightarrow> js list \<Rightarrow> js \<Rightarrow> (string \<times> string \<times> string) list" where
  "metric_rows tz locale now history cur =
     map (\<lambda>(label, field, fmt). (label, fmt (jget cur field), fmt (avg_field tz now history field)))
       [(''CPU %'', ''cpu_percent'', fmt_percent), (''Memory used'', ''mem_used_mb'', fmt_mb locale),
        (''Memory available'', ''mem_avail_mb'', fmt_mb locale), (''Disk read'', ''disk_read_bps'', fmt_bps),
        (''Disk write'', ''disk_write_bps'', fmt_bps), (''Network RX'', ''net_rx_bps'', fmt_bps),
        (''Network TX'', ''net_tx_bps'', fmt_bps)]"

text \<open>What the tab shows: spinner, error, nothing, no sample yet (with its text), or the metrics.\<close>

definition vs_current :: "stats \<Rightarrow> js" where
  "vs_current s = js_coalesce (jget (vs_snapshot s) ''current'') Null"

datatype metrics_shown = MetricsSpinner | MetricsError string | MetricsNothing | MetricsEmpty string | MetricsShown js

definition metrics_view :: "stats \<Rightarrow> metrics_shown" where
  "metrics_view s =
     (if vs_status s = SLoading \<and> \<not> truthy (vs_snapshot s) then MetricsSpinner
      else case (vs_status s, vs_error s) of
        (SError, Some e) \<Rightarrow> MetricsError e
      | _ \<Rightarrow>
          if \<not> truthy (vs_snapshot s) then MetricsNothing
          else if truthy (vs_current s) then MetricsShown (vs_current s)
          else MetricsEmpty
            (if jget (vs_snapshot s) ''state'' = Str ''running''
             then ''No samples collected yet. The first sample appears within one interval.''
             else ''VM is not running '' @ em_dash @ '' metrics resume after start.''))"

definition history_card :: "js list \<Rightarrow> js \<Rightarrow> string" where
  "history_card history snap =
     nat_str (length history) @ ''/'' @ to_str (js_or (jget snap ''history_size'') (JNat 0)) @ '' samples '' @ mid_dot @ '' ''
       @ to_str (js_or (jget snap ''interval_seconds'') (JNat 0)) @ ''s interval''"

text \<open>The four charts: title, series labels and fields.\<close>

definition metric_charts :: "(string \<times> (string \<times> string) list) list" where
  "metric_charts =
    [(''CPU'', [(''CPU %'', ''cpu_percent'')]), (''Memory'', [(''Used MB'', ''mem_used_mb'')]),
     (''Disk I/O'', [(''Read'', ''disk_read_bps''), (''Write'', ''disk_write_bps'')]),
     (''Network'', [(''RX'', ''net_rx_bps''), (''TX'', ''net_tx_bps'')])]"

subsection \<open>Facts\<close>

definition field_values :: "string \<Rightarrow> js list \<Rightarrow> rat list" where
  "field_values field ss = map (\<lambda>s. the_num (jget s field)) (filter (\<lambda>s. is_number (jget s field)) ss)"

lemma avg_loop_sum:
  "\<forall>s\<in>set ss. is_number (jget s field) \<longrightarrow> is_finite (jget s field) \<Longrightarrow>
   avg_loop field ss (Fin a, n) = (Fin (a + sum_list (field_values field ss)), n + length (field_values field ss))"
proof (induction ss arbitrary: a n)
  case (Cons s ss)
  then show ?case
  proof (cases "jget s field")
    case (Num x)
    moreover obtain r where "x = Fin r" using Num Cons.prems by (cases x) auto
    ultimately show ?thesis using Cons by (simp add: field_values_def)
  qed (simp_all add: field_values_def)
qed (simp add: field_values_def)

lemma average_between:
  fixes xs :: "rat list"
  assumes "xs \<noteq> []" "\<forall>x\<in>set xs. lo \<le> x \<and> x \<le> hi"
  shows "lo \<le> sum_list xs / of_nat (length xs) \<and> sum_list xs / of_nat (length xs) \<le> hi"
proof -
  have "of_nat (length xs) * lo \<le> sum_list xs \<and> sum_list xs \<le> of_nat (length xs) * hi"
    using assms(2) by (induction xs) (auto simp: algebra_simps)
  moreover have "0 < (of_nat (length xs) :: rat)" using assms(1) by simp
  ultimately show ?thesis by (simp add: field_simps)
qed

text \<open>
  C33 The average column is the average of the last five minutes: of the samples at most five minutes
  old it takes those that carry the metric as a number, shows their arithmetic mean (so never a value
  outside their range) and \<open>n/a\<close> exactly when there is none.
\<close>

theorem metrics_average:
  assumes "\<forall>s\<in>set history. is_number (jget s field) \<longrightarrow> is_finite (jget s field)"
    and xs_def: "xs = field_values field (recent_samples tz now history)"
  shows "avg_field tz now history field = (if xs = [] then Null else Num (Fin (sum_list xs / of_nat (length xs))))
    \<and> (xs \<noteq> [] \<and> (\<forall>x\<in>set xs. lo \<le> x \<and> x \<le> hi) \<longrightarrow>
         lo \<le> the_num (avg_field tz now history field) \<and> the_num (avg_field tz now history field) \<le> hi)
    \<and> (fmt_bps (avg_field tz now history field) = ''n/a'' \<longleftrightarrow> xs = [])"
proof -
  have "\<forall>s\<in>set (recent_samples tz now history). is_number (jget s field) \<longrightarrow> is_finite (jget s field)"
    using assms(1) by (simp add: recent_samples_def)
  note l = avg_loop_sum[OF this, of 0 0]
  have a: "avg_field tz now history field = (if xs = [] then Null else Num (Fin (sum_list xs / of_nat (length xs))))"
    by (simp add: avg_field_def l xs_def)
  have "bps_text n \<noteq> ''n/a''" for n
  proof -
    have "last (bps_text n) = CHR ''s''" by (simp add: bps_text_def)
    then show ?thesis by auto
  qed
  then show ?thesis using a average_between[of xs lo hi] by (simp add: fmt_bps_def)
qed

theorem metrics_average_witness:
  "avg_field (\<lambda>m. m) 1000 [Obj [(''timestamp'', Str ''1970-01-01T00:00:00Z''), (''cpu_percent'', JNat 40)],
       Obj [(''timestamp'', Str ''1970-01-01T00:00:01Z''), (''cpu_percent'', JNat 60)]] ''cpu_percent'' = JNat 50"
proof -
  let ?h = "[Obj [(''timestamp'', Str ''1970-01-01T00:00:00Z''), (''cpu_percent'', JNat 40)],
       Obj [(''timestamp'', Str ''1970-01-01T00:00:01Z''), (''cpu_percent'', JNat 60)]]"
  have h: "\<forall>s\<in>set ?h. is_number (jget s ''cpu_percent'') \<longrightarrow> is_finite (jget s ''cpu_percent'')" by simp
  have t: "parse_date (\<lambda>m. m) ''1970-01-01T00:00:00Z'' = Some 0" "parse_date (\<lambda>m. m) ''1970-01-01T00:00:01Z'' = Some 1000"
    by code_simp+
  have "field_values ''cpu_percent'' (recent_samples (\<lambda>m. m) 1000 ?h) = [40, 60]"
    by (simp add: field_values_def recent_samples_def sample_time_def t)
  from metrics_average[OF h this[symmetric]] show ?thesis by simp
qed

end
