(* ===== verification/Console.thy ===== *)
theory Console imports Shared begin

text \<open>
  The console page, \<open>web/src/pages/VMConsole.jsx\<close>: \<open>VNCConsole\<close>, \<open>SerialConsole\<close> and \<open>RDPConsole\<close> each
  ask for a ticket, open a connection with it and report how it fares. The clients themselves (noVNC,
  xterm.js, guacamole) are third-party: they appear as the connection and the events it raises.

  A run is one execution of a tab's effect; \<open>Reconnect\<close> and another machine end the current run and
  start the next. What a run awaits may arrive after its end: its handlers test \<open>cancelled\<close>, which is
  \<open>cs_run s \<noteq> Some r\<close> here.
\<close>

subsection \<open>Addresses\<close>

definition websocket_url :: "bool \<Rightarrow> string \<Rightarrow> string \<Rightarrow> string" where
  "websocket_url https host path = (if https then ''wss://'' else ''ws://'') @ host @ path"

definition rdp_tunnel_url :: "bool \<Rightarrow> string \<Rightarrow> string \<Rightarrow> string" where
  "rdp_tunnel_url https host vm = (if https then ''wss://'' else ''ws://'') @ host @ ''/api/v1/vms/'' @ vm @ ''/console''"

definition rdp_connect_data :: "(string \<Rightarrow> string) \<Rightarrow> string \<Rightarrow> nat \<Rightarrow> nat \<Rightarrow> string" where
  "rdp_connect_data enc ticket width height =
     ''intent=rdp&ticket='' @ enc ticket @ ''&width='' @ nat_str (if width = 0 then 1024 else width)
       @ ''&height='' @ nat_str (if height = 0 then 768 else height)"

definition status_pill :: "string \<Rightarrow> string \<Rightarrow> string \<times> string" where
  "status_pill status message =
     ((case map_of [(''connecting'', ''bg-yellow-500/20 text-yellow-300''), (''connected'', ''bg-green-500/20 text-green-300''),
                    (''disconnected'', ''bg-gray-500/20 text-gray-300''), (''error'', ''bg-red-500/20 text-red-300'')] status of
         Some c \<Rightarrow> c | None \<Rightarrow> ''bg-gray-500/20 text-gray-300''),
      if message \<noteq> [] then message else status)"

subsection \<open>A console tab\<close>

datatype kind = VNC | Serial | RDP

datatype conn_event = Opened | Closed bool | Failed string

record console =
  cs_status :: string
  cs_message :: string
  cs_run :: "nat option"
  cs_next :: nat
  cs_tickets :: "nat list"
  cs_conn :: "nat option"
  cs_open :: "nat list"

definition requesting :: string where
  "requesting = ''Requesting console ticket'' @ ellipsis"

definition console_init :: console where
  "console_init = \<lparr>cs_status = ''connecting'', cs_message = requesting, cs_run = None, cs_next = 0, cs_tickets = [],
     cs_conn = None, cs_open = []\<rparr>"

definition intent :: "kind \<Rightarrow> string" where
  "intent k = (case k of VNC \<Rightarrow> ''vnc'' | Serial \<Rightarrow> ''serial'' | RDP \<Rightarrow> ''rdp'')"

definition opening_text :: "kind \<Rightarrow> string" where
  "opening_text k =
     (case k of VNC \<Rightarrow> ''Connecting to VNC'' | Serial \<Rightarrow> ''Connecting to serial console'' | RDP \<Rightarrow> ''Connecting via guacd'')
     @ ellipsis"

text \<open>The start of a run: it reports and asks for a ticket.\<close>

definition console_start :: "console \<Rightarrow> console" where
  "console_start s =
     s\<lparr>cs_run := Some (cs_next s), cs_next := Suc (cs_next s), cs_tickets := cs_tickets s @ [cs_next s],
       cs_status := ''connecting'', cs_message := requesting\<rparr>"

definition console_report :: "nat \<Rightarrow> string \<Rightarrow> string \<Rightarrow> console \<Rightarrow> console" where
  "console_report r st msg s = (if cs_run s = Some r then s\<lparr>cs_status := st, cs_message := msg\<rparr> else s)"

text \<open>The ticket was refused with a message (possibly empty), or it arrived while the container was there or not.\<close>

definition ticket_refused :: "nat \<Rightarrow> string \<Rightarrow> console \<Rightarrow> console" where
  "ticket_refused r msg s =
     console_report r ''error'' (if msg \<noteq> [] then msg else ''Failed to issue console ticket'')
       (s\<lparr>cs_tickets := removeAll r (cs_tickets s)\<rparr>)"

definition ticket_arrived :: "kind \<Rightarrow> nat \<Rightarrow> bool \<Rightarrow> console \<Rightarrow> console" where
  "ticket_arrived k r container s =
     (let s1 = s\<lparr>cs_tickets := removeAll r (cs_tickets s)\<rparr> in
      if cs_run s \<noteq> Some r \<or> \<not> container then s1
      else s1\<lparr>cs_status := ''connecting'', cs_message := opening_text k, cs_conn := Some r, cs_open := cs_open s @ [r]\<rparr>)"

text \<open>What a tab makes of an event of its connection, given what it showed before.\<close>

definition vnc_shown :: "conn_event \<Rightarrow> string \<times> string" where
  "vnc_shown e =
     (case e of
        Opened \<Rightarrow> (''connected'', ''Connected'')
      | Closed clean \<Rightarrow> (if clean then (''disconnected'', ''Disconnected'') else (''error'', ''Connection lost''))
      | Failed reason \<Rightarrow> (''error'', ''VNC security failure: '' @ (if reason \<noteq> [] then reason else ''unknown'')))"

definition serial_shown :: "conn_event \<Rightarrow> string \<times> string" where
  "serial_shown e =
     (case e of
        Opened \<Rightarrow> (''connected'', ''Connected'')
      | Closed _ \<Rightarrow> (''disconnected'', ''Disconnected'')
      | Failed _ \<Rightarrow> (''error'', ''Connection error''))"

definition rdp_shown :: "conn_event \<Rightarrow> string \<times> string \<Rightarrow> string \<times> string" where
  "rdp_shown e prev =
     (case e of
        Opened \<Rightarrow> (''connected'', ''Connected'')
      | Closed _ \<Rightarrow>
          (if fst prev = ''error'' then fst prev else ''disconnected'',
           if snd prev = ''Connected'' \<or> snd prev = opening_text RDP then ''Disconnected'' else snd prev)
      | Failed _ \<Rightarrow> (''error'', ''RDP tunnel error (is guacd configured and the guest reachable on 3389?)''))"

definition event_shown :: "kind \<Rightarrow> conn_event \<Rightarrow> string \<times> string \<Rightarrow> string \<times> string" where
  "event_shown k e prev = (case k of VNC \<Rightarrow> vnc_shown e | Serial \<Rightarrow> serial_shown e | RDP \<Rightarrow> rdp_shown e prev)"

lemmas shown_defs = event_shown_def vnc_shown_def serial_shown_def rdp_shown_def

definition connection_event :: "kind \<Rightarrow> nat \<Rightarrow> conn_event \<Rightarrow> console \<Rightarrow> console" where
  "connection_event k r e s =
     (let s1 = (case e of Closed _ \<Rightarrow> s\<lparr>cs_open := removeAll r (cs_open s)\<rparr> | _ \<Rightarrow> s);
          p = event_shown k e (cs_status s, cs_message s)
      in console_report r (fst p) (snd p) s1)"

definition console_cleanup :: "console \<Rightarrow> console" where
  "console_cleanup s =
     s\<lparr>cs_run := None, cs_conn := None,
       cs_open := (case cs_conn s of None \<Rightarrow> cs_open s | Some r \<Rightarrow> removeAll r (cs_open s))\<rparr>"

definition console_reconnect :: "console \<Rightarrow> console" where
  "console_reconnect s = console_start (console_cleanup s)"

definition send_ctrl_alt_del :: "console \<Rightarrow> nat option" where
  "send_ctrl_alt_del s = (if cs_status s = ''connected'' then cs_conn s else None)"

definition overlay :: "kind \<Rightarrow> console \<Rightarrow> string option" where
  "overlay k s = (if k = Serial \<or> cs_status s = ''connected'' then None else Some (cs_message s))"

inductive console_reach :: "kind \<Rightarrow> console \<Rightarrow> bool" for k where
  cr_mount: "console_reach k (console_start console_init)"
| cr_refused: "console_reach k s \<Longrightarrow> r \<in> set (cs_tickets s) \<Longrightarrow> console_reach k (ticket_refused r msg s)"
| cr_ticket: "console_reach k s \<Longrightarrow> r \<in> set (cs_tickets s) \<Longrightarrow> console_reach k (ticket_arrived k r container s)"
| cr_event: "console_reach k s \<Longrightarrow> r \<in> set (cs_open s) \<Longrightarrow> console_reach k (connection_event k r e s)"
| cr_reconnect: "console_reach k s \<Longrightarrow> console_reach k (console_reconnect s)"
| cr_unmount: "console_reach k s \<Longrightarrow> console_reach k (console_cleanup s)"

subsection \<open>Facts\<close>

definition console_inv :: "console \<Rightarrow> bool" where
  "console_inv s \<longleftrightarrow>
     (cs_open s = [] \<or> (\<exists>r. cs_open s = [r] \<and> cs_run s = Some r \<and> cs_conn s = Some r))
     \<and> (cs_conn s \<noteq> None \<longrightarrow> cs_conn s = cs_run s)
     \<and> (\<forall>r\<in>set (cs_tickets s). r < cs_next s \<and> cs_conn s \<noteq> Some r) \<and> distinct (cs_tickets s)
     \<and> (\<forall>r. cs_run s = Some r \<longrightarrow> r < cs_next s)
     \<and> (cs_run s \<noteq> None \<and> cs_status s = ''connected'' \<longrightarrow> cs_open s \<noteq> [])"

lemma event_shown_closed: "fst (event_shown k (Closed b) p) \<noteq> ''connected''"
  by (cases k) (auto simp: shown_defs)

lemma console_inv_start: "console_inv s \<Longrightarrow> cs_open s = [] \<Longrightarrow> cs_conn s = None \<Longrightarrow> console_inv (console_start s)"
  by (auto simp: console_inv_def console_start_def)

lemma cleanup_closes: "console_inv s \<Longrightarrow> cs_open (console_cleanup s) = [] \<and> cs_conn (console_cleanup s) = None"
  by (auto simp: console_inv_def console_cleanup_def split: option.splits)

lemma console_inv_cleanup: "console_inv s \<Longrightarrow> console_inv (console_cleanup s)"
  using cleanup_closes[of s] by (auto simp: console_inv_def console_cleanup_def)

lemma console_inv_event:
  assumes "console_inv s" "r \<in> set (cs_open s)"
  shows "console_inv (connection_event k r e s)"
proof -
  have o: "cs_open s = [r]" "cs_run s = Some r" "cs_conn s = Some r" using assms by (auto simp: console_inv_def)
  show ?thesis
  proof (cases e)
    case (Closed b)
    then show ?thesis using assms(1) o event_shown_closed[of k b]
      by (simp add: console_inv_def connection_event_def console_report_def Let_def)
  qed (use assms(1) o in \<open>simp_all add: console_inv_def connection_event_def console_report_def Let_def\<close>)
qed

lemma console_inv_ticket:
  assumes "console_inv s" "r \<in> set (cs_tickets s)"
  shows "console_inv (ticket_arrived k r container s)" "console_inv (ticket_refused r msg s)"
proof -
  let ?s = "s\<lparr>cs_tickets := removeAll r (cs_tickets s)\<rparr>"
  have i: "console_inv ?s" using assms unfolding console_inv_def by (auto intro: distinct_removeAll)
  show "console_inv (ticket_arrived k r container s)"
  proof (cases "cs_run s \<noteq> Some r \<or> \<not> container")
    case False
    moreover have "cs_conn s \<noteq> Some r" using assms by (auto simp: console_inv_def)
    moreover have "cs_open s = []" using assms False by (auto simp: console_inv_def)
    ultimately show ?thesis using i by (simp add: console_inv_def ticket_arrived_def)
  qed (use i in \<open>auto simp: ticket_arrived_def Let_def\<close>)
  show "console_inv (ticket_refused r msg s)"
    using i by (auto simp: console_inv_def ticket_refused_def console_report_def)
qed

lemma console_invariant: "console_reach k s \<Longrightarrow> console_inv s"
proof (induction rule: console_reach.induct)
  case cr_mount
  show ?case by (rule console_inv_start) (simp_all add: console_inv_def console_init_def)
next
  case (cr_reconnect s)
  then show ?case unfolding console_reconnect_def
    using cleanup_closes console_inv_cleanup console_inv_start by blast
qed (auto intro: console_inv_ticket console_inv_event console_inv_cleanup)

text \<open>
  C3 A console has one connection at most, that of its current run: reconnecting, leaving the tab and
  changing the machine close the connection there is, and a ticket that arrives late opens none. A tab
  says \<open>connected\<close> only while its connection is open; what happens to an abandoned run changes neither
  status nor message; and Ctrl-Alt-Del goes to the current connection or nowhere.
\<close>

theorem console_exclusive:
  assumes "console_reach k s"
  shows "length (cs_open s) \<le> 1 \<and> (\<forall>r\<in>set (cs_open s). cs_run s = Some r)
    \<and> cs_open (console_cleanup s) = [] \<and> cs_open (console_reconnect s) = []
    \<and> (cs_run s \<noteq> None \<and> cs_status s = ''connected'' \<longrightarrow> cs_open s \<noteq> [])
    \<and> (cs_run s \<noteq> Some r \<longrightarrow>
         cs_open (ticket_arrived k r container s) = cs_open s
         \<and> cs_status (connection_event k r e s) = cs_status s \<and> cs_message (connection_event k r e s) = cs_message s)
    \<and> (send_ctrl_alt_del s \<noteq> None \<longrightarrow> send_ctrl_alt_del s = cs_run s)"
proof -
  note i = console_invariant[OF assms]
  have "cs_open (console_reconnect s) = []"
    using cleanup_closes[OF i] by (simp add: console_reconnect_def console_start_def)
  moreover have "length (cs_open s) \<le> 1 \<and> (\<forall>r\<in>set (cs_open s). cs_run s = Some r)"
    "cs_run s \<noteq> None \<and> cs_status s = ''connected'' \<longrightarrow> cs_open s \<noteq> []"
    "send_ctrl_alt_del s \<noteq> None \<longrightarrow> send_ctrl_alt_del s = cs_run s"
    using i by (auto simp: console_inv_def send_ctrl_alt_del_def)
  moreover have "cs_run s \<noteq> Some r \<longrightarrow>
         cs_open (ticket_arrived k r container s) = cs_open s
         \<and> cs_status (connection_event k r e s) = cs_status s \<and> cs_message (connection_event k r e s) = cs_message s"
    by (simp add: ticket_arrived_def connection_event_def console_report_def Let_def split: conn_event.splits)
  ultimately show ?thesis using cleanup_closes[OF i] by blast
qed

theorem console_exclusive_witness:
  "cs_open (console_reconnect (connection_event VNC 0 Opened (ticket_arrived VNC 0 True (console_start console_init)))) = []"
proof -
  have t: "0 \<in> set (cs_tickets (console_start console_init))" by (simp add: console_start_def console_init_def)
  have "0 \<in> set (cs_open (ticket_arrived VNC 0 True (console_start console_init)))"
    by (simp add: ticket_arrived_def console_start_def console_init_def)
  from console_exclusive[OF cr_event[OF cr_ticket[OF cr_mount t] this], where r = 1] show ?thesis by blast
qed

text \<open>
  An error of the connection stays on the RDP tab when the connection then closes; the serial tab and
  the VNC tab replace it by what the close says, so that the reason is lost.
\<close>

lemma error_then_close:
  "event_shown RDP (Closed b) (event_shown RDP (Failed reason) p) = event_shown RDP (Failed reason) p"
  "event_shown Serial (Closed b) (event_shown Serial (Failed reason) p) = (''disconnected'', ''Disconnected'')"
  "event_shown VNC (Closed False) (event_shown VNC (Failed reason) p) = (''error'', ''Connection lost'')"
  by (simp_all add: shown_defs opening_text_def)

subsection \<open>The page\<close>

text \<open>
  The tab shown and the name; leaving a tab unmounts it, and the name is taken from the machine's
  answer unless the page has moved on.
\<close>

record console_page =
  cp_tab :: kind
  cp_name :: string
  cp_title :: string
  cp_console :: console

definition page_init :: "console_page" where
  "page_init = \<lparr>cp_tab = VNC, cp_name = [], cp_title = [], cp_console = console_start console_init\<rparr>"

definition page_tab :: "kind \<Rightarrow> console_page \<Rightarrow> console_page" where
  "page_tab k s = (if k = cp_tab s then s else s\<lparr>cp_tab := k, cp_console := console_start console_init\<rparr>)"

definition page_named :: "bool \<Rightarrow> js \<Rightarrow> console_page \<Rightarrow> console_page" where
  "page_named cancelled vm s =
     (if \<not> cancelled \<and> truthy (jget vm ''name'')
      then s\<lparr>cp_name := to_str (jget vm ''name''), cp_title := ''Console '' @ em_dash @ '' '' @ to_str (jget vm ''name'')\<rparr>
      else s)"

definition page_heading :: "string \<Rightarrow> console_page \<Rightarrow> string" where
  "page_heading vm s = (if cp_name s \<noteq> [] then cp_name s else vm)"

end
