(* ===== verification/Dashboard.thy ===== *)
theory Dashboard imports DetailMetrics "HOL-Library.While_Combinator" begin

text \<open>
  The dashboard, \<open>web/src/pages/Dashboard.jsx\<close>: the counters and what refreshes them, the host and quota
  cards with their number formats, the table of hosts, the busiest machines and the list of machines.
  The two format functions contain a loop that divides by 1024; it is modelled as the loop it is, with
  \<open>while_option\<close>, and shown to end. \<open>locale\<close> stands for \<open>toLocaleString\<close> of a number.
\<close>

subsection \<open>Scaling by units\<close>

text \<open>\<open>while (current >= 1024 && i < units.length - 1) { current /= 1024; i += 1; }\<close>\<close>

definition unit_loop :: "nat \<Rightarrow> rat \<Rightarrow> (rat \<times> nat) option" where
  "unit_loop units v =
     while_option (\<lambda>(current, i). 1024 \<le> current \<and> i < units - 1) (\<lambda>(current, i). (current / 1024, i + 1)) (v, 0)"

definition scaled_text :: "string list \<Rightarrow> rat \<Rightarrow> string option" where
  "scaled_text units v =
     map_option (\<lambda>(current, i). to_fixed (if 10 \<le> current \<or> i = 0 then 0 else 1) current @ '' '' @ units ! i)
       (unit_loop (length units) v)"

definition bps_units :: "string list" where "bps_units = [''B/s'', ''KB/s'', ''MB/s'', ''GB/s'']"

definition dashboard_byte_units :: "string list" where "dashboard_byte_units = [''B'', ''KB'', ''MB'', ''GB'', ''TB'']"

text \<open>\<open>formatBps\<close> and \<open>formatBytes\<close>; the result is \<open>None\<close> where the loop would not end.\<close>

definition dashboard_bps :: "num \<Rightarrow> string option" where
  "dashboard_bps v = (case v of Fin r \<Rightarrow> if r \<le> 0 then Some ''0 B/s'' else scaled_text bps_units r | _ \<Rightarrow> Some ''0 B/s'')"

definition dashboard_bytes :: "rat \<Rightarrow> string option" where
  "dashboard_bytes v = (if v = 0 then Some ''0 B'' else scaled_text dashboard_byte_units v)"

subsection \<open>Counters\<close>

definition total_count_of :: "js \<Rightarrow> js" where
  "total_count_of response =
     (case response of
        Arr xs \<Rightarrow> JNat (length xs)
      | _ \<Rightarrow>
          (let e = jget (jget response ''meta'') ''totalCount'' in
           if is_finite e \<and> 0 < the_num e then e
           else js_coalesce (jget (jget response ''data'') ''length'') (JNat 0)))"

definition running_count :: "js \<Rightarrow> nat" where
  "running_count response = length (filter (\<lambda>v. jget v ''state'' = Str ''running'') (normalize_vm_list response))"

definition total_vm_count :: "js \<Rightarrow> js \<Rightarrow> js" where
  "total_vm_count host response = js_coalesce (jget host ''vm_count'') (total_count_of response)"

definition total_image_count :: "js \<Rightarrow> js" where
  "total_image_count response = js_or (total_count_of response) (JNat (length (list_data response)))"

definition show_host_error :: "string option \<Rightarrow> js \<Rightarrow> bool" where
  "show_host_error err response \<longleftrightarrow>
     (case err of None \<Rightarrow> False | Some e \<Rightarrow> e \<noteq> [])
     \<and> \<not> (0 < the_num (total_count_of response) \<or> normalize_vm_list response \<noteq> [])"

text \<open>The three cards: machines, running, images; a dash while they load.\<close>

definition stat_cards :: "bool \<Rightarrow> bool \<Rightarrow> js \<Rightarrow> js \<Rightarrow> js \<Rightarrow> string list" where
  "stat_cards vm_loading img_loading host vms images =
     [if vm_loading \<and> \<not> truthy host then em_dash else to_str (total_vm_count host vms),
      if vm_loading then em_dash else nat_str (running_count vms),
      if img_loading then em_dash else to_str (total_image_count images)]"

definition sse_chip :: "js \<Rightarrow> string option" where
  "sse_chip host =
     (let n = jget host ''event_stream_connections'' in
      if is_finite n \<and> 0 < the_num n then Some (to_str n @ '' sse'') else None)"

subsection \<open>Events\<close>

definition lifecycle_types :: "string list" where
  "lifecycle_types =
    [''vm.created'', ''vm.cloned'', ''vm.deleted'', ''vm.updated'', ''vm.started'', ''vm.stopped'', ''vm.crashed'', ''vm.shutdown'']"

definition image_types :: "string list" where
  "image_types = [''image.uploaded'', ''image.created'', ''image.deleted'']"

datatype counter = VMCounter | ImageCounter | QuotaCounter

definition handle_event :: "js \<Rightarrow> counter list" where
  "handle_event evt =
     (case jget evt ''type'' of
        Str t \<Rightarrow> (if t \<in> set lifecycle_types then [VMCounter, QuotaCounter]
                  else if t \<in> set image_types then [ImageCounter] else [])
      | _ \<Rightarrow> [])"

text \<open>The page's loaders, without those that no event refreshes.\<close>

record dashboard =
  db_vms :: "request loader"
  db_images :: "request loader"
  db_quotas :: "request loader"
  db_metric :: string
  db_top :: "request loader"

definition refresh_counter :: "counter \<Rightarrow> dashboard \<Rightarrow> dashboard" where
  "refresh_counter c s =
     (case c of
        VMCounter \<Rightarrow> s\<lparr>db_vms := load (db_vms s)\<rparr>
      | ImageCounter \<Rightarrow> s\<lparr>db_images := load (db_images s)\<rparr>
      | QuotaCounter \<Rightarrow> s\<lparr>db_quotas := load (db_quotas s)\<rparr>)"

definition dashboard_event :: "js \<Rightarrow> dashboard \<Rightarrow> dashboard" where
  "dashboard_event evt s = fold refresh_counter (handle_event evt) s"

definition top_request :: "string \<Rightarrow> request" where
  "top_request metric = vm_request (VmTop (Obj [(''metric'', Str metric), (''limit'', JNat 5)]))"

definition pick_metric :: "string \<Rightarrow> dashboard \<Rightarrow> dashboard" where
  "pick_metric m s =
     (if m = db_metric s then s
      else s\<lparr>db_metric := m, db_top := load_effect False True (Some (top_request m)) (db_top s)\<rparr>)"

definition dashboard_mount :: dashboard where
  "dashboard_mount =
     (let start = (\<lambda>q. load_effect False True (Some q) (loader_init (Some q))) in
      \<lparr>db_vms = start (vm_request (VmList Undef)), db_images = start (image_request (ImageList Undef)),
       db_quotas = start (read_request QuotasUsage), db_metric = ''cpu'', db_top = start (top_request ''cpu'')\<rparr>)"

subsection \<open>Host cards\<close>

text \<open>\<open>used ?? 0\<close> and the like.\<close>

definition num_or_zero :: "js \<Rightarrow> rat" where
  "num_or_zero v = the_num (js_coalesce v (JNat 0))"

record card =
  ca_primary :: string
  ca_subtitle :: string
  ca_meter :: "int option \<times> int \<times> (string \<times> rat) option"

definition text_or_empty :: "string option \<Rightarrow> string" where
  "text_or_empty t = (case t of None \<Rightarrow> [] | Some s \<Rightarrow> s)"

definition host_bytes_card :: "js \<Rightarrow> card" where
  "host_bytes_card resource =
     (let used = num_or_zero (jget resource ''used''); cap = num_or_zero (jget resource ''total'');
          pct = (if 0 < cap then used / cap * 100 else 0)
      in \<lparr>ca_primary = int_str (math_round pct) @ ''%'',
          ca_subtitle = text_or_empty (dashboard_bytes used) @ '' / '' @ text_or_empty (dashboard_bytes cap) @ '' used'',
          ca_meter = usage_meter used (Some (if 0 < cap then cap else 100)) [] True\<rparr>)"

definition host_percent_card :: "js \<Rightarrow> card" where
  "host_percent_card resource =
     (let pct = num_or_zero (jget resource ''percentage'')
      in \<lparr>ca_primary = to_fixed 1 pct @ ''%'', ca_subtitle = to_fixed 1 (100 - pct) @ ''% idle'',
          ca_meter = usage_meter pct (Some 100) [] False\<rparr>)"

text \<open>\<open>None\<close> is the card with a dash, shown while the numbers load.\<close>

definition host_usage_card :: "bool \<Rightarrow> bool \<Rightarrow> js \<Rightarrow> card option" where
  "host_usage_card loading bytes resource =
     (if loading then None else Some (if bytes then host_bytes_card resource else host_percent_card resource))"

definition quota_card :: "bool \<Rightarrow> js \<Rightarrow> string \<Rightarrow> card option" where
  "quota_card loading resource name =
     (if loading then None
      else (let used = js_coalesce (jget resource ''used'') (JNat 0); cap = js_coalesce (jget resource ''limit'') (JNat 0);
                capped = 0 < the_num cap
            in Some \<lparr>ca_primary = (if capped then to_str used @ ''/'' @ to_str cap else to_str used),
                     ca_subtitle = (if capped then to_str used @ '' of '' @ to_str cap @ '' '' @ name
                                    else to_str used @ '' '' @ name @ '' '' @ mid_dot @ '' uncapped''),
                     ca_meter = usage_meter (the_num used) (if capped then Some (the_num cap) else None) [] True\<rparr>))"

text \<open>Name, whether it is the default host, address, reachability (if known) and the counts; \<open>None\<close> without other hosts.\<close>

definition host_rows :: "js \<Rightarrow> (string \<times> bool \<times> string \<times> bool option \<times> string list) list option" where
  "host_rows rows =
     (if is_array rows \<and> 1 < length (elems rows) then
        Some (map (\<lambda>h. (to_str (jget h ''name''), truthy (jget h ''default''), to_str (jget h ''uri''),
               (if nullish (jget h ''reachable'') then None else Some (truthy (jget h ''reachable''))),
               map (\<lambda>k. to_str (jget h k)) [''vm_count'', ''cpus'', ''ram_mb'', ''disk_gb'', ''gpus'']))
             (elems rows))
      else None)"

subsection \<open>Busiest machines\<close>

definition top_metrics :: "(string \<times> string) list" where
  "top_metrics =
    [(''cpu'', ''CPU''), (''mem'', ''Memory''), (''disk_read'', ''Disk Read''), (''disk_write'', ''Disk Write''),
     (''net_rx'', ''Net RX''), (''net_tx'', ''Net TX'')]"

definition top_config :: "string \<Rightarrow> string \<times> string" where
  "top_config metric = (case find (\<lambda>m. fst m = metric) top_metrics of Some m \<Rightarrow> m | None \<Rightarrow> hd top_metrics)"

definition top_format :: "(num \<Rightarrow> string) \<Rightarrow> string \<Rightarrow> num \<Rightarrow> string" where
  "top_format locale metric v =
     (if metric = ''cpu'' then num_fixed 1 v @ ''%''
      else if metric = ''mem'' then locale (num_round v) @ '' MB''
      else text_or_empty (dashboard_bps v))"

text \<open>\<open>Number(item.value) || 0\<close>\<close>

definition top_value :: "js \<Rightarrow> num" where
  "top_value item = (case to_number (jget item ''value'') of NaN \<Rightarrow> Fin 0 | n \<Rightarrow> n)"

datatype top_view = TopSpinner | TopEmpty string | TopRows "(nat \<times> string \<times> string \<times> string) list"

definition top_items :: "js \<Rightarrow> js list" where
  "top_items response = (if is_array (jget response ''items'') then elems (jget response ''items'') else [])"

definition top_card :: "(num \<Rightarrow> string) \<Rightarrow> string \<Rightarrow> bool \<Rightarrow> js \<Rightarrow> top_view" where
  "top_card locale metric loading response =
     (let items = top_items response; c = top_config metric in
      if loading \<and> \<not> truthy response then TopSpinner
      else if items = [] then TopEmpty (''No samples yet for '' @ js_lower (snd c) @ ''.'')
      else TopRows (map (\<lambda>(i, item). (i + 1, to_str (jget item ''name''), to_str (jget item ''state''),
                                       top_format locale (fst c) (top_value item)))
                      (zip [0..<length items] items)))"

text \<open>Name, state, address and size of a row of the machines.\<close>

definition dashboard_row :: "js \<Rightarrow> string \<times> string \<times> string \<times> string" where
  "dashboard_row vm =
     (let spec = js_or (jget vm ''spec'') (Obj []) in
      (to_str (jget vm ''name''), to_str (jget vm ''state''), or_dash (jget vm ''ip''),
       finite_or_dash (jget spec ''cpus'') @ '' vCPU '' @ mid_dot @ '' '' @ finite_or_dash (jget spec ''ram_mb'') @ '' MB''))"

subsection \<open>Facts\<close>

lemma unit_loop_some:
  assumes "0 < units"
  shows "\<exists>current i. unit_loop units v = Some (current, i) \<and> i \<le> units - 1 \<and> current * 1024 ^ i = v
    \<and> (current < 1024 \<or> i = units - 1) \<and> (0 < i \<longrightarrow> 1 \<le> current)"
proof -
  let ?b = "\<lambda>(current, i). (1024 :: rat) \<le> current \<and> i < units - 1"
  let ?c = "\<lambda>(current, i). (current / (1024 :: rat), i + 1)"
  let ?P = "\<lambda>(current, i). i \<le> units - 1 \<and> current * 1024 ^ i = v \<and> (0 < i \<longrightarrow> 1 \<le> current)"
  have "\<exists>t. while_option ?b ?c (v, 0) = Some t"
    by (rule measure_while_option_Some[where P = "\<lambda>_. True" and f = "\<lambda>(_, i). units - 1 - i"]) auto
  then obtain t where t: "while_option ?b ?c (v, 0) = Some t" by blast
  have "?P t" by (rule while_option_rule[where P = ?P, OF _ t]) auto
  moreover have "\<not> ?b t" by (rule while_option_stop[OF t])
  ultimately show ?thesis using t by (cases t) (auto simp: unit_loop_def)
qed

text \<open>
  C34 The unit loop ends, for every number and every list of units, and leaves the number it was given:
  scaled down by 1024 as often as the index says, below 1024 unless the largest unit was reached, and
  never below 1 of a unit it has moved up to. So every rate and every size is shown as a text.
\<close>

theorem unit_scaling_ends:
  shows "(units \<noteq> [] \<longrightarrow> (\<exists>current i. unit_loop (length units) v = Some (current, i) \<and> i < length units
      \<and> current * 1024 ^ i = v \<and> (current < 1024 \<or> i = length units - 1) \<and> (0 < i \<longrightarrow> 1 \<le> current)
      \<and> scaled_text units v = Some (to_fixed (if 10 \<le> current \<or> i = 0 then 0 else 1) current @ '' '' @ units ! i)))
    \<and> dashboard_bps n \<noteq> None \<and> dashboard_bytes v \<noteq> None"
proof -
  have s: "\<exists>current i. unit_loop (length units) v = Some (current, i) \<and> i < length units
      \<and> current * 1024 ^ i = v \<and> (current < 1024 \<or> i = length units - 1) \<and> (0 < i \<longrightarrow> 1 \<le> current)
      \<and> scaled_text units v = Some (to_fixed (if 10 \<le> current \<or> i = 0 then 0 else 1) current @ '' '' @ units ! i)"
    if u: "units \<noteq> []" for units v
  proof -
    have "0 < length units" using u by simp
    from unit_loop_some[OF this, of v] obtain current i where "unit_loop (length units) v = Some (current, i)" "i \<le> length units - 1"
      "current * 1024 ^ i = v" "current < 1024 \<or> i = length units - 1" "0 < i \<longrightarrow> 1 \<le> current"
      by (elim exE conjE)
    moreover have "i < length units" using \<open>i \<le> length units - 1\<close> u by (cases units) auto
    ultimately show ?thesis unfolding scaled_text_def by (intro exI[of _ current] exI[of _ i]) simp
  qed
  have "scaled_text bps_units r \<noteq> None" "scaled_text dashboard_byte_units r \<noteq> None" for r
    using s[of bps_units r] s[of dashboard_byte_units r] by (auto simp: bps_units_def dashboard_byte_units_def)
  then show ?thesis using s by (simp add: dashboard_bps_def dashboard_bytes_def split: num.splits)
qed

theorem unit_scaling_ends_witness:
  "\<exists>current i. unit_loop (length dashboard_byte_units) 3221225472 = Some (current, i) \<and> i < 5 \<and> current * 1024 ^ i = 3221225472"
proof -
  have u: "dashboard_byte_units \<noteq> []" "length dashboard_byte_units = 5" by (simp_all add: dashboard_byte_units_def)
  show ?thesis using unit_scaling_ends[of dashboard_byte_units 3221225472, THEN conjunct1, rule_format, OF u(1)]
    unfolding u(2) by blast
qed

text \<open>
  An event refreshes the counters it can have changed and no other: what happens to a machine asks
  again for the machines and the quotas, what happens to an image for the images, and any other event,
  known or not, for nothing. Each refresh repeats the loader's own request.
\<close>

theorem dashboard_event_exact:
  assumes t: "jget evt ''type'' = Str ty"
  shows "(ty \<in> set lifecycle_types \<longrightarrow>
        dashboard_event evt s = s\<lparr>db_vms := load (db_vms s), db_quotas := load (db_quotas s)\<rparr>)
    \<and> (ty \<in> set image_types \<longrightarrow> dashboard_event evt s = s\<lparr>db_images := load (db_images s)\<rparr>)
    \<and> (ty \<notin> set lifecycle_types \<union> set image_types \<longrightarrow> dashboard_event evt s = s)
    \<and> set lifecycle_types \<inter> set image_types = {}
    \<and> ld_query (db_top (pick_metric m s)) = (if m = db_metric s then ld_query (db_top s) else Some (top_request m))"
proof -
  have d: "set lifecycle_types \<inter> set image_types = {}" by (simp add: lifecycle_types_def image_types_def)
  then show ?thesis
    by (auto simp: dashboard_event_def handle_event_def t refresh_counter_def pick_metric_def)
qed

theorem dashboard_event_exact_witness:
  "dashboard_event (Obj [(''type'', Str ''image.deleted'')]) dashboard_mount
    = dashboard_mount\<lparr>db_images := load (db_images dashboard_mount)\<rparr>"
  using dashboard_event_exact[of "Obj [(''type'', Str ''image.deleted'')]" "''image.deleted''" dashboard_mount]
  by (simp add: image_types_def)

text \<open>The metric in the heading is always one of the six, and the first one when it is unknown.\<close>

lemma top_config_in: "top_config metric \<in> set top_metrics"
  by (auto simp: top_config_def find_Some_iff top_metrics_def split: option.splits)

end
