(* ===== verification/Precache.thy ===== *)
theory Precache imports Prelude "HOL-Library.Char_ord" "HOL-Library.List_Lexorder" "HOL-Library.Multiset" begin

text \<open>
  What the build adds to the service worker: the list of files it downloads at installation and the build
  id, \<open>web/build/precache.js\<close>, and the plugin that walks the output directory and calls both,
  \<open>web/build/swPlugin.js\<close>. A file is its path and size; contents are byte strings; the hash function of
  \<open>node:crypto\<close> and the reading of a file are parameters. Strings are ordered by character code, as
  JavaScript's \<open><\<close> and \<open>sort\<close> order them.
\<close>

subsection \<open>The precached files\<close>

definition precache_path :: "string \<Rightarrow> string" where
  "precache_path raw = dropWhile (\<lambda>c. c = CHR ''/'') (map (\<lambda>c. if c = CHR 0x5C then CHR ''/'' else c) raw)"

definition precache_excluded :: "string \<Rightarrow> bool" where
  "precache_excluded p \<longleftrightarrow>
     p = ''sw.js'' \<or> ends_with p ''.map'' \<or> list_ex (\<lambda>seg. starts_with seg ''.'') (js_split CHR ''/'' p)"

definition always_precache :: "string \<Rightarrow> bool" where
  "always_precache p \<longleftrightarrow> list_ex (ends_with p) [''.html'', ''.js'', ''.mjs'', ''.css'', ''.webmanifest'', ''.json'']"

definition max_precache_media_bytes :: nat where
  "max_precache_media_bytes = 512 * 1024"

text \<open>The loop over the files: the URL a file contributes, if any.\<close>

definition precache_url :: "nat \<Rightarrow> string \<times> nat \<Rightarrow> string option" where
  "precache_url max_media file =
     (let p = precache_path (fst file) in
      if p = [] \<or> precache_excluded p then None
      else if \<not> always_precache p \<and> max_media < snd file then None
      else Some (CHR ''/'' # p))"

definition select_precache_files :: "nat \<Rightarrow> (string \<times> nat) list \<Rightarrow> string + string list" where
  "select_precache_files max_media files =
     (let urls = List.map_filter (precache_url max_media) files in
      if ''/index.html'' \<notin> set urls
      then Inl ''precache: build output has no index.html (the offline app shell)''
      else Inr (sort (remdups urls)))"

subsection \<open>The build id\<close>

definition NUL :: char where
  "NUL = CHR 0x00"

definition build_chunk :: "string \<times> string \<Rightarrow> string" where
  "build_chunk e = fst e @ [NUL] @ snd e @ [NUL]"

definition build_input :: "(string \<times> string) list \<Rightarrow> string" where
  "build_input entries = concat (map build_chunk (sort_key fst entries))"

definition compute_build_id :: "(string \<Rightarrow> string) \<Rightarrow> (string \<times> string) list \<Rightarrow> string" where
  "compute_build_id sha256_hex entries = take 16 (sha256_hex (build_input entries))"

subsection \<open>The plugin\<close>

datatype fs_entry = FsFile string nat | FsDir string "fs_entry list" | FsOther string

text \<open>The files below a directory, with their paths relative to the root.\<close>

fun fs_files :: "string \<Rightarrow> fs_entry \<Rightarrow> (string \<times> nat) list" where
  "fs_files dir (FsFile name sz) = [(dir @ name, sz)]"
| "fs_files dir (FsDir name es) = concat (map (fs_files (dir @ name @ ''/'')) es)"
| "fs_files dir (FsOther name) = []"

definition list_files :: "fs_entry list \<Rightarrow> (string \<times> nat) list" where
  "list_files es = concat (map (fs_files []) es)"

text \<open>\<open>closeBundle\<close>: the constants substituted in the worker, the build id and the precache list.\<close>

definition close_bundle ::
    "(string \<Rightarrow> string) \<Rightarrow> (string \<Rightarrow> string) \<Rightarrow> fs_entry list \<Rightarrow> string + string \<times> string list" where
  "close_bundle sha256_hex read_file out_dir =
     (case select_precache_files max_precache_media_bytes (list_files out_dir) of
        Inl e \<Rightarrow> Inl e
      | Inr urls \<Rightarrow> Inr (compute_build_id sha256_hex (map (\<lambda>url. (url, read_file (drop 1 url))) urls), urls))"

subsection \<open>Facts\<close>

lemma set_map_filter: "set (List.map_filter f xs) = {y. \<exists>x\<in>set xs. f x = Some y}"
  by (force simp: map_filter_def)

lemma sort_remdups_cong: "set xs = set ys \<Longrightarrow> sort (remdups xs) = sort (remdups (ys :: 'a :: linorder list))"
  by (simp add: sorted_remdups sorted_list_of_set_sort_remdups [symmetric])

lemma precache_url_cases:
  "precache_url m f = Some u \<longleftrightarrow>
     u = CHR ''/'' # precache_path (fst f) \<and> precache_path (fst f) \<noteq> [] \<and> \<not> precache_excluded (precache_path (fst f))
     \<and> (always_precache (precache_path (fst f)) \<or> snd f \<le> m)"
  by (auto simp: precache_url_def Let_def)

text \<open>A path without its leading slashes; a path none of whose names begins with a dot.\<close>

lemma drop_slashes: "dropWhile (\<lambda>c. c = z) xs = p \<longleftrightarrow> (\<exists>n. xs = replicate n z @ p) \<and> (p = [] \<or> hd p \<noteq> z)"
proof
  assume d: "dropWhile (\<lambda>c. c = z) xs = p"
  have "takeWhile (\<lambda>c. c = z) xs = replicate (length (takeWhile (\<lambda>c. c = z) xs)) z"
    by (rule replicate_eqI) (auto dest: set_takeWhileD)
  then have "xs = replicate (length (takeWhile (\<lambda>c. c = z) xs)) z @ p"
    using d takeWhile_dropWhile_id[of "\<lambda>c. c = z" xs] by metis
  moreover have "p = [] \<or> hd p \<noteq> z" using hd_dropWhile[of "\<lambda>c. c = z" xs] d by auto
  ultimately show "(\<exists>n. xs = replicate n z @ p) \<and> (p = [] \<or> hd p \<noteq> z)" by blast
next
  assume r: "(\<exists>n. xs = replicate n z @ p) \<and> (p = [] \<or> hd p \<noteq> z)"
  then obtain n where "xs = replicate n z @ p" by blast
  moreover have "dropWhile (\<lambda>c. c = z) (replicate n z @ p) = p" using r by (induction n) (cases p, auto)
  ultimately show "dropWhile (\<lambda>c. c = z) xs = p" by simp
qed

lemma split_dotted:
  assumes "d \<noteq> c" "js_split c p = w # ws"
  shows "prefix [d] w \<longleftrightarrow> (\<exists>b. p = d # b)" "list_ex (prefix [d]) ws \<longleftrightarrow> (\<exists>a b. p = a @ c # d # b)"
proof -
  have "(prefix [d] w \<longleftrightarrow> (\<exists>b. p = d # b)) \<and> (list_ex (prefix [d]) ws \<longleftrightarrow> (\<exists>a b. p = a @ c # d # b))"
    using assms(2)
  proof (induction p arbitrary: w ws)
    case (Cons x p)
    obtain v vs where v: "js_split c p = v # vs" by (cases "js_split c p") auto
    have e: "(\<exists>a b. x # p = a @ c # d # b) \<longleftrightarrow> (x = c \<and> (\<exists>b. p = d # b)) \<or> (\<exists>a b. p = a @ c # d # b)"
      by (auto simp: Cons_eq_append_conv)
    show ?case
    proof (cases "x = c")
      case True
      then have "w = []" "ws = v # vs" using Cons.prems v by simp_all
      then show ?thesis using True Cons.IH[OF v] assms(1) unfolding e by simp
    next
      case False
      then have "w = x # v" "ws = vs" using Cons.prems v by simp_all
      then show ?thesis using False Cons.IH[OF v] unfolding e by auto
    qed
  qed simp
  then show "prefix [d] w \<longleftrightarrow> (\<exists>b. p = d # b)" "list_ex (prefix [d]) ws \<longleftrightarrow> (\<exists>a b. p = a @ c # d # b)"
    by simp_all
qed

lemma hidden_segment:
  "list_ex (\<lambda>seg. starts_with seg ''.'') (js_split CHR ''/'' p)
     \<longleftrightarrow> (\<exists>b. p = CHR ''.'' # b) \<or> (\<exists>a b. p = a @ ''/.'' @ b)"
proof -
  obtain w ws where w: "js_split (CHR ''/'') p = w # ws" by (cases "js_split (CHR ''/'') p") auto
  show ?thesis using split_dotted[OF _ w, of "CHR ''.''"] by (simp add: w starts_with_def)
qed

text \<open>
  C30 The precache list is sorted and without duplicates and holds exactly the URLs of the files that are
  to be precached: with slashes for backslashes and without those it begins with, a path that is not the
  worker's own, no source map, without a name that begins with a dot, and that either is code or markup by
  its suffix or not larger than the bound. It has the application's page, or there is no list and the
  build fails because no file gives that page. It does not depend on the order in which the directory is
  listed.
\<close>

theorem precache_exact:
  assumes shipped_def: "\<And>p sz. shipped p sz \<longleftrightarrow> p \<noteq> [] \<and> hd p \<noteq> CHR ''/'' \<and> p \<noteq> ''sw.js'' \<and> \<not> suffix ''.map'' p
      \<and> hd p \<noteq> CHR ''.'' \<and> (\<forall>a b. p \<noteq> a @ ''/.'' @ b)
      \<and> (suffix ''.html'' p \<or> suffix ''.js'' p \<or> suffix ''.mjs'' p \<or> suffix ''.css'' p \<or> suffix ''.webmanifest'' p
          \<or> suffix ''.json'' p \<or> sz \<le> m)"
    and shipped_as_def: "\<And>u. shipped_as u \<longleftrightarrow> (\<exists>raw sz n p. (raw, sz) \<in> set files
      \<and> map (\<lambda>c. if c = CHR 0x5C then CHR ''/'' else c) raw = replicate n (CHR ''/'') @ p
      \<and> shipped p sz \<and> u = CHR ''/'' # p)"
  shows "(case select_precache_files m files of
        Inr urls \<Rightarrow> sorted urls \<and> distinct urls \<and> ''/index.html'' \<in> set urls
          \<and> (\<forall>u. u \<in> set urls \<longleftrightarrow> shipped_as u)
      | Inl e \<Rightarrow> \<not> shipped_as ''/index.html'')
    \<and> (set files = set files' \<longrightarrow> select_precache_files m files = select_precache_files m files')"
proof -
  let ?u = "List.map_filter (precache_url m)"
  have s: "set (?u fs) = {u. \<exists>f\<in>set fs. precache_url m f = Some u}" for fs by (rule set_map_filter)
  have same: "set files = set files' \<Longrightarrow> select_precache_files m files = select_precache_files m files'"
    using s[of files] s[of files'] sort_remdups_cong[of "?u files" "?u files'"] by (simp add: select_precache_files_def)
  have url: "precache_url m (raw, sz) = Some u \<longleftrightarrow>
      (\<exists>n p. map (\<lambda>c. if c = CHR 0x5C then CHR ''/'' else c) raw = replicate n (CHR ''/'') @ p
        \<and> shipped p sz \<and> u = CHR ''/'' # p)" for raw sz u
  proof -
    have x: "p \<noteq> [] \<Longrightarrow> \<not> precache_excluded p \<longleftrightarrow>
        p \<noteq> ''sw.js'' \<and> \<not> suffix ''.map'' p \<and> hd p \<noteq> CHR ''.'' \<and> (\<forall>a b. p \<noteq> a @ ''/.'' @ b)" for p
      unfolding precache_excluded_def ends_with_def hidden_segment by (cases p) auto
    have y: "always_precache p \<longleftrightarrow> suffix ''.html'' p \<or> suffix ''.js'' p \<or> suffix ''.mjs'' p \<or> suffix ''.css'' p
        \<or> suffix ''.webmanifest'' p \<or> suffix ''.json'' p" for p
      unfolding always_precache_def by (simp add: ends_with_def)
    have sh: "shipped p sz \<longleftrightarrow> p \<noteq> [] \<and> hd p \<noteq> CHR ''/'' \<and> \<not> precache_excluded p \<and> (always_precache p \<or> sz \<le> m)" for p
    proof (cases "p = []")
      case False
      show ?thesis unfolding shipped_def y x[OF False] by blast
    qed (simp add: shipped_def)
    have "precache_url m (raw, sz) = Some u \<longleftrightarrow> (\<exists>p. precache_path raw = p \<and> u = CHR ''/'' # p \<and> p \<noteq> []
        \<and> \<not> precache_excluded p \<and> (always_precache p \<or> sz \<le> m))"
      by (auto simp: precache_url_cases)
    also have "\<dots> \<longleftrightarrow> (\<exists>p. (\<exists>n. map (\<lambda>c. if c = CHR 0x5C then CHR ''/'' else c) raw = replicate n (CHR ''/'') @ p)
        \<and> shipped p sz \<and> u = CHR ''/'' # p)"
      unfolding precache_path_def drop_slashes sh by blast
    finally show ?thesis by blast
  qed
  have m: "u \<in> set (?u files) \<longleftrightarrow> shipped_as u" for u
  proof -
    have "u \<in> set (?u files) \<longleftrightarrow> (\<exists>raw sz. (raw, sz) \<in> set files \<and> precache_url m (raw, sz) = Some u)"
      by (simp add: s Bex_def)
    then show ?thesis unfolding url shipped_as_def by blast
  qed
  show ?thesis using same m by (simp add: select_precache_files_def Let_def)
qed

theorem precache_exact_witness:
  "select_precache_files 10 [(''b.png'', 20), (''index.html'', 99), (''sw.js'', 1)]
     = select_precache_files 10 [(''sw.js'', 1), (''index.html'', 99), (''b.png'', 20)]
   \<and> select_precache_files 10 [(''b.png'', 20), (''index.html'', 99), (''sw.js'', 1)] = Inr [''/index.html'']"
proof
  let ?a = "[(''b.png'', 20 :: nat), (''index.html'', 99), (''sw.js'', 1)]"
  let ?b = "[(''sw.js'', 1 :: nat), (''index.html'', 99), (''b.png'', 20)]"
  have "set ?a = set ?b" by auto
  with precache_exact[OF refl refl, where m = 10 and files = ?a and files' = ?b]
  show "select_precache_files 10 ?a = select_precache_files 10 ?b" by blast
  show "select_precache_files 10 ?a = Inr [''/index.html'']" by code_simp
qed

lemma split_at_first: "a @ z # r = a' @ z # r' \<Longrightarrow> z \<notin> set a \<Longrightarrow> z \<notin> set a' \<Longrightarrow> a = a' \<and> r = r'"
proof (induction a arbitrary: a')
  case Nil
  then show ?case by (cases a') auto
next
  case (Cons x a)
  then show ?case by (cases a') auto
qed

lemma chunk_split:
  assumes "build_chunk (u, c) @ xs = build_chunk (u', c') @ ys" "NUL \<notin> set u" "NUL \<notin> set u'"
    and "NUL \<notin> set c" "NUL \<notin> set c'"
  shows "u = u' \<and> c = c' \<and> xs = ys"
proof -
  from assms(1) have e: "u @ NUL # (c @ NUL # xs) = u' @ NUL # (c' @ NUL # ys)" by (simp add: build_chunk_def)
  from split_at_first[OF e assms(2,3)] split_at_first[OF _ assms(4,5)] show ?thesis by blast
qed

lemma sort_key_map: "(\<And>x. f (g x) = f x) \<Longrightarrow> sort_key f (map g xs) = map g (sort_key f xs)"
proof -
  assume k: "\<And>x. f (g x) = f x"
  have "insort_key f (g x) (map g ys) = map g (insort_key f x ys)" for x ys by (induction ys) (auto simp: k)
  then show ?thesis by (induction xs) auto
qed

lemma distinct_sort_fst: "distinct (map fst es) \<Longrightarrow> distinct (map fst (sort_key fst es))"
  by (metis distinct_map distinct_sort set_sort)

lemma sort_key_set_unique:
  assumes "distinct (map fst es)" "distinct (map fst es')" "set es = set es'"
  shows "sort_key fst es = sort_key fst (es' :: ('a :: linorder \<times> 'b) list)"
proof (rule map_inj_on)
  show "map fst (sort_key fst es) = map fst (sort_key fst es')"
    by (rule sorted_distinct_set_unique) (use assms in \<open>auto simp: distinct_sort_fst\<close>)
  show "inj_on fst (set (sort_key fst es) \<union> set (sort_key fst es'))" using assms by (simp add: distinct_map)
qed

text \<open>Replacing the contents of one file replaces its chunk in the input.\<close>

lemma build_input_replace:
  assumes "distinct (map fst (xs @ (u, c) # ys))"
  obtains A B where "build_input (xs @ (u, c) # ys) = A @ build_chunk (u, c) @ B"
    and "build_input (xs @ (u, c') # ys) = A @ build_chunk (u, c') @ B"
proof -
  define g where "g = (\<lambda>e. if fst e = u then (u, c') else e :: string \<times> string)"
  have k: "fst (g x) = fst x" for x by (simp add: g_def)
  have id: "map g zs = zs" if "u \<notin> set (map fst zs)" for zs using that by (induction zs) (auto simp: g_def)
  have "map g (xs @ (u, c) # ys) = xs @ (u, c') # ys" using assms id by (auto simp: g_def)
  then have s: "sort_key fst (xs @ (u, c') # ys) = map g (sort_key fst (xs @ (u, c) # ys))"
    using sort_key_map[of fst g "xs @ (u, c) # ys"] k by simp
  have "(u, c) \<in> set (sort_key fst (xs @ (u, c) # ys))" by simp
  then obtain A B where AB: "sort_key fst (xs @ (u, c) # ys) = A @ (u, c) # B" by (meson split_list)
  have "distinct (map fst (A @ (u, c) # B))"
    using assms unfolding AB[symmetric] by (rule distinct_sort_fst)
  then have "map g (A @ (u, c) # B) = A @ (u, c') # B" using id by (auto simp: g_def)
  with s AB show ?thesis by (intro that[of "concat (map build_chunk A)" "concat (map build_chunk B)"]) (simp_all add: build_input_def)
qed

lemma chunks_inj:
  "concat (map build_chunk es) = concat (map build_chunk es') \<Longrightarrow>
   \<forall>e\<in>set es \<union> set es'. NUL \<notin> set (fst e) \<and> NUL \<notin> set (snd e) \<Longrightarrow> es = es'"
proof (induction es arbitrary: es')
  case Nil
  then show ?case by (cases es') (auto simp: build_chunk_def)
next
  case (Cons e es)
  then obtain e' es'' where e': "es' = e' # es''" by (cases es') (auto simp: build_chunk_def)
  have "fst e = fst e' \<and> snd e = snd e' \<and> concat (map build_chunk es) = concat (map build_chunk es'')"
    using Cons.prems e' by (intro chunk_split) auto
  then show ?case using Cons e' by (auto simp: prod_eq_iff)
qed

text \<open>
  C31 What is hashed determines the shipped files, whatever order they are read in: two builds of files
  without a zero byte have the same input only if their files are the same, and replacing the contents of
  a single file changes the input for any contents. So with a hash that tells the two inputs apart the
  build id, which is the hash's beginning, changes with the files.
\<close>

theorem build_input_determines:
  shows "(distinct (map fst es) \<and> set es = set es' \<and> distinct (map fst es') \<longrightarrow> build_input es = build_input es')
    \<and> ((\<forall>e\<in>set es \<union> set es'. NUL \<notin> set (fst e) \<and> NUL \<notin> set (snd e)) \<and> build_input es = build_input es'
        \<longrightarrow> mset es = mset es')
    \<and> (c \<noteq> c' \<longrightarrow> distinct (map fst (xs @ (u, c) # ys)) \<longrightarrow>
        build_input (xs @ (u, c) # ys) \<noteq> build_input (xs @ (u, c') # ys))"
proof -
  have 1: "build_input es = build_input es'"
    if d: "distinct (map fst es)" "set es = set es'" "distinct (map fst es')"
    using sort_key_set_unique[OF d(1,3,2)] by (simp add: build_input_def)
  have 2: "mset es = mset es'"
    if "\<forall>e\<in>set es \<union> set es'. NUL \<notin> set (fst e) \<and> NUL \<notin> set (snd e)" "build_input es = build_input es'"
    using that chunks_inj[of "sort_key fst es" "sort_key fst es'"] unfolding build_input_def
    by (metis mset_sort set_sort)
  have 3: "c = c'"
    if d: "distinct (map fst (xs @ (u, c) # ys))"
      and e: "build_input (xs @ (u, c) # ys) = build_input (xs @ (u, c') # ys)"
  proof -
    obtain A B where "build_input (xs @ (u, c) # ys) = A @ build_chunk (u, c) @ B"
      "build_input (xs @ (u, c') # ys) = A @ build_chunk (u, c') @ B" by (rule build_input_replace[OF d])
    then have "build_chunk (u, c) = build_chunk (u, c')" using e by (metis append_same_eq same_append_eq)
    then show ?thesis by (simp add: build_chunk_def)
  qed
  show ?thesis by (intro conjI impI notI) (blast intro: 1, blast intro: 2, blast dest: 3)
qed

theorem build_input_determines_witness:
  "build_input [(''/b'', ''y''), (''/a'', ''x'')] \<noteq> build_input [(''/b'', ''y''), (''/a'', ''z'')]"
  using build_input_determines[of "[]" "[]" "''x''" "''z''" "[(''/b'', ''y'')]" "''/a''" "[]"] by simp

text \<open>
  With zero bytes in the contents, as images have them, the framing is ambiguous: here two builds with
  different files have the same input, and so the same id whatever the hash function is.
\<close>

lemma build_input_ambiguous:
  "build_input [(''/a'', ''p'' @ [NUL] @ ''/b'' @ [NUL] @ ''q''), (''/b'', ''r'')]
     = build_input [(''/a'', ''p''), (''/b'', ''q'' @ [NUL] @ ''/b'' @ [NUL] @ ''r'')]"
  by (simp add: build_input_def build_chunk_def)

text \<open>The plugin's list of files is what a walk of the tree finds, so every page of the application is precached.\<close>

lemma close_bundle_page:
  "close_bundle sha rd tree = Inr (bid, urls) \<Longrightarrow> ''/index.html'' \<in> set urls \<and> distinct urls"
  by (auto simp: close_bundle_def select_precache_files_def Let_def split: sum.splits if_splits)

end
