(* ===== verification/ServiceWorker.thy ===== *)
theory ServiceWorker imports Precache begin

text \<open>
  The service worker, \<open>web/src/pwa/sw.js\<close>, and its routing policy, \<open>web/src/pwa/swRouting.js\<close>. The cache
  storage is what the browser has: caches in the order of their creation, each a list of URLs with their
  responses. Reading a URL (\<open>new URL\<close>) is the parameter \<open>parse\<close>, which gives origin and path or fails; what
  the network answers is an argument of the step in which it answers.
\<close>

subsection \<open>Routing\<close>

record fetch_request =
  rq_method :: string
  rq_url :: string
  rq_mode :: string

record response =
  rs_status :: nat
  rs_type :: string
  rs_body :: string

datatype strategy = Bypass | Navigation | CacheFirst | StaleWhileRevalidate

definition cache_prefix :: string where "cache_prefix = ''vmsmith-''"

definition runtime_cache :: string where "runtime_cache = cache_prefix @ ''runtime''"

definition shell_url :: string where "shell_url = ''/index.html''"

definition sw_url :: string where "sw_url = ''/sw.js''"

definition shell_cache_name :: "string \<Rightarrow> string + string" where
  "shell_cache_name build_id =
     (if build_id = [] then Inl ''shellCacheName: buildId is required'' else Inr (cache_prefix @ ''shell-'' @ build_id))"

definition is_api_path :: "string \<Rightarrow> bool" where
  "is_api_path pathname \<longleftrightarrow> pathname = ''/api'' \<or> starts_with pathname ''/api/''"

definition classify_request :: "(string \<Rightarrow> (string \<times> string) option) \<Rightarrow> string \<Rightarrow> fetch_request \<Rightarrow> strategy" where
  "classify_request parse origin req =
     (if rq_method req \<noteq> ''GET'' then Bypass
      else (case parse (rq_url req) of
              None \<Rightarrow> Bypass
            | Some (url_origin, pathname) \<Rightarrow>
                if url_origin \<noteq> origin then Bypass
                else if is_api_path pathname then Bypass
                else if pathname = sw_url then Bypass
                else if rq_mode req = ''navigate'' then Navigation
                else if starts_with pathname ''/assets/'' then CacheFirst
                else StaleWhileRevalidate))"

definition stale_cache_names :: "string list \<Rightarrow> string \<Rightarrow> string + string list" where
  "stale_cache_names existing build_id =
     (case shell_cache_name build_id of
        Inl e \<Rightarrow> Inl e
      | Inr shell \<Rightarrow> Inr (filter (\<lambda>name. starts_with name cache_prefix \<and> name \<notin> {shell, runtime_cache}) existing))"

definition is_cacheable_response :: "response \<Rightarrow> bool" where
  "is_cacheable_response res \<longleftrightarrow> rs_status res = 200 \<and> rs_type res = ''basic''"

subsection \<open>The cache storage\<close>

type_synonym cache = "(string \<times> response) list"

type_synonym caches = "(string \<times> cache) list"

text \<open>\<open>caches.open\<close>, \<open>cache.put\<close>, \<open>caches.match\<close> (every cache in turn, or the named one) and \<open>caches.delete\<close>.\<close>

definition cache_open :: "string \<Rightarrow> caches \<Rightarrow> caches" where
  "cache_open name cs = (if name \<in> set (map fst cs) then cs else cs @ [(name, [])])"

definition put_entry :: "string \<Rightarrow> response \<Rightarrow> cache \<Rightarrow> cache" where
  "put_entry url res c = filter (\<lambda>e. fst e \<noteq> url) c @ [(url, res)]"

definition cache_put :: "string \<Rightarrow> string \<Rightarrow> response \<Rightarrow> caches \<Rightarrow> caches" where
  "cache_put name url res cs =
     map (\<lambda>(n, c). (n, if n = name then put_entry url res c else c)) (cache_open name cs)"

fun caches_match :: "string \<Rightarrow> caches \<Rightarrow> response option" where
  "caches_match url [] = None"
| "caches_match url ((n, c) # cs) = (case map_of c url of Some r \<Rightarrow> Some r | None \<Rightarrow> caches_match url cs)"

definition match_in :: "string \<Rightarrow> string \<Rightarrow> caches \<Rightarrow> response option" where
  "match_in name url cs = (case map_of cs name of None \<Rightarrow> None | Some c \<Rightarrow> map_of c url)"

definition cache_delete :: "string \<Rightarrow> caches \<Rightarrow> caches" where
  "cache_delete name cs = filter (\<lambda>e. fst e \<noteq> name) cs"

subsection \<open>The worker\<close>

text \<open>The constants of a build: where it is served from, its id and its precache list.\<close>

record build =
  bu_origin :: string
  bu_id :: string
  bu_precache :: "string list"

definition shell_cache :: "build \<Rightarrow> string" where
  "shell_cache b = cache_prefix @ ''shell-'' @ bu_id b"

text \<open>
  \<open>cache.addAll\<close> takes the responses of all its URLs if every one is a success (and not a partial one), and
  none otherwise; the cache has been opened by then.
\<close>

definition response_ok :: "response \<Rightarrow> bool" where
  "response_ok res \<longleftrightarrow> 200 \<le> rs_status res \<and> rs_status res \<le> 299 \<and> rs_status res \<noteq> 206"

definition sw_install :: "build \<Rightarrow> (string \<Rightarrow> response option) \<Rightarrow> caches \<Rightarrow> bool \<times> caches" where
  "sw_install b net cs =
     (let opened = cache_open (shell_cache b) cs; urls = map (\<lambda>url. bu_origin b @ url) (bu_precache b) in
      if list_all (\<lambda>u. case net u of Some r \<Rightarrow> response_ok r | None \<Rightarrow> False) urls
      then (True, fold (\<lambda>u. cache_put (shell_cache b) u (the (net u))) urls opened)
      else (False, opened))"

definition sw_activate :: "build \<Rightarrow> caches \<Rightarrow> caches" where
  "sw_activate b cs =
     (case stale_cache_names (map fst cs) (bu_id b) of Inl e \<Rightarrow> cs | Inr names \<Rightarrow> fold cache_delete names cs)"

datatype sw_effect = SkipWaiting | PostBuildId string

definition sw_message :: "build \<Rightarrow> string \<Rightarrow> bool \<Rightarrow> sw_effect list" where
  "sw_message b type has_port =
     (if type = ''SKIP_WAITING'' then [SkipWaiting]
      else if type = ''GET_BUILD_ID'' \<and> has_port then [PostBuildId (bu_id b)] else [])"

text \<open>
  A request that the worker handles is answered from a cache at once, or asked of the network and then
  answered. \<open>Native\<close> is no \<open>respondWith\<close>: the browser performs the request.
\<close>

datatype reply = Native | Respond response | Reject

record sw =
  sw_caches :: caches
  sw_pending :: "(fetch_request \<times> strategy \<times> bool) list"

definition sw_fetch ::
    "(string \<Rightarrow> (string \<times> string) option) \<Rightarrow> build \<Rightarrow> fetch_request \<Rightarrow> sw \<Rightarrow> reply option \<times> sw" where
  "sw_fetch parse b req s =
     (let wait = (\<lambda>st answered. s\<lparr>sw_pending := sw_pending s @ [(req, st, answered)]\<rparr>);
          cached = caches_match (rq_url req) (sw_caches s) in
      case classify_request parse (bu_origin b) req of
        Navigation \<Rightarrow> (None, wait Navigation False)
      | CacheFirst \<Rightarrow> (case cached of Some r \<Rightarrow> (Some (Respond r), s) | None \<Rightarrow> (None, wait CacheFirst False))
      | StaleWhileRevalidate \<Rightarrow>
          (case cached of
             Some r \<Rightarrow> (Some (Respond r), wait StaleWhileRevalidate True)
           | None \<Rightarrow> (None, wait StaleWhileRevalidate False))
      | Bypass \<Rightarrow> (Some Native, s))"

text \<open>The network's answer to a pending request, or its failure; a request already answered needs no reply.\<close>

definition sw_store :: "fetch_request \<Rightarrow> response \<Rightarrow> caches \<Rightarrow> caches" where
  "sw_store req res cs = (if is_cacheable_response res then cache_put runtime_cache (rq_url req) res cs else cs)"

definition sw_answer :: "build \<Rightarrow> fetch_request \<times> strategy \<times> bool \<Rightarrow> response option \<Rightarrow> sw \<Rightarrow> reply option \<times> sw" where
  "sw_answer b p answer s =
     (let s1 = s\<lparr>sw_pending := remove1 p (sw_pending s)\<rparr>; (req, st, answered) = p in
      case answer of
        Some res \<Rightarrow>
          (if answered then None else Some (Respond res),
           if st = Navigation then s1 else s1\<lparr>sw_caches := sw_store req res (sw_caches s)\<rparr>)
      | None \<Rightarrow>
          (if answered then None
           else if st = Navigation then
             (case match_in (shell_cache b) (bu_origin b @ shell_url) (sw_caches s) of
                Some shell \<Rightarrow> Some (Respond shell)
              | None \<Rightarrow> Some Reject)
           else Some Reject,
           s1))"

text \<open>
  What happens to the storage once a build is installed: its worker is activated, handles requests and
  gets answers, and the worker of another build of the same site is installed beside it.
\<close>

definition parsed_path :: "(string \<Rightarrow> (string \<times> string) option) \<Rightarrow> string \<Rightarrow> string \<Rightarrow> bool" where
  "parsed_path parse origin url =
     (case parse url of None \<Rightarrow> False | Some (url_origin, pathname) \<Rightarrow> url_origin = origin \<and> \<not> is_api_path pathname)"

definition precache_clean :: "(string \<Rightarrow> (string \<times> string) option) \<Rightarrow> build \<Rightarrow> bool" where
  "precache_clean parse b \<longleftrightarrow> list_all (\<lambda>url. parsed_path parse (bu_origin b) (bu_origin b @ url)) (bu_precache b)"

inductive sw_reach :: "(string \<Rightarrow> (string \<times> string) option) \<Rightarrow> build \<Rightarrow> sw \<Rightarrow> sw \<Rightarrow> bool" for parse b s0 where
  sw_start: "sw_reach parse b s0 s0"
| sw_activated: "sw_reach parse b s0 s \<Longrightarrow> sw_reach parse b s0 (s\<lparr>sw_caches := sw_activate b (sw_caches s)\<rparr>)"
| sw_fetched: "sw_reach parse b s0 s \<Longrightarrow> sw_reach parse b s0 (snd (sw_fetch parse b req s))"
| sw_answered: "sw_reach parse b s0 s \<Longrightarrow> p \<in> set (sw_pending s) \<Longrightarrow> sw_reach parse b s0 (snd (sw_answer b p answer s))"
| sw_upgrade: "sw_reach parse b s0 s \<Longrightarrow> bu_id b' \<noteq> bu_id b \<Longrightarrow> bu_origin b' = bu_origin b \<Longrightarrow> precache_clean parse b' \<Longrightarrow>
    sw_reach parse b s0 (s\<lparr>sw_caches := snd (sw_install b' net (sw_caches s))\<rparr>)"

subsection \<open>Facts on the storage\<close>

lemma names_differ [simp]: "shell_cache b \<noteq> runtime_cache" "runtime_cache \<noteq> shell_cache b"
  by (simp_all add: shell_cache_def runtime_cache_def)

lemma names_owned [simp]: "starts_with (shell_cache b) cache_prefix" "starts_with runtime_cache cache_prefix"
  by (simp_all add: shell_cache_def runtime_cache_def starts_with_def)

lemma map_of_put_entry: "map_of (put_entry u r c) v = (if v = u then Some r else map_of c v)"
  unfolding put_entry_def by (induction c) auto

lemma map_of_map_caches:
  "map_of (map (\<lambda>(n, c). (n, if n = name then f c else c)) cs) n = map_option (if n = name then f else id) (map_of cs n)"
  by (induction cs) (auto simp: option.map_id0)

lemma map_of_open: "map_of (cache_open name cs) n = (if n = name \<and> map_of cs n = None then Some [] else map_of cs n)"
proof -
  have "name \<in> set (map fst cs) \<longleftrightarrow> map_of cs name \<noteq> None" by (simp add: map_of_eq_None_iff)
  then show ?thesis by (auto simp: cache_open_def map_add_def split: option.splits)
qed

lemma match_in_open [simp]: "match_in n u (cache_open name cs) = match_in n u cs"
  by (auto simp: match_in_def map_of_open split: option.splits)

lemma match_in_put: "match_in n u (cache_put name v r cs) = (if n = name \<and> u = v then Some r else match_in n u cs)"
  by (auto simp: match_in_def cache_put_def map_of_map_caches map_of_open map_of_put_entry split: option.splits)

lemma match_in_puts:
  "match_in n u (fold (\<lambda>u. cache_put name u (f u)) us cs) = (if n = name \<and> u \<in> set us then Some (f u) else match_in n u cs)"
  by (induction us arbitrary: cs) (auto simp: match_in_put)

lemma deletes: "fold cache_delete names cs = filter (\<lambda>e. fst e \<notin> set names) cs"
  by (induction names arbitrary: cs) (simp_all add: cache_delete_def filter_filter conj_commute)

lemma activate_keeps:
  "bu_id b \<noteq> [] \<Longrightarrow> sw_activate b cs =
     filter (\<lambda>e. \<not> starts_with (fst e) cache_prefix \<or> fst e = shell_cache b \<or> fst e = runtime_cache) cs"
  by (auto simp: sw_activate_def stale_cache_names_def shell_cache_name_def deletes shell_cache_def intro!: filter_cong)

lemma match_in_activate: "n = shell_cache b \<or> n = runtime_cache \<Longrightarrow> match_in n u (sw_activate b cs) = match_in n u cs"
proof (cases "bu_id b = []")
  case False
  assume n: "n = shell_cache b \<or> n = runtime_cache"
  have "map_of (filter (\<lambda>e. \<not> starts_with (fst e) cache_prefix \<or> fst e = shell_cache b \<or> fst e = runtime_cache) cs) n = map_of cs n"
    using n by (induction cs) auto
  then show ?thesis by (simp add: match_in_def activate_keeps[OF False])
qed (simp add: sw_activate_def stale_cache_names_def shell_cache_name_def)

lemma match_in_install:
  "n \<noteq> shell_cache b \<Longrightarrow> match_in n u (snd (sw_install b net cs)) = match_in n u cs"
  by (simp add: sw_install_def Let_def match_in_puts)

lemma shell_cache_inj: "shell_cache b = shell_cache b' \<longleftrightarrow> bu_id b = bu_id b'"
  by (simp add: shell_cache_def)

lemma match_after_put: "caches_match u (cache_put n u r cs) \<noteq> None"
proof -
  have m: "map_of c u = Some v \<Longrightarrow> (n, c) \<in> set xs \<Longrightarrow> caches_match u xs \<noteq> None" for c v n and xs :: caches
    by (induction xs) (auto split: option.splits)
  have "n \<in> set (map fst (cache_open n cs))" by (simp add: cache_open_def)
  then obtain c where "(n, c) \<in> set (cache_open n cs)" by auto
  then have "(n, put_entry u r c) \<in> set (cache_put n u r cs)" by (force simp: cache_put_def)
  then show ?thesis using m[of "put_entry u r c" r] by (simp add: map_of_put_entry)
qed

subsection \<open>What may be stored\<close>

definition storage_ok :: "(string \<Rightarrow> (string \<times> string) option) \<Rightarrow> string \<Rightarrow> caches \<Rightarrow> bool" where
  "storage_ok parse origin cs \<longleftrightarrow>
     (\<forall>(n, c) \<in> set cs. starts_with n cache_prefix \<longrightarrow> (\<forall>(u, r) \<in> set c. parsed_path parse origin u \<and> response_ok r))"

definition pending_ok :: "(string \<Rightarrow> (string \<times> string) option) \<Rightarrow> string \<Rightarrow> (fetch_request \<times> strategy \<times> bool) list \<Rightarrow> bool" where
  "pending_ok parse origin ps \<longleftrightarrow>
     (\<forall>(req, st, a) \<in> set ps. rq_method req = ''GET'' \<and> parsed_path parse origin (rq_url req))"

lemma storage_okI:
  "(\<And>n c u r. (n, c) \<in> set cs \<Longrightarrow> starts_with n cache_prefix \<Longrightarrow> (u, r) \<in> set c \<Longrightarrow>
     parsed_path parse origin u \<and> response_ok r) \<Longrightarrow> storage_ok parse origin cs"
  unfolding storage_ok_def by blast

lemma storage_okD:
  "storage_ok parse origin cs \<Longrightarrow> (n, c) \<in> set cs \<Longrightarrow> starts_with n cache_prefix \<Longrightarrow> (u, r) \<in> set c \<Longrightarrow>
     parsed_path parse origin u \<and> response_ok r"
  unfolding storage_ok_def by blast

lemma storage_open: "storage_ok parse origin cs \<Longrightarrow> storage_ok parse origin (cache_open n cs)"
  by (auto simp: storage_ok_def cache_open_def)

lemma storage_put:
  assumes "storage_ok parse origin cs" "parsed_path parse origin u" "response_ok r"
  shows "storage_ok parse origin (cache_put n u r cs)"
proof (rule storage_okI)
  fix m c v q
  assume m: "(m, c) \<in> set (cache_put n u r cs)" "starts_with m cache_prefix" "(v, q) \<in> set c"
  then obtain c0 where "(m, c0) \<in> set (cache_open n cs)" "(v, q) \<in> set c0 \<or> (v, q) = (u, r)"
    by (auto simp: cache_put_def put_entry_def split: if_splits)
  then show "parsed_path parse origin v \<and> response_ok q"
    using storage_okD[OF storage_open[OF assms(1)]] m assms(2,3) by blast
qed

lemma storage_puts:
  assumes "storage_ok parse origin cs" "\<forall>u\<in>set us. parsed_path parse origin u \<and> response_ok (f u)"
  shows "storage_ok parse origin (fold (\<lambda>u. cache_put n u (f u)) us cs)"
  using assms by (induction us arbitrary: cs) (auto intro: storage_put)

lemma storage_install:
  assumes "storage_ok parse (bu_origin b) cs" "precache_clean parse b"
  shows "storage_ok parse (bu_origin b) (snd (sw_install b net cs))"
  using assms
  by (auto simp: sw_install_def Let_def precache_clean_def list_all_iff split: option.splits
      intro!: storage_puts storage_open)

lemma set_activate: "set (sw_activate b cs) \<subseteq> set cs"
  by (auto simp: sw_activate_def deletes split: sum.splits)

lemma storage_activate: "storage_ok parse origin cs \<Longrightarrow> storage_ok parse origin (sw_activate b cs)"
  using storage_okD[of parse origin cs] set_activate[of b cs] by (blast intro: storage_okI)

lemma cacheable_ok: "is_cacheable_response r \<Longrightarrow> response_ok r"
  by (simp add: is_cacheable_response_def response_ok_def)

lemma classified_ok: "classify_request parse origin req \<noteq> Bypass \<Longrightarrow> rq_method req = ''GET'' \<and> parsed_path parse origin (rq_url req)"
  by (auto simp: classify_request_def parsed_path_def split: if_splits option.splits)

lemma fetch_pending:
  "p \<in> set (sw_pending (snd (sw_fetch parse b req s))) \<Longrightarrow>
     p \<in> set (sw_pending s) \<or> (fst p = req \<and> classify_request parse (bu_origin b) req \<noteq> Bypass)"
  by (auto simp: sw_fetch_def Let_def split: strategy.splits option.splits)

lemma fetch_caches [simp]: "sw_caches (snd (sw_fetch parse b req s)) = sw_caches s"
  by (auto simp: sw_fetch_def Let_def split: strategy.splits option.splits)

lemma answer_state:
  "sw_pending (snd (sw_answer b p answer s)) = remove1 p (sw_pending s)
   \<and> (sw_caches (snd (sw_answer b p answer s)) = sw_caches s
      \<or> (\<exists>res. answer = Some res \<and> is_cacheable_response res
           \<and> sw_caches (snd (sw_answer b p answer s)) = cache_put runtime_cache (rq_url (fst p)) res (sw_caches s)))"
  by (cases p) (auto simp: sw_answer_def Let_def sw_store_def split: option.splits)

lemma storage_invariant:
  assumes "sw_reach parse b s0 s" "storage_ok parse (bu_origin b) (sw_caches s0)" "pending_ok parse (bu_origin b) (sw_pending s0)"
  shows "storage_ok parse (bu_origin b) (sw_caches s) \<and> pending_ok parse (bu_origin b) (sw_pending s)"
  using assms
proof (induction rule: sw_reach.induct)
  case (sw_activated s)
  then show ?case by (simp add: storage_activate)
next
  case (sw_fetched s req)
  then show ?case using classified_ok[of parse "bu_origin b" req] fetch_pending[of _ parse b req s]
    by (fastforce simp: pending_ok_def)
next
  case (sw_answered s p answer)
  then have "parsed_path parse (bu_origin b) (rq_url (fst p))" by (auto simp: pending_ok_def)
  moreover have "pending_ok parse (bu_origin b) (remove1 p (sw_pending s))"
    using sw_answered set_remove1_subset[of p "sw_pending s"] unfolding pending_ok_def by blast
  ultimately show ?case using sw_answered answer_state[of b p answer s] storage_put cacheable_ok by metis
next
  case (sw_upgrade s b' net)
  then show ?case using storage_install[of parse b' "sw_caches s" net] by simp
qed simp

subsection \<open>Properties\<close>

text \<open>
  C11 Nothing of the API is ever stored: whatever is requested, answered, installed and activated, every
  entry of the worker's caches is a same-origin resource outside \<open>/api\<close> with a successful response. A
  request to the API, of another origin or with another method goes to the browser and leaves the worker
  as it was.
\<close>

theorem api_never_cached:
  assumes reach: "sw_reach parse b s0 s" and pending: "sw_pending s0 = []"
    and stored: "storage_ok parse (bu_origin b) (sw_caches s0)"
  shows "(\<forall>n c u r. (n, c) \<in> set (sw_caches s) \<and> starts_with n cache_prefix \<and> (u, r) \<in> set c \<longrightarrow>
      (\<exists>path. parse u = Some (bu_origin b, path) \<and> \<not> is_api_path path) \<and> response_ok r)
    \<and> (rq_method req \<noteq> ''GET'' \<or> \<not> parsed_path parse (bu_origin b) (rq_url req) \<longrightarrow>
         sw_fetch parse b req s = (Some Native, s))"
proof -
  have "storage_ok parse (bu_origin b) (sw_caches s)"
    using storage_invariant[OF reach stored] pending by (simp add: pending_ok_def)
  then have "(\<exists>path. parse u = Some (bu_origin b, path) \<and> \<not> is_api_path path) \<and> response_ok r"
    if "(n, c) \<in> set (sw_caches s)" "starts_with n cache_prefix" "(u, r) \<in> set c" for n c u r
    using storage_okD that by (fastforce simp: parsed_path_def split: option.splits)
  moreover have "sw_fetch parse b req s = (Some Native, s)"
    if "rq_method req \<noteq> ''GET'' \<or> \<not> parsed_path parse (bu_origin b) (rq_url req)"
    using that classified_ok[of parse "bu_origin b" req]
    by (cases "classify_request parse (bu_origin b) req") (auto simp: sw_fetch_def)
  ultimately show ?thesis by blast
qed

text \<open>A URL reader for the samples: the origin is fixed, the rest is the path.\<close>

definition sample_parse :: "string \<Rightarrow> (string \<times> string) option" where
  "sample_parse url = (if starts_with url ''http://h'' then Some (''http://h'', drop 8 url) else None)"

definition sample_build :: build where
  "sample_build = \<lparr>bu_origin = ''http://h'', bu_id = ''0a'', bu_precache = [''/index.html'']\<rparr>"

definition sample_page :: response where
  "sample_page = \<lparr>rs_status = 200, rs_type = ''basic'', rs_body = ''<html>''\<rparr>"

definition sample_storage :: caches where
  "sample_storage = [(shell_cache sample_build, [(''http://h/index.html'', sample_page)])]"

theorem api_never_cached_witness:
  "sw_fetch sample_parse sample_build \<lparr>rq_method = ''GET'', rq_url = ''http://h/api/v1/vms'', rq_mode = ''cors''\<rparr>
     \<lparr>sw_caches = sample_storage, sw_pending = []\<rparr> = (Some Native, \<lparr>sw_caches = sample_storage, sw_pending = []\<rparr>)"
proof -
  let ?s = "\<lparr>sw_caches = sample_storage, sw_pending = []\<rparr>"
  let ?q = "\<lparr>rq_method = ''GET'', rq_url = ''http://h/api/v1/vms'', rq_mode = ''cors''\<rparr>"
  have "storage_ok sample_parse (bu_origin sample_build) (sw_caches ?s)"
    by (simp add: storage_ok_def sample_storage_def sample_build_def sample_parse_def parsed_path_def is_api_path_def
        starts_with_def sample_page_def response_ok_def)
  moreover have "\<not> parsed_path sample_parse (bu_origin sample_build) (rq_url ?q)"
    by (simp add: parsed_path_def sample_parse_def sample_build_def is_api_path_def starts_with_def)
  ultimately show ?thesis using api_never_cached[OF sw_start[of sample_parse sample_build ?s], of ?q] by simp
qed

lemma shell_invariant:
  assumes "sw_reach parse b s0 s"
  shows "match_in (shell_cache b) u (sw_caches s) = match_in (shell_cache b) u (sw_caches s0)"
  using assms
proof (induction rule: sw_reach.induct)
  case (sw_answered s p answer)
  then show ?case using answer_state[of b p answer s] by (auto simp: match_in_put)
next
  case (sw_upgrade s b' net)
  then show ?case using match_in_install[of "shell_cache b" b'] by (simp add: shell_cache_inj)
qed (simp_all add: match_in_activate)

lemma install_shell:
  assumes "sw_install b net cs = (True, cs')" "url \<in> set (bu_precache b)"
  shows "\<exists>r. net (bu_origin b @ url) = Some r \<and> response_ok r \<and> match_in (shell_cache b) (bu_origin b @ url) cs' = Some r"
  using assms
  by (auto simp: sw_install_def Let_def list_all_iff match_in_puts split: if_splits option.splits)

text \<open>
  C12 The application opens without the daemon: the precache list the build computes contains the page, and
  once its installation has succeeded, whatever the worker then does and whatever other build is installed
  beside it, a navigation that the network fails is answered with the page as it was downloaded at
  installation.
\<close>

theorem offline_navigation:
  assumes built: "close_bundle sha read_file tree = Inr (bid, urls)"
    and b: "bu_id b = bid" "bu_precache b = urls"
    and inst: "sw_install b net cs = (True, cs')"
    and reach: "sw_reach parse b \<lparr>sw_caches = cs', sw_pending = []\<rparr> s"
  shows "\<exists>page. net (bu_origin b @ shell_url) = Some page \<and> response_ok page
    \<and> (\<forall>req. fst (sw_answer b (req, Navigation, False) None s) = Some (Respond page))"
proof -
  have "shell_url \<in> set (bu_precache b)" using close_bundle_page[OF built] b by (simp add: shell_url_def)
  from install_shell[OF inst this] show ?thesis
    using shell_invariant[OF reach, of "bu_origin b @ shell_url"] by (auto simp: sw_answer_def)
qed

theorem offline_navigation_witness:
  "fst (sw_answer sample_build (\<lparr>rq_method = ''GET'', rq_url = ''http://h/vms'', rq_mode = ''navigate''\<rparr>, Navigation, False) None
      \<lparr>sw_caches = sample_storage, sw_pending = []\<rparr>) = Some (Respond sample_page)"
proof -
  have c: "close_bundle (\<lambda>_. ''0a'') (\<lambda>_. ''<html>'') [FsFile ''index.html'' 6] = Inr (''0a'', [''/index.html''])"
    by (simp add: close_bundle_def list_files_def select_precache_files_def map_filter_def precache_url_def precache_path_def
        precache_excluded_def always_precache_def ends_with_def starts_with_def compute_build_id_def suffix_def)
  have i: "sw_install sample_build (\<lambda>_. Some sample_page) [] = (True, sample_storage)"
    by (simp add: sw_install_def sample_build_def sample_page_def response_ok_def cache_open_def cache_put_def put_entry_def
        sample_storage_def shell_cache_def)
  from offline_navigation[OF c _ _ i sw_start] show ?thesis by (simp add: sample_build_def)
qed

text \<open>
  An asset is downloaded once: a request for a content-hashed file that some cache holds is answered with
  it and asks nothing; otherwise the network's answer is what the page gets, and a complete one is found by
  the next request. Of the caches of the application an activation keeps exactly the current shell and the
  runtime cache, with their contents, and it touches no other cache.
\<close>

theorem asset_strategies:
  assumes q: "classify_request parse (bu_origin b) req = CacheFirst"
  shows "(\<forall>r. caches_match (rq_url req) (sw_caches s) = Some r \<longrightarrow> sw_fetch parse b req s = (Some (Respond r), s))
    \<and> (caches_match (rq_url req) (sw_caches s) = None \<longrightarrow> fst (sw_fetch parse b req s) = None
         \<and> (req, CacheFirst, False) \<in> set (sw_pending (snd (sw_fetch parse b req s))))
    \<and> fst (sw_answer b (req, CacheFirst, False) (Some res) s) = Some (Respond res)
    \<and> (is_cacheable_response res \<longrightarrow>
         (\<exists>r. fst (sw_fetch parse b req (snd (sw_answer b (req, CacheFirst, False) (Some res) s))) = Some (Respond r)))
    \<and> (bu_id b \<noteq> [] \<longrightarrow> sw_activate b cs =
         filter (\<lambda>e. \<not> starts_with (fst e) cache_prefix \<or> fst e = shell_cache b \<or> fst e = runtime_cache) cs)"
proof -
  have "\<exists>r. fst (sw_fetch parse b req (snd (sw_answer b (req, CacheFirst, False) (Some res) s))) = Some (Respond r)"
    if "is_cacheable_response res"
    using that match_after_put[of "rq_url req" runtime_cache res "sw_caches s"]
    by (auto simp: sw_fetch_def q sw_answer_def sw_store_def split: option.splits)
  then show ?thesis
    using activate_keeps[of b cs] by (auto simp: sw_fetch_def q sw_answer_def)
qed

theorem asset_strategies_witness:
  "fst (sw_fetch sample_parse sample_build \<lparr>rq_method = ''GET'', rq_url = ''http://h/assets/a.js'', rq_mode = ''cors''\<rparr>
     (snd (sw_answer sample_build
        (\<lparr>rq_method = ''GET'', rq_url = ''http://h/assets/a.js'', rq_mode = ''cors''\<rparr>, CacheFirst, False)
        (Some sample_page) \<lparr>sw_caches = sample_storage, sw_pending = []\<rparr>))) \<noteq> None"
proof -
  let ?q = "\<lparr>rq_method = ''GET'', rq_url = ''http://h/assets/a.js'', rq_mode = ''cors''\<rparr>"
  have "classify_request sample_parse (bu_origin sample_build) ?q = CacheFirst"
    by (simp add: classify_request_def sample_parse_def sample_build_def starts_with_def is_api_path_def sw_url_def)
  from asset_strategies[OF this, of "\<lparr>sw_caches = sample_storage, sw_pending = []\<rparr>" sample_page]
  show ?thesis by (auto simp: is_cacheable_response_def sample_page_def)
qed

text \<open>
  A refreshed copy goes to the runtime cache, but a lookup takes the oldest cache that has the URL. So it is
  not served as long as the shell, opened first, holds the URL; and once there is a runtime cache, its
  older copy comes before the one that a newer build has just downloaded.
\<close>

lemma shell_hides_refresh:
  assumes "cs = (shell_cache b, c) # rest" "map_of c u = Some old"
  shows "caches_match u (cache_put runtime_cache u new cs) = Some old"
  using assms by (auto simp: cache_put_def cache_open_def)

lemma runtime_hides_install:
  assumes "cs = (runtime_cache, c) # rest" "map_of c u = Some old" "sw_install b net cs = (True, cs')"
  shows "caches_match u cs' = Some old"
proof -
  have hd: "\<exists>rest'. fold (\<lambda>u. cache_put (shell_cache b) u (f u)) us ((runtime_cache, c) # rest) = (runtime_cache, c) # rest'"
    for f us rest by (induction us arbitrary: rest) (auto simp: cache_put_def cache_open_def)
  have "\<exists>rest'. cache_open (shell_cache b) cs = (runtime_cache, c) # rest'" by (simp add: cache_open_def assms(1))
  with hd obtain rest' where "cs' = (runtime_cache, c) # rest'"
    using assms(3) by (fastforce simp: sw_install_def Let_def split: if_splits)
  then show ?thesis using assms(2) by simp
qed

end
