(* ===== verification/PwaController.thy ===== *)
theory PwaController imports Shared begin

text \<open>
  The page side of the installed application, \<open>web/src/pwa/controller.js\<close>: registration of the service
  worker, the update handshake, the install prompt and the connectivity, with what
  \<open>web/src/components/Pwa.jsx\<close> shows of it. The browser is an adversary here: workers appear, finish
  installing and take control when they like.
\<close>

subsection \<open>State\<close>

text \<open>The snapshot that the components see.\<close>

record pwa_state =
  ps_supported :: bool
  ps_registered :: bool
  ps_online :: bool
  ps_update_ready :: bool
  ps_installable :: bool
  ps_standalone :: bool

text \<open>
  What the browser has: whether a worker waits, whether one controls the page, which worker is installing.
\<close>

record browser =
  br_waiting :: bool
  br_controlled :: bool
  br_installing :: "nat option"

text \<open>
  The controller: its snapshot, the closure variables (\<open>registration\<close> is \<open>pc_registration\<close>,
  \<open>deferredPrompt\<close> a prompt's number), the listeners it has attached, the workers it watches, and how often
  it notified, reloaded, and asked the waiting worker to take over.
\<close>

record controller =
  pc_state :: pwa_state
  pc_started :: bool
  pc_registering :: bool
  pc_registration :: bool
  pc_prompt :: "nat option"
  pc_reloading :: bool
  pc_window_listeners :: nat
  pc_update_timers :: nat
  pc_watched :: "nat list"
  pc_notified :: nat
  pc_reloads :: nat
  pc_skips :: nat
  pc_browser :: browser

definition detect_standalone :: "bool \<Rightarrow> bool option \<Rightarrow> bool" where
  "detect_standalone nav_standalone display_mode =
     (if nav_standalone then True else (case display_mode of None \<Rightarrow> False | Some m \<Rightarrow> m))"

definition pwa_supported :: "bool \<Rightarrow> bool \<Rightarrow> bool \<Rightarrow> bool" where
  "pwa_supported has_window has_service_worker insecure \<longleftrightarrow> has_window \<and> has_service_worker \<and> \<not> insecure"

definition create_controller :: "bool \<Rightarrow> bool \<Rightarrow> bool \<Rightarrow> browser \<Rightarrow> controller" where
  "create_controller supported online standalone br =
     \<lparr>pc_state = \<lparr>ps_supported = supported, ps_registered = False, ps_online = online, ps_update_ready = False,
        ps_installable = False, ps_standalone = standalone\<rparr>,
      pc_started = False, pc_registering = False, pc_registration = False, pc_prompt = None, pc_reloading = False,
      pc_window_listeners = 0, pc_update_timers = 0, pc_watched = [], pc_notified = 0, pc_reloads = 0, pc_skips = 0,
      pc_browser = br\<rparr>"

subsection \<open>Operations\<close>

text \<open>\<open>setState\<close> tells the listeners only when something changed.\<close>

definition set_state :: "(pwa_state \<Rightarrow> pwa_state) \<Rightarrow> controller \<Rightarrow> controller" where
  "set_state patch s =
     (if patch (pc_state s) = pc_state s then s
      else s\<lparr>pc_state := patch (pc_state s), pc_notified := Suc (pc_notified s)\<rparr>)"

definition track_waiting :: "controller \<Rightarrow> controller" where
  "track_waiting s =
     (if br_waiting (pc_browser s) \<and> br_controlled (pc_browser s) then set_state (ps_update_ready_update (\<lambda>_. True)) s else s)"

definition watch_installing :: "controller \<Rightarrow> controller" where
  "watch_installing s =
     (case br_installing (pc_browser s) of None \<Rightarrow> s | Some w \<Rightarrow> s\<lparr>pc_watched := pc_watched s @ [w]\<rparr>)"

text \<open>\<open>start\<close>, up to the call of \<open>register\<close>, and what follows its answer.\<close>

definition pwa_start :: "controller \<Rightarrow> controller" where
  "pwa_start s =
     (if pc_started s then s
      else (let s1 = s\<lparr>pc_started := True, pc_window_listeners := Suc (pc_window_listeners s)\<rparr> in
            if \<not> ps_supported (pc_state s) then s1 else s1\<lparr>pc_registering := True\<rparr>))"

definition register_done :: "nat \<Rightarrow> bool \<Rightarrow> controller \<Rightarrow> controller" where
  "register_done update_interval ok s =
     (let s1 = s\<lparr>pc_registering := False\<rparr> in
      if \<not> ok then s1
      else (let s2 = watch_installing (track_waiting (set_state (ps_registered_update (\<lambda>_. True)) (s1\<lparr>pc_registration := True\<rparr>)))
            in if 0 < update_interval then s2\<lparr>pc_update_timers := Suc (pc_update_timers s2)\<rparr> else s2))"

definition worker_installed :: "nat \<Rightarrow> controller \<Rightarrow> controller" where
  "worker_installed w s = (if w \<in> set (pc_watched s) then track_waiting s else s)"

definition update_found :: "controller \<Rightarrow> controller" where
  "update_found s = (if pc_registration s then watch_installing s else s)"

definition controller_change :: "controller \<Rightarrow> controller" where
  "controller_change s =
     (if \<not> (pc_started s \<and> ps_supported (pc_state s)) \<or> pc_reloading s \<or> \<not> ps_update_ready (pc_state s) then s
      else s\<lparr>pc_reloading := True, pc_reloads := Suc (pc_reloads s)\<rparr>)"

datatype window_notice = Online | Offline | BeforeInstallPrompt nat | AppInstalled

definition window_event :: "window_notice \<Rightarrow> controller \<Rightarrow> controller" where
  "window_event e s =
     (if pc_window_listeners s = 0 then s
      else case e of
        Online \<Rightarrow> set_state (ps_online_update (\<lambda>_. True)) s
      | Offline \<Rightarrow> set_state (ps_online_update (\<lambda>_. False)) s
      | BeforeInstallPrompt p \<Rightarrow> set_state (ps_installable_update (\<lambda>_. True)) (s\<lparr>pc_prompt := Some p\<rparr>)
      | AppInstalled \<Rightarrow>
          set_state (\<lambda>st. st\<lparr>ps_installable := False, ps_standalone := True\<rparr>) (s\<lparr>pc_prompt := None\<rparr>))"

definition apply_update :: "controller \<Rightarrow> bool \<times> controller" where
  "apply_update s =
     (if pc_registration s \<and> br_waiting (pc_browser s) then (True, s\<lparr>pc_skips := Suc (pc_skips s)\<rparr>) else (False, s))"

definition dismiss_update :: "controller \<Rightarrow> controller" where
  "dismiss_update s = set_state (ps_update_ready_update (\<lambda>_. False)) s"

text \<open>The prompt that is shown (each prompt can be used once), and how its outcome is reported.\<close>

definition prompt_install :: "controller \<Rightarrow> nat option \<times> controller" where
  "prompt_install s =
     (case pc_prompt s of
        None \<Rightarrow> (None, s)
      | Some p \<Rightarrow> (Some p, set_state (ps_installable_update (\<lambda>_. False)) (s\<lparr>pc_prompt := None\<rparr>)))"

definition prompt_outcome :: "nat option \<Rightarrow> string option \<Rightarrow> string" where
  "prompt_outcome shown choice =
     (if shown = None then ''unavailable'' else if choice = Some ''accepted'' then ''accepted'' else ''dismissed'')"

inductive pwa_reach :: "controller \<Rightarrow> controller \<Rightarrow> bool" for s0 where
  pwa_created: "pwa_reach s0 s0"
| pwa_started: "pwa_reach s0 s \<Longrightarrow> pwa_reach s0 (pwa_start s)"
| pwa_registered: "pwa_reach s0 s \<Longrightarrow> pc_registering s \<Longrightarrow> pwa_reach s0 (register_done interval ok s)"
| pwa_installed: "pwa_reach s0 s \<Longrightarrow> pwa_reach s0 (worker_installed w s)"
| pwa_update_found: "pwa_reach s0 s \<Longrightarrow> pwa_reach s0 (update_found s)"
| pwa_controller_change: "pwa_reach s0 s \<Longrightarrow> pwa_reach s0 (controller_change s)"
| pwa_window: "pwa_reach s0 s \<Longrightarrow> pwa_reach s0 (window_event e s)"
| pwa_apply: "pwa_reach s0 s \<Longrightarrow> pwa_reach s0 (snd (apply_update s))"
| pwa_dismiss: "pwa_reach s0 s \<Longrightarrow> pwa_reach s0 (dismiss_update s)"
| pwa_prompt: "pwa_reach s0 s \<Longrightarrow> pwa_reach s0 (snd (prompt_install s))"
| pwa_browser: "pwa_reach s0 s \<Longrightarrow> pwa_reach s0 (s\<lparr>pc_browser := br\<rparr>)"

subsection \<open>What is shown\<close>

definition offline_banner :: "pwa_state \<Rightarrow> bool" where
  "offline_banner st \<longleftrightarrow> \<not> ps_online st"

definition update_toast :: "pwa_state \<Rightarrow> bool" where
  "update_toast st \<longleftrightarrow> ps_update_ready st"

definition install_button :: "pwa_state \<Rightarrow> bool" where
  "install_button st \<longleftrightarrow> ps_installable st \<and> \<not> ps_standalone st"

text \<open>The card of the settings page: its sentence (by its kind) and the offline line, if any.\<close>

datatype app_status = Installed | NeedsSecureOrigin | CanInstall | UseBrowserMenu

definition app_install_card :: "pwa_state \<Rightarrow> app_status \<times> string option" where
  "app_install_card st =
     ((if ps_standalone st then Installed
       else if \<not> ps_supported st then NeedsSecureOrigin
       else if ps_installable st then CanInstall
       else UseBrowserMenu),
      (if ps_supported st then Some (''Offline app shell: '' @ (if ps_registered st then ''ready'' else ''not registered''))
       else None))"

subsection \<open>Facts\<close>

definition pwa_inv :: "controller \<Rightarrow> bool" where
  "pwa_inv s \<longleftrightarrow>
     (ps_installable (pc_state s) \<longleftrightarrow> pc_prompt s \<noteq> None)
     \<and> pc_reloads s = (if pc_reloading s then 1 else 0)
     \<and> pc_window_listeners s = (if pc_started s then 1 else 0)
     \<and> (pc_registering s \<longrightarrow> pc_started s \<and> ps_supported (pc_state s) \<and> \<not> pc_registration s)
     \<and> (pc_registration s \<longrightarrow> pc_started s \<and> ps_supported (pc_state s))
     \<and> (ps_registered (pc_state s) \<longleftrightarrow> pc_registration s)
     \<and> pc_update_timers s \<le> 1 \<and> (\<not> pc_registration s \<longrightarrow> pc_update_timers s = 0)
     \<and> (ps_update_ready (pc_state s) \<longrightarrow> pc_registration s)
     \<and> (pc_watched s \<noteq> [] \<longrightarrow> pc_registration s)
     \<and> (pc_prompt s \<noteq> None \<longrightarrow> pc_started s)"

text \<open>Everything but the count of notifications is what a plain update would give.\<close>

lemma set_state_fields [simp]:
  "pc_state (set_state f s) = f (pc_state s)" "pc_started (set_state f s) = pc_started s"
  "pc_registering (set_state f s) = pc_registering s" "pc_registration (set_state f s) = pc_registration s"
  "pc_prompt (set_state f s) = pc_prompt s" "pc_reloading (set_state f s) = pc_reloading s"
  "pc_window_listeners (set_state f s) = pc_window_listeners s" "pc_update_timers (set_state f s) = pc_update_timers s"
  "pc_watched (set_state f s) = pc_watched s" "pc_reloads (set_state f s) = pc_reloads s"
  "pc_skips (set_state f s) = pc_skips s" "pc_browser (set_state f s) = pc_browser s"
  by (simp_all add: set_state_def)

lemma pwa_inv_track: "pwa_inv s \<Longrightarrow> pc_registration s \<Longrightarrow> pwa_inv (track_waiting s)"
  by (simp add: pwa_inv_def track_waiting_def)

lemma pwa_inv_watch: "pwa_inv s \<Longrightarrow> pc_registration s \<Longrightarrow> pwa_inv (watch_installing s)"
  by (simp add: pwa_inv_def watch_installing_def split: option.splits)

lemma track_fields [simp]: "pc_registration (track_waiting s) = pc_registration s" "pc_update_timers (track_waiting s) = pc_update_timers s"
  by (simp_all add: track_waiting_def)

lemma watch_fields [simp]: "pc_registration (watch_installing s) = pc_registration s" "pc_update_timers (watch_installing s) = pc_update_timers s"
  by (simp_all add: watch_installing_def split: option.splits)

lemma pwa_inv_register:
  assumes "pwa_inv s" "pc_registering s"
  shows "pwa_inv (register_done interval ok s)"
proof -
  let ?s = "set_state (ps_registered_update (\<lambda>_. True)) (s\<lparr>pc_registering := False, pc_registration := True\<rparr>)"
  have "pwa_inv ?s" using assms by (auto simp: pwa_inv_def)
  then have w: "pwa_inv (watch_installing (track_waiting ?s))" by (intro pwa_inv_watch pwa_inv_track) simp_all
  have t: "pc_update_timers (watch_installing (track_waiting ?s)) = 0" "pc_registration (watch_installing (track_waiting ?s))"
    using assms by (auto simp: pwa_inv_def)
  have "pwa_inv (q\<lparr>pc_update_timers := Suc (pc_update_timers q)\<rparr>)"
    if "pwa_inv q" "pc_update_timers q = 0" "pc_registration q" for q using that by (simp add: pwa_inv_def)
  with w t have "pwa_inv (register_done interval True s)" by (simp add: register_done_def Let_def)
  moreover have "pwa_inv (register_done interval False s)" using assms by (auto simp: pwa_inv_def register_done_def)
  ultimately show ?thesis by (cases ok) simp_all
qed

lemma pwa_inv_start: "pwa_inv s \<Longrightarrow> pwa_inv (pwa_start s)"
  by (cases "pc_started s"; cases "pc_registration s"; cases "pc_prompt s") (simp_all add: pwa_inv_def pwa_start_def Let_def)

lemma pwa_inv_installed: "pwa_inv s \<Longrightarrow> pwa_inv (worker_installed w s)"
proof (cases "w \<in> set (pc_watched s)")
  case True
  assume i: "pwa_inv s"
  have "pc_watched s \<noteq> []" using True by auto
  then have "pc_registration s" using i by (simp add: pwa_inv_def)
  with i show ?thesis by (simp add: worker_installed_def pwa_inv_track)
qed (simp add: worker_installed_def)

lemma pwa_inv_window: "pwa_inv s \<Longrightarrow> pwa_inv (window_event e s)"
proof (cases "pc_window_listeners s = 0")
  case False
  assume i: "pwa_inv s"
  have "pc_started s" using i False by (simp add: pwa_inv_def split: if_splits)
  with i False show ?thesis by (cases e) (simp_all add: window_event_def pwa_inv_def)
qed (simp add: window_event_def)

lemma pwa_inv_prompt: "pwa_inv s \<Longrightarrow> pwa_inv (snd (prompt_install s))"
  by (cases "pc_prompt s") (simp_all add: prompt_install_def pwa_inv_def)

lemma pwa_inv_change: "pwa_inv s \<Longrightarrow> pwa_inv (controller_change s)"
  by (cases "controller_change s = s") (simp_all add: pwa_inv_def controller_change_def split: if_splits)

lemma pwa_inv_skips [simp]: "pwa_inv (s\<lparr>pc_skips := n\<rparr>) = pwa_inv s"
  by (simp add: pwa_inv_def)

lemma pwa_inv_apply: "pwa_inv s \<Longrightarrow> pwa_inv (snd (apply_update s))"
  by (simp add: apply_update_def)

lemma pwa_invariant: "pwa_reach s0 s \<Longrightarrow> pwa_inv s0 \<Longrightarrow> pwa_inv s"
proof (induction rule: pwa_reach.induct)
  case (pwa_update_found s)
  then show ?case by (simp add: update_found_def pwa_inv_watch)
next
  case (pwa_apply s)
  then show ?case by (simp add: pwa_inv_apply)
next
  case (pwa_dismiss s)
  then show ?case by (simp add: dismiss_update_def pwa_inv_def)
next
  case (pwa_browser s br)
  then show ?case by (simp add: pwa_inv_def)
qed (simp_all add: pwa_inv_start pwa_inv_register pwa_inv_installed pwa_inv_window pwa_inv_prompt pwa_inv_change)

text \<open>
  C4 The page reloads once at most, and only for an update that it knows to be ready: on a first
  installation, after \<open>Later\<close>, and on every further change of worker nothing happens. Starting again
  changes nothing, so listeners and update timer exist once. The install button is offered exactly while a
  prompt is held, each prompt is shown once, and an update is announced only when a worker waits behind
  the one that controls the page.
\<close>

theorem pwa_update_safe:
  assumes reach: "pwa_reach (create_controller supported online standalone br) s"
  shows "pc_reloads s \<le> 1 \<and> pc_window_listeners s \<le> 1 \<and> pc_update_timers s \<le> 1
    \<and> (pc_started s \<longrightarrow> pwa_start s = s)
    \<and> (controller_change s \<noteq> s \<longrightarrow> ps_update_ready (pc_state s) \<and> pc_reloads s = 0 \<and> pc_reloads (controller_change s) = 1)
    \<and> controller_change (dismiss_update s) = dismiss_update s
    \<and> controller_change (controller_change s) = controller_change s
    \<and> (install_button (pc_state s) \<longrightarrow> fst (prompt_install s) = pc_prompt s \<and> pc_prompt s \<noteq> None)
    \<and> fst (prompt_install (snd (prompt_install s))) = None
    \<and> (\<not> ps_update_ready (pc_state s) \<and> ps_update_ready (pc_state (worker_installed w s)) \<longrightarrow>
         br_waiting (pc_browser s) \<and> br_controlled (pc_browser s) \<and> w \<in> set (pc_watched s))"
proof -
  have "pwa_inv (create_controller supported online standalone br)" by (simp add: pwa_inv_def create_controller_def)
  note i = pwa_invariant[OF reach this]
  have "pc_reloads s \<le> 1 \<and> pc_window_listeners s \<le> 1 \<and> pc_update_timers s \<le> 1"
    using i by (simp add: pwa_inv_def split: if_splits)
  moreover have "controller_change s \<noteq> s \<longrightarrow>
      ps_update_ready (pc_state s) \<and> pc_reloads s = 0 \<and> pc_reloads (controller_change s) = 1"
    using i by (simp add: pwa_inv_def controller_change_def)
  moreover have "controller_change (dismiss_update s) = dismiss_update s"
    "controller_change (controller_change s) = controller_change s" "pc_started s \<longrightarrow> pwa_start s = s"
    by (simp_all add: controller_change_def dismiss_update_def pwa_start_def)
  moreover have "install_button (pc_state s) \<longrightarrow> fst (prompt_install s) = pc_prompt s \<and> pc_prompt s \<noteq> None"
    using i by (auto simp: install_button_def pwa_inv_def prompt_install_def)
  moreover have "fst (prompt_install (snd (prompt_install s))) = None"
    by (simp add: prompt_install_def split: option.splits)
  moreover have "\<not> ps_update_ready (pc_state s) \<and> ps_update_ready (pc_state (worker_installed w s)) \<longrightarrow>
         br_waiting (pc_browser s) \<and> br_controlled (pc_browser s) \<and> w \<in> set (pc_watched s)"
    by (simp add: worker_installed_def track_waiting_def)
  ultimately show ?thesis by blast
qed

definition sample_controller :: controller where
  "sample_controller = create_controller True True False \<lparr>br_waiting = True, br_controlled = True, br_installing = None\<rparr>"

theorem pwa_update_safe_witness:
  "pc_reloads (controller_change (controller_change (register_done 1 True (pwa_start sample_controller)))) \<le> 1
   \<and> pc_reloads (controller_change (register_done 1 True (pwa_start sample_controller))) = 1"
proof -
  let ?r = "pwa_reach sample_controller"
  have "?r (register_done 1 True (pwa_start sample_controller))"
    by (intro pwa_registered pwa_started pwa_created) (simp add: pwa_start_def sample_controller_def create_controller_def)
  then have "?r (controller_change (controller_change (register_done 1 True (pwa_start sample_controller))))"
    by (intro pwa_controller_change)
  from pwa_update_safe[OF this[unfolded sample_controller_def]] show ?thesis
    unfolding sample_controller_def[symmetric]
    by (simp add: sample_controller_def create_controller_def pwa_start_def register_done_def track_waiting_def watch_installing_def
        controller_change_def)
qed

text \<open>
  An update that waits, is announced and accepted: the worker is asked once to take over, and when it
  has, the page reloads.
\<close>

lemma update_flow:
  assumes "pc_registration s" "br_waiting (pc_browser s)" "ps_update_ready (pc_state s)" "ps_supported (pc_state s)"
    "pc_started s" "\<not> pc_reloading s"
  shows "fst (apply_update s) \<and> pc_skips (snd (apply_update s)) = Suc (pc_skips s)
    \<and> pc_reloads (controller_change ((snd (apply_update s))\<lparr>pc_browser := br\<rparr>)) = Suc (pc_reloads s)"
  using assms by (simp add: apply_update_def controller_change_def)

text \<open>
  The toast can outlive the worker it announces: when another tab has taken the update and this page did
  not reload, \<open>Reload\<close> does nothing.
\<close>

lemma toast_without_worker:
  "update_toast (pc_state s) \<Longrightarrow> \<not> br_waiting (pc_browser s) \<Longrightarrow> apply_update s = (False, s)"
  by (simp add: apply_update_def)

end
