(* ===== verification/Shell.thy ===== *)
theory Shell imports Normalize PwaController begin

text \<open>
  The frame of the application: \<open>web/src/components/Layout.jsx\<close> (navigation drawer, version label, title of
  the section) and the routes of \<open>web/src/App.jsx\<close>. Routing itself is third-party; a path is matched
  segment by segment, as documented, a fixed segment before a parameter.
\<close>

subsection \<open>Routes\<close>

datatype page =
    DashboardPage | VMListPage | VMDetailPage string | ImageListPage | TemplateListPage | SchedulesPage
  | ActivityPage | LogViewerPage | SettingsPage | VMConsolePage string

text \<open>The segments of a path; empty ones, as a final slash leaves, do not count.\<close>

definition path_segments :: "string \<Rightarrow> string list" where
  "path_segments path = filter (\<lambda>seg. seg \<noteq> []) (js_split CHR ''/'' path)"

fun layout_route :: "string list \<Rightarrow> page option" where
  "layout_route [] = Some DashboardPage"
| "layout_route [seg] =
     (if seg = ''vms'' then Some VMListPage
      else if seg = ''images'' then Some ImageListPage
      else if seg = ''templates'' then Some TemplateListPage
      else if seg = ''schedules'' then Some SchedulesPage
      else if seg = ''activity'' then Some ActivityPage
      else if seg = ''logs'' then Some LogViewerPage
      else if seg = ''settings'' then Some SettingsPage
      else None)"
| "layout_route [seg, mid] = (if seg = ''vms'' then Some (VMDetailPage mid) else None)"
| "layout_route _ = None"

text \<open>Whether the page has the frame around it, and the page, if the path has one.\<close>

definition app_route :: "string \<Rightarrow> bool \<times> page option" where
  "app_route path =
     (case path_segments path of
        [a, mid, c] \<Rightarrow> if a = ''vms'' \<and> c = ''console'' then (False, Some (VMConsolePage mid)) else (True, None)
      | segs \<Rightarrow> (True, layout_route segs))"

subsection \<open>The frame\<close>

record layout =
  la_build :: js
  la_drawer :: bool
  la_path :: string

definition layout_init :: "string \<Rightarrow> layout" where
  "layout_init path = \<lparr>la_build = Null, la_drawer = False, la_path = path\<rparr>"

definition layout_version :: "bool \<Rightarrow> js option \<Rightarrow> layout \<Rightarrow> layout" where
  "layout_version cancelled answer s =
     (case answer of Some info \<Rightarrow> if cancelled then s else s\<lparr>la_build := info\<rparr> | None \<Rightarrow> s)"

definition layout_toggle :: "bool \<Rightarrow> layout \<Rightarrow> layout" where
  "layout_toggle open_it s = s\<lparr>la_drawer := open_it\<rparr>"

text \<open>The effect on the path runs when the path is another one; the key listener is there while the drawer is open.\<close>

definition layout_navigate :: "string \<Rightarrow> layout \<Rightarrow> layout" where
  "layout_navigate path s = (if path = la_path s then s else s\<lparr>la_path := path, la_drawer := False\<rparr>)"

definition layout_key :: "string \<Rightarrow> layout \<Rightarrow> layout" where
  "layout_key key s = (if la_drawer s \<and> key = ''Escape'' then s\<lparr>la_drawer := False\<rparr> else s)"

definition version_label :: "layout \<Rightarrow> string" where
  "version_label s =
     (if truthy (jget (la_build s) ''version'') then ''VM Smith '' @ to_str (jget (la_build s) ''version'') else ''VM Smith'')"

definition version_title :: "layout \<Rightarrow> string" where
  "version_title s =
     (let b = la_build s; dot = '' '' @ mid_dot @ '' '' in
      if truthy b then
        ''commit '' @ to_str (jget b ''commit'') @ dot @ ''built '' @ to_str (jget b ''build_date'') @ dot
          @ to_str (jget b ''go_version'') @ '' '' @ to_str (jget b ''os'') @ ''/'' @ to_str (jget b ''arch'')
      else ''build info unavailable'')"

definition layout_title :: "layout \<Rightarrow> string" where
  "layout_title s = section_title (la_path s)"

text \<open>\<open>NavLink\<close>: active on the path and below it, and only on the path itself for the dashboard.\<close>

definition nav_active :: "layout \<Rightarrow> nav_item \<Rightarrow> bool" where
  "nav_active s item =
     (let p = path_segments (la_path s); q = path_segments (nav_to item)
      in if nav_to item = ''/'' then p = [] else prefix q p)"

definition nav_icons :: "string list" where
  "nav_icons = [''Activity'', ''Clock'', ''HardDrive'', ''Layers'', ''LayoutDashboard'', ''ScrollText'', ''Server'', ''Settings'']"

text \<open>\<open>main.jsx\<close> starts the service worker in production builds only.\<close>

definition main_start :: "bool \<Rightarrow> controller \<Rightarrow> controller" where
  "main_start production s = (if production then pwa_start s else s)"

subsection \<open>Facts\<close>

lemma segments_vms: "CHR ''/'' \<notin> set mid \<Longrightarrow> mid \<noteq> [] \<Longrightarrow>
    path_segments (''/vms/'' @ mid) = [''vms'', mid] \<and> path_segments (''/vms/'' @ mid @ ''/console'') = [''vms'', mid, ''console'']"
  by (simp add: path_segments_def js_split_no_sep js_split_append_sep)

text \<open>
  Every entry of the navigation leads to a page of its own, has an icon, and is the only active entry
  there; the links the application makes lead to the machine's page and, without the frame, to its
  console. Going to another page always closes the drawer, and so does Escape.
\<close>

theorem navigation_complete:
  shows "list_all (\<lambda>item. snd (app_route (nav_to item)) \<noteq> None \<and> fst (app_route (nav_to item)) \<and> nav_icon item \<in> set nav_icons
        \<and> filter (nav_active (layout_init (nav_to item))) nav_items = [item]) nav_items
    \<and> distinct (map (\<lambda>item. snd (app_route (nav_to item))) nav_items)
    \<and> (CHR ''/'' \<notin> set mid \<and> mid \<noteq> [] \<longrightarrow>
         app_route (''/vms/'' @ mid) = (True, Some (VMDetailPage mid))
         \<and> app_route (''/vms/'' @ mid @ ''/console'') = (False, Some (VMConsolePage mid)))
    \<and> (path \<noteq> la_path s \<longrightarrow> \<not> la_drawer (layout_navigate path s)) \<and> \<not> la_drawer (layout_key ''Escape'' s)"
proof -
  have "list_all (\<lambda>item. snd (app_route (nav_to item)) \<noteq> None \<and> fst (app_route (nav_to item)) \<and> nav_icon item \<in> set nav_icons
      \<and> filter (nav_active (layout_init (nav_to item))) nav_items = [item]) nav_items"
    by code_simp
  moreover have "distinct (map (\<lambda>item. snd (app_route (nav_to item))) nav_items)"
    by code_simp
  moreover have "CHR ''/'' \<notin> set mid \<and> mid \<noteq> [] \<longrightarrow>
      app_route (''/vms/'' @ mid) = (True, Some (VMDetailPage mid))
      \<and> app_route (''/vms/'' @ mid @ ''/console'') = (False, Some (VMConsolePage mid))"
    using segments_vms[of mid] by (simp add: app_route_def)
  ultimately show ?thesis by (simp add: layout_navigate_def layout_key_def)
qed

theorem navigation_complete_witness:
  "app_route (''/vms/'' @ ''vm-1'' @ ''/console'') = (False, Some (VMConsolePage ''vm-1''))"
  using navigation_complete[of "''vm-1''"] by simp

end
