(* ===== verification/Dialogs.thy ===== *)
theory Dialogs imports CreateForm DetailForms begin

text \<open>
  Dialogs as the operator meets them: a list of controls, each under its \<open>data-testid\<close> (or label), that
  show and set the fields of a form, and a footer. What makes such a list an interface to the form is the
  locale \<open>dialog\<close>, which \<open>DetailDialogs\<close> and \<open>PageDialogs\<close> interpret for the dialogs of the pages.
\<close>

subsection \<open>Inputs\<close>

text \<open>
  A control that shows a field of the form and stores what is entered: a text input with its
  \<open>maxLength\<close>, a number input with its \<open>min\<close> (which the browser does not enforce on typing), a selector
  with its options, a check box.
\<close>

datatype 'f widget =
    TextInput "nat option" "'f \<Rightarrow> string" "string \<Rightarrow> 'f \<Rightarrow> 'f"
  | NumberInput "rat option" "'f \<Rightarrow> string" "string \<Rightarrow> 'f \<Rightarrow> 'f"
  | SelectInput "(string \<times> string) list" "'f \<Rightarrow> string" "string \<Rightarrow> 'f \<Rightarrow> 'f"
  | CheckInput "'f \<Rightarrow> bool" "bool \<Rightarrow> 'f \<Rightarrow> 'f"

fun accepts :: "'f widget \<Rightarrow> entry \<Rightarrow> bool" where
  "accepts (TextInput m get set_to) (Typed t) \<longleftrightarrow> (case m of None \<Rightarrow> True | Some n \<Rightarrow> length t \<le> n)"
| "accepts (NumberInput m get set_to) (Typed t) \<longleftrightarrow> True"
| "accepts (SelectInput opts get set_to) (Typed t) \<longleftrightarrow> t \<in> set (map fst opts)"
| "accepts (CheckInput get set_to) (Ticked b) \<longleftrightarrow> True"
| "accepts w e \<longleftrightarrow> False"

fun shown_entry :: "'f widget \<Rightarrow> 'f \<Rightarrow> entry" where
  "shown_entry (TextInput m get set_to) f = Typed (get f)"
| "shown_entry (NumberInput m get set_to) f = Typed (get f)"
| "shown_entry (SelectInput opts get set_to) f = Typed (get f)"
| "shown_entry (CheckInput get set_to) f = Ticked (get f)"

fun store :: "'f widget \<Rightarrow> entry \<Rightarrow> 'f \<Rightarrow> 'f" where
  "store (TextInput m get set_to) (Typed t) f = set_to t f"
| "store (NumberInput m get set_to) (Typed t) f = set_to t f"
| "store (SelectInput opts get set_to) (Typed t) f = set_to t f"
| "store (CheckInput get set_to) (Ticked b) f = set_to b f"
| "store w e f = f"

type_synonym 'f controls = "(string \<times> 'f widget) list"

text \<open>An entry in the control of a name; entries in a sequence; the last one that a control accepted.\<close>

definition enter :: "'f controls \<Rightarrow> string \<times> entry \<Rightarrow> 'f \<Rightarrow> 'f" where
  "enter cs ie f =
     (case map_of cs (fst ie) of None \<Rightarrow> f | Some w \<Rightarrow> if accepts w (snd ie) then store w (snd ie) f else f)"

definition fill :: "'f controls \<Rightarrow> (string \<times> entry) list \<Rightarrow> 'f \<Rightarrow> 'f" where
  "fill cs es f = fold (enter cs) es f"

definition last_entry :: "string \<Rightarrow> 'f widget \<Rightarrow> (string \<times> entry) list \<Rightarrow> entry option" where
  "last_entry i w es = map_option snd (find (\<lambda>(j, e). j = i \<and> accepts w e) (rev es))"

definition shows_last :: "'f controls \<Rightarrow> bool" where
  "shows_last cs \<longleftrightarrow> (\<forall>i w es f. (i, w) \<in> set cs \<longrightarrow>
     shown_entry w (fill cs es f) = (case last_entry i w es of None \<Rightarrow> shown_entry w f | Some e \<Rightarrow> e))"

definition entries_for :: "'f controls \<Rightarrow> 'f \<Rightarrow> (string \<times> entry) list" where
  "entries_for cs g = map (\<lambda>(i, w). (i, shown_entry w g)) cs"

definition enterable :: "'f controls \<Rightarrow> 'f \<Rightarrow> bool" where
  "enterable cs g \<longleftrightarrow> (\<forall>(i, w)\<in>set cs. accepts w (shown_entry w g))"

definition fillable :: "'f controls \<Rightarrow> ('f \<Rightarrow> 'r) \<Rightarrow> bool" where
  "fillable cs other \<longleftrightarrow> (\<forall>f g. other f = other g \<and> enterable cs g \<longrightarrow> fill cs (entries_for cs g) f = g)"

lemma found: "find P xs = Some x \<Longrightarrow> P x \<and> x \<in> set xs"
  by (induction xs) (auto split: if_splits)

text \<open>
  What makes a list of controls an interface to the form: distinct names, each control shows what it has
  accepted and leaves the others alone, and together with what the dialog keeps beside the fields they
  determine the form.
\<close>

locale dialog =
  fixes cs :: "'f controls" and other :: "'f \<Rightarrow> 'r"
  assumes names: "distinct (map fst cs)"
    and stored: "(i, w) \<in> set cs \<Longrightarrow> accepts w e \<Longrightarrow> shown_entry w (store w e f) = e"
    and apart: "(i, w) \<in> set cs \<Longrightarrow> (j, v) \<in> set cs \<Longrightarrow> i \<noteq> j \<Longrightarrow> shown_entry v (store w e f) = shown_entry v f"
    and beside: "(i, w) \<in> set cs \<Longrightarrow> other (store w e f) = other f"
    and complete: "(\<And>i w. (i, w) \<in> set cs \<Longrightarrow> shown_entry w f = shown_entry w g) \<Longrightarrow> other f = other g \<Longrightarrow> f = g"
begin

lemma enter_shown:
  assumes "(i, w) \<in> set cs"
  shows "shown_entry w (enter cs (j, e) f) = (if j = i \<and> accepts w e then e else shown_entry w f)"
proof (cases "map_of cs j")
  case None
  then have "j \<noteq> i" using assms by (auto simp: map_of_eq_None_iff image_iff)
  then show ?thesis using None by (simp add: enter_def)
next
  case (Some v)
  then have v: "(j, v) \<in> set cs" by (rule map_of_SomeD)
  show ?thesis
  proof (cases "j = i")
    case True
    then have "v = w" using Some assms names by simp
    then show ?thesis using True Some stored[OF assms] by (simp add: enter_def)
  qed (use Some apart[OF v assms] in \<open>simp add: enter_def\<close>)
qed

lemma last_entry_snoc:
  "last_entry i w (es @ [(j, e)]) = (if j = i \<and> accepts w e then Some e else last_entry i w es)"
  by (simp add: last_entry_def)

lemma fill_shown:
  assumes "(i, w) \<in> set cs"
  shows "shown_entry w (fill cs es f) = (case last_entry i w es of None \<Rightarrow> shown_entry w f | Some e \<Rightarrow> e)"
proof (induction es rule: rev_induct)
  case Nil
  then show ?case by (simp add: fill_def last_entry_def)
next
  case (snoc x es)
  obtain j e where x: "x = (j, e)" by (cases x)
  show ?case using snoc enter_shown[OF assms] by (simp add: x fill_def last_entry_snoc)
qed

lemma fill_other: "other (fill cs es f) = other f"
proof (induction es arbitrary: f)
  case (Cons x es)
  have "other (enter cs x f) = other f"
    using beside[OF map_of_SomeD] by (auto simp: enter_def split: option.splits)
  then show ?case using Cons by (simp add: fill_def)
qed (simp add: fill_def)

lemma last_of_entries:
  assumes "(i, w) \<in> set cs" "accepts w (shown_entry w g)"
  shows "last_entry i w (entries_for cs g) = Some (shown_entry w g)"
proof -
  let ?P = "\<lambda>(j, e). j = i \<and> accepts w e"
  have m: "(i, shown_entry w g) \<in> set (rev (entries_for cs g))" using assms(1) by (force simp: entries_for_def)
  then obtain x where x: "find ?P (rev (entries_for cs g)) = Some x"
    using assms(2) by (cases "find ?P (rev (entries_for cs g))") (auto simp: find_None_iff)
  then have "?P x" "x \<in> set (entries_for cs g)" using found by fastforce+
  then have "x = (i, shown_entry w g)" using assms(1) eq_key_imp_eq_value[OF names] by (auto simp: entries_for_def)
  then show ?thesis using x by (simp add: last_entry_def)
qed

lemma fill_reaches:
  assumes "other f = other g" "enterable cs g" shows "fill cs (entries_for cs g) f = g"
proof (rule complete)
  fix i w assume iw: "(i, w) \<in> set cs"
  then have "accepts w (shown_entry w g)" using assms(2) by (auto simp: enterable_def)
  then show "shown_entry w (fill cs (entries_for cs g) f) = shown_entry w g"
    by (simp add: fill_shown[OF iw] last_of_entries[OF iw])
qed (simp add: fill_other assms(1))

lemma faithful: "shows_last cs \<and> fillable cs other"
  by (auto simp: shows_last_def fillable_def fill_shown intro: fill_reaches)

end

text \<open>
  The laws control by control: what a control stores it shows, what it stores other controls do not show,
  and it stores nothing beside the fields.
\<close>

definition lawful :: "'f widget \<Rightarrow> bool" where
  "lawful w \<longleftrightarrow> (\<forall>e f. accepts w e \<longrightarrow> shown_entry w (store w e f) = e)"

definition clear_of :: "('f \<Rightarrow> 'a) \<Rightarrow> 'f widget \<Rightarrow> bool" where
  "clear_of h w \<longleftrightarrow> (\<forall>e f. h (store w e f) = h f)"

fun all_apart :: "'f controls \<Rightarrow> bool" where
  "all_apart [] \<longleftrightarrow> True"
| "all_apart ((i, w) # cs) \<longleftrightarrow>
     (\<forall>(j, v)\<in>set cs. clear_of (shown_entry w) v \<and> clear_of (shown_entry v) w) \<and> all_apart cs"

named_theorems widget_laws \<open>the laws of controls, by the kind of control\<close>

lemma lawful_widget [widget_laws]:
  "lawful (TextInput m get set_to) \<longleftrightarrow> (\<forall>t f. accepts (TextInput m get set_to) (Typed t) \<longrightarrow> get (set_to t f) = t)"
  "lawful (NumberInput r get set_to) \<longleftrightarrow> (\<forall>t f. get (set_to t f) = t)"
  "lawful (SelectInput opts get set_to) \<longleftrightarrow> (\<forall>t f. t \<in> set (map fst opts) \<longrightarrow> get (set_to t f) = t)"
  "lawful (CheckInput pressed press) \<longleftrightarrow> (\<forall>b f. pressed (press b f) = b)"
proof -
  have e: "(\<forall>e. P e) \<longleftrightarrow> (\<forall>t. P (Typed t)) \<and> (\<forall>b. P (Ticked b))" for P by (metis entry.exhaust)
  show "lawful (TextInput m get set_to) \<longleftrightarrow> (\<forall>t f. accepts (TextInput m get set_to) (Typed t) \<longrightarrow> get (set_to t f) = t)"
    "lawful (NumberInput r get set_to) \<longleftrightarrow> (\<forall>t f. get (set_to t f) = t)"
    "lawful (SelectInput opts get set_to) \<longleftrightarrow> (\<forall>t f. t \<in> set (map fst opts) \<longrightarrow> get (set_to t f) = t)"
    "lawful (CheckInput pressed press) \<longleftrightarrow> (\<forall>b f. pressed (press b f) = b)"
    unfolding lawful_def e by simp_all
qed

lemma clear_of_widget [widget_laws]:
  "clear_of h (TextInput m get set_to) \<longleftrightarrow> (\<forall>t f. h (set_to t f) = h f)"
  "clear_of h (NumberInput r get set_to) \<longleftrightarrow> (\<forall>t f. h (set_to t f) = h f)"
  "clear_of h (SelectInput opts get set_to) \<longleftrightarrow> (\<forall>t f. h (set_to t f) = h f)"
  "clear_of h (CheckInput pressed press) \<longleftrightarrow> (\<forall>b f. h (press b f) = h f)"
proof -
  have e: "(\<forall>e. P e) \<longleftrightarrow> (\<forall>t. P (Typed t)) \<and> (\<forall>b. P (Ticked b))" for P by (metis entry.exhaust)
  show "clear_of h (TextInput m get set_to) \<longleftrightarrow> (\<forall>t f. h (set_to t f) = h f)"
    "clear_of h (NumberInput r get set_to) \<longleftrightarrow> (\<forall>t f. h (set_to t f) = h f)"
    "clear_of h (SelectInput opts get set_to) \<longleftrightarrow> (\<forall>t f. h (set_to t f) = h f)"
    "clear_of h (CheckInput pressed press) \<longleftrightarrow> (\<forall>b f. h (press b f) = h f)"
    unfolding clear_of_def e by simp_all
qed

lemma all_apart_pair:
  assumes "all_apart cs" "(i, w) \<in> set cs" "(j, v) \<in> set cs" "i \<noteq> j"
  shows "clear_of (shown_entry v) w"
  using assms by (induction cs) auto

lemma dialogI:
  assumes "distinct (map fst cs)" "\<forall>(i, w)\<in>set cs. lawful w" "all_apart cs" "\<forall>(i, w)\<in>set cs. clear_of other w"
    and "\<And>f g. \<forall>(i, w)\<in>set cs. shown_entry w f = shown_entry w g \<Longrightarrow> other f = other g \<Longrightarrow> f = g"
  shows "dialog cs other"
proof unfold_locales
  fix i w e f assume "(i, w) \<in> set cs" "accepts w e"
  then show "shown_entry w (store w e f) = e" using assms(2) unfolding lawful_def by blast
next
  fix i w j v e f assume "(i, w) \<in> set cs" "(j, v) \<in> set cs" "i \<noteq> j"
  then show "shown_entry v (store w e f) = shown_entry v f"
    using all_apart_pair[OF assms(3)] unfolding clear_of_def by blast
next
  fix i w e f assume "(i, w) \<in> set cs"
  then show "other (store w e f) = other f" using assms(4) unfolding clear_of_def by blast
next
  fix f g assume "\<And>i w. (i, w) \<in> set cs \<Longrightarrow> shown_entry w f = shown_entry w g" "other f = other g"
  then show "f = g" by (intro assms(5)) auto
qed (fact assms(1))

definition nothing_beside :: "'f \<Rightarrow> unit" where
  [widget_laws]: "nothing_beside f = ()"

subsection \<open>Footers\<close>

text \<open>
  The end of a dialog: the progress of its request, the error line, whether it can be cancelled there, and
  the label and availability of the button that submits.
\<close>

record footer =
  ft_progress :: readout
  ft_error :: "string option"
  ft_cancel :: bool
  ft_label :: string
  ft_enabled :: bool

definition error_line :: "string \<Rightarrow> string option \<Rightarrow> string option" where
  "error_line lead err = (case err of None \<Rightarrow> None | Some e \<Rightarrow> if e = [] then None else Some (lead @ e))"

definition busy_readout :: "bool \<Rightarrow> string \<Rightarrow> readout" where
  "busy_readout active label = (if active then Indeterminate label else NoReadout)"

end
