(* ===== verification/DetailDialogs.thy ===== *)
theory DetailDialogs imports Dialogs EditMachine begin

text \<open>
  The dialogs of \<open>web/src/pages/VMDetail.jsx\<close>: the controls and footers of those that edit, clone, move and
  export a machine and of those for snapshots and port forwards. The forms and what they send are those of
  \<open>EditMachine\<close>, \<open>DetailForms\<close> and \<open>DetailTables\<close>.
\<close>

subsection \<open>\<open>EditVMModal\<close>\<close>

definition edit_size_controls :: "js \<Rightarrow> edit_vm controls" where
  "edit_size_controls vm =
     [(''input-edit-cpus'', NumberInput (Some 1) ev_cpus (\<lambda>t f. f\<lparr>ev_cpus := t\<rparr>)),
      (''input-edit-ram'', NumberInput (Some 256) ev_ram (\<lambda>t f. f\<lparr>ev_ram := t\<rparr>)),
      (''input-edit-disk'', NumberInput (Some (max (spec_number vm ''disk_gb'') 1)) ev_disk (\<lambda>t f. f\<lparr>ev_disk := t\<rparr>))]"

definition edit_text_controls :: "edit_vm controls" where
  "edit_text_controls =
     [(''Description'', TextInput None ev_description (\<lambda>t f. f\<lparr>ev_description := t\<rparr>)),
      (''Tags'', TextInput None ev_tags (\<lambda>t f. f\<lparr>ev_tags := t\<rparr>)),
      (''input-edit-nat-ip'', TextInput None ev_ip (\<lambda>t f. f\<lparr>ev_ip := t\<rparr>))]"

definition edit_flag_controls :: "edit_vm controls" where
  "edit_flag_controls =
     [(''input-edit-auto-start'', CheckInput ev_auto_start (\<lambda>b f. f\<lparr>ev_auto_start := b\<rparr>)),
      (''input-edit-locked'', CheckInput ev_locked (\<lambda>b f. f\<lparr>ev_locked := b\<rparr>))]"

definition edit_device_controls :: "edit_vm controls" where
  "edit_device_controls =
     [(''select-edit-disk-bus'', SelectInput [([], ''default''), (''virtio'', ''virtio''), (''sata'', ''sata'')]
         ev_disk_bus (\<lambda>t f. f\<lparr>ev_disk_bus := t\<rparr>)),
      (''select-edit-nic-model'', SelectInput [([], ''default''), (''virtio'', ''virtio''), (''e1000e'', ''e1000e'')]
         ev_nic_model (\<lambda>t f. f\<lparr>ev_nic_model := t\<rparr>))]"

definition edit_vm_controls :: "js \<Rightarrow> edit_vm controls" where
  "edit_vm_controls vm = edit_size_controls vm @ edit_text_controls @ edit_flag_controls @ edit_device_controls"

text \<open>What the machine has now, beside its inputs.\<close>

definition current_hint :: "rat \<Rightarrow> string" where
  "current_hint r = ''current: '' @ (if r = 0 then em_dash else num_str (Fin r))"

definition edit_size_hints :: "js \<Rightarrow> string list" where
  "edit_size_hints vm =
     [current_hint (spec_number vm ''cpus''), current_hint (spec_number vm ''ram_mb''),
      current_hint (spec_number vm ''disk_gb'') @ '' '' @ mid_dot @ '' grow only'']"

definition edit_ip_hint :: "js \<Rightarrow> string" where
  "edit_ip_hint vm =
     ''current: '' @ (if current_ip vm = [] then ''not assigned'' else current_ip vm)
     @ '' '' @ mid_dot @ '' plain IP or CIDR (e.g. 192.168.100.50)''"

definition edit_vm_footer :: "mutation \<Rightarrow> footer" where
  "edit_vm_footer m =
     \<lparr>ft_progress = busy_readout (mu_loading m) (''Applying changes '' @ em_dash @ '' the machine restarts to take effect'' @ ellipsis),
      ft_error = error_line ''Error: '' (mu_error m), ft_cancel = \<not> mu_loading m,
      ft_label = (if mu_loading m then ''Applying'' @ ellipsis else ''Apply Changes''), ft_enabled = \<not> mu_loading m\<rparr>"

subsection \<open>Clone, move and export\<close>

definition clone_controls :: "clone controls" where
  "clone_controls = [(''input-clone-name'', TextInput None cl_name (\<lambda>t s. s\<lparr>cl_name := t\<rparr>))]"

definition op_footer :: "string \<Rightarrow> op_dialog \<Rightarrow> string \<Rightarrow> bool \<Rightarrow> footer" where
  "op_footer doing d label disabled =
     (let loading = mu_loading (od_request d) in
      \<lparr>ft_progress = progress_readout loading (op_percent (od_progress d)) (doing @ ellipsis),
       ft_error = error_line [] (mu_error (od_request d)), ft_cancel = \<not> loading,
       ft_label = label, ft_enabled = \<not> disabled\<rparr>)"

definition clone_footer :: "clone \<Rightarrow> footer" where
  "clone_footer s = op_footer ''Cloning machine'' (cl_op s) ''Clone VM'' (clone_disabled s)"

definition move_footer :: "string \<Rightarrow> move_disk \<Rightarrow> footer" where
  "move_footer current s = op_footer ''Moving disk'' (mv_op s) ''Move disk'' (move_disabled current s)"

definition export_controls :: "export controls" where
  "export_controls = [(''Image Name'', TextInput None ex_name (\<lambda>t s. s\<lparr>ex_name := t\<rparr>))]"

text \<open>Once the image is made, the form gives way to a message with one button, which closes the dialog.\<close>

datatype export_view = ExportDone string | ExportForm "export controls" footer

definition export_show :: "export \<Rightarrow> export_view" where
  "export_show s =
     (if ex_done s then ExportDone ''Image created successfully.''
      else ExportForm export_controls (op_footer ''Exporting disk image'' (ex_op s) ''Export'' (export_disabled s)))"

subsection \<open>Snapshots and port forwards\<close>

text \<open>The two editing dialogs: the title, the controls, the counter below the description, the footer.\<close>

definition length_counter :: "nat \<Rightarrow> string \<Rightarrow> string" where
  "length_counter m t = nat_str (length t) @ ''/'' @ nat_str m @ '' characters''"

definition edit_snap_controls :: "edit_text controls" where
  "edit_snap_controls =
     [(''input-edit-snap-description'', TextInput (Some 1024) et_description (\<lambda>t f. f\<lparr>et_description := t\<rparr>)),
      (''input-edit-snap-tags'', TextInput None et_tags (\<lambda>t f. f\<lparr>et_tags := t\<rparr>))]"

definition edit_port_controls :: "edit_text controls" where
  "edit_port_controls =
     [(''input-edit-port-description'', TextInput (Some 256) et_description (\<lambda>t f. f\<lparr>et_description := t\<rparr>)),
      (''input-edit-port-tags'', TextInput None et_tags (\<lambda>t f. f\<lparr>et_tags := t\<rparr>))]"

definition edit_snap_title :: "js \<Rightarrow> string" where
  "edit_snap_title snap = ''Edit '' @ to_str (jget snap ''name'')"

definition edit_port_title :: "js \<Rightarrow> string \<times> string" where
  "edit_port_title pf = (''Edit port forward :'' @ to_str (jget pf ''host_port''), port_route pf @ ''/'' @ to_str (jget pf ''protocol''))"

definition save_footer :: "mutation \<Rightarrow> footer" where
  "save_footer m =
     \<lparr>ft_progress = NoReadout, ft_error = error_line [] (mu_error m), ft_cancel = True, ft_label = ''Save'',
      ft_enabled = \<not> mu_loading m\<rparr>"

definition snap_form_controls :: "snap_form controls" where
  "snap_form_controls =
     [(''input-snap-name'', TextInput None sn_name (\<lambda>t f. f\<lparr>sn_name := t\<rparr>)),
      (''input-snap-description'', TextInput (Some 1024) sn_description (\<lambda>t f. f\<lparr>sn_description := t\<rparr>)),
      (''input-snap-tags'', TextInput None sn_tags (\<lambda>t f. f\<lparr>sn_tags := t\<rparr>))]"

definition snap_form_footer :: "mutation \<Rightarrow> snap_form \<Rightarrow> footer" where
  "snap_form_footer m f =
     \<lparr>ft_progress = busy_readout (mu_loading m) (''Creating snapshot'' @ ellipsis), ft_error = error_line [] (mu_error m),
      ft_cancel = \<not> mu_loading m, ft_label = ''Create'', ft_enabled = \<not> snap_create_disabled (mu_loading m) f\<rparr>"

definition port_form_controls :: "port_form controls" where
  "port_form_controls =
     [(''input-host-port'', NumberInput None pf_host (\<lambda>t f. f\<lparr>pf_host := t\<rparr>)),
      (''input-guest-port'', NumberInput None pf_guest (\<lambda>t f. f\<lparr>pf_guest := t\<rparr>)),
      (''Protocol'', SelectInput [(''tcp'', ''TCP''), (''udp'', ''UDP'')] pf_protocol (\<lambda>t f. f\<lparr>pf_protocol := t\<rparr>)),
      (''input-port-description'', TextInput (Some 256) pf_description (\<lambda>t f. f\<lparr>pf_description := t\<rparr>)),
      (''input-port-tags'', TextInput None pf_tags (\<lambda>t f. f\<lparr>pf_tags := t\<rparr>))]"

definition port_form_footer :: "mutation \<Rightarrow> port_form \<Rightarrow> footer" where
  "port_form_footer m f =
     \<lparr>ft_progress = NoReadout, ft_error = error_line [] (mu_error m), ft_cancel = True, ft_label = ''Add'',
      ft_enabled = \<not> port_add_disabled (mu_loading m) f\<rparr>"

subsection \<open>The controls are an interface to the forms\<close>

lemmas edit_vm_controls_defs = edit_vm_controls_def edit_size_controls_def edit_text_controls_def
  edit_flag_controls_def edit_device_controls_def

interpretation edit_vm_dialog: dialog "edit_vm_controls vm" nothing_beside
  by (rule dialogI) (simp_all add: edit_vm_controls_defs widget_laws)

interpretation clone_dialog: dialog clone_controls cl_op
  by (rule dialogI) (simp_all add: clone_controls_def widget_laws)

interpretation export_dialog: dialog export_controls "\<lambda>s. (ex_done s, ex_op s)"
  by (rule dialogI) (simp_all add: export_controls_def widget_laws)

interpretation edit_snap_dialog: dialog edit_snap_controls nothing_beside
  by (rule dialogI) (simp_all add: edit_snap_controls_def widget_laws)

interpretation edit_port_dialog: dialog edit_port_controls nothing_beside
  by (rule dialogI) (simp_all add: edit_port_controls_def widget_laws)

interpretation snap_form_dialog: dialog snap_form_controls nothing_beside
  by (rule dialogI) (simp_all add: snap_form_controls_def widget_laws)

interpretation port_form_dialog: dialog port_form_controls nothing_beside
  by (rule dialogI) (simp_all add: port_form_controls_def widget_laws)

text \<open>The form that an operator who wants a machine to be so fills in.\<close>

definition machine_form :: "machine \<Rightarrow> edit_vm" where
  "machine_form w =
     \<lparr>ev_cpus = nat_str (mc_cpus w), ev_ram = nat_str (mc_ram w), ev_disk = nat_str (mc_disk w),
      ev_description = mc_description w, ev_tags = js_join '', '' (mc_tags w), ev_ip = mc_ip w,
      ev_auto_start = mc_auto_start w, ev_locked = mc_locked w, ev_disk_bus = mc_disk_bus w, ev_nic_model = mc_nic_model w\<rparr>"

text \<open>What can be wanted of a machine: tidy texts, a plain address unless it has none, a device that is offered.\<close>

definition wanted :: "machine \<Rightarrow> machine \<Rightarrow> bool" where
  "wanted m w \<longleftrightarrow>
     js_trim (mc_description w) = mc_description w \<and> (\<forall>t\<in>set (mc_tags w). clean_tag t)
     \<and> js_trim (mc_ip w) = mc_ip w \<and> CHR ''/'' \<notin> set (mc_ip w) \<and> (mc_ip w = [] \<longrightarrow> mc_ip m = [])
     \<and> mc_disk_bus w \<in> {[], ''virtio'', ''sata''} \<and> mc_nic_model w \<in> {[], ''virtio'', ''e1000e''}"

lemma wanted_enterable: "wanted m w \<Longrightarrow> enterable (edit_vm_controls vm) (machine_form w)"
  by (simp add: enterable_def edit_vm_controls_defs machine_form_def wanted_def)

lemma strip_mask_plain:
  assumes "CHR ''/'' \<notin> set ip" shows "strip_mask ip = ip"
proof -
  let ?d = "dropWhile is_digit (rev ip)"
  have "hd ?d \<noteq> CHR ''/''" if "?d \<noteq> []"
    using hd_in_set[OF that] set_dropWhileD[of "hd ?d" is_digit "rev ip"] assms by (metis set_rev)
  then have "\<not> (takeWhile is_digit (rev ip) \<noteq> [] \<and> dropWhile is_digit (rev ip) \<noteq> []
      \<and> hd (dropWhile is_digit (rev ip)) = CHR ''/'')" by blast
  then show ?thesis unfolding strip_mask_def Let_def by (rule if_not_P)
qed

lemma machine_form_reads:
  assumes "wanted m w"
  shows "int_or_nan (ev_cpus (machine_form w)) = JNat (mc_cpus w)" "int_or_nan (ev_ram (machine_form w)) = JNat (mc_ram w)"
    "int_or_nan (ev_disk (machine_form w)) = JNat (mc_disk w)"
    "js_trim (ev_description (machine_form w)) = mc_description w"
    "parse_tags (ev_tags (machine_form w)) = mc_tags w" "js_trim (ev_ip (machine_form w)) = mc_ip w"
    "ev_auto_start (machine_form w) = mc_auto_start w" "ev_locked (machine_form w) = mc_locked w"
    "ev_disk_bus (machine_form w) = mc_disk_bus w" "ev_nic_model (machine_form w) = mc_nic_model w"
proof -
  have "js_trim (mc_description w) = mc_description w" "parse_tags (js_join '', '' (mc_tags w)) = mc_tags w"
    "js_trim (mc_ip w) = mc_ip w"
    using assms parse_tags_join_comma_space by (simp_all add: wanted_def)
  then show "int_or_nan (ev_cpus (machine_form w)) = JNat (mc_cpus w)" "int_or_nan (ev_ram (machine_form w)) = JNat (mc_ram w)"
    "int_or_nan (ev_disk (machine_form w)) = JNat (mc_disk w)"
    "js_trim (ev_description (machine_form w)) = mc_description w"
    "parse_tags (ev_tags (machine_form w)) = mc_tags w" "js_trim (ev_ip (machine_form w)) = mc_ip w"
    "ev_auto_start (machine_form w) = mc_auto_start w" "ev_locked (machine_form w) = mc_locked w"
    "ev_disk_bus (machine_form w) = mc_disk_bus w" "ev_nic_model (machine_form w) = mc_nic_model w"
    by (simp_all only: machine_form_def edit_vm.simps int_or_nan_nat)
qed

lemma machine_form_stored:
  assumes "stored_vm vm m" "0 < mc_cpus m" "0 < mc_ram m" "0 < mc_disk m"
  shows "machine_form m = edit_vm_open vm"
  using assms by (simp add: stored_vm_def machine_form_def edit_vm_open_def number_field_nat vm_tags_joined_def)

lemma undef_keys: "jkeys p = [] \<Longrightarrow> k \<noteq> ''length'' \<Longrightarrow> jget p k = Undef"
  by (cases p) (auto simp: jkeys_def split: if_splits)

lemma edit_gets_wanted:
  assumes "stored_vm vm m" "wanted m w"
  defines "p \<equiv> edit_vm_patch vm (machine_form w)"
  shows "jget p ''cpus'' = (if mc_cpus w = mc_cpus m then Undef else JNat (mc_cpus w))"
    "jget p ''ram_mb'' = (if mc_ram w = mc_ram m then Undef else JNat (mc_ram w))"
    "jget p ''disk_gb'' = (if mc_disk w = mc_disk m then Undef else JNat (mc_disk w))"
    "jget p ''description'' = (if mc_description w = mc_description m then Undef else Str (mc_description w))"
    "jget p ''tags'' = (if mc_tags w = mc_tags m then Undef else Arr (map Str (mc_tags w)))"
    "jget p ''nat_static_ip'' = (if mc_ip w = mc_ip m then Undef else Str (mc_ip w @ ''/24''))"
    "jget p ''auto_start'' = (if mc_auto_start w = mc_auto_start m then Undef else Bool (mc_auto_start w))"
    "jget p ''locked'' = (if mc_locked w = mc_locked m then Undef else Bool (mc_locked w))"
    "jget p ''disk_bus'' = (if mc_disk_bus w = mc_disk_bus m then Undef else Str (mc_disk_bus w))"
    "jget p ''nic_model'' = (if mc_nic_model w = mc_nic_model m then Undef else Str (mc_nic_model w))"
proof -
  note got = edit_vm_patch_gets[OF assms(1) refl, of "machine_form w", unfolded machine_form_reads[OF assms(2)], folded p_def]
  note w = assms(2)[unfolded wanted_def]
  show "jget p ''cpus'' = (if mc_cpus w = mc_cpus m then Undef else JNat (mc_cpus w))"
    "jget p ''ram_mb'' = (if mc_ram w = mc_ram m then Undef else JNat (mc_ram w))"
    "jget p ''disk_gb'' = (if mc_disk w = mc_disk m then Undef else JNat (mc_disk w))"
    using got(1-3) by simp_all
  have "mc_ip w \<in> {[], mc_ip m} \<longleftrightarrow> mc_ip w = mc_ip m" using w by auto
  then show "jget p ''nat_static_ip'' = (if mc_ip w = mc_ip m then Undef else Str (mc_ip w @ ''/24''))"
    using got(6) w by (simp only: with_mask_def if_False)
qed (use edit_vm_patch_gets[OF assms(1) refl, of "machine_form w", unfolded machine_form_reads[OF assms(2)], folded p_def]
  in \<open>simp_all only:\<close>)

text \<open>
  C17 The edit dialog says what is wanted and no more. Whatever the form held before, filling in its
  controls for the machine that is wanted and applying sends, for each property, the wanted value exactly
  where it is not the stored one (an address with its mask), and one request for this machine; when the
  stored machine is the one that is wanted, nothing is sent and the dialog closes. What the daemon makes
  of the request is the daemon's: it reads an empty description as no change
  (\<open>internal/vm/lifecycle.go\<close>), so that a description can be changed but not removed here.
\<close>

theorem edit_dialog_asks:
  assumes "stored_vm vm m" "0 < mc_cpus m" "0 < mc_ram m" "0 < mc_disk m" "wanted m w"
    and g_def: "g = fill (edit_vm_controls vm) (entries_for (edit_vm_controls vm) (machine_form w)) f"
    and p_def: "p = edit_vm_patch vm g"
  shows "jget p ''cpus'' = (if mc_cpus w = mc_cpus m then Undef else JNat (mc_cpus w))
    \<and> jget p ''ram_mb'' = (if mc_ram w = mc_ram m then Undef else JNat (mc_ram w))
    \<and> jget p ''disk_gb'' = (if mc_disk w = mc_disk m then Undef else JNat (mc_disk w))
    \<and> jget p ''description'' = (if mc_description w = mc_description m then Undef else Str (mc_description w))
    \<and> jget p ''tags'' = (if mc_tags w = mc_tags m then Undef else Arr (map Str (mc_tags w)))
    \<and> jget p ''nat_static_ip'' = (if mc_ip w = mc_ip m then Undef else Str (mc_ip w @ ''/24''))
    \<and> jget p ''auto_start'' = (if mc_auto_start w = mc_auto_start m then Undef else Bool (mc_auto_start w))
    \<and> jget p ''locked'' = (if mc_locked w = mc_locked m then Undef else Bool (mc_locked w))
    \<and> jget p ''disk_bus'' = (if mc_disk_bus w = mc_disk_bus m then Undef else Str (mc_disk_bus w))
    \<and> jget p ''nic_model'' = (if mc_nic_model w = mc_nic_model m then Undef else Str (mc_nic_model w))
    \<and> edit_vm_submit vm ok g =
        (if w = m then (None, [''onClose''])
         else (Some (vm_request (VmUpdate (to_str (jget vm ''id'')) p)), if ok then [''onUpdated'', ''onClose''] else []))"
proof -
  have g: "g = machine_form w"
    unfolding g_def by (rule edit_vm_dialog.fill_reaches) (simp only: nothing_beside_def, rule wanted_enterable[OF assms(5)])
  note got = edit_gets_wanted[OF assms(1,5), folded g, folded p_def]
  have "jkeys p \<noteq> []" if "w \<noteq> m"
  proof
    assume "jkeys p = []"
    note u = undef_keys[OF this]
    have "w = m" using got by (intro machine.equality) (auto simp: u split: if_splits)
    with that show False by blast
  qed
  moreover have "edit_vm_submit vm ok g = (None, [''onClose''])" if "w = m"
    using g machine_form_stored edit_vm_unchanged assms(1-4) that by metis
  ultimately have "edit_vm_submit vm ok g =
      (if w = m then (None, [''onClose''])
       else (Some (vm_request (VmUpdate (to_str (jget vm ''id'')) p)), if ok then [''onUpdated'', ''onClose''] else []))"
    by (cases "w = m") (simp_all add: edit_vm_submit_def Let_def p_def)
  with got show ?thesis by blast
qed

definition small_vm :: js where
  "small_vm = Obj [(''spec'', Obj [(''cpus'', JNat 2), (''ram_mb'', JNat 2048), (''disk_gb'', JNat 20)])]"

definition small_machine :: machine where
  "small_machine = \<lparr>mc_cpus = 2, mc_ram = 2048, mc_disk = 20, mc_description = [], mc_tags = [], mc_ip = [], mc_auto_start = False,
      mc_locked = False, mc_disk_bus = [], mc_nic_model = []\<rparr>"

theorem edit_dialog_asks_witness:
  "jget (edit_vm_patch small_vm
      (fill (edit_vm_controls small_vm) (entries_for (edit_vm_controls small_vm)
          (machine_form (small_machine\<lparr>mc_cpus := 4, mc_tags := [''db''], mc_auto_start := True\<rparr>))) edit_vm_empty)) ''tags''
   = Arr [Str ''db'']"
proof -
  let ?w = "small_machine\<lparr>mc_cpus := 4, mc_tags := [''db''], mc_auto_start := True\<rparr>"
  have s: "stored_vm small_vm small_machine" "wanted small_machine ?w"
    "0 < mc_cpus small_machine" "0 < mc_ram small_machine" "0 < mc_disk small_machine"
    by (simp_all add: small_vm_def small_machine_def stored_vm_def spec_number_def normalize_spec_def vm_description_def current_ip_def spec_flag_def
      spec_text_def js_or_def safe_array_def js_trim_def trim_start_def is_ws_def wanted_def clean_tag_def)
  have "mc_tags ?w = [''db'']" "mc_tags small_machine = []" by (simp_all add: small_machine_def)
  with edit_dialog_asks[OF s(1,3,4,5,2) refl refl, of edit_vm_empty] show ?thesis by simp
qed

text \<open>
  Emptying the description sends the empty text, which the daemon reads as no change
  (\<open>internal/vm/lifecycle.go\<close>): the dialog closes as after a success, and the description stays.
\<close>

lemma edit_description_cleared:
  assumes "stored_vm vm m" "mc_description m \<noteq> []" "js_trim (ev_description f) = []"
  shows "jget (edit_vm_patch vm f) ''description'' = Str []"
  using edit_vm_patch_gets(4)[OF assms(1) refl, of f] assms(2,3) by simp

end
