(* ===== verification/PageDialogs.thy ===== *)
theory PageDialogs imports DetailDialogs SettingsPage TemplateListPage begin

text \<open>
  The dialogs of the list pages: uploading and editing an image (\<open>web/src/pages/ImageList.jsx\<close>), creating
  and editing a template (\<open>TemplateList.jsx\<close>), registering and editing a webhook (\<open>Settings.jsx\<close>). The forms
  and what they send are those of the theories of the pages.
\<close>

subsection \<open>\<open>UploadImageModal\<close>\<close>

definition upload_controls :: "upload controls" where
  "upload_controls =
     [(''Image Name'', TextInput None up_name (\<lambda>t s. s\<lparr>up_name := t\<rparr>)),
      (''upload-image-description'', TextInput None up_description (\<lambda>t s. s\<lparr>up_description := t\<rparr>)),
      (''upload-image-tags'', TextInput None up_tags (\<lambda>t s. s\<lparr>up_tags := t\<rparr>))]"

text \<open>The drop zone: whether a click opens the file picker, the kinds it offers, and the file or the hints.\<close>

datatype drop_zone = DropFile string | DropHints string string

definition upload_zone :: "upload \<Rightarrow> bool \<times> string \<times> drop_zone" where
  "upload_zone s =
     (\<not> up_uploading s, ''.qcow2,.img,.iso'',
      (case up_file s of
         Some (n, size_of) \<Rightarrow> DropFile n
       | None \<Rightarrow> DropHints ''Drop a .qcow2 file here, or click to browse'' ''Supported: .qcow2, .img, .iso''))"

definition upload_footer :: "upload \<Rightarrow> footer" where
  "upload_footer s =
     \<lparr>ft_progress = (if up_uploading s
         then (case up_progress s of (loaded, size_of, percent) \<Rightarrow>
                 Determinate (''Uploading'' @ ellipsis) percent (progress_bar (of_int percent) 100 ''ok'' False))
         else NoReadout),
      ft_error = error_line ''Error: '' (Some (up_error s)), ft_cancel = \<not> up_uploading s, ft_label = ''Upload'',
      ft_enabled = (up_file s \<noteq> None \<and> \<not> up_uploading s)\<rparr>"

subsection \<open>\<open>EditImageModal\<close> and \<open>EditTemplateModal\<close>\<close>

definition edit_image_controls :: "edit_image controls" where
  "edit_image_controls =
     [(''edit-image-description'', TextInput None ei_description (\<lambda>t s. s\<lparr>ei_description := t\<rparr>)),
      (''edit-image-tags'', TextInput None ei_tags (\<lambda>t s. s\<lparr>ei_tags := t\<rparr>))]"

definition edit_template_controls :: "edit_image controls" where
  "edit_template_controls =
     [(''edit-template-description'', TextInput None ei_description (\<lambda>t s. s\<lparr>ei_description := t\<rparr>)),
      (''edit-template-tags'', TextInput None ei_tags (\<lambda>t s. s\<lparr>ei_tags := t\<rparr>))]"

definition edit_image_title :: "js \<Rightarrow> string" where
  "edit_image_title img = ''Edit Image '' @ em_dash @ '' '' @ to_str (jget img ''name'')"

definition edit_template_title :: "js \<Rightarrow> string" where
  "edit_template_title t = ''Edit Template '' @ em_dash @ '' '' @ to_str (jget t ''name'')"

definition edit_image_footer :: "edit_image \<Rightarrow> footer" where
  "edit_image_footer s =
     \<lparr>ft_progress = NoReadout, ft_error = error_line ''Error: '' (Some (ei_error s)), ft_cancel = \<not> ei_saving s,
      ft_label = ''Save'', ft_enabled = \<not> ei_saving s\<rparr>"

definition edit_template_footer :: "edit_image \<Rightarrow> footer" where
  "edit_template_footer s =
     \<lparr>ft_progress = NoReadout, ft_error = error_line ''Error: '' (Some (ei_error s)), ft_cancel = \<not> ei_saving s,
      ft_label = ''Save'', ft_enabled = \<not> ei_saving s\<rparr>"

text \<open>The effect that fills in the form: it runs whenever another template is passed in, none included.\<close>

definition edit_template_open :: "js \<Rightarrow> edit_image \<Rightarrow> edit_image" where
  "edit_template_open t s =
     (if truthy t
      then s\<lparr>ei_description := the_str (js_or (jget t ''description'') (Str [])),
             ei_tags := js_join '','' (map to_str (elems (js_or (jget t ''tags'') (Arr [])))), ei_error := []\<rparr>
      else s)"

subsection \<open>\<open>CreateTemplateModal\<close>\<close>

text \<open>The form and the error message; opening the dialog starts both afresh.\<close>

definition create_template_open :: "bool \<Rightarrow> bool \<Rightarrow> js \<times> string \<Rightarrow> js \<times> string" where
  "create_template_open was_open is_open s =
     (if is_open \<noteq> was_open \<and> is_open then (empty_template_form, []) else s)"

definition template_images :: "js \<Rightarrow> js list" where
  "template_images response = safe_array (js_or (jget response ''data'') response)"

text \<open>\<open>toFixed(1)\<close> of the size in gigabytes or megabytes, or the bytes.\<close>

definition template_size_suffix :: "js \<Rightarrow> string" where
  "template_size_suffix bytes =
     (let sep = '' '' @ mid_dot @ '' ''; b = the_num bytes in
      if \<not> truthy bytes then []
      else if 1073741824 \<le> b then sep @ to_fixed 1 (b / 1073741824) @ '' GB''
      else if 1048576 \<le> b then sep @ to_fixed 1 (b / 1048576) @ '' MB''
      else sep @ to_str bytes @ '' B'')"

definition template_image_options :: "js list \<Rightarrow> (string \<times> string) list" where
  "template_image_options images =
     ([], ''Select an image'' @ ellipsis)
     # map (\<lambda>i. (to_str (jget i ''path''), to_str (jget i ''name'') @ template_size_suffix (jget i ''size_bytes''))) images"

definition create_template_controls :: "js list \<Rightarrow> (string \<times> form_control) list" where
  "create_template_controls images =
     [(''create-template-name'', TextField ''name''),
      (''create-template-image'', if images = [] then TextField ''image'' else ChoiceField ''image'' (template_image_options images)),
      (''create-template-cpus'', NumberField ''cpus'' 1), (''create-template-ram'', NumberField ''ram_mb'' 128),
      (''create-template-disk'', NumberField ''disk_gb'' 1),
      (''create-template-default-user'', TextField ''default_user''),
      (''create-template-description'', TextField ''description''), (''create-template-tags'', TextField ''tags'')]"

definition use_template_field :: "form_control \<Rightarrow> entry \<Rightarrow> js \<Rightarrow> js" where
  "use_template_field c e form =
     (case (c, e) of
        (TextField k, Typed t) \<Rightarrow> template_update k (Str t) form
      | (NumberField k m, Typed t) \<Rightarrow> template_update_num k t form
      | (ChoiceField k opts, Typed v) \<Rightarrow> (if v \<in> set (map fst opts) then template_update k (Str v) form else form)
      | _ \<Rightarrow> form)"

definition create_template_footer :: "mutation \<Rightarrow> js \<times> string \<Rightarrow> footer" where
  "create_template_footer m s =
     \<lparr>ft_progress = NoReadout,
      ft_error = error_line ''Error: '' (if snd s \<noteq> [] then Some (snd s) else mu_error m),
      ft_cancel = \<not> mu_loading m, ft_label = ''Create'',
      ft_enabled = \<not> template_submit_disabled (mu_loading m) (fst s)\<rparr>"

subsection \<open>\<open>AddWebhookModal\<close> and \<open>EditWebhookModal\<close>\<close>

definition hook_add_controls :: "hook_form controls" where
  "hook_add_controls =
     [(''webhook-url-input'', TextInput None hf_url (\<lambda>t f. f\<lparr>hf_url := t\<rparr>)),
      (''webhook-secret-input'', TextInput None hf_secret (\<lambda>t f. f\<lparr>hf_secret := t\<rparr>)),
      (''webhook-event-types-input'', TextInput None hf_types (\<lambda>t f. f\<lparr>hf_types := t\<rparr>)),
      (''webhook-description-input'', TextInput (Some 1024) hf_description (\<lambda>t f. f\<lparr>hf_description := t\<rparr>)),
      (''webhook-tags-input'', TextInput None hf_tags (\<lambda>t f. f\<lparr>hf_tags := t\<rparr>))]"

text \<open>The event types have an input only while the webhook does not subscribe to everything.\<close>

definition hook_edit_controls :: "hook_form controls" where
  "hook_edit_controls =
     [(''edit-webhook-url-input'', TextInput None hf_url (\<lambda>t f. f\<lparr>hf_url := t\<rparr>)),
      (''edit-webhook-secret-input'', TextInput None hf_secret (\<lambda>t f. f\<lparr>hf_secret := t\<rparr>)),
      (''edit-webhook-subscribe-all'', CheckInput hf_all (\<lambda>b f. f\<lparr>hf_all := b\<rparr>)),
      (''edit-webhook-event-types-input'', TextInput None hf_types (\<lambda>t f. f\<lparr>hf_types := t\<rparr>)),
      (''edit-webhook-active-toggle'', CheckInput hf_active (\<lambda>b f. f\<lparr>hf_active := b\<rparr>)),
      (''edit-webhook-description-input'', TextInput (Some 1024) hf_description (\<lambda>t f. f\<lparr>hf_description := t\<rparr>)),
      (''edit-webhook-tags-input'', TextInput None hf_tags (\<lambda>t f. f\<lparr>hf_tags := t\<rparr>))]"

definition hook_edit_shown :: "hook_form \<Rightarrow> hook_form controls" where
  "hook_edit_shown f = filter (\<lambda>(i, w). i = ''edit-webhook-event-types-input'' \<longrightarrow> \<not> hf_all f) hook_edit_controls"

text \<open>
  The browser submits a form only when its required inputs are filled in and its address is one
  (\<open>valid_url\<close>, the browser's check of an input of type \<open>url\<close>).
\<close>

definition hook_add_passes :: "(string \<Rightarrow> bool) \<Rightarrow> hook_form \<Rightarrow> bool" where
  "hook_add_passes valid_url f \<longleftrightarrow> hf_url f \<noteq> [] \<and> valid_url (hf_url f) \<and> hf_secret f \<noteq> []"

definition hook_edit_passes :: "(string \<Rightarrow> bool) \<Rightarrow> hook_form \<Rightarrow> bool" where
  "hook_edit_passes valid_url f \<longleftrightarrow> hf_url f \<noteq> [] \<and> valid_url (hf_url f)"

definition hook_add_footer :: "hook_form \<Rightarrow> footer" where
  "hook_add_footer f =
     \<lparr>ft_progress = NoReadout, ft_error = error_line [] (hf_error f), ft_cancel = True,
      ft_label = (if hf_submitting f then ''Creating'' @ ellipsis else ''Create webhook''), ft_enabled = \<not> hf_submitting f\<rparr>"

definition hook_edit_footer :: "hook_form \<Rightarrow> footer" where
  "hook_edit_footer f =
     \<lparr>ft_progress = NoReadout, ft_error = error_line [] (hf_error f), ft_cancel = True,
      ft_label = (if hf_submitting f then ''Saving'' @ ellipsis else ''Save changes''), ft_enabled = \<not> hf_submitting f\<rparr>"

text \<open>Cancelling: the dialog that adds forgets what was typed, the one that edits keeps it until it is reopened.\<close>

definition hook_add_cancel :: "hook_form \<Rightarrow> string list \<times> hook_form" where
  "hook_add_cancel f =
     ([''onClose''], f\<lparr>hf_url := [], hf_secret := [], hf_types := [], hf_description := [], hf_tags := [],
                       hf_error := None, hf_submitting := False\<rparr>)"

subsection \<open>The controls are an interface to the forms\<close>

interpretation upload_dialog: dialog upload_controls "\<lambda>s. (up_file s, up_uploading s, up_progress s, up_error s)"
  by (rule dialogI) (simp_all add: upload_controls_def widget_laws)

interpretation edit_image_dialog: dialog edit_image_controls "\<lambda>s. (ei_error s, ei_saving s)"
  by (rule dialogI) (simp_all add: edit_image_controls_def widget_laws)

interpretation edit_template_dialog: dialog edit_template_controls "\<lambda>s. (ei_error s, ei_saving s)"
  by (rule dialogI) (simp_all add: edit_template_controls_def widget_laws)

interpretation hook_add_dialog: dialog hook_add_controls "\<lambda>f. (hf_all f, hf_active f, hf_submitting f, hf_error f)"
  by (rule dialogI) (simp_all add: hook_add_controls_def widget_laws)

interpretation hook_edit_dialog: dialog hook_edit_controls "\<lambda>f. (hf_submitting f, hf_error f)"
  by (rule dialogI) (simp_all add: hook_edit_controls_def widget_laws)

text \<open>Entering text in a webhook dialog is the input handler of \<open>SettingsPage\<close>.\<close>

lemma hook_inputs:
  "hook_add_input i t f = enter hook_add_controls (i, Typed t) f" if "i = ''webhook-description-input'' \<longrightarrow> length t \<le> 1024"
  using that by (simp add: hook_add_input_def enter_def hook_add_controls_def)

text \<open>
  What a dialog shows is what was entered, for the dialogs that edit, clone and export a machine, those
  that create and edit snapshots and port forwards, those that upload and edit images and edit templates,
  and those that add and edit webhooks: whatever is entered in the controls in whatever order, each shows
  the last entry that it accepted, or what it showed before when there was none; and every state of the
  form whose values the controls accept is reached from every other with the same state beside the fields,
  by one entry in each control. The dialogs that create machines and templates and the schedule form,
  where an entry can change other fields, and the dialog that moves a disk have lemmas of their own.
\<close>

theorem dialogs_faithful:
  "(shows_last (edit_vm_controls vm) \<and> fillable (edit_vm_controls vm) nothing_beside)
   \<and> (shows_last clone_controls \<and> fillable clone_controls cl_op)
   \<and> (shows_last export_controls \<and> fillable export_controls (\<lambda>s. (ex_done s, ex_op s)))
   \<and> (shows_last edit_snap_controls \<and> fillable edit_snap_controls nothing_beside)
   \<and> (shows_last edit_port_controls \<and> fillable edit_port_controls nothing_beside)
   \<and> (shows_last snap_form_controls \<and> fillable snap_form_controls nothing_beside)
   \<and> (shows_last port_form_controls \<and> fillable port_form_controls nothing_beside)
   \<and> (shows_last upload_controls \<and> fillable upload_controls (\<lambda>s. (up_file s, up_uploading s, up_progress s, up_error s)))
   \<and> (shows_last edit_image_controls \<and> fillable edit_image_controls (\<lambda>s. (ei_error s, ei_saving s)))
   \<and> (shows_last edit_template_controls \<and> fillable edit_template_controls (\<lambda>s. (ei_error s, ei_saving s)))
   \<and> (shows_last hook_add_controls
        \<and> fillable hook_add_controls (\<lambda>f. (hf_all f, hf_active f, hf_submitting f, hf_error f)))
   \<and> (shows_last hook_edit_controls \<and> fillable hook_edit_controls (\<lambda>f. (hf_submitting f, hf_error f)))"
  by (intro conjI edit_vm_dialog.faithful clone_dialog.faithful export_dialog.faithful edit_snap_dialog.faithful
      edit_port_dialog.faithful snap_form_dialog.faithful port_form_dialog.faithful upload_dialog.faithful
      edit_image_dialog.faithful edit_template_dialog.faithful hook_add_dialog.faithful hook_edit_dialog.faithful)

text \<open>
  The dialog that creates a template: opening it starts afresh, each control sets its own property and no
  other, and while no images are listed the path of the image is typed in.
\<close>

lemma create_template_fields:
  "map (control_field \<circ> snd) (create_template_controls images) = jkeys empty_template_form"
  by (simp add: create_template_controls_def empty_template_form_def jkeys_def)

lemma template_field_set:
  assumes "is_obj form" "c = TextField k \<or> c = ChoiceField k opts" "c = ChoiceField k opts \<longrightarrow> t \<in> set (map fst opts)"
  shows "jget (use_template_field c (Typed t) form) k' = (if k' = k then Str t else jget form k')"
proof -
  have "use_template_field c (Typed t) form = jset k (Str t) form"
    using assms(2,3) by (elim disjE) (simp_all only: use_template_field_def template_update_def prod.case form_control.case
        entry.case simp_thms if_True)
  then show ?thesis using get_set_obj[OF assms(1)] by simp
qed

lemma create_template_fresh:
  "create_template_open False True s = (empty_template_form, [])" "create_template_open True True s = s"
  by (simp_all add: create_template_open_def)

text \<open>A secret of blanks passes the form and goes out as the empty one.\<close>

lemma blank_secret_passes:
  assumes "valid_url ''http://h''"
  shows "hook_add_passes valid_url (hook_form_empty\<lparr>hf_url := ''http://h'', hf_secret := ''  ''\<rparr>)"
    "jget (hook_create_body (hook_form_empty\<lparr>hf_url := ''http://h'', hf_secret := ''  ''\<rparr>)) ''secret'' = Str []"
  using assms by (simp_all add: hook_add_passes_def hook_create_body_def hook_form_empty_def js_trim_def trim_start_def
      is_ws_def Let_def)

text \<open>Types typed before everything was subscribed to are kept beside, and not sent.\<close>

lemma subscribe_all_hides_types:
  "hf_all f \<Longrightarrow> ''edit-webhook-event-types-input'' \<notin> set (map fst (hook_edit_shown f))"
  "hf_all f \<Longrightarrow> hook_spec_types wh (f\<lparr>hf_types := t\<rparr>) spec = hook_spec_types wh f spec"
  by (auto simp: hook_edit_shown_def hook_spec_types_def)

end
