(* ===== verification/Frames.thy ===== *)
theory Frames imports PolledPages Normalize CreateVM begin

text \<open>
  The frames of the list pages, between the filters and the rows: headings, the bar that ticks and deletes,
  the outcome of a bulk deletion, what stands in place of the rows, the columns, the check box of a row and
  the pager. From \<open>VMList.jsx\<close>, \<open>ImageList.jsx\<close>, \<open>TemplateList.jsx\<close>, \<open>Schedules.jsx\<close> and \<open>Settings.jsx\<close> in
  \<open>web/src/pages\<close>; every page has its own copy of this code.
\<close>

subsection \<open>What a frame shows\<close>

text \<open>The heading of a page: title, line below it, and the label and \<open>data-testid\<close> of its button.\<close>

type_synonym heading = "string \<times> string \<times> string \<times> string"

text \<open>
  The bar above the rows: whether everything is ticked, whether part of it is, the label of the check box,
  whether the deletion is disabled. What a bulk deletion did, and how many failed if any.
\<close>

type_synonym tick_bar = "bool \<times> bool \<times> string \<times> bool"

definition listing :: "js list \<Rightarrow> fpage \<Rightarrow> js \<Rightarrow> nat list \<Rightarrow> pager" where
  "listing rows s n options =
     pagination (fp_page s) (fp_per_page s) (case n of Num (Fin r) \<Rightarrow> Some (nat \<lfloor>r\<rfloor>) | _ \<Rightarrow> None) options"

definition row_ids :: "js list \<Rightarrow> string list" where
  "row_ids rows = map (\<lambda>r. to_str (jget r ''id'')) rows"

definition failures_of :: "js \<Rightarrow> js list" where
  "failures_of result = filter (\<lambda>x. \<not> truthy (jget x ''success'')) (elems (jget result ''results''))"

definition results_of :: "js \<Rightarrow> js list" where
  "results_of result = elems (js_or (jget result ''results'') (Arr []))"

definition outcome_line :: "js \<Rightarrow> string \<times> string option" where
  "outcome_line result =
     (nat_str (length (filter (\<lambda>x. truthy (jget x ''success'')) (results_of result))) @ '' of ''
        @ nat_str (length (results_of result)) @ '' succeeded'',
      (if failures_of result \<noteq> [] then Some ('' '' @ mid_dot @ '' '' @ nat_str (length (failures_of result)) @ '' failed'')
       else None))"

subsection \<open>Images\<close>

definition image_heading :: "js \<Rightarrow> heading" where
  "image_heading n =
     (''Images'', to_str n @ '' portable VM disk image'' @ (if n = JNat 1 then [] else ''s''), ''Upload Image'', [])"

text \<open>\<open>imageList\<close> falls back to an empty array, so that it is never falsy.\<close>

definition image_card :: "bool \<Rightarrow> js \<Rightarrow> fpage \<Rightarrow> nat list \<Rightarrow> list_view" where
  "image_card loading response s options =
     (let l = js_or (jget response ''data'') (Arr []) in
      if loading \<and> \<not> truthy l then ListSpinner
      else if elems l = [] then ListEmpty
      else ListRows (elems l) (listing (elems l) s (total_rows response (elems l)) options))"

definition image_bar :: "js list \<Rightarrow> bool \<Rightarrow> rows \<Rightarrow> tick_bar" where
  "image_bar images busy st =
     (let n = length (rw_selected st) in
      (set_all_selected (row_ids images) (rw_selected st), set_some_selected (row_ids images) (rw_selected st),
       (if 0 < n then nat_str n @ '' selected'' else ''Select all''), n = 0 \<or> busy))"

definition image_outcome :: "rows \<Rightarrow> (string \<times> string option) option" where
  "image_outcome st = map_option outcome_line (rw_result st)"

definition dismiss_outcome :: "rows \<Rightarrow> rows" where
  "dismiss_outcome st = st\<lparr>rw_result := None\<rparr>"

definition image_columns :: "string list" where
  "image_columns = [[], ''Name'', ''Tags'', ''Format'', ''Size'', ''Created'', ''Actions'']"

definition image_tick :: "rows \<Rightarrow> js \<Rightarrow> string \<times> bool" where
  "image_tick st img = (''image-checkbox-'' @ to_str (jget img ''name''), to_str (jget img ''id'') \<in> set (rw_selected st))"

subsection \<open>Templates\<close>

definition template_heading :: "js \<Rightarrow> heading" where
  "template_heading n =
     (''Templates'', to_str n @ '' reusable VM template'' @ (if n = JNat 1 then [] else ''s''), ''New Template'', ''btn-new-template'')"

definition template_card :: "bool \<Rightarrow> js \<Rightarrow> fpage \<Rightarrow> nat list \<Rightarrow> list_view" where
  "template_card loading response s options =
     (let ts = response_rows response in
      if loading \<and> ts = [] then ListSpinner
      else if ts = [] then ListEmpty
      else ListRows ts (listing ts s (total_rows response ts) options))"

definition template_bar :: "js list \<Rightarrow> bool \<Rightarrow> rows \<Rightarrow> tick_bar" where
  "template_bar ts busy st =
     (let n = length (rw_selected st) in
      (set_all_selected (row_ids ts) (rw_selected st), set_some_selected (row_ids ts) (rw_selected st),
       (if 0 < n then nat_str n @ '' selected'' else ''Select all''), n = 0 \<or> busy))"

definition template_outcome :: "rows \<Rightarrow> (string \<times> string option) option" where
  "template_outcome st = map_option outcome_line (rw_result st)"

definition template_columns :: "string list" where
  "template_columns = [[], ''Name'', ''Image'', ''Resources'', ''Tags'', ''Created'', ''Actions'']"

definition template_tick :: "rows \<Rightarrow> js \<Rightarrow> string \<times> bool" where
  "template_tick st t = (''template-checkbox-'' @ to_str (jget t ''name''), to_str (jget t ''id'') \<in> set (rw_selected st))"

text \<open>The date (\<open>toLocaleDateString\<close> is the parameter) and the two buttons of a row.\<close>

definition template_created :: "(js \<Rightarrow> string) \<Rightarrow> js \<Rightarrow> string" where
  "template_created locale_date t = (if truthy (jget t ''created_at'') then locale_date (jget t ''created_at'') else em_dash)"

definition template_buttons :: "js \<Rightarrow> bool \<Rightarrow> bool \<Rightarrow> (string \<times> js effect list) list" where
  "template_buttons t yes ok =
     [(''btn-edit-template-'' @ to_str (jget t ''name''), [Callback ''setEditing'' [t]]),
      (''btn-delete-template-'' @ to_str (jget t ''name''), delete_template t yes ok)]"

subsection \<open>Webhooks\<close>

definition webhook_heading :: heading where
  "webhook_heading =
     (''Settings'', ''Webhooks, integrations, and daemon-wide preferences'', ''Add webhook'', ''add-webhook-btn'')"

definition webhook_outcome :: "rows \<Rightarrow> (string \<times> string option) option" where
  "webhook_outcome st = map_option outcome_line (rw_result st)"

definition webhook_columns :: "string list" where
  "webhook_columns = [[], ''URL'', ''Event filters'', ''Last delivery'', ''Last status'', ''Actions'']"

definition webhook_tick :: "rows \<Rightarrow> js \<Rightarrow> string \<times> bool" where
  "webhook_tick st wh = (''webhook-checkbox-'' @ to_str (jget wh ''id''), to_str (jget wh ''id'') \<in> set (rw_selected st))"

text \<open>The buttons of a row: label, whether disabled, effects; testing another row leaves this one enabled.\<close>

definition webhook_buttons :: "string option \<Rightarrow> js \<Rightarrow> bool \<Rightarrow> bool \<Rightarrow> (string \<times> bool \<times> js effect list) list" where
  "webhook_buttons testing wh yes ok =
     (let i = to_str (jget wh ''id''); busy = (testing = Some i) in
      [(if busy then ''Sending'' @ ellipsis else ''Test'', busy, [Callback ''handleTest'' [Str i]]),
       (''Edit webhook'', False, [Callback ''setEditing'' [wh]]),
       (''Delete webhook'', False, delete_webhook wh yes ok)])"

definition webhook_pager :: "js list \<Rightarrow> js \<Rightarrow> fpage \<Rightarrow> nat list \<Rightarrow> pager option" where
  "webhook_pager hooks n s options = (if hooks \<noteq> [] then Some (listing hooks s n options) else None)"

subsection \<open>Machines\<close>

definition machine_heading :: "string \<Rightarrow> js \<Rightarrow> heading \<times> string \<times> string \<times> string \<times> string" where
  "machine_heading live n =
     ((''Machines'', to_str n @ '' total'', ''New Machine'', ''btn-new-vm''), live_indicator live)"

text \<open>The outcome of the last bulk action, until it is dismissed.\<close>

definition machine_outcome :: "(string \<times> string) option \<Rightarrow> (string \<times> string \<times> string) option" where
  "machine_outcome bulk = (case bulk of None \<Rightarrow> None | Some (message, variant) \<Rightarrow> status_banner message variant)"

text \<open>The normalised list is an array, empty at first, and therefore never falsy.\<close>

definition machine_card :: "bool \<Rightarrow> js \<Rightarrow> fpage \<Rightarrow> nat list \<Rightarrow> list_view" where
  "machine_card loading response s options =
     (let vs = normalize_vm_list response in
      if loading \<and> \<not> truthy (Arr vs) then ListSpinner
      else if vs = [] then ListEmpty
      else ListRows vs (listing vs s (vm_total response) options))"

text \<open>The empty card: title, description and the button that opens the create dialog, whatever the filters.\<close>

definition machine_empty :: "fpage \<Rightarrow> string \<times> string \<times> string" where
  "machine_empty s = (''No machines'', ''Deploy your first virtual machine.'', ''Create'')"

text \<open>The bar for bulk actions: shown with the list; counts by state; busy and error over its eight mutations.\<close>

definition machine_bar :: "js list \<Rightarrow> js list \<Rightarrow> (bool \<times> string \<times> string list) option" where
  "machine_bar visible ticked =
     (let n = (\<lambda>st. length (filter (\<lambda>v. vm_state v = st) ticked)) in
      if visible = [] then None
      else Some (ticked \<noteq> [] \<and> length ticked = length visible, bulk_label ticked (length visible),
                 (if ticked = [] then [''Select machines to run bulk actions.'']
                  else [nat_str (n st) @ '' '' @ st. st \<leftarrow> [''running'', ''stopped'', ''paused''], 0 < n st])))"

definition bar_busy :: "mutation list \<Rightarrow> bool" where
  "bar_busy ms \<longleftrightarrow> (\<exists>m\<in>set ms. mu_loading m)"

definition bar_error :: "mutation list \<Rightarrow> string option" where
  "bar_error ms =
     (case filter (\<lambda>m. mu_error m \<notin> {None, Some []}) ms of [] \<Rightarrow> None
      | m # _ \<Rightarrow> map_option (\<lambda>e. ''Bulk action error: '' @ e) (mu_error m))"

text \<open>
  A click in a row: on the check box or in the quick actions it stays there, anywhere else it opens the
  machine.
\<close>

datatype row_click = OnCheckBox | OnQuickAction string | OnCard

definition machine_click :: "row_click \<Rightarrow> bool \<Rightarrow> bool \<Rightarrow> js \<Rightarrow> js effect list" where
  "machine_click where_to yes ok v =
     (case where_to of
        OnCheckBox \<Rightarrow> [Callback ''onToggleSelected'' [Str (vm_id v)]]
      | OnQuickAction a \<Rightarrow> vm_row_action a yes ok v
      | OnCard \<Rightarrow> [Callback ''navigate'' [Str (''/vms/'' @ vm_id v)]])"

definition machine_tick :: "string list \<Rightarrow> js \<Rightarrow> string \<times> bool" where
  "machine_tick ids v = (''checkbox-select-vm-'' @ vm_name v, vm_id v \<in> set ids)"

definition machine_pager :: "js \<Rightarrow> fpage \<Rightarrow> nat list \<Rightarrow> pager option" where
  "machine_pager response s options =
     (let vs = normalize_vm_list response in
      if vs \<noteq> [] then Some (listing vs s (vm_total response) options) else None)"

text \<open>The dialog with the one-time password: whose it is, the password, the label of the copy button.\<close>

definition password_view :: "bool \<Rightarrow> js \<Rightarrow> (string \<times> string \<times> string) option" where
  "password_view copied info =
     map_option (\<lambda>(who, pw). (who, pw, if copied then ''Copied'' else ''Copy'')) (password_modal info)"

subsection \<open>Schedules\<close>

definition schedule_heading :: heading where
  "schedule_heading =
     (''Schedules'', ''Recurring VM operations '' @ em_dash @ '' snapshots and VM lifecycle actions'', ''Add schedule'', ''add-schedule-btn'')"

definition schedule_columns :: "string list" where
  "schedule_columns = [[], ''Name'', ''Action'', ''Target'', ''Enabled'', ''Cron'', ''Next fire'', ''Last result'', ''Actions'']"

text \<open>The disclosure of a row and its buttons, with whether they are disabled.\<close>

definition schedule_toggle :: "bool \<Rightarrow> string" where
  "schedule_toggle expanded = (if expanded then ''Hide recent runs'' else ''Show recent runs'')"

definition schedule_buttons :: "bool \<Rightarrow> js \<Rightarrow> (string \<times> bool) list" where
  "schedule_buttons running_now schedule =
     (let i = to_str (jget schedule ''id'') in
      [(''schedule-runnow-'' @ i, running_now), (''schedule-edit-'' @ i, False), (''schedule-delete-'' @ i, False)])"

text \<open>The footer of the form: the error, and label and availability of the button that saves.\<close>

definition schedule_form_footer :: "bool \<Rightarrow> sched_form \<Rightarrow> string option \<times> string \<times> bool" where
  "schedule_form_footer creating f =
     ((case sf_error f of Some [] \<Rightarrow> None | e \<Rightarrow> e),
      (if sf_submitting f then ''Saving'' @ ellipsis else if creating then ''Create schedule'' else ''Save changes''),
      \<not> sf_submitting f)"

definition schedule_dialog_title :: "js option \<Rightarrow> string" where
  "schedule_dialog_title edited =
     (case edited of None \<Rightarrow> ''Add schedule'' | Some s \<Rightarrow> ''Edit schedule ('' @ to_str (jget s ''id'') @ '')'')"

subsection \<open>Facts\<close>

text \<open>
  In the bars of images, templates and webhooks the box is checked exactly when all rows are ticked and
  partial exactly when some are, never both, and the deletion is enabled exactly when a click sends a request.
\<close>

lemma bars_agree:
  assumes "bar \<in> {image_bar rows False st, template_bar rows False st, webhook_header rows False st}"
  shows "bar = (set_all_selected (row_ids rows) (rw_selected st),
                rw_selected st \<noteq> [] \<and> \<not> set_all_selected (row_ids rows) (rw_selected st),
                (if rw_selected st = [] then ''Select all'' else nat_str (length (rw_selected st)) @ '' selected''),
                fst (bulk_delete api None True answer st) = [])"
  using assms by (auto simp: image_bar_def template_bar_def webhook_header_def webhook_ids_def row_ids_def Let_def
      set_some_selected_def bulk_delete_def split: option.splits)

text \<open>Every card shows the rows of the answer, all of them, and something else only when there are none.\<close>

definition card_rows :: "list_view \<Rightarrow> js list" where
  "card_rows c = (case c of ListRows rs pg \<Rightarrow> rs | _ \<Rightarrow> [])"

lemma cards_complete:
  "card_rows (image_card loading response s options) = response_rows response"
  "card_rows (template_card loading response s options) = response_rows response"
  "card_rows (machine_card loading response s options) = normalize_vm_list response"
  by (auto simp: card_rows_def image_card_def template_card_def machine_card_def response_rows_def js_or_def Let_def)

text \<open>
  The pages of images and of machines never show that they are loading: before the first answer they say
  that there is nothing. The list of machines says so, and offers to create the first one, whatever the
  filters.
\<close>

lemma image_loading_says_none:
  "image_card loading response s options \<noteq> ListSpinner" "image_card True Null s options = ListEmpty"
  by (auto simp: image_card_def js_or_def Let_def)

lemma machine_loading_says_none:
  "machine_card loading response s options \<noteq> ListSpinner" "machine_card True Null s options = ListEmpty"
  "machine_empty s = machine_empty t"
  by (auto simp: machine_card_def Let_def normalize_vm_list_def list_data_def safe_array_def machine_empty_def)

text \<open>An empty result of a filter by guest OS is reported as no templates at all.\<close>

lemma template_os_filter_says_none:
  assumes "\<forall>k. k \<noteq> ''os_type'' \<longrightarrow> fp_value s k = []" "toiso [] = []"
  shows "template_empty_action toiso s" "template_empty_text toiso s = ''Create a template to save reusable VM defaults.''"
  using assms by (simp_all add: template_empty_action_def template_empty_text_def Let_def)

text \<open>Nothing in a row tells that its action failed.\<close>

lemma row_failure_silent:
  "set (machine_click (OnQuickAction ''start'') yes False v) = {Callback ''setActionMenu'' [Null], Api ''start'' [Str (vm_id v)]}"
  by (auto simp: machine_click_def vm_row_action_def Let_def)

end
