(* ===== verification/RenderLoop.thy ===== *)
theory RenderLoop imports Selection begin

text \<open>
  Renders that follow from renders. A list page drops the ticks of rows that are gone in an effect, which
  runs when the identity of the list changes and may set the state, which renders again. Arrays have
  identities here, numbered as they are allocated: \<open>ImageList.jsx\<close> and \<open>VMList.jsx\<close> in \<open>web/src/pages\<close>
  differ in when they allocate.
\<close>

subsection \<open>A render and its effect\<close>

text \<open>The ticked ids and the identity of their array, the list that the effect last ran for, the next identity.\<close>

record pass =
  ps_ids :: "string list"
  ps_ids_ref :: nat
  ps_dep :: "nat option"
  ps_next :: nat

definition fresh_refs :: "pass \<Rightarrow> bool" where
  "fresh_refs s \<longleftrightarrow> ps_ids_ref s < ps_next s \<and> (case ps_dep s of None \<Rightarrow> True | Some d \<Rightarrow> d < ps_next s)"

text \<open>
  A render of the image page: whether it schedules another, and the state after it. \<open>answer\<close> is the array
  of the answer (identity and ids); without one every render makes an empty array. The effect sets the
  state only when it drops something.
\<close>

definition image_pass :: "(nat \<times> string list) option \<Rightarrow> pass \<Rightarrow> bool \<times> pass" where
  "image_pass answer s =
     (let (v, rows, n) = (case answer of Some (r, ids) \<Rightarrow> (r, ids, ps_next s) | None \<Rightarrow> (ps_next s, [], Suc (ps_next s))) in
      if ps_dep s = Some v then (False, s\<lparr>ps_next := n\<rparr>)
      else if rows = [] then
        (if ps_ids s \<noteq> [] then (True, s\<lparr>ps_ids := [], ps_ids_ref := n, ps_dep := Some v, ps_next := Suc n\<rparr>)
         else (False, s\<lparr>ps_dep := Some v, ps_next := n\<rparr>))
      else if \<exists>i\<in>set (ps_ids s). i \<notin> set rows then
        (True, s\<lparr>ps_ids := filter (\<lambda>i. i \<in> set rows) (ps_ids s), ps_ids_ref := n, ps_dep := Some v, ps_next := Suc n\<rparr>)
      else (False, s\<lparr>ps_dep := Some v, ps_next := n\<rparr>))"

text \<open>
  A render of the machine page: \<open>normalizeVMList\<close> makes a new array for the list, whatever the answer, and
  the effect a new array for the ids, which it always sets; the state is another one unless it is the same
  array.
\<close>

definition machine_pass :: "string list \<Rightarrow> pass \<Rightarrow> bool \<times> pass" where
  "machine_pass rows s =
     (let v = ps_next s; r = Suc v in
      if ps_dep s = Some v then (False, s\<lparr>ps_next := r\<rparr>)
      else (r \<noteq> ps_ids_ref s,
            s\<lparr>ps_ids := arr_prune rows (ps_ids s), ps_ids_ref := r, ps_dep := Some v, ps_next := Suc r\<rparr>))"

text \<open>Rendering until nothing is scheduled; a page that never comes to rest has no result.\<close>

partial_function (option) come_to_rest :: "(pass \<Rightarrow> bool \<times> pass) \<Rightarrow> pass \<Rightarrow> pass option" where
  "come_to_rest render s = (let (again, t) = render s in if again then come_to_rest render t else Some t)"

subsection \<open>Facts\<close>

text \<open>
  C39 The image page comes to rest: whatever was answered and ticked, finitely many renders lead to one that
  schedules no other; when the answer is a new one, the ticks left are exactly those of its rows, in their
  order.
\<close>

theorem image_page_rests:
  assumes "fresh_refs s"
  shows "\<exists>t. come_to_rest (image_pass answer) s = Some t
     \<and> (ps_dep s \<noteq> map_option fst answer \<or> answer = None \<longrightarrow>
          ps_ids t = set_prune (case answer of None \<Rightarrow> [] | Some (r, rows) \<Rightarrow> rows) (ps_ids s))"
proof (cases answer)
  case None
  then show ?thesis using assms
    by (auto simp: come_to_rest.simps image_pass_def fresh_refs_def set_prune_def split: option.splits)
next
  case (Some a)
  obtain r rows where "a = (r, rows)" by (cases a)
  then show ?thesis using Some
    by (auto simp: come_to_rest.simps image_pass_def set_prune_def filter_id_conv)
qed

theorem image_page_rests_witness:
  "\<exists>t. come_to_rest (image_pass (Some (1, [''a'', ''b''])))
         \<lparr>ps_ids = [''b'', ''c''], ps_ids_ref = 0, ps_dep = None, ps_next = 2\<rparr> = Some t \<and> ps_ids t = [''b'']"
  using image_page_rests[of "\<lparr>ps_ids = [''b'', ''c''], ps_ids_ref = 0, ps_dep = None, ps_next = 2\<rparr>" "Some (1, [''a'', ''b''])"]
  by (simp add: fresh_refs_def set_prune_def)

lemma machine_pass_again:
  assumes "fresh_refs s" shows "fst (machine_pass rows s) \<and> fresh_refs (snd (machine_pass rows s))"
  using assms by (auto simp: machine_pass_def fresh_refs_def Let_def split: option.splits)

lemma rest_ends:
  assumes "come_to_rest render s = Some t" "\<And>u. P u \<Longrightarrow> fst (render u) \<and> P (snd (render u))"
  shows "\<not> P s"
proof -
  let ?Q = "\<lambda>render s. (\<forall>u. P u \<longrightarrow> fst (render u) \<and> P (snd (render u))) \<longrightarrow> \<not> P s"
  have "?Q render s"
  proof (rule come_to_rest.raw_induct[OF _ assms(1), where P = "\<lambda>render s _. ?Q render s"])
    fix come render s t
    assume "\<And>render s y. come render s = Some y \<Longrightarrow> ?Q render s"
      and "(let (again, t) = render s in if again then come render t else Some t) = Some (t::pass)"
    then show "?Q render s" by (cases "render s") (fastforce split: if_splits)
  qed
  then show ?thesis using assms(2) by blast
qed

text \<open>The machine page never comes to rest, whatever is listed and ticked: each render leads to another.\<close>

lemma machine_page_restless:
  assumes "fresh_refs s" shows "come_to_rest (machine_pass rows) s = None"
  using rest_ends[of "machine_pass rows" s _ fresh_refs] machine_pass_again assms
  by (cases "come_to_rest (machine_pass rows) s") auto

end
