(* ===== verification/ChartLife.thy ===== *)
theory ChartLife imports DetailMetrics begin

text \<open>
  Components that own something outside React: \<open>MetricChart\<close> (\<open>web/src/components/MetricChart.jsx\<close>), which
  keeps a plot of uPlot in step with its properties, and \<open>OperationProgress\<close> (\<open>Shared.jsx\<close>), which keeps a
  timer. A plot is what the constructor was given, changed by \<open>setData\<close> and \<open>setSize\<close> and gone after
  \<open>destroy\<close>.
\<close>

subsection \<open>The plot of a chart\<close>

record chart_series =
  cs_label :: string
  cs_color :: "string option"
  cs_fill :: "string option"
  cs_format :: string

record chart_props =
  cp_title :: string
  cp_series :: "chart_series list"
  cp_data :: "js list list"
  cp_height :: nat

record plot =
  pl_id :: nat
  pl_width :: nat
  pl_height :: nat
  pl_lines :: "(string \<times> string \<times> string) list"
  pl_format :: string
  pl_data :: "js list list"

definition series_color :: "chart_series \<Rightarrow> string" where
  "series_color s = (case cs_color s of Some c \<Rightarrow> if c = [] then ''#38bdf8'' else c | None \<Rightarrow> ''#38bdf8'')"

definition plot_line :: "chart_series \<Rightarrow> string \<times> string \<times> string" where
  "plot_line s =
     (cs_label s, series_color s, (case cs_fill s of Some f \<Rightarrow> f | None \<Rightarrow> series_color s @ ''22''))"

text \<open>The options of a new plot; \<open>w\<close> is the width of the container.\<close>

definition new_plot :: "nat \<Rightarrow> nat \<Rightarrow> chart_props \<Rightarrow> plot" where
  "new_plot i w p =
     \<lparr>pl_id = i, pl_width = (if w = 0 then 320 else w), pl_height = cp_height p, pl_lines = map plot_line (cp_series p),
      pl_format = (case cp_series p of [] \<Rightarrow> [] | s # _ \<Rightarrow> cs_format s), pl_data = cp_data p\<rparr>"

text \<open>The plots alive, the reference to one, the next name, and what the first effect last ran for.\<close>

record chart =
  ct_live :: "plot list"
  ct_ref :: "nat option"
  ct_next :: nat
  ct_deps :: "(bool \<times> nat \<times> nat \<times> string) option"

definition chart_init :: chart where
  "chart_init = \<lparr>ct_live = [], ct_ref = None, ct_next = 0, ct_deps = None\<rparr>"

definition chart_deps :: "chart_props \<Rightarrow> bool \<times> nat \<times> nat \<times> string" where
  "chart_deps p = (chart_has_data (cp_data p), cp_height p, length (cp_series p), cp_title p)"

text \<open>The cleanup of the effect that made plot \<open>i\<close>: it destroys that plot and clears the reference.\<close>

definition chart_cleanup :: "chart \<Rightarrow> chart" where
  "chart_cleanup s =
     (case ct_ref s of None \<Rightarrow> s | Some i \<Rightarrow> s\<lparr>ct_live := filter (\<lambda>q. pl_id q \<noteq> i) (ct_live s), ct_ref := None\<rparr>)"

definition chart_create :: "nat \<Rightarrow> chart_props \<Rightarrow> chart \<Rightarrow> chart" where
  "chart_create w p s =
     (if \<not> chart_has_data (cp_data p) then s
      else s\<lparr>ct_live := ct_live s @ [new_plot (ct_next s) w p], ct_ref := Some (ct_next s), ct_next := Suc (ct_next s)\<rparr>)"

definition on_plot :: "(plot \<Rightarrow> plot) \<Rightarrow> chart \<Rightarrow> chart" where
  "on_plot f s =
     (case ct_ref s of None \<Rightarrow> s
      | Some i \<Rightarrow> s\<lparr>ct_live := map (\<lambda>q. if pl_id q = i then f q else q) (ct_live s)\<rparr>)"

definition chart_set_data :: "chart_props \<Rightarrow> chart \<Rightarrow> chart" where
  "chart_set_data p s = (if chart_has_data (cp_data p) then on_plot (\<lambda>q. q\<lparr>pl_data := cp_data p\<rparr>) s else s)"

text \<open>A render and its two effects.\<close>

definition chart_render :: "nat \<Rightarrow> chart_props \<Rightarrow> chart \<Rightarrow> chart" where
  "chart_render w p s =
     chart_set_data p
       (if ct_deps s = Some (chart_deps p) then s
        else (chart_create w p (chart_cleanup s))\<lparr>ct_deps := Some (chart_deps p)\<rparr>)"

text \<open>The observer of the container: a width that is not zero resizes the plot.\<close>

definition chart_resize :: "nat \<Rightarrow> nat \<Rightarrow> chart \<Rightarrow> chart" where
  "chart_resize w h s = (if 0 < w then on_plot (\<lambda>q. q\<lparr>pl_width := w, pl_height := h\<rparr>) s else s)"

definition chart_unmount :: "chart \<Rightarrow> chart" where
  "chart_unmount s = (chart_cleanup s)\<lparr>ct_deps := None\<rparr>"

text \<open>
  Everything that can happen to a chart, with the properties it was last rendered with; the observer has
  the height of the render that made the plot.
\<close>

inductive chart_reach :: "chart_props option \<Rightarrow> chart \<Rightarrow> bool" where
  start: "chart_reach None chart_init"
| render: "chart_reach p s \<Longrightarrow> chart_reach (Some q) (chart_render w q s)"
| resize: "chart_reach (Some p) s \<Longrightarrow> chart_reach (Some p) (chart_resize w (cp_height p) s)"
| unmount: "chart_reach (Some p) s \<Longrightarrow> chart_reach None (chart_unmount s)"

text \<open>The legend and the text in place of a plot.\<close>

definition chart_legend :: "chart_props \<Rightarrow> (string \<times> string) list" where
  "chart_legend p = map (\<lambda>s. (cs_label s, series_color s)) (cp_series p)"

definition chart_placeholder :: "string \<Rightarrow> chart_props \<Rightarrow> string option" where
  "chart_placeholder text p = (if chart_has_data (cp_data p) then None else Some text)"

subsection \<open>The timer of a progress bar\<close>

text \<open>Whether the bar is active, the seconds shown, and when the timer that runs (if any) was started.\<close>

record op_timer =
  ot_active :: bool
  ot_elapsed :: int
  ot_started :: "rat option"

definition op_timer_init :: op_timer where
  "op_timer_init = \<lparr>ot_active = False, ot_elapsed = 0, ot_started = None\<rparr>"

text \<open>A render at a time in milliseconds: the effect runs when \<open>active\<close> changes.\<close>

definition op_timer_render :: "bool \<Rightarrow> rat \<Rightarrow> op_timer \<Rightarrow> op_timer" where
  "op_timer_render active now s =
     (if active = ot_active s then s
      else if active then \<lparr>ot_active = True, ot_elapsed = 0, ot_started = Some now\<rparr>
      else s\<lparr>ot_active := False, ot_started := None\<rparr>)"

definition op_timer_tick :: "rat \<Rightarrow> op_timer \<Rightarrow> op_timer" where
  "op_timer_tick now s =
     (case ot_started s of None \<Rightarrow> s | Some t \<Rightarrow> s\<lparr>ot_elapsed := math_round ((now - t) / 1000)\<rparr>)"

definition op_timer_text :: "string \<Rightarrow> op_timer \<Rightarrow> (string \<times> string) option" where
  "op_timer_text label s = (if ot_active s then Some (label, int_str (ot_elapsed s) @ ''s elapsed'') else None)"

subsection \<open>Facts\<close>

definition chart_ok :: "chart_props option \<Rightarrow> chart \<Rightarrow> bool" where
  "chart_ok p s \<longleftrightarrow>
     (case p of
        None \<Rightarrow> ct_live s = [] \<and> ct_ref s = None \<and> ct_deps s = None
      | Some p \<Rightarrow> ct_deps s = Some (chart_deps p)
          \<and> (if chart_has_data (cp_data p)
             then (\<exists>q. ct_live s = [q] \<and> ct_ref s = Some (pl_id q) \<and> pl_data q = cp_data p \<and> pl_height q = cp_height p
                       \<and> length (pl_lines q) = length (cp_series p))
             else ct_live s = [] \<and> ct_ref s = None))"

lemma chart_ok_cleanup: "chart_ok p s \<Longrightarrow> ct_live (chart_cleanup s) = [] \<and> ct_ref (chart_cleanup s) = None"
  by (auto simp: chart_ok_def chart_cleanup_def split: option.splits if_splits)

lemma chart_ok_render:
  assumes "chart_ok p s" shows "chart_ok (Some q) (chart_render w q s)"
proof (cases "ct_deps s = Some (chart_deps q)")
  case True
  then obtain p' where "p = Some p'" "chart_deps p' = chart_deps q" using assms by (cases p) (auto simp: chart_ok_def)
  then show ?thesis using assms True
    by (auto simp: chart_ok_def chart_render_def chart_set_data_def on_plot_def chart_deps_def split: if_splits)
next
  case False
  then show ?thesis using chart_ok_cleanup[OF assms]
    by (simp add: chart_ok_def chart_render_def chart_set_data_def on_plot_def chart_create_def new_plot_def)
qed

lemma chart_ok_resize: "chart_ok (Some p) s \<Longrightarrow> chart_ok (Some p) (chart_resize w (cp_height p) s)"
  by (auto simp: chart_ok_def chart_resize_def on_plot_def split: if_splits)

lemma chart_ok_unmount: "chart_ok p s \<Longrightarrow> chart_ok None (chart_unmount s)"
  using chart_ok_cleanup by (simp add: chart_ok_def chart_unmount_def)

lemma chart_invariant: "chart_reach p s \<Longrightarrow> chart_ok p s"
proof (induction rule: chart_reach.induct)
  case start
  then show ?case by (simp add: chart_ok_def chart_init_def)
qed (simp_all add: chart_ok_render chart_ok_resize chart_ok_unmount)

text \<open>
  C37 A chart shows the data it was last given and leaks nothing: in every reachable state at most one plot is
  alive; while the chart is mounted with data there is exactly one, with the data and the height of the last
  render and a line for each series, and without data, or once unmounted, there is none.
\<close>

theorem chart_shows_latest:
  assumes "chart_reach p s"
  shows "case p of
       Some p \<Rightarrow> (if chart_has_data (cp_data p)
          then \<exists>q. ct_live s = [q] \<and> pl_data q = cp_data p \<and> pl_height q = cp_height p \<and> length (pl_lines q) = length (cp_series p)
          else ct_live s = [])
     | None \<Rightarrow> ct_live s = []"
  using chart_invariant[OF assms] by (auto simp: chart_ok_def split: option.splits if_splits)

theorem chart_shows_latest_witness:
  "ct_live (chart_unmount (chart_render 0 \<lparr>cp_title = ''CPU'', cp_series = [], cp_data = [[JNat 1, JNat 2]], cp_height = 140\<rparr> chart_init)) = []"
  using chart_shows_latest[OF unmount[OF render[OF start]], of 0 "\<lparr>cp_title = ''CPU'', cp_series = [], cp_data = [[JNat 1, JNat 2]], cp_height = 140\<rparr>"]
  by simp

text \<open>
  The comment says that the plot is made again when the definitions of the series change; it is when their
  number does: other colours, labels or formats of as many series leave the plot as it was.
\<close>

lemma chart_series_stale:
  assumes "ct_deps s = Some (chart_deps p)" "length ss = length (cp_series p)"
  shows "map pl_lines (ct_live (chart_render w (p\<lparr>cp_series := ss\<rparr>) s)) = map pl_lines (ct_live s)"
    "map pl_format (ct_live (chart_render w (p\<lparr>cp_series := ss\<rparr>) s)) = map pl_format (ct_live s)"
  using assms by (auto simp: chart_render_def chart_deps_def chart_set_data_def on_plot_def split: option.splits)

text \<open>The seconds shown are those since the bar became active, starting from zero each time.\<close>

lemma elapsed_since_active:
  assumes "\<not> ot_active s"
  shows "op_timer_text l (op_timer_render True t s) = Some (l, ''0s elapsed'')"
    "op_timer_text l (op_timer_tick now (op_timer_render True t s)) = Some (l, int_str (math_round ((now - t) / 1000)) @ ''s elapsed'')"
    "op_timer_text l (op_timer_render False now (op_timer_render True t s)) = None"
    "op_timer_tick now (op_timer_render False now (op_timer_render True t s)) = op_timer_render False now (op_timer_render True t s)"
  using assms by (simp_all add: op_timer_render_def op_timer_text_def op_timer_tick_def int_str_def nat_str.simps digit_char_def)

end
