(* ===== verification/DetailFrame.thy ===== *)
theory DetailFrame imports DetailView DetailTables begin

text \<open>
  How \<open>web/src/pages/VMDetail.jsx\<close> is put together: the tabs and what each mounts, the dialogs of the page
  and what they call back, the heading buttons, the card of the installer ISO, and the frames of the lists
  of snapshots and of port forwards.
\<close>

subsection \<open>Tabs and dialogs\<close>

datatype panel =
    Overview | Snapshots | Ports | Schedules | Metrics | Timeline

definition detail_tabs :: "(panel \<times> string \<times> string) list" where
  "detail_tabs =
     [(Overview, ''Overview'', ''tab-overview''), (Snapshots, ''Snapshots'', ''tab-snapshots''),
      (Ports, ''Port Forwards'', ''tab-ports''), (Schedules, ''Schedules'', ''tab-schedules''),
      (Metrics, ''Metrics'', ''tab-metrics''), (Timeline, ''Activity'', ''tab-activity'')]"

datatype detail_dialog = EditDialog | CloneDialog | MoveDialog | SnapDialog | PortDialog | ExportDialog

text \<open>
  The state beside the lists and the forms: whether the body of the page is mounted (the machine is there and
  the fetch did not fail, else a spinner or a banner is in its place), the tab and which dialogs are open. A
  component that is not mounted has no state: \<open>dp_rows\<close> are the ticks of the list that is mounted, if one is.
\<close>

record detail_page =
  dp_up :: bool
  dp_tab :: panel
  dp_open :: "detail_dialog \<Rightarrow> bool"
  dp_rows :: "rows option"

definition rows_empty :: rows where
  "rows_empty = \<lparr>rw_selected = [], rw_result = None\<rparr>"

definition mounted_rows :: "panel \<Rightarrow> rows option" where
  "mounted_rows p = (if p = Snapshots \<or> p = Ports then Some rows_empty else None)"

definition detail_page_init :: detail_page where
  "detail_page_init = \<lparr>dp_up = False, dp_tab = Overview, dp_open = (\<lambda>_. False), dp_rows = None\<rparr>"

definition show_tab :: "panel \<Rightarrow> detail_page \<Rightarrow> detail_page" where
  "show_tab p s = (if \<not> dp_up s \<or> p = dp_tab s then s else s\<lparr>dp_tab := p, dp_rows := mounted_rows p\<rparr>)"

definition page_body :: "bool \<Rightarrow> detail_page \<Rightarrow> detail_page" where
  "page_body b s =
     (if b = dp_up s then s else s\<lparr>dp_up := b, dp_rows := (if b then mounted_rows (dp_tab s) else None)\<rparr>)"

definition body_up :: "string option \<Rightarrow> js \<Rightarrow> bool" where
  "body_up err vm \<longleftrightarrow> truthy vm \<and> (case err of None \<Rightarrow> True | Some e \<Rightarrow> e = [])"

definition set_dialog :: "detail_dialog \<Rightarrow> bool \<Rightarrow> detail_page \<Rightarrow> detail_page" where
  "set_dialog d b s = s\<lparr>dp_open := (dp_open s)(d := b)\<rparr>"

definition change_rows :: "(rows \<Rightarrow> rows) \<Rightarrow> detail_page \<Rightarrow> detail_page" where
  "change_rows f s = s\<lparr>dp_rows := map_option f (dp_rows s)\<rparr>"

text \<open>The button that opens each dialog, the tab it is on (\<open>None\<close> is the heading), what a success calls.\<close>

definition dialog_buttons :: "(detail_dialog \<times> string \<times> panel option \<times> string option) list" where
  "dialog_buttons =
     [(EditDialog, ''Edit'', None, Some ''refresh''), (CloneDialog, ''Clone'', None, None),
      (MoveDialog, ''Move disk'', Some Overview, Some ''refresh''),
      (SnapDialog, ''New'', Some Snapshots, Some ''refreshSnaps''),
      (PortDialog, ''Add'', Some Ports, Some ''refreshPorts''),
      (ExportDialog, ''Export as Image'', Some Overview, None)]"

definition dialog_offered :: "detail_page \<Rightarrow> detail_dialog list" where
  "dialog_offered s = map fst (filter (\<lambda>(d, l, p, c). dp_up s \<and> (p = None \<or> p = Some (dp_tab s))) dialog_buttons)"

text \<open>What the page mounts, from top to bottom.\<close>

datatype page_part =
    InfoGrid | DiskCard | IsoCard | RdpHint | NetworkCard | GpuCard | SchedulesCard | SnapshotCard | PortCard
  | ExportButton | TimelineSection | MetricsSection

definition overview_sections :: "js \<Rightarrow> js list \<Rightarrow> page_part list" where
  "overview_sections vm pfs =
     (let spec = normalize_spec (jget vm ''spec'') in
      [InfoGrid, DiskCard] @ (if install_iso spec \<noteq> [] then [IsoCard] else [])
      @ (if rdp_hint spec pfs \<noteq> None then [RdpHint] else [])
      @ (if network_rows spec \<noteq> [] then [NetworkCard] else []) @ (if gpu_rows spec \<noteq> [] then [GpuCard] else []))"

definition page_sections :: "panel \<Rightarrow> js \<Rightarrow> js list \<Rightarrow> page_part list" where
  "page_sections p vm pfs =
     (case p of
        Timeline \<Rightarrow> [TimelineSection]
      | Metrics \<Rightarrow> [MetricsSection]
      | Overview \<Rightarrow> overview_sections vm pfs @ [ExportButton]
      | Schedules \<Rightarrow> [SchedulesCard] | Snapshots \<Rightarrow> [SnapshotCard] | Ports \<Rightarrow> [PortCard])"

subsection \<open>Cards\<close>

text \<open>The installer: path, hint and availability of the button, error.\<close>

definition iso_card :: "js \<Rightarrow> mutation \<Rightarrow> (string \<times> string \<times> bool \<times> string option) option" where
  "iso_card vm m =
     (let iso = install_iso (normalize_spec (jget vm ''spec'')) in
      if iso = [] then None
      else Some (iso,
             (if jget vm ''state'' = Str ''running'' then ''Detach the ISO (restarts the machine)'' else ''Detach the ISO''),
             \<not> mu_loading m,
             (case mu_error m of None \<Rightarrow> None | Some e \<Rightarrow> if e = [] then None else Some (''Error: '' @ e))))"

text \<open>The bar above a list: checked, partial, label, whether the deletion is disabled.\<close>

definition snap_bar :: "js list \<Rightarrow> bool \<Rightarrow> rows \<Rightarrow> bool \<times> bool \<times> string \<times> bool" where
  "snap_bar snaps busy st =
     (set_all_selected (snap_names snaps) (rw_selected st), set_some_selected (snap_names snaps) (rw_selected st),
      tick_label st, rw_selected st = [] \<or> busy)"

definition port_bar :: "js list \<Rightarrow> bool \<Rightarrow> rows \<Rightarrow> bool \<times> bool \<times> string \<times> bool" where
  "port_bar pfs busy st =
     (set_all_selected (port_ids pfs) (rw_selected st), set_some_selected (port_ids pfs) (rw_selected st),
      tick_label st, rw_selected st = [] \<or> busy)"

definition snap_tick :: "rows \<Rightarrow> js \<Rightarrow> string \<times> bool" where
  "snap_tick st snap =
     (''snap-checkbox-'' @ to_str (jget snap ''name''), to_str (jget snap ''name'') \<in> set (rw_selected st))"

definition port_tick :: "rows \<Rightarrow> js \<Rightarrow> string \<times> bool" where
  "port_tick st pf =
     (''port-checkbox-'' @ to_str (jget pf ''id''), to_str (jget pf ''id'') \<in> set (rw_selected st))"

text \<open>The buttons of a row, with whether they are enabled.\<close>

definition snap_buttons :: "snap_ops \<Rightarrow> (string \<times> bool) list" where
  "snap_buttons s = [(''Edit description'', True), (''Restore'', snap_op_enabled s), (''Delete'', snap_op_enabled s)]"

definition snap_outcome :: "rows \<Rightarrow> string option" where
  "snap_outcome st = map_option bulk_delete_line (rw_result st)"

definition port_outcome :: "rows \<Rightarrow> string option" where
  "port_outcome st = map_option bulk_delete_line (rw_result st)"

text \<open>Saving in the dialog of a row closes it and asks for the list again.\<close>

definition row_saved :: "string \<Rightarrow> js option \<times> js effect list" where
  "row_saved refresh = (None, [Callback refresh []])"

subsection \<open>Facts\<close>

definition page_steps :: "(detail_page \<Rightarrow> detail_page) set" where
  "page_steps = {f. (\<exists>p. f = show_tab p) \<or> (\<exists>b. f = page_body b) \<or> (\<exists>d b. f = set_dialog d b) \<or> (\<exists>g. f = change_rows g)}"

inductive page_shown :: "detail_page \<Rightarrow> bool" where
  first: "page_shown detail_page_init"
| step: "page_shown s \<Longrightarrow> f \<in> page_steps \<Longrightarrow> page_shown (f s)"

lemma rows_where_mounted:
  "page_shown s \<Longrightarrow> dp_rows s = None \<longleftrightarrow> \<not> dp_up s \<or> dp_tab s \<notin> {Snapshots, Ports}"
proof (induction rule: page_shown.induct)
  case first
  then show ?case by (simp add: detail_page_init_def)
next
  case (step s f)
  consider p where "f = show_tab p" | b where "f = page_body b" | d b where "f = set_dialog d b" | g where "f = change_rows g"
    using step(2) by (auto simp: page_steps_def)
  then show ?case using step(3)
    by cases (simp_all add: show_tab_def page_body_def set_dialog_def change_rows_def mounted_rows_def split: if_splits)
qed

text \<open>
  Ticks belong to the list that is on screen. In every reachable state of the page there are ticks exactly
  while a tab with a list is mounted; another tab, and the way back, start without ticks, so that a bulk
  deletion never names a row ticked in another list; and changing tabs opens and closes no dialog.
\<close>

theorem tabs_keep_apart:
  assumes "page_shown s"
  shows "(dp_rows s = None \<longleftrightarrow> \<not> dp_up s \<or> dp_tab s \<notin> {Snapshots, Ports})
    \<and> (dp_up s \<and> dp_tab s \<noteq> p \<longrightarrow>
         dp_rows (show_tab p s) = mounted_rows p
         \<and> show_tab (dp_tab s) (show_tab p s) = s\<lparr>dp_rows := mounted_rows (dp_tab s)\<rparr>)
    \<and> dp_open (show_tab p s) = dp_open s"
  using rows_where_mounted[OF assms] by (auto simp: show_tab_def)

theorem tabs_keep_apart_witness:
  "dp_rows (show_tab Ports (change_rows (\<lambda>r. r\<lparr>rw_selected := [''s1'']\<rparr>)
      (show_tab Snapshots (page_body True detail_page_init)))) = Some rows_empty"
proof -
  let ?s = "change_rows (\<lambda>r. r\<lparr>rw_selected := [''s1'']\<rparr>) (show_tab Snapshots (page_body True detail_page_init))"
  have "page_shown (page_body True detail_page_init)" by (rule step[OF first]) (auto simp: page_steps_def)
  then have "page_shown (show_tab Snapshots (page_body True detail_page_init))" by (rule step) (auto simp: page_steps_def)
  then have s: "page_shown ?s" by (rule step) (auto simp: page_steps_def)
  have "dp_tab ?s = Snapshots" "dp_up ?s"
    by (simp_all add: change_rows_def show_tab_def page_body_def detail_page_init_def)
  then show ?thesis using tabs_keep_apart[OF s, of Ports] by (simp add: mounted_rows_def)
qed

text \<open>Every dialog has one button, which its tab (or the heading) offers.\<close>

lemma dialogs_have_buttons:
  "distinct (map fst dialog_buttons)" "d \<in> fst ` set dialog_buttons"
  "\<exists>p. d \<in> set (dialog_offered (detail_page_init\<lparr>dp_up := True, dp_tab := p\<rparr>))"
  subgoal by (simp add: dialog_buttons_def)
  subgoal by (cases d) (simp_all add: dialog_buttons_def)
  subgoal
    by (rule exI[of _ "case d of SnapDialog \<Rightarrow> Snapshots | PortDialog \<Rightarrow> Ports | _ \<Rightarrow> Overview"])
      (cases d; simp add: dialog_offered_def dialog_buttons_def detail_page_init_def)
  done

text \<open>No section is mounted twice.\<close>

lemma section_once: "distinct (page_sections p vm pfs)"
  by (cases p) (simp_all add: page_sections_def overview_sections_def Let_def)

end
