(* ===== verification/ConsoleIO.thy ===== *)
theory ConsoleIO imports Console "HOL-Library.Word" begin

text \<open>
  What the serial and the RDP tab of \<open>web/src/pages/VMConsole.jsx\<close> do around their connection: the terminal and
  the observer of the serial tab, the display, the mouse and the keyboard of the RDP tab, and what passes
  through them. Each state holds the \<open>console\<close> of \<open>Console\<close>, and each step is one of its steps with
  the resources of the run beside it. xterm.js and guacamole are third-party: they appear as what they are
  handed and when.
\<close>

subsection \<open>The serial tab\<close>

datatype frame = TextFrame string | BinaryFrame "8 word list"

text \<open>Terminals and observers that are alive, what terminals were given, what sockets were given.\<close>

record serial =
  si_console :: console
  si_terms :: "nat list"
  si_observers :: "nat list"
  si_written :: "(nat \<times> frame) list"
  si_sent :: "(nat \<times> string) list"

definition serial_init :: serial where
  "serial_init = \<lparr>si_console = console_init, si_terms = [], si_observers = [], si_written = [], si_sent = []\<rparr>"

definition serial_start :: "serial \<Rightarrow> serial" where
  "serial_start s = s\<lparr>si_console := console_start (si_console s)\<rparr>"

definition serial_refused :: "nat \<Rightarrow> string \<Rightarrow> serial \<Rightarrow> serial" where
  "serial_refused r msg s = s\<lparr>si_console := ticket_refused r msg (si_console s)\<rparr>"

definition serial_arrived :: "nat \<Rightarrow> bool \<Rightarrow> serial \<Rightarrow> serial" where
  "serial_arrived r container s =
     (let s1 = s\<lparr>si_console := ticket_arrived Serial r container (si_console s)\<rparr> in
      if cs_run (si_console s) \<noteq> Some r \<or> \<not> container then s1
      else s1\<lparr>si_terms := si_terms s @ [r], si_observers := si_observers s @ [r]\<rparr>)"

definition serial_event :: "nat \<Rightarrow> conn_event \<Rightarrow> serial \<Rightarrow> serial" where
  "serial_event r e s = s\<lparr>si_console := connection_event Serial r e (si_console s)\<rparr>"

definition serial_received :: "nat \<Rightarrow> frame \<Rightarrow> serial \<Rightarrow> serial" where
  "serial_received r f s = s\<lparr>si_written := si_written s @ [(r, f)]\<rparr>"

text \<open>The terminal of run \<open>r\<close> was typed into; \<open>ready\<close> is whether its socket is in the state \<open>OPEN\<close>.\<close>

definition serial_typed :: "nat \<Rightarrow> bool \<Rightarrow> string \<Rightarrow> serial \<Rightarrow> serial" where
  "serial_typed r ready data s = (if ready then s\<lparr>si_sent := si_sent s @ [(r, data)]\<rparr> else s)"

definition serial_cleanup :: "serial \<Rightarrow> serial" where
  "serial_cleanup s =
     (let s1 = s\<lparr>si_console := console_cleanup (si_console s)\<rparr> in
      case cs_run (si_console s) of
        None \<Rightarrow> s1
      | Some r \<Rightarrow> s1\<lparr>si_terms := removeAll r (si_terms s), si_observers := removeAll r (si_observers s)\<rparr>)"

definition serial_reconnect :: "serial \<Rightarrow> serial" where
  "serial_reconnect s = serial_start (serial_cleanup s)"

inductive serial_reach :: "serial \<Rightarrow> bool" where
  sr_mount: "serial_reach (serial_start serial_init)"
| sr_refused: "serial_reach s \<Longrightarrow> r \<in> set (cs_tickets (si_console s)) \<Longrightarrow> serial_reach (serial_refused r msg s)"
| sr_ticket: "serial_reach s \<Longrightarrow> r \<in> set (cs_tickets (si_console s)) \<Longrightarrow> serial_reach (serial_arrived r container s)"
| sr_event: "serial_reach s \<Longrightarrow> r \<in> set (cs_open (si_console s)) \<Longrightarrow> serial_reach (serial_event r e s)"
| sr_received: "serial_reach s \<Longrightarrow> r \<in> set (cs_open (si_console s)) \<Longrightarrow> serial_reach (serial_received r f s)"
| sr_typed: "serial_reach s \<Longrightarrow> r \<in> set (si_terms s) \<Longrightarrow> (ready \<Longrightarrow> r \<in> set (cs_open (si_console s)))
    \<Longrightarrow> serial_reach (serial_typed r ready data s)"
| sr_reconnect: "serial_reach s \<Longrightarrow> serial_reach (serial_reconnect s)"
| sr_unmount: "serial_reach s \<Longrightarrow> serial_reach (serial_cleanup s)"

subsection \<open>The RDP tab\<close>

datatype input = Key bool int | Mouse js

text \<open>
  The keyboards that have handlers, the displays in the container and the input clients were given. The
  handlers of a mouse live as long as its display.
\<close>

record rdp =
  ri_console :: console
  ri_keyboards :: "nat list"
  ri_displays :: "nat list"
  ri_sent :: "(nat \<times> input) list"

definition rdp_init :: rdp where
  "rdp_init = \<lparr>ri_console = console_init, ri_keyboards = [], ri_displays = [], ri_sent = []\<rparr>"

definition rdp_start :: "rdp \<Rightarrow> rdp" where
  "rdp_start s = s\<lparr>ri_console := console_start (ri_console s)\<rparr>"

definition rdp_refused :: "nat \<Rightarrow> string \<Rightarrow> rdp \<Rightarrow> rdp" where
  "rdp_refused r msg s = s\<lparr>ri_console := ticket_refused r msg (ri_console s)\<rparr>"

definition rdp_arrived :: "nat \<Rightarrow> bool \<Rightarrow> rdp \<Rightarrow> rdp" where
  "rdp_arrived r container s =
     (let s1 = s\<lparr>ri_console := ticket_arrived RDP r container (ri_console s)\<rparr> in
      if cs_run (ri_console s) \<noteq> Some r \<or> \<not> container then s1
      else s1\<lparr>ri_displays := [r], ri_keyboards := ri_keyboards s @ [r]\<rparr>)"

text \<open>The states of a guacamole client that the tab reacts to.\<close>

definition rdp_client_event :: "nat \<Rightarrow> conn_event option" where
  "rdp_client_event n = (if n = 3 then Some Opened else if n = 5 then Some (Closed True) else None)"

definition rdp_event :: "nat \<Rightarrow> conn_event \<Rightarrow> rdp \<Rightarrow> rdp" where
  "rdp_event r e s = s\<lparr>ri_console := connection_event RDP r e (ri_console s)\<rparr>"

definition rdp_client_state :: "nat \<Rightarrow> nat \<Rightarrow> rdp \<Rightarrow> rdp" where
  "rdp_client_state r n s = (case rdp_client_event n of None \<Rightarrow> s | Some e \<Rightarrow> rdp_event r e s)"

definition rdp_key :: "nat \<Rightarrow> bool \<Rightarrow> int \<Rightarrow> rdp \<Rightarrow> rdp" where
  "rdp_key r down keysym s =
     (if r \<in> set (ri_keyboards s) then s\<lparr>ri_sent := ri_sent s @ [(r, Key down keysym)]\<rparr> else s)"

definition rdp_mouse :: "nat \<Rightarrow> js \<Rightarrow> rdp \<Rightarrow> rdp" where
  "rdp_mouse r m s =
     (if r \<in> set (ri_displays s) then s\<lparr>ri_sent := ri_sent s @ [(r, Mouse m)]\<rparr> else s)"

definition rdp_cleanup :: "rdp \<Rightarrow> rdp" where
  "rdp_cleanup s =
     (let s1 = s\<lparr>ri_console := console_cleanup (ri_console s)\<rparr> in
      case cs_run (ri_console s) of None \<Rightarrow> s1 | Some r \<Rightarrow> s1\<lparr>ri_keyboards := removeAll r (ri_keyboards s)\<rparr>)"

definition rdp_reconnect :: "rdp \<Rightarrow> rdp" where
  "rdp_reconnect s = rdp_start (rdp_cleanup s)"

text \<open>Leaving the tab takes the container away as well.\<close>

definition rdp_unmount :: "rdp \<Rightarrow> rdp" where
  "rdp_unmount s = (rdp_cleanup s)\<lparr>ri_displays := []\<rparr>"

inductive rdp_reach :: "rdp \<Rightarrow> bool" where
  rr_mount: "rdp_reach (rdp_start rdp_init)"
| rr_refused: "rdp_reach s \<Longrightarrow> r \<in> set (cs_tickets (ri_console s)) \<Longrightarrow> rdp_reach (rdp_refused r msg s)"
| rr_ticket: "rdp_reach s \<Longrightarrow> r \<in> set (cs_tickets (ri_console s)) \<Longrightarrow> rdp_reach (rdp_arrived r container s)"
| rr_state: "rdp_reach s \<Longrightarrow> r \<in> set (cs_open (ri_console s)) \<Longrightarrow> rdp_reach (rdp_client_state r n s)"
| rr_error: "rdp_reach s \<Longrightarrow> r \<in> set (cs_open (ri_console s)) \<Longrightarrow> rdp_reach (rdp_event r (Failed msg) s)"
| rr_key: "rdp_reach s \<Longrightarrow> rdp_reach (rdp_key r down k s)"
| rr_mouse: "rdp_reach s \<Longrightarrow> rdp_reach (rdp_mouse r m s)"
| rr_reconnect: "rdp_reach s \<Longrightarrow> rdp_reach (rdp_reconnect s)"
| rr_unmount: "rdp_reach s \<Longrightarrow> rdp_reach (rdp_unmount s)"

subsection \<open>The VNC tab and the frames\<close>

datatype screen_call = ExitFullscreen | RequestFullscreen

definition toggle_fullscreen :: "bool \<Rightarrow> bool \<Rightarrow> screen_call option" where
  "toggle_fullscreen parent full =
     (if \<not> parent then None else Some (if full then ExitFullscreen else RequestFullscreen))"

text \<open>Name, label and availability of the buttons.\<close>

definition console_buttons :: "kind \<Rightarrow> console \<Rightarrow> (string \<times> string \<times> bool) list" where
  "console_buttons k s =
     (case k of
        VNC \<Rightarrow> [(''ctrl-alt-del'', ''Ctrl-Alt-Del'', cs_status s = ''connected''),
               (''console-reconnect'', ''Reconnect'', True), (''console-fullscreen'', ''Fullscreen'', True)]
      | Serial \<Rightarrow> [(''serial-reconnect'', ''Reconnect'', True)]
      | RDP \<Rightarrow> [(''rdp-reconnect'', ''Reconnect'', True)])"

definition console_bar :: "kind \<Rightarrow> console \<Rightarrow> (string \<times> string) \<times> (string \<times> string \<times> bool) list" where
  "console_bar k s = (status_pill (cs_status s) (cs_message s), console_buttons k s)"

definition tab_bar :: "console_page \<Rightarrow> (string \<times> string \<times> bool) list" where
  "tab_bar s =
     [(''tab-vnc'', ''VNC'', cp_tab s = VNC), (''tab-serial'', ''Serial'', cp_tab s = Serial),
      (''tab-rdp'', ''RDP'', cp_tab s = RDP)]"

subsection \<open>Facts\<close>

lemmas serial_defs = serial_start_def serial_refused_def serial_arrived_def serial_event_def serial_received_def
  serial_typed_def serial_cleanup_def serial_reconnect_def
lemmas rdp_defs = rdp_start_def rdp_refused_def rdp_arrived_def rdp_event_def rdp_client_state_def rdp_key_def
  rdp_mouse_def rdp_cleanup_def rdp_reconnect_def rdp_unmount_def

text \<open>Beside its resources, a tab is a console: every state it reaches has a console that \<open>Console\<close> reaches.\<close>

lemma serial_console: "serial_reach s \<Longrightarrow> console_reach Serial (si_console s)"
proof (induction rule: serial_reach.induct)
  case sr_mount
  show ?case by (simp add: serial_defs serial_init_def cr_mount)
next
  case (sr_reconnect s)
  then have "console_reach Serial (console_reconnect (si_console s))" by (simp add: cr_reconnect)
  then show ?case by (simp add: serial_defs console_reconnect_def Let_def split: option.splits)
next
  case (sr_unmount s)
  then have "console_reach Serial (console_cleanup (si_console s))" by (simp add: cr_unmount)
  then show ?case by (simp add: serial_defs Let_def split: option.splits)
next
  case (sr_ticket s r c)
  then have "console_reach Serial (ticket_arrived Serial r c (si_console s))" by (simp add: cr_ticket)
  then show ?case by (cases c) (simp_all add: serial_defs Let_def)
qed (simp_all add: serial_defs cr_refused cr_event)

lemma rdp_console: "rdp_reach s \<Longrightarrow> console_reach RDP (ri_console s)"
proof (induction rule: rdp_reach.induct)
  case rr_mount
  show ?case by (simp add: rdp_defs rdp_init_def cr_mount)
next
  case (rr_reconnect s)
  then have "console_reach RDP (console_reconnect (ri_console s))" by (simp add: cr_reconnect)
  then show ?case by (simp add: rdp_defs console_reconnect_def Let_def split: option.splits)
next
  case (rr_unmount s)
  then have "console_reach RDP (console_cleanup (ri_console s))" by (simp add: cr_unmount)
  then show ?case by (simp add: rdp_defs Let_def split: option.splits)
next
  case (rr_ticket s r c)
  then have "console_reach RDP (ticket_arrived RDP r c (ri_console s))" by (simp add: cr_ticket)
  then show ?case by (cases c) (simp_all add: rdp_defs Let_def)
qed (simp_all add: rdp_defs cr_refused cr_event split: option.splits)

text \<open>What a run holds beside its connection: nothing before its ticket, one of each until its end.\<close>

definition held :: "console \<Rightarrow> nat list" where
  "held c = (case cs_conn c of None \<Rightarrow> [] | Some r \<Rightarrow> [r])"

lemma held_steps:
  "held (ticket_refused r msg c) = held c"
  "held (connection_event k r e c) = held c"
  "held (console_start c) = held c" "held (console_cleanup c) = []"
  "\<not> (cs_run c \<noteq> Some r \<or> \<not> b) \<Longrightarrow> held (ticket_arrived k r b c) = [r]"
  "cs_run c \<noteq> Some r \<or> \<not> b \<Longrightarrow> held (ticket_arrived k r b c) = held c"
  by (simp_all add: held_def ticket_refused_def console_report_def connection_event_def Let_def console_start_def
      console_cleanup_def ticket_arrived_def split: conn_event.splits)

lemma held_of_ticket:
  assumes "console_inv c" "r \<in> set (cs_tickets c)" "cs_run c = Some r" shows "held c = []"
  using assms by (cases "cs_conn c") (auto simp: console_inv_def held_def)

lemma held_of_run:
  assumes "console_inv c"
  shows "case cs_run c of None \<Rightarrow> held c = [] | Some r \<Rightarrow> removeAll r (held c) = []"
  using assms by (cases "cs_conn c"; cases "cs_run c") (simp_all add: console_inv_def held_def)

lemma open_held: "console_inv c \<Longrightarrow> r \<in> set (cs_open c) \<Longrightarrow> held c = [r]"
  by (auto simp: console_inv_def held_def)

lemma serial_holds:
  "serial_reach s \<Longrightarrow> si_terms s = held (si_console s) \<and> si_observers s = held (si_console s)"
proof (induction rule: serial_reach.induct)
  case sr_mount
  show ?case by (simp add: serial_defs serial_init_def held_steps) (simp add: held_def console_init_def)
next
  case (sr_ticket s r b)
  note i = console_invariant[OF serial_console[OF sr_ticket(1)]]
  show ?case
  proof (cases "cs_run (si_console s) \<noteq> Some r \<or> \<not> b")
    case True
    then show ?thesis using sr_ticket(3) by (simp add: serial_defs held_steps)
  next
    case False
    then have "held (si_console s) = []" using held_of_ticket[OF i sr_ticket(2)] by simp
    then show ?thesis using sr_ticket(3) False by (simp add: serial_defs held_steps)
  qed
next
  case (sr_reconnect s)
  then show ?case using held_of_run[OF console_invariant[OF serial_console[OF sr_reconnect(1)]]]
    by (simp add: serial_defs held_steps Let_def split: option.splits)
next
  case (sr_unmount s)
  then show ?case using held_of_run[OF console_invariant[OF serial_console[OF sr_unmount(1)]]]
    by (simp add: serial_defs held_steps Let_def split: option.splits)
qed (simp_all add: serial_defs held_steps)

lemma rdp_holds: "rdp_reach s \<Longrightarrow> ri_keyboards s = held (ri_console s)"
proof (induction rule: rdp_reach.induct)
  case rr_mount
  show ?case by (simp add: rdp_defs rdp_init_def held_steps) (simp add: held_def console_init_def)
next
  case (rr_ticket s r b)
  note i = console_invariant[OF rdp_console[OF rr_ticket(1)]]
  show ?case
  proof (cases "cs_run (ri_console s) \<noteq> Some r \<or> \<not> b")
    case True
    then show ?thesis using rr_ticket(3) by (simp add: rdp_defs held_steps)
  next
    case False
    then have "held (ri_console s) = []" using held_of_ticket[OF i rr_ticket(2)] by simp
    then show ?thesis using rr_ticket(3) False by (simp add: rdp_defs held_steps)
  qed
next
  case (rr_reconnect s)
  then show ?case using held_of_run[OF console_invariant[OF rdp_console[OF rr_reconnect(1)]]]
    by (simp add: rdp_defs held_steps Let_def split: option.splits)
next
  case (rr_unmount s)
  then show ?case using held_of_run[OF console_invariant[OF rdp_console[OF rr_unmount(1)]]]
    by (simp add: rdp_defs held_steps Let_def split: option.splits)
qed (simp_all add: rdp_defs held_steps split: option.splits)

text \<open>
  The serial tab leaks nothing and mixes no two runs: there is one terminal with one observer exactly while
  there is a connection of the current run; ending the run takes both away; and what is typed goes out on
  the socket of the terminal it was typed into, only while that is open.
\<close>

lemma serial_owned:
  assumes "serial_reach s"
  shows "si_terms s = si_observers s \<and> length (si_terms s) \<le> 1
    \<and> (\<forall>r\<in>set (si_terms s). cs_run (si_console s) = Some r)
    \<and> si_terms (serial_cleanup s) = [] \<and> si_observers (serial_cleanup s) = []"
    "r \<in> set (cs_open (si_console s)) \<Longrightarrow> si_terms s = [r]"
proof -
  note i = console_invariant[OF serial_console[OF assms]] and h = serial_holds[OF assms]
  have c: "serial_reach (serial_cleanup s)" using assms by (rule sr_unmount)
  have "held (si_console (serial_cleanup s)) = []"
    by (simp add: serial_cleanup_def held_steps Let_def split: option.splits)
  then have "si_terms (serial_cleanup s) = [] \<and> si_observers (serial_cleanup s) = []" using serial_holds[OF c] by simp
  moreover have "length (held (si_console s)) \<le> 1 \<and> (\<forall>r\<in>set (held (si_console s)). cs_run (si_console s) = Some r)"
    using i by (auto simp: console_inv_def held_def split: option.splits)
  ultimately show "si_terms s = si_observers s \<and> length (si_terms s) \<le> 1
    \<and> (\<forall>r\<in>set (si_terms s). cs_run (si_console s) = Some r)
    \<and> si_terms (serial_cleanup s) = [] \<and> si_observers (serial_cleanup s) = []" using h by simp
  show "r \<in> set (cs_open (si_console s)) \<Longrightarrow> si_terms s = [r]" using open_held[OF i] h by simp
qed

text \<open>
  Keys reach the current machine or nobody: in every reachable state of the RDP tab a keyboard is listened to
  only for the connection of the current run, and once the run has ended, whoever presses a key, nothing is
  sent.
\<close>

lemma rdp_keys_owned:
  assumes "rdp_reach s"
  shows "ri_sent (rdp_key r down k s) = ri_sent s \<or> cs_conn (ri_console s) = Some r \<and> cs_run (ri_console s) = Some r"
    and "rdp_key r down k (rdp_cleanup s) = rdp_cleanup s"
proof -
  note i = console_invariant[OF rdp_console[OF assms]] and h = rdp_holds[OF assms]
  show "ri_sent (rdp_key r down k s) = ri_sent s \<or> cs_conn (ri_console s) = Some r \<and> cs_run (ri_console s) = Some r"
    using i h by (auto simp: rdp_key_def held_def console_inv_def split: option.splits)
  have "ri_keyboards (rdp_cleanup s) = []"
    using h held_of_run[OF i] by (simp add: rdp_cleanup_def Let_def split: option.splits)
  then show "rdp_key r down k (rdp_cleanup s) = rdp_cleanup s" by (simp add: rdp_key_def)
qed

text \<open>
  The mouse has no such guard: after \<open>Reconnect\<close> the old display stays in the container until the next ticket
  arrives, and its mouse is handed to the client of the run that ended.
\<close>

lemma mouse_outlives_run:
  "ri_sent (rdp_mouse 0 m (rdp_reconnect (rdp_arrived 0 True (rdp_start rdp_init)))) = [(0, Mouse m)]"
  "cs_run (ri_console (rdp_reconnect (rdp_arrived 0 True (rdp_start rdp_init)))) = Some 1"
  by (simp_all add: rdp_defs rdp_init_def console_start_def console_init_def console_cleanup_def ticket_arrived_def)

text \<open>The button and the function agree on when Ctrl-Alt-Del may be sent; a tab covers its console unless connected.\<close>

lemma bar_agrees:
  "(''ctrl-alt-del'', ''Ctrl-Alt-Del'', b) \<in> set (console_buttons k s) \<Longrightarrow> send_ctrl_alt_del s \<noteq> None \<Longrightarrow> b"
  "k \<noteq> Serial \<Longrightarrow> overlay k s = None \<longleftrightarrow> cs_status s = ''connected''"
  by (cases k; auto simp: console_buttons_def send_ctrl_alt_del_def split: if_splits)
    (simp add: overlay_def)

end
