(* ===== verification/AppFrames.thy ===== *)
theory AppFrames imports Auth Shell Frames Dashboard LogsPage ActivityPage begin

text \<open>
  What the remaining screens are as a whole: the sign-in gate (\<open>AuthGate.jsx\<close>), the storage location control
  (\<open>StorageLocationSelect.jsx\<close>), the frame of the application (\<open>Layout.jsx\<close>), the dashboard, the bodies of
  the timeline and of the log viewer.
\<close>

subsection \<open>Sign-in gate\<close>

record sign_in =
  sg_message :: string
  sg_value :: string
  sg_disabled :: bool
  sg_button :: string

text \<open>\<open>None\<close> is the application itself.\<close>

definition gate_view :: "auth \<Rightarrow> gate \<Rightarrow> sign_in option" where
  "gate_view a g =
     (if \<not> au_required a then None
      else Some \<lparr>sg_message = gate_message a g, sg_value = gt_draft g, sg_disabled = gt_submitting g,
                 sg_button = (if gt_submitting g then ''Checking key'' @ ellipsis else ''Continue'')\<rparr>)"

definition gate_type :: "string \<Rightarrow> gate \<Rightarrow> gate" where
  "gate_type t g = g\<lparr>gt_draft := t\<rparr>"

subsection \<open>Storage locations\<close>

text \<open>Value, label and whether it is disabled.\<close>

definition storage_choice :: "string \<Rightarrow> js \<Rightarrow> js \<times> string \<times> bool" where
  "storage_choice exclude loc = (jget loc ''name'', storage_option exclude loc)"

record storage_screen =
  sv_value :: string
  sv_groups :: "(string option \<times> (js \<times> string \<times> bool) list) list"
  sv_custom :: "string option"
  sv_help :: bool
  sv_warning :: "string option"

definition storage_view :: "js list \<Rightarrow> string \<Rightarrow> bool \<Rightarrow> string \<Rightarrow> storage_screen" where
  "storage_view locations v custom exclude =
     (let (conf, disc) = storage_groups locations; choice = storage_choice exclude;
          chosen = (if custom then None
                    else find (\<lambda>l. jget l ''name'' = Str (if v \<noteq> [] then v else ''default'')) locations)
      in \<lparr>sv_value = storage_selected custom v,
          sv_groups =
            (if disc \<noteq> [] then [(Some ''Configured locations'', map choice conf), (Some ''Drives & directories'', map choice disc)]
             else [(None, map choice conf)]) @ [(None, [(Str custom_location, ''Custom path'' @ ellipsis, False)])],
          sv_custom = (if custom then Some v else None), sv_help = custom,
          sv_warning = (case chosen of None \<Rightarrow> None
                        | Some l \<Rightarrow> if truthy (jget l ''warning'') then Some (to_str (jget l ''warning'')) else None)\<rparr>)"

definition storage_values :: "storage_screen \<Rightarrow> js set" where
  "storage_values w = (\<Union>g\<in>set (sv_groups w). fst ` set (snd g))"

subsection \<open>Frame of the application\<close>

text \<open>
  Backdrop, whether the sidebar is slid in, its links (target, label, active), the version with its hint, and the
  title of the top bar; what the installed application adds.
\<close>

record app_screen =
  af_backdrop :: bool
  af_sidebar :: bool
  af_links :: "(string \<times> string \<times> bool) list"
  af_version :: "string \<times> string"
  af_title :: string
  af_offline :: bool
  af_install :: bool
  af_toast :: bool

definition app_frame :: "layout \<Rightarrow> pwa_state \<Rightarrow> app_screen" where
  "app_frame s st =
     \<lparr>af_backdrop = la_drawer s, af_sidebar = la_drawer s,
      af_links = map (\<lambda>i. (nav_to i, nav_label i, nav_active s i)) nav_items,
      af_version = (version_label s, version_title s), af_title = layout_title s,
      af_offline = offline_banner st, af_install = install_button st, af_toast = update_toast st\<rparr>"

subsection \<open>Dashboard\<close>

definition quota_cards :: "bool \<Rightarrow> js \<Rightarrow> (string \<times> string \<times> card option) list" where
  "quota_cards loading usage =
     map (\<lambda>(l, k, u, t). (l, t, quota_card loading (jget usage k) u))
       [(''Machines allocated'', ''vms'', ''VMs'', ''quota-card-vms''), (''vCPUs allocated'', ''cpus'', ''vCPU'', ''quota-card-cpus''),
        (''RAM allocated'', ''ram_mb'', ''MB'', ''quota-card-ram''), (''Disk allocated'', ''disk_gb'', ''GB'', ''quota-card-disk''),
        (''GPUs allocated'', ''gpus'', ''GPUs'', ''quota-card-gpus'')]"

text \<open>\<open>bytes\<close> is whether a card counts bytes; the others count percents.\<close>

definition host_cards :: "bool \<Rightarrow> js \<Rightarrow> (string \<times> card option) list" where
  "host_cards loading host =
     map (\<lambda>(l, k, bytes). (l, host_usage_card loading bytes (jget host k)))
       [(''Host CPU'', ''cpu'', False), (''Host RAM'', ''ram'', True), (''Host Disk'', ''disk'', True)]"

datatype machines_view =
    MachinesSpinner | MachinesEmpty | MachinesRows "(string \<times> string \<times> string \<times> string) list"

definition machines_card :: "bool \<Rightarrow> js \<Rightarrow> machines_view" where
  "machines_card loading response =
     (let l = normalize_vm_list response in
      if loading then MachinesSpinner else if l = [] then MachinesEmpty else MachinesRows (map dashboard_row l))"

definition dashboard_navigation :: "string option \<Rightarrow> string" where
  "dashboard_navigation vm = (case vm of None \<Rightarrow> ''/vms?create=1'' | Some i \<Rightarrow> ''/vms/'' @ i)"

subsection \<open>Timeline and log\<close>

datatype ('a, 'b) body = BodySpinner | BodyEmpty 'a | BodyRows "'b list"

definition activity_columns :: "bool \<Rightarrow> string list" where
  "activity_columns emb =
     [[], ''Time'', ''Severity'', ''Source'', ''Type''] @ (if emb then [] else [''VM'']) @ [''Message'']"

definition activity_colspan :: "bool \<Rightarrow> nat" where
  "activity_colspan emb = (if emb then 6 else 7)"

definition activity_body :: "bool \<Rightarrow> bool \<Rightarrow> js list \<Rightarrow> (string \<times> string, js) body" where
  "activity_body emb loading items =
     (if items = [] then
        (if loading then BodySpinner
         else BodyEmpty (''No events yet'',
                if emb then ''No lifecycle events for this VM.''
                else ''Lifecycle and system events will appear here as they happen.''))
      else BodyRows items)"

definition activity_pager :: "js \<Rightarrow> fpage \<Rightarrow> pager option" where
  "activity_pager n p =
     (case n of Num (Fin r) \<Rightarrow>
        if 0 < r then Some (pagination (fp_page p) (fp_per_page p) (Some (nat \<lfloor>r\<rfloor>)) [25, 50, 100, 200]) else None
      | _ \<Rightarrow> None)"

definition log_columns :: "string list" where
  "log_columns = [''Time'', ''Level'', ''Source'', ''Message'']"

text \<open>A row with the marks of the first row of its source and of its level.\<close>

definition log_body :: "bool \<Rightarrow> fpage \<Rightarrow> js list \<Rightarrow> (string, js \<times> string option \<times> string option) body" where
  "log_body loading p entries =
     (let es = log_visible (fp_value p ''level'') entries in
      if es = [] then (if loading then BodySpinner else BodyEmpty (log_empty_text p))
      else BodyRows (map (\<lambda>i. (es ! i,
             (if log_mark ''source'' es i then Some (''log-source-'' @ to_str (jget (es ! i) ''source'')) else None),
             (if log_mark ''level'' es i then Some (''log-level-'' @ to_str (jget (es ! i) ''level'')) else None))) [0..<length es]))"

definition log_pager :: "js \<Rightarrow> fpage \<Rightarrow> pager option" where
  "log_pager n p =
     (case n of Num (Fin r) \<Rightarrow>
        if 0 < r then Some (pagination (fp_page p) (fp_per_page p) (Some (nat \<lfloor>r\<rfloor>)) [50, 100, 200, 500]) else None
      | _ \<Rightarrow> None)"

definition latest_hint :: "logs \<Rightarrow> bool" where
  "latest_hint s \<longleftrightarrow> \<not> lg_auto_scroll s"

text \<open>The click on the hint: the state, and the scroll position it sets.\<close>

definition latest_click :: "int \<Rightarrow> logs \<Rightarrow> logs \<times> int" where
  "latest_click scroll_height s = (log_latest s, scroll_height)"

subsection \<open>Ticks of the template page\<close>

definition template_rows_changed :: "js list \<Rightarrow> rows \<Rightarrow> rows" where
  "template_rows_changed templates st = st\<lparr>rw_selected := set_prune (row_ids templates) (rw_selected st)\<rparr>"

definition template_toggle_all :: "js list \<Rightarrow> rows \<Rightarrow> rows" where
  "template_toggle_all templates st = st\<lparr>rw_selected := set_toggle_all (row_ids templates) (rw_selected st)\<rparr>"

definition template_toggle_one :: "string \<Rightarrow> rows \<Rightarrow> rows" where
  "template_toggle_one i st = st\<lparr>rw_selected := set_toggle_one i (rw_selected st)\<rparr>"

subsection \<open>Facts\<close>

text \<open>
  The gate does not wait for the check: storing the key withdraws the requirement, so that the
  application is shown as soon as any key that is not blank is submitted (\<open>Checking key\<close> never is), and
  stays so unless the answer is a refusal.
\<close>

lemma gate_opens_unchecked:
  assumes "submit_start (a, g) = (True, a', g')"
  shows "gate_view a' g' = None"
    "(\<forall>r. answer = Inr r \<longrightarrow> rs_status r \<noteq> 401) \<Longrightarrow>
       gate_view (fst (sign_in_answer answer (a', g'))) (snd (sign_in_answer answer (a', g'))) = None"
proof -
  have "\<not> au_required a'" using assms by (auto simp: submit_start_def set_auth_token_def Let_def split: if_splits)
  then show "gate_view a' g' = None"
    "(\<forall>r. answer = Inr r \<longrightarrow> rs_status r \<noteq> 401) \<Longrightarrow>
       gate_view (fst (sign_in_answer answer (a', g'))) (snd (sign_in_answer answer (a', g'))) = None"
    by (auto simp: gate_view_def sign_in_answer_def submit_done_def unwrap_def clear_auth_requirement_def
        split: sum.splits prod.splits if_splits)
qed

text \<open>
  The control of a storage location shows a value that is among its options exactly if the location is a
  listed one or is typed in: for a name that is no longer listed (that of a template, say) the browser shows
  another option than the location the form goes on holding.
\<close>

lemma storage_view_values:
  "storage_values (storage_view ls v custom ex) = insert (Str custom_location) ((\<lambda>l. jget l ''name'') ` set ls)"
proof -
  have s: "set (fst (storage_groups ls)) \<union> set (snd (storage_groups ls)) = set ls" by (auto simp: storage_groups_def)
  have m: "fst ` storage_choice ex ` A = (\<lambda>l. jget l ''name'') ` A" for A by (auto simp: storage_choice_def image_image)
  show ?thesis
  proof (cases "snd (storage_groups ls) = []")
    case True
    then show ?thesis using s m by (simp add: storage_values_def storage_view_def case_prod_beta Let_def)
  next
    case False
    then show ?thesis unfolding s[symmetric] image_Un
      using m by (auto simp: storage_values_def storage_view_def case_prod_beta Let_def)
  qed
qed

lemma storage_value_offered:
  assumes "v \<noteq> custom_location"
  shows "Str (sv_value (storage_view ls v custom ex)) \<in> storage_values (storage_view ls v custom ex)
    \<longleftrightarrow> custom \<or> storage_known ls v"
proof -
  have "sv_value (storage_view ls v custom ex) = storage_selected custom v"
    by (simp add: storage_view_def case_prod_beta Let_def)
  moreover have "''default'' \<noteq> custom_location" by (simp add: custom_location_def)
  moreover have "Str x \<in> (\<lambda>l. jget l ''name'') ` set ls \<longleftrightarrow> (\<exists>l\<in>set ls. jget l ''name'' = Str x)" for x by force
  ultimately show ?thesis using assms
    by (simp add: storage_view_values storage_selected_def storage_known_def)
qed

text \<open>A warning is that of the location selected, and none is shown beside a typed path.\<close>

lemma storage_warning_of:
  assumes "sv_warning (storage_view ls v custom ex) = Some w"
  shows "\<not> custom" "\<exists>l\<in>set ls. jget l ''name'' = Str (sv_value (storage_view ls v custom ex)) \<and> w = to_str (jget l ''warning'')"
  using assms
  by (auto simp: storage_view_def storage_selected_def case_prod_beta Let_def find_Some_iff
      split: if_splits option.splits)

text \<open>The details of an event span the whole table.\<close>

lemma activity_spans: "activity_colspan emb = length (activity_columns emb)"
  by (simp add: activity_colspan_def activity_columns_def)

text \<open>
  After the box above the templates was clicked with nothing ticked, the bar says that everything is ticked;
  clicking it again clears it.
\<close>

lemma template_toggle_all_bar:
  assumes "rw_selected st = []" "templates \<noteq> []" "distinct (row_ids templates)"
  shows "fst (template_bar templates busy (template_toggle_all templates st))"
    "rw_selected (template_toggle_all templates (template_toggle_all templates st)) = []"
proof -
  have l: "set (set_of_list (row_ids templates)) = set (row_ids templates)" "distinct (set_of_list (row_ids templates))"
    by simp_all
  then have "length (set_of_list (row_ids templates)) = length (row_ids templates)"
    using assms(3) by (metis distinct_card)
  moreover have "row_ids templates \<noteq> []" using assms(2) by (simp add: row_ids_def)
  ultimately have "set_all_selected (row_ids templates) (rw_selected (template_toggle_all templates st))"
    using assms(1) by (simp add: template_toggle_all_def set_toggle_all_def set_all_selected_def)
  then show "fst (template_bar templates busy (template_toggle_all templates st))"
    "rw_selected (template_toggle_all templates (template_toggle_all templates st)) = []"
    by (simp add: template_bar_def Let_def, simp add: template_toggle_all_def set_toggle_all_def[of _ "set_toggle_all _ _"])
qed

text \<open>Each row of the log stands in its place; each source and each level that occurs is marked in one row.\<close>

lemma log_body_rows:
  assumes "log_body loading p es = BodyRows rs"
  shows "map fst rs = log_visible (fp_value p ''level'') es"
  using assms by (auto simp: log_body_def Let_def comp_def map_nth split: if_splits)

end
