(* ===== verification/Spec2Isabelle.thy ===== *)
theory Spec2Isabelle
  imports Normalize EventStream Auth ApiClient DateTime VMStats Selection Shared FetchHooks CreateForm PolledPages LogsPage
    ActivityPage FilterPanels EditMachine DetailTables DetailForms DetailView DetailMetrics Console Dashboard
    ServiceWorker Shell PageDialogs Frames RenderLoop ChartLife DetailFrame ConsoleIO
    AppFrames
begin

text \<open>
  Verification of the web client of VM Smith, the code under \<open>web/src\<close> and \<open>web/build\<close>.

  \<^bold>\<open>The program.\<close> VM Smith is a daemon that runs virtual machines and a single-page client, written in
  JavaScript with React, that the daemon serves. The client signs in with an API key, asks the REST interface
  for lists and details, listens to a stream of events, and sends back what the operator fills in. A service
  worker lets it open without the daemon. The daemon is written in Go and is not modelled; it appears as the
  answers that reach the client, which are arbitrary unless a theorem names what it assumes of them.

  \<^bold>\<open>How code becomes definitions.\<close> Payloads are the datatype \<open>js\<close> of JavaScript values with their operators
  (\<open>JsValue\<close>); numbers are rationals with the three special values, so no rounding of doubles is modelled.
  Component state is a record; a handler, effect or callback is a function on it that has the conditions and
  early returns of the source; a request is returned as the value \<open>request\<close> (method, path, query, body). What
  happens asynchronously is a step of an inductive relation (\<open>stream_reach\<close>, \<open>page_reach\<close> and so on) whose
  steps may come in any order: answers, timers, events of a connection, clicks and unmounting. Errors are
  values of a sum or option type. Third-party code (React, the router, the consoles' clients, the browser) is
  represented by the calls that it makes into the code and, where its value matters, by parameters.

  \<^bold>\<open>Theories, in the order of their imports.\<close>

  \<^item> Foundation: \<open>Prelude\<close> (string and number text), \<open>JsValue\<close>, \<open>NumberText\<close> (\<open>Number(text)\<close>), \<open>SearchParams\<close>
    (\<open>URLSearchParams\<close>), \<open>DateTime\<close> (\<open>Date\<close>, with the zone as a parameter).
  \<^item> Infrastructure: \<open>Auth\<close> (\<open>auth.js\<close>, \<open>AuthGate.jsx\<close>), \<open>ApiClient\<close> (\<open>api/client.ts\<close>: every operation's
    request and what is made of answers), \<open>FetchHooks\<close> (\<open>useFetch.js\<close>), \<open>EventStream\<close>
    (\<open>useEventStream.js\<close>), \<open>VMStats\<close> (\<open>useVMStats.js\<close>, \<open>vmStatsHelpers.js\<close>), \<open>Normalize\<close>
    (\<open>normalize.js\<close>, \<open>navigation.js\<close>), \<open>Shared\<close> (\<open>Shared.jsx\<close>, \<open>StorageLocationSelect.jsx\<close>),
    \<open>Selection\<close> (ticked rows and bulk deletion).
  \<^item> The list pages. Seven pages keep filters in the same way, each with its own copy of the code. The common
    shape is a table \<open>fconf\<close> that every page writes out from its source, and three locales over it, each
    extending or using the one before: \<open>filter_page\<close> (\<open>FilterPage\<close>, \<open>Controls\<close>: the address mirrors the
    filters and restores them), \<open>list_page\<close> (\<open>ListPage\<close>: what was typed is what is asked for) and
    \<open>polled_page\<close> (\<open>PolledPage\<close>: what is shown answers what is asked for). They are interpreted for the pages
    in \<open>VMListPage\<close>, \<open>ImageListPage\<close>, \<open>TemplateListPage\<close>, \<open>SchedulesPage\<close>, \<open>SettingsPage\<close>, \<open>LogsPage\<close>,
    \<open>ActivityPage\<close>, \<open>PolledPages\<close> and \<open>DetailLists\<close>; \<open>FilterPanels\<close> has the controls of three of them,
    \<open>Frames\<close> what stands around the rows, and \<open>RenderLoop\<close> the renders that follow from renders.
    The abstract specification that the pages refine is the list that shows the answer to its filters
    (\<open>displays\<close>).
  \<^item> Forms: \<open>CreateVM\<close> and \<open>CreateForm\<close> (\<open>CreateVMModal\<close> of \<open>VMList.jsx\<close>: the form and the
    request, and the controls that drive it), the dialogs in the theories of the pages, and
    of \<open>VMDetail.jsx\<close>: \<open>DetailTables\<close> (snapshots, port forwards), \<open>DetailForms\<close> (clone, move, export and
    their progress), \<open>EditMachine\<close> (the edit dialog). What the controls of a dialog show and store is the
    locale \<open>dialog\<close> (\<open>Dialogs\<close>), interpreted for twelve dialogs in \<open>DetailDialogs\<close> and \<open>PageDialogs\<close>.
  \<^item> Views: \<open>DetailView\<close> and \<open>DetailFrame\<close> (the machine page), \<open>DetailMetrics\<close> and \<open>ChartLife\<close> (its metrics,
    \<open>MetricChart.jsx\<close>), \<open>Console\<close> and \<open>ConsoleIO\<close> (\<open>VMConsole.jsx\<close>), \<open>Dashboard\<close> (\<open>Dashboard.jsx\<close>), and
    \<open>AppFrames\<close>: gate, frame of the application, dashboard, timeline and log as whole screens.
  \<^item> The installed application: \<open>Precache\<close> (\<open>build/precache.js\<close>, \<open>build/swPlugin.js\<close>), \<open>ServiceWorker\<close>
    (\<open>pwa/sw.js\<close>, \<open>pwa/swRouting.js\<close>), \<open>PwaController\<close> (\<open>pwa/controller.js\<close>, \<open>Pwa.jsx\<close>), \<open>Shell\<close>
    (\<open>Layout.jsx\<close>, \<open>App.jsx\<close>, \<open>main.jsx\<close>).

  \<^bold>\<open>What is shown.\<close>

  \<^item> Connections: at most one is open in the event stream, the metrics hook, a console tab and a running
    operation, and what was abandoned changes nothing (\<open>stream_exclusive\<close>, \<open>stats_exclusive\<close>,
    \<open>console_exclusive\<close>, \<open>progress_connection\<close>); what they hold beside it goes with them
    (\<open>serial_owned\<close>, \<open>rdp_keys_owned\<close>, \<open>chart_shows_latest\<close>); the stream is never stuck and ends with the daemon's
    shutdown (\<open>stream_never_stuck\<close>, \<open>shutdown_final\<close>).
  \<^item> Lists: address, filters and what is asked for agree on every page at all times, and the rows follow when
    answers arrive in the order of their requests; in any order, the answer to the next poll brings them back
    (\<open>lists_follow_filters\<close>, \<open>detail_lists_follow\<close>, \<open>log_follows_filters\<close>, \<open>activity_address_exact\<close>,
    \<open>vm_reload\<close>; \<open>fetch_stale\<close> is the run in which an answer comes late); ticks belong to the list on screen
    (\<open>selection_listed\<close>, \<open>tabs_keep_apart\<close>); a new answer is rendered to the end (\<open>image_page_rests\<close>).
  \<^item> Requests: creating and editing send what was filled in or changed and nothing else
    (\<open>create_spec_minimal\<close>, \<open>hidden_fields_unsent\<close>, \<open>edit_vm_exact\<close>, \<open>hook_patch_exact\<close>, \<open>schedule_edit_roundtrip\<close>,
    \<open>edit_snapshot_exact\<close>); a dialog shows what was entered and can enter everything it can send
    (\<open>dialogs_faithful\<close>, \<open>edit_dialog_asks\<close>); and a destructive request is aimed and sent once, after the
    question where the page asks one (\<open>bulk_touches_eligible\<close>, \<open>bulk_deletes_exact\<close>, \<open>lifecycle_safe\<close>,
    \<open>move_disk_safe\<close>).
  \<^item> Credentials and answers: \<open>sign_in\<close>, \<open>unwrap_outcomes\<close>, \<open>normalize_vm_list_total\<close>.
  \<^item> Offline: \<open>api_never_cached\<close>, \<open>offline_navigation\<close>, \<open>asset_strategies\<close>, \<open>precache_exact\<close>,
    \<open>build_input_determines\<close>, \<open>pwa_update_safe\<close>.
  \<^item> Defects: where the code does not do what it means to, the lemma that shows it is named after the effect
    (\<open>fallback_poll_stalls\<close>, \<open>fetch_stale\<close>, \<open>stats_stale_snapshot\<close>, \<open>clone_name_lost\<close>,
    \<open>shell_hides_refresh\<close>, \<open>machine_page_restless\<close>, \<open>gate_opens_unchecked\<close>, \<open>edit_description_cleared\<close>, \<open>hidden_image_sent\<close>, \<open>storage_value_offered\<close> and others).

  \<^bold>\<open>Bounds and termination.\<close> No fuel is used. Every loop of the code that is not a traversal is the unit
  loop of the dashboard, which is \<open>while_option\<close> and shown to end (\<open>unit_scaling_ends\<close>). Renders that cause
  renders are \<open>come_to_rest\<close>, a \<open>partial_function\<close> in the option monad: the image page is shown to end, the
  machine page not to. The other recursive functions are structural or have a measure.

  \<^bold>\<open>Not modelled.\<close> Markup beyond what an element shows, enables or calls: style classes, icons, focus,
  animation and scrolling other than the log's. The drawing of charts, the terminal, VNC and RDP protocols.
  Strings are lists of 8-bit characters, so text outside ASCII counts by its UTF-8 bytes, and
  upper and lower case and white space are the ASCII ones. Arithmetic is exact. \<open>Vary\<close> headers and storage
  limits of the browser's caches. The daemon, the command line client, generated and vendored code, build
  configuration, and tests.
\<close>

subsection \<open>Bulk deletion on all pages\<close>

text \<open>
  C27 Deleting what is ticked. On the pages of images, templates and webhooks and in the tables of
  snapshots and port forwards, the bulk deletion sends exactly one request, which names the ticked rows
  and no other, each once; with nothing ticked it does nothing. Only the page of webhooks asks first, with
  the number of rows in the question, and sends nothing when it is declined; the others send at once. The
  ticks are dropped, the result shown and the list read anew only when the server has answered, so that a
  failed request loses no tick.
\<close>

theorem bulk_deletes_exact:
  assumes "distinct (rw_selected st)"
    and ids_def: "ids = Arr (map Str (rw_selected st))"
    and after_def: "after = (case answer of None \<Rightarrow> st | Some r \<Rightarrow> st\<lparr>rw_selected := [], rw_result := Some r\<rparr>)"
    and told_def: "told = (if answer = None then [] else [Callback ''refresh'' []])"
    and q_def: "q = ''Delete '' @ nat_str (length (rw_selected st)) @ '' webhook''
      @ (if length (rw_selected st) = 1 then [] else ''s'') @ ''?''"
  shows "(rw_selected st = [] \<longrightarrow>
        bulk_delete_images answer st = ([], st) \<and> bulk_delete_templates answer st = ([], st)
      \<and> bulk_delete_webhooks yes answer st = ([], st)
      \<and> snap_bulk_delete vm answer st = (None, False, st) \<and> port_bulk_delete vm answer st = (None, False, st))
    \<and> (rw_selected st \<noteq> [] \<longrightarrow>
        bulk_delete_images answer st = (Api ''images.bulkDelete'' [Obj [(''ids'', ids)]] # told, after)
      \<and> bulk_delete_templates answer st = (Api ''templates.bulkDelete'' [Obj [(''ids'', ids)]] # told, after)
      \<and> bulk_delete_webhooks True answer st = (Confirm q # Api ''webhooks.bulkDelete'' [Obj [(''ids'', ids)]] # told, after)
      \<and> bulk_delete_webhooks False answer st = ([Confirm q], st)
      \<and> snap_bulk_delete vm answer st =
          (Some (req ''POST'' ''/vms/{vmID}/snapshots/bulk_delete'' [(''vmID'', vm)] Undef (Obj [(''names'', ids)])),
           answer \<noteq> None, after)
      \<and> port_bulk_delete vm answer st =
          (Some (req ''POST'' ''/vms/{vmID}/ports/bulk_delete'' [(''vmID'', vm)] Undef (Obj [(''ids'', ids)])),
           answer \<noteq> None, after))
    \<and> distinct (elems ids)"
proof -
  have "distinct (map Str (rw_selected st))" using assms(1) by (simp add: distinct_map inj_on_def)
  then show ?thesis
    by (cases answer)
      (simp_all add: ids_def after_def told_def q_def bulk_delete_images_def bulk_delete_templates_def
        bulk_delete_webhooks_def bulk_delete_def snap_bulk_delete_def port_bulk_delete_def ports_bulk_body_def
        jset_def Let_def)
qed

theorem bulk_deletes_exact_witness:
  "bulk_delete_webhooks False (Some Null) \<lparr>rw_selected = [''a'', ''b''], rw_result = None\<rparr>
     = ([Confirm (''Delete '' @ nat_str (length [''a'', ''b'']) @ '' webhooks?'')], \<lparr>rw_selected = [''a'', ''b''], rw_result = None\<rparr>)
   \<and> snd (bulk_delete_images None \<lparr>rw_selected = [''a'', ''b''], rw_result = None\<rparr>)
     = \<lparr>rw_selected = [''a'', ''b''], rw_result = None\<rparr>"
proof -
  have d: "distinct (rw_selected \<lparr>rw_selected = [''a'', ''b''], rw_result = None\<rparr>)" by simp
  show ?thesis
    using bulk_deletes_exact[OF d refl refl refl refl, of "Some Null"] bulk_deletes_exact[OF d refl refl refl refl, of None]
    by simp
qed

end
